(* ===== verification/Prelude.thy ===== *)
theory Prelude
  imports Main "HOL-Library.AList" "HOL-Library.Multiset"
begin

text \<open>
  Shared vocabulary of the development: results of operations that may panic, Go maps as
  association lists (their order is the order in which a \<open>for range\<close> visits them, so a
  statement about every order is a statement about every permutation of the list), the
  interface of a key-value store, and the interface of an aggregation whose result must not
  depend on the visiting order.
\<close>

named_theorems frame_simps \<open>what an operation leaves unchanged\<close>

section \<open>Results of operations that may panic\<close>

text \<open>
  \<open>Ok x s\<close> is a normal return with value \<open>x\<close> in state \<open>s\<close>; \<open>Panic s\<close> is a Go panic, with
  the state at the moment of the panic (earlier writes are kept, as in Go).
\<close>

datatype ('a, 's) res = Ok 'a 's | Panic 's

fun res_bind :: "('a, 's) res \<Rightarrow> ('a \<Rightarrow> 's \<Rightarrow> ('b, 's) res) \<Rightarrow> ('b, 's) res" where
  "res_bind (Ok x s) f = f x s"
| "res_bind (Panic s) f = Panic s"

fun res_state :: "('a, 's) res \<Rightarrow> 's" where
  "res_state (Ok x s) = s"
| "res_state (Panic s) = s"

text \<open>A deferred \<open>recover()\<close>: the function returns normally with the state it had.\<close>

definition recovered :: "('a, 's) res \<Rightarrow> (unit, 's) res" where
  "recovered r = Ok () (res_state r)"

lemma res_state_recovered [simp]: "res_state (recovered r) = res_state r"
  by (simp add: recovered_def)

lemma res_bind_assoc:
  "res_bind (res_bind r f) g = res_bind r (\<lambda>x s. res_bind (f x s) g)"
  by (cases r) simp_all

text \<open>A predicate of the state kept by a result, whichever way the operation ends.\<close>

lemma res_state_bindI:
  assumes "P (res_state r)"
    and "\<And>x s. r = Ok x s \<Longrightarrow> P (res_state (f x s))"
  shows "P (res_state (res_bind r f))"
  using assms by (cases r) simp_all

text \<open>A loop whose body may panic.\<close>

fun res_fold :: "('x \<Rightarrow> 's \<Rightarrow> (unit, 's) res) \<Rightarrow> 'x list \<Rightarrow> 's \<Rightarrow> (unit, 's) res" where
  "res_fold f [] s = Ok () s"
| "res_fold f (x # xs) s = res_bind (f x s) (\<lambda>_ s. res_fold f xs s)"

lemma res_fold_append:
  "res_fold f (xs @ ys) s = res_bind (res_fold f xs s) (\<lambda>_ s. res_fold f ys s)"
proof (induction xs arbitrary: s)
  case Nil
  then show ?case by simp
next
  case (Cons x xs)
  then show ?case by (cases "f x s") simp_all
qed

section \<open>Go maps\<close>

type_synonym ('k, 'v) gomap = "('k \<times> 'v) list"

text \<open>The interface of a key-value store, by what a lookup returns after each update.\<close>

locale kv_store =
  fixes empty :: "'m"
    and lookup :: "'m \<Rightarrow> 'k \<Rightarrow> 'v option"
    and insert :: "'k \<Rightarrow> 'v \<Rightarrow> 'm \<Rightarrow> 'm"
    and delete :: "'k \<Rightarrow> 'm \<Rightarrow> 'm"
  assumes lookup_empty: "lookup empty k = None"
    and lookup_insert: "lookup (insert k v m) k' = (if k' = k then Some v else lookup m k')"
    and lookup_delete: "lookup (delete k m) k' = (if k' = k then None else lookup m k')"
begin

lemma lookup_insert_same: "lookup (insert k v m) k = Some v"
  by (simp add: lookup_insert)

lemma lookup_insert_other: "k' \<noteq> k \<Longrightarrow> lookup (insert k v m) k' = lookup m k'"
  by (simp add: lookup_insert)

lemma delete_after_insert: "lookup (delete k (insert k v m)) = lookup (delete k m)"
  by (rule ext) (simp add: lookup_insert lookup_delete)

lemma lookup_insert_all:
  "lookup (fold (\<lambda>(k, v). insert k v) kvs m) k =
    (case map_of (rev kvs) k of None \<Rightarrow> lookup m k | Some v \<Rightarrow> Some v)"
proof (induction kvs arbitrary: m)
  case Nil
  then show ?case by simp
next
  case (Cons kv kvs)
  obtain k' v' where kv: "kv = (k', v')" by (cases kv)
  show ?case
    using Cons.IH [of "insert k' v' m"]
    by (auto simp: kv lookup_insert map_add_def split: option.splits)
qed

lemma lookup_delete_all:
  "lookup (fold delete ks m) k = (if k \<in> set ks then None else lookup m k)"
  by (induction ks arbitrary: m) (auto simp: lookup_delete)

end

interpretation gomap: kv_store "[]" map_of AList.update AList.delete
  by unfold_locales (auto simp: update_conv' delete_conv')

lemmas gomap_simps = gomap.lookup_insert gomap.lookup_delete

definition mget_or :: "'v \<Rightarrow> ('k, 'v) gomap \<Rightarrow> 'k \<Rightarrow> 'v" where
  "mget_or d m k = (case map_of m k of None \<Rightarrow> d | Some v \<Rightarrow> v)"

text \<open>Rewriting one entry in place through a pointer to it; a missing entry is left alone.\<close>

definition madjust :: "'k \<Rightarrow> ('v \<Rightarrow> 'v) \<Rightarrow> ('k, 'v) gomap \<Rightarrow> ('k, 'v) gomap" where
  "madjust k f m = map (\<lambda>(k', v). (k', if k' = k then f v else v)) m"

lemma map_of_madjust [simp]:
  "map_of (madjust k f m) k' = (if k' = k then map_option f (map_of m k) else map_of m k')"
  by (induction m) (auto simp: madjust_def)

lemma distinct_keys_madjust [simp]:
  "distinct (map fst m) \<Longrightarrow> distinct (map fst (madjust k f m))"
  by (simp add: madjust_def comp_def split_def)

section \<open>Aggregation over a map, whatever the visiting order\<close>

text \<open>
  A Go \<open>for range\<close> over a map visits the entries in an unspecified order. An accumulation
  \<open>s = join(s, x)\<close> over it is well defined when \<open>join\<close> is a commutative, associative and
  idempotent operation on the values that occur.
\<close>

locale worst_of =
  fixes join :: "'a \<Rightarrow> 'a \<Rightarrow> 'a"
    and ok :: "'a \<Rightarrow> bool"
  assumes join_ok: "ok a \<Longrightarrow> ok b \<Longrightarrow> ok (join a b)"
    and join_comm: "ok a \<Longrightarrow> ok b \<Longrightarrow> join a b = join b a"
    and join_assoc: "ok a \<Longrightarrow> ok b \<Longrightarrow> ok c \<Longrightarrow> join (join a b) c = join a (join b c)"
    and join_idem: "ok a \<Longrightarrow> join a a = a"
begin

definition collect :: "'a list \<Rightarrow> 'a \<Rightarrow> 'a" where
  "collect xs a = fold (\<lambda>x s. join s x) xs a"

lemma collect_simps [simp]:
  "collect [] a = a"
  "collect (x # xs) a = collect xs (join a x)"
  by (simp_all add: collect_def)

lemma collect_ok: "\<forall>x\<in>set xs. ok x \<Longrightarrow> ok a \<Longrightarrow> ok (collect xs a)"
  by (induction xs arbitrary: a) (auto simp: join_ok)

lemma collect_join:
  "\<forall>x\<in>set xs. ok x \<Longrightarrow> ok a \<Longrightarrow> ok b \<Longrightarrow> collect xs (join a b) = join (collect xs a) b"
proof (induction xs arbitrary: a)
  case Nil
  then show ?case by simp
next
  case (Cons x xs)
  then have okx: "ok x" and oks: "\<forall>y\<in>set xs. ok y" by auto
  have "join (join a b) x = join (join a x) b"
    using Cons.prems okx by (metis join_assoc join_comm)
  then show ?case
    using Cons.IH [OF oks join_ok [OF Cons.prems(2) okx] Cons.prems(3)] by simp
qed

lemma collect_absorb:
  "\<forall>y\<in>set xs. ok y \<Longrightarrow> ok a \<Longrightarrow> x \<in> set xs \<Longrightarrow> join (collect xs a) x = collect xs a"
proof (induction xs arbitrary: a)
  case Nil
  then show ?case by simp
next
  case (Cons y xs)
  then have oky: "ok y" and oks: "\<forall>z\<in>set xs. ok z" by auto
  have ay: "ok (join a y)" using Cons.prems(2) oky by (rule join_ok)
  show ?case
  proof (cases "x \<in> set xs")
    case True
    then show ?thesis using Cons.IH [OF oks ay] by simp
  next
    case False
    then have "x = y" using Cons.prems(3) by simp
    have "join (collect xs (join a y)) y = collect xs (join (join a y) y)"
      using oks ay oky by (rule collect_join [symmetric])
    also have "join (join a y) y = join a y"
      using Cons.prems(2) oky by (simp add: join_assoc join_idem)
    finally show ?thesis by (simp add: \<open>x = y\<close>)
  qed
qed

text \<open>The result depends on the set of values only: order and repetition do not matter.\<close>

lemma collect_insert:
  assumes "\<forall>y\<in>set xs. ok y" and "ok a" and "set ys \<subseteq> set xs"
  shows "collect ys (collect xs a) = collect xs a"
  using assms(3)
proof (induction ys)
  case Nil
  then show ?case by simp
next
  case (Cons y ys)
  then have "join (collect xs a) y = collect xs a"
    using assms collect_absorb by simp
  then show ?case using Cons by simp
qed

lemma collect_swap:
  "\<forall>x\<in>set xs. ok x \<Longrightarrow> \<forall>y\<in>set ys. ok y \<Longrightarrow> ok a \<Longrightarrow>
    collect ys (collect xs a) = collect xs (collect ys a)"
proof (induction ys arbitrary: a)
  case Nil
  then show ?case by simp
next
  case (Cons y ys)
  then have oky: "ok y" and oks: "\<forall>z\<in>set ys. ok z" by auto
  have "join (collect xs a) y = collect xs (join a y)"
    using Cons.prems(1,3) oky by (rule collect_join [symmetric])
  then show ?case
    using Cons.IH [OF Cons.prems(1) oks join_ok [OF Cons.prems(3) oky]] by simp
qed

theorem collect_set_eq:
  assumes "\<forall>x\<in>set xs. ok x" and "ok a" and "set xs = set ys"
  shows "collect xs a = collect ys a"
proof -
  have ys: "\<forall>y\<in>set ys. ok y" using assms(1,3) by simp
  have "collect xs a = collect ys (collect xs a)"
    using collect_insert [OF assms(1,2)] assms(3) by simp
  also have "\<dots> = collect xs (collect ys a)"
    using assms(1) ys assms(2) by (rule collect_swap)
  also have "\<dots> = collect ys a"
    using collect_insert [OF ys assms(2)] assms(3) by simp
  finally show ?thesis .
qed

end

end
