(* ===== verification/GoStd.thy ===== *)
theory GoStd
  imports Prelude "HOL-Library.Signed_Division" "HOL-Library.Char_ord"
begin

text \<open>
  The part of Go's language and standard library the program uses: \<open>int64\<close> with its
  wrap-around, package \<open>strings\<close> (on bytes), package \<open>strconv\<close>, \<open>path.Join\<close>, and
  IEEE-754 doubles as exact dyadic values. A double is a mantissa and a binary exponent;
  a negative zero is read as zero, and NaN carries no payload. Underscores and hexadecimal
  floating-point literals, which no log line uses, are syntax errors here.
\<close>

section \<open>Machine integers\<close>

definition wrap64 :: "int \<Rightarrow> int" where
  "wrap64 x = (x + 2 ^ 63) mod 2 ^ 64 - 2 ^ 63"

definition is_int64 :: "int \<Rightarrow> bool" where
  "is_int64 x \<longleftrightarrow> - (2 ^ 63) \<le> x \<and> x < 2 ^ 63"

lemma wrap64_id [simp]: "is_int64 x \<Longrightarrow> wrap64 x = x"
  by (simp add: wrap64_def is_int64_def)

lemma is_int64_wrap64 [simp]: "is_int64 (wrap64 x)"
proof -
  have "0 \<le> (x + 2 ^ 63) mod 2 ^ 64" "(x + 2 ^ 63) mod 2 ^ 64 < 2 ^ 64"
    by simp_all
  then show ?thesis by (simp add: wrap64_def is_int64_def)
qed

text \<open>Go's integer division truncates towards zero and wraps.\<close>

definition quot64 :: "int \<Rightarrow> int \<Rightarrow> int" where
  "quot64 a b = wrap64 (a sdiv b)"

section \<open>Package strings\<close>

fun has_prefix :: "string \<Rightarrow> string \<Rightarrow> bool" where
  "has_prefix s [] = True"
| "has_prefix [] (p # ps) = False"
| "has_prefix (c # s) (p # ps) = (c = p \<and> has_prefix s ps)"

lemma has_prefix_iff: "has_prefix s p \<longleftrightarrow> (\<exists>t. s = p @ t)"
  by (induction s p rule: has_prefix.induct) auto

definition has_suffix :: "string \<Rightarrow> string \<Rightarrow> bool" where
  "has_suffix s p = has_prefix (rev s) (rev p)"

text \<open>\<open>strings.Index\<close>: the first occurrence, \<open>None\<close> for -1.\<close>

fun str_index :: "string \<Rightarrow> string \<Rightarrow> nat option" where
  "str_index [] p = (if p = [] then Some 0 else None)"
| "str_index (c # s) p =
    (if has_prefix (c # s) p then Some 0 else map_option Suc (str_index s p))"

definition contains :: "string \<Rightarrow> string \<Rightarrow> bool" where
  "contains s p = (str_index s p \<noteq> None)"

lemma contains_Nil: "contains [] p \<longleftrightarrow> p = []"
  by (simp add: contains_def)

lemma contains_Cons: "contains (c # s) p \<longleftrightarrow> has_prefix (c # s) p \<or> contains s p"
  by (simp add: contains_def)

lemma contains_iff: "contains s p \<longleftrightarrow> (\<exists>u v. s = u @ p @ v)"
proof (induction s)
  case Nil
  then show ?case by (simp add: contains_Nil)
next
  case (Cons c s)
  show ?case
  proof
    assume "contains (c # s) p"
    then consider "has_prefix (c # s) p" | "contains s p"
      by (auto simp: contains_Cons)
    then show "\<exists>u v. c # s = u @ p @ v"
    proof cases
      case 1
      then obtain t where "c # s = [] @ p @ t" by (auto simp: has_prefix_iff)
      then show ?thesis by blast
    next
      case 2
      then obtain u v where "s = u @ p @ v" using Cons.IH by blast
      then have "c # s = (c # u) @ p @ v" by simp
      then show ?thesis by blast
    qed
  next
    assume "\<exists>u v. c # s = u @ p @ v"
    then obtain u v where uv: "c # s = u @ p @ v" by blast
    show "contains (c # s) p"
    proof (cases u)
      case Nil
      then have "has_prefix (c # s) p" using uv by (auto simp: has_prefix_iff)
      then show ?thesis by (simp add: contains_Cons)
    next
      case (Cons d u')
      then have "contains s p" using uv Cons.IH by auto
      then show ?thesis by (simp add: contains_Cons)
    qed
  qed
qed

lemma contains_append_right: "contains s p \<Longrightarrow> contains (s @ t) p"
  unfolding contains_iff by (metis append.assoc)

lemma contains_append_left: "contains t p \<Longrightarrow> contains (s @ t) p"
  unfolding contains_iff by (metis append.assoc)

text \<open>\<open>strings.Replace(s, old, new, 1)\<close>.\<close>

definition replace_first :: "string \<Rightarrow> string \<Rightarrow> string \<Rightarrow> string" where
  "replace_first s old new =
    (case str_index s old of
      None \<Rightarrow> s
    | Some i \<Rightarrow> take i s @ new @ drop (i + length old) s)"

text \<open>
  \<open>strings.NewReplacer\<close>: at each position the first pair, in argument order, whose old
  string occurs there; no overlapping matches. Old strings are non-empty in all its uses.
\<close>

function replacer :: "(string \<times> string) list \<Rightarrow> string \<Rightarrow> string" where
  "replacer prs [] = []"
| "replacer prs (c # s) =
    (case find (\<lambda>(old, new). has_prefix (c # s) old) prs of
      None \<Rightarrow> c # replacer prs s
    | Some (old, new) \<Rightarrow> new @ replacer prs (drop (length old - 1) s))"
  by pat_completeness auto
termination
  by (relation "measure (\<lambda>(prs, s). length s)") auto

definition is_space :: "char \<Rightarrow> bool" where
  "is_space c = (c = CHR '' '' \<or> c = CHR 0x09 \<or> c = CHR 0x0A \<or> c = CHR 0x0B
    \<or> c = CHR 0x0C \<or> c = CHR 0x0D)"

text \<open>\<open>strings.Fields\<close>; the second argument is the current field, reversed.\<close>

fun fields_aux :: "string \<Rightarrow> string \<Rightarrow> string list" where
  "fields_aux [] cur = (if cur = [] then [] else [rev cur])"
| "fields_aux (c # s) cur =
    (if is_space c
     then (if cur = [] then fields_aux s [] else rev cur # fields_aux s [])
     else fields_aux s (c # cur))"

definition str_fields :: "string \<Rightarrow> string list" where
  "str_fields s = fields_aux s []"

text \<open>\<open>strings.Split\<close> on a single separator character; \<open>strings.SplitN\<close> with n = 2.\<close>

fun split_aux :: "char \<Rightarrow> string \<Rightarrow> string \<Rightarrow> string list" where
  "split_aux d [] cur = [rev cur]"
| "split_aux d (c # s) cur =
    (if c = d then rev cur # split_aux d s [] else split_aux d s (c # cur))"

definition str_split :: "char \<Rightarrow> string \<Rightarrow> string list" where
  "str_split d s = split_aux d s []"

fun split2 :: "char \<Rightarrow> string \<Rightarrow> string \<Rightarrow> string list" where
  "split2 d [] cur = [rev cur]"
| "split2 d (c # s) cur = (if c = d then [rev cur, s] else split2 d s (c # cur))"

definition trim_prefix :: "string \<Rightarrow> string \<Rightarrow> string" where
  "trim_prefix s p = (if has_prefix s p then drop (length p) s else s)"

text \<open>\<open>strings.TrimSpace\<close> and \<open>strings.Trim\<close> with a set of characters.\<close>

definition trim_with :: "(char \<Rightarrow> bool) \<Rightarrow> string \<Rightarrow> string" where
  "trim_with P s = rev (dropWhile P (rev (dropWhile P s)))"

definition trim_space :: "string \<Rightarrow> string" where
  "trim_space s = trim_with is_space s"

section \<open>Facts about fields\<close>

definition is_field :: "string \<Rightarrow> bool" where
  "is_field f \<longleftrightarrow> f \<noteq> [] \<and> (\<forall>c\<in>set f. \<not> is_space c)"

lemma fields_aux_are_fields:
  "\<forall>c\<in>set cur. \<not> is_space c \<Longrightarrow> f \<in> set (fields_aux s cur) \<Longrightarrow> is_field f"
proof (induction s cur rule: fields_aux.induct)
  case (1 cur)
  then show ?case by (auto simp: is_field_def split: if_splits)
next
  case (2 c s cur)
  show ?case
  proof (cases "is_space c")
    case True
    then consider "cur \<noteq> []" "f = rev cur" | "f \<in> set (fields_aux s [])"
      using "2.prems"(2) by (cases "cur = []") auto
    then show ?thesis
      using "2.IH" "2.prems"(1) True by cases (auto simp: is_field_def)
  next
    case False
    then show ?thesis using "2.IH"(3) "2.prems" by simp
  qed
qed

lemma str_fields_are_fields: "f \<in> set (str_fields s) \<Longrightarrow> is_field f"
  unfolding str_fields_def by (rule fields_aux_are_fields) simp_all

lemma fields_aux_word:
  "\<forall>c\<in>set f. \<not> is_space c \<Longrightarrow> fields_aux (f @ s) cur = fields_aux s (rev f @ cur)"
  by (induction f arbitrary: cur) auto

text \<open>Printing fields with single spaces and splitting gives them back.\<close>

fun join_spaces :: "string list \<Rightarrow> string" where
  "join_spaces [] = []"
| "join_spaces [f] = f"
| "join_spaces (f # fs) = f @ CHR '' '' # join_spaces fs"

lemma is_space_blank [simp]: "is_space CHR '' ''"
  by (simp add: is_space_def)

lemma str_fields_join_spaces:
  "\<forall>f\<in>set fs. is_field f \<Longrightarrow> str_fields (join_spaces fs) = fs"
proof (induction fs rule: join_spaces.induct)
  case 1
  then show ?case by (simp add: str_fields_def)
next
  case (2 f)
  then show ?case
    using fields_aux_word [of f "[]" "[]"] by (simp add: str_fields_def is_field_def)
next
  case (3 f g gs)
  then show ?case
    using fields_aux_word [of f "CHR '' '' # join_spaces (g # gs)" "[]"]
    by (simp add: str_fields_def is_field_def)
qed

end
