(* ===== verification/GoConv.thy ===== *)
theory GoConv
  imports GoStd "HOL-Library.Word"
begin

text \<open>
  Package \<open>strconv\<close> (\<open>ParseInt\<close>, \<open>ParseUint\<close>, \<open>Atoi\<close>, \<open>ParseFloat\<close>), \<open>path.Join\<close> and the
  conversions between \<open>int64\<close> and \<open>float64\<close>. A parse returns the value and an error, as in
  Go: on a syntax error the value is 0, on a range error it is the nearest bound.
\<close>

datatype num_error = ErrSyntax | ErrRange

section \<open>Integers\<close>

text \<open>The value of a digit, up to base 36 (both cases).\<close>

definition digit_val :: "char \<Rightarrow> int option" where
  "digit_val c =
    (let n = of_char c :: int in
     if 48 \<le> n \<and> n \<le> 57 then Some (n - 48)
     else if 97 \<le> n \<and> n \<le> 122 then Some (n - 87)
     else if 65 \<le> n \<and> n \<le> 90 then Some (n - 55)
     else None)"

fun digits_val :: "int \<Rightarrow> string \<Rightarrow> int \<Rightarrow> int option" where
  "digits_val b [] acc = Some acc"
| "digits_val b (c # s) acc =
    (case digit_val c of
      None \<Rightarrow> None
    | Some d \<Rightarrow> if d < b then digits_val b s (acc * b + d) else None)"

definition unsigned_val :: "int \<Rightarrow> string \<Rightarrow> int option" where
  "unsigned_val b s = (if s = [] then None else digits_val b s 0)"

definition ParseUint :: "string \<Rightarrow> int \<Rightarrow> nat \<Rightarrow> int \<times> num_error option" where
  "ParseUint s b bits =
    (case unsigned_val b s of
      None \<Rightarrow> (0, Some ErrSyntax)
    | Some n \<Rightarrow> if n < 2 ^ bits then (n, None) else (2 ^ bits - 1, Some ErrRange))"

text \<open>An optional sign, then the rest.\<close>

fun split_sign :: "string \<Rightarrow> bool \<times> string" where
  "split_sign [] = (False, [])"
| "split_sign (c # s) =
    (if c = CHR ''-'' then (True, s) else if c = CHR ''+'' then (False, s) else (False, c # s))"

definition ParseInt64 :: "int \<Rightarrow> string \<Rightarrow> int \<times> num_error option" where
  "ParseInt64 b s =
    (let (neg, ds) = split_sign s in
     case unsigned_val b ds of
       None \<Rightarrow> (0, Some ErrSyntax)
     | Some n \<Rightarrow>
         if neg then (if n \<le> 2 ^ 63 then (- n, None) else (- (2 ^ 63), Some ErrRange))
         else (if n < 2 ^ 63 then (n, None) else (2 ^ 63 - 1, Some ErrRange)))"

text \<open>\<open>strconv.Atoi\<close> on a 64-bit platform, and \<open>strconv.ParseInt(s, 10, 64)\<close>.\<close>

definition Atoi :: "string \<Rightarrow> int \<times> num_error option" where
  "Atoi s = ParseInt64 10 s"

text \<open>\<open>strconv.ParseInt(s, 0, 64)\<close>: the base is read off the prefix.\<close>

definition base_prefix :: "string \<Rightarrow> int \<times> string" where
  "base_prefix s =
    (if has_prefix s ''0x'' \<or> has_prefix s ''0X'' then (16, drop 2 s)
     else if has_prefix s ''0b'' \<or> has_prefix s ''0B'' then (2, drop 2 s)
     else if has_prefix s ''0o'' \<or> has_prefix s ''0O'' then (8, drop 2 s)
     else if has_prefix s ''0'' \<and> length s > 1 then (8, drop 1 s)
     else (10, s))"

definition ParseInt0 :: "string \<Rightarrow> int \<times> num_error option" where
  "ParseInt0 s =
    (let (neg, u) = split_sign s; (b, ds) = base_prefix u; (n, e) = ParseInt64 b ds in
     if ds \<noteq> [] \<and> (hd ds = CHR ''-'' \<or> hd ds = CHR ''+'') then (0, Some ErrSyntax)
     else if neg then ParseInt64 b (CHR ''-'' # ds) else (n, e))"

lemma digits_val_nonneg:
  "digits_val b s acc = Some n \<Longrightarrow> 0 \<le> acc \<Longrightarrow> 0 \<le> b \<Longrightarrow> 0 \<le> n"
proof (induction b s acc rule: digits_val.induct)
  case (1 b acc)
  then show ?case by simp
next
  case (2 b c s acc)
  then obtain d where d: "digit_val c = Some d" and lt: "d < b"
    and rest: "digits_val b s (acc * b + d) = Some n"
    by (auto split: option.splits if_splits)
  have "0 \<le> d" using d by (auto simp: digit_val_def Let_def split: if_splits)
  then have "0 \<le> acc * b + d" using "2.prems" by simp
  then show ?case using "2.IH" [OF d lt rest] "2.prems"(3) by simp
qed

lemma ParseInt64_is_int64:
  "0 \<le> b \<Longrightarrow> is_int64 (fst (ParseInt64 b s))"
  using digits_val_nonneg [of b "snd (split_sign s)" 0]
  by (auto simp: ParseInt64_def unsigned_val_def is_int64_def split: option.splits prod.splits)

text \<open>\<open>strconv.Itoa\<close>.\<close>

function itoa_nat :: "int \<Rightarrow> string" where
  "itoa_nat n = (if n < 10 then [char_of (48 + n)] else itoa_nat (n div 10) @ [char_of (48 + n mod 10)])"
  by pat_completeness auto
termination
  by (relation "measure nat") auto

declare itoa_nat.simps [simp del]

definition itoa :: "int \<Rightarrow> string" where
  "itoa n = (if n < 0 then CHR ''-'' # itoa_nat (- n) else itoa_nat n)"

section \<open>Doubles\<close>

datatype float64 = Fl int int | FInf bool | FNaN
  \<comment> \<open>\<open>Fl m e\<close> is m times 2 to the e; \<open>FInf neg\<close>\<close>

function nbits :: "int \<Rightarrow> int" where
  "nbits n = (if n \<le> 0 then 0 else 1 + nbits (n div 2))"
  by pat_completeness auto
termination
  by (relation "measure nat") auto

declare nbits.simps [simp del]

text \<open>\<open>n / d\<close> rounded to the nearest integer, ties to even (d positive, n not negative).\<close>

definition round_half_even :: "int \<Rightarrow> int \<Rightarrow> int" where
  "round_half_even n d =
    (let q = n div d; r = n mod d in
     if 2 * r < d then q
     else if d < 2 * r then q + 1
     else if even q then q else q + 1)"

text \<open>\<open>n / d\<close> scaled by 2 to the s.\<close>

definition scaled :: "int \<Rightarrow> int \<Rightarrow> int \<Rightarrow> int" where
  "scaled n d s =
    (if 0 \<le> s then round_half_even (n * 2 ^ nat s) d
     else round_half_even n (d * 2 ^ nat (- s)))"

text \<open>
  The double nearest to the positive rational \<open>n / d\<close>: 53 bits of mantissa, the exponent at
  least -1074 (subnormals), \<open>None\<close> when it rounds to 2 to the 1024 or beyond.
\<close>

definition nearest_double :: "int \<Rightarrow> int \<Rightarrow> (int \<times> int) option" where
  "nearest_double n d =
    (let l = nbits n - nbits d;
         big = (if 0 \<le> l then d * 2 ^ nat l \<le> n else d \<le> n * 2 ^ nat (- l));
         s = min 1074 (if big then 52 - l else 53 - l);
         m = scaled n d s
     in if nbits m - s > 1024 then None else Some (m, - s))"

definition float_of_ratio :: "bool \<Rightarrow> int \<Rightarrow> int \<Rightarrow> float64 \<times> num_error option" where
  "float_of_ratio neg n d =
    (if n = 0 then (Fl 0 0, None)
     else case nearest_double n d of
       None \<Rightarrow> (FInf neg, Some ErrRange)
     | Some (m, e) \<Rightarrow> (Fl (if neg then - m else m) e, None))"

definition float_of_int :: "int \<Rightarrow> float64" where
  "float_of_int n = fst (float_of_ratio (n < 0) \<bar>n\<bar> 1)"

text \<open>
  \<open>int64(f)\<close> truncates towards zero; a value out of range gives the least int64, as the
  conversion instruction of amd64 does.
\<close>

definition int_of_float :: "float64 \<Rightarrow> int" where
  "int_of_float f =
    (case f of
      Fl m e \<Rightarrow>
        (let v = (if 0 \<le> e then m * 2 ^ nat e else sgn m * (\<bar>m\<bar> div 2 ^ nat (- e)))
         in if is_int64 v then v else - (2 ^ 63))
    | FInf neg \<Rightarrow> - (2 ^ 63)
    | FNaN \<Rightarrow> - (2 ^ 63))"

text \<open>
  The literal: digits with an optional point (at least one digit), an optional exponent.
  The result is the digits as one integer, the decimal exponent, and what is left over.
\<close>

definition is_digit :: "char \<Rightarrow> bool" where
  "is_digit c = (48 \<le> (of_char c :: int) \<and> (of_char c :: int) \<le> 57)"

definition float_mantissa :: "string \<Rightarrow> (int \<times> int \<times> string) option" where
  "float_mantissa s =
    (let ip = takeWhile is_digit s; r = dropWhile is_digit s;
         (fp, rest) = (if has_prefix r ''.''
           then (takeWhile is_digit (tl r), dropWhile is_digit (tl r)) else ([], r))
     in case unsigned_val 10 (ip @ fp) of
          None \<Rightarrow> None
        | Some n \<Rightarrow> Some (n, - int (length fp), rest))"

definition float_exponent :: "string \<Rightarrow> int option" where
  "float_exponent s =
    (if s = [] then Some 0
     else if hd s = CHR ''e'' \<or> hd s = CHR ''E'' then
       (let (neg, ds) = split_sign (tl s) in
        case unsigned_val 10 ds of
          None \<Rightarrow> None
        | Some n \<Rightarrow> Some (if neg then - (min n 10000) else min n 10000))
     else None)"

definition to_lower :: "char \<Rightarrow> char" where
  "to_lower c = (let n = of_char c :: int in if 65 \<le> n \<and> n \<le> 90 then char_of (n + 32) else c)"

definition ParseFloat :: "string \<Rightarrow> float64 \<times> num_error option" where
  "ParseFloat s =
    (let (neg, u) = split_sign s; w = map to_lower u in
     if w = ''inf'' \<or> w = ''infinity'' then (FInf neg, None)
     else if map to_lower s = ''nan'' then (FNaN, None)
     else case float_mantissa u of
       None \<Rightarrow> (Fl 0 0, Some ErrSyntax)
     | Some (n, e10, rest) \<Rightarrow>
         (case float_exponent rest of
           None \<Rightarrow> (Fl 0 0, Some ErrSyntax)
         | Some x \<Rightarrow>
             (let e = e10 + x in
              if 0 \<le> e then float_of_ratio neg (n * 10 ^ nat e) 1
              else float_of_ratio neg n (10 ^ nat (- e)))))"

lemma int_of_float_is_int64: "is_int64 (int_of_float f)"
  by (cases f) (auto simp: int_of_float_def is_int64_def Let_def)

section \<open>path.Join\<close>

text \<open>Join with slashes, then \<open>path.Clean\<close>: components are processed left to right.\<close>

fun clean_parts :: "bool \<Rightarrow> string list \<Rightarrow> string list \<Rightarrow> string list" where
  "clean_parts rooted [] out = rev out"
| "clean_parts rooted (p # ps) out =
    (if p = '''' \<or> p = ''.'' then clean_parts rooted ps out
     else if p = ''..'' then
       (if out \<noteq> [] \<and> hd out \<noteq> ''..'' then clean_parts rooted ps (tl out)
        else if rooted then clean_parts rooted ps out
        else clean_parts rooted ps (''..'' # out))
     else clean_parts rooted ps (p # out))"

fun join_slash :: "string list \<Rightarrow> string" where
  "join_slash [] = []"
| "join_slash [p] = p"
| "join_slash (p # ps) = p @ ''/'' @ join_slash ps"

definition path_clean :: "string \<Rightarrow> string" where
  "path_clean s =
    (let rooted = has_prefix s ''/'';
         body = join_slash (clean_parts rooted (str_split CHR ''/'' s) [])
     in if rooted then CHR ''/'' # body else if body = [] then ''.'' else body)"

definition path_join :: "string list \<Rightarrow> string" where
  "path_join ps =
    (let qs = filter (\<lambda>p. p \<noteq> []) ps
     in if qs = [] then [] else path_clean (join_slash qs))"

end
