(* ===== verification/PtpTypes.thy ===== *)
theory PtpTypes
  imports GoConv
begin

text \<open>
  The values the plug-in passes around: port roles and clock states of
  \<open>plugins/ptp_operator/types/types.go\<close>, the synchronization states and event types of the
  SDK the plug-in is written against, the process names and interface keys used as map keys,
  and \<open>OverallState\<close> (\<open>metrics/manager.go\<close>), the aggregation of two states.
\<close>

section \<open>Port roles\<close>

datatype port_role = PASSIVE | SLAVE | MASTER | FAULTY | UNKNOWN | LISTENING

text \<open>The \<open>iota\<close> value of a role, which is what the role metric and the saved file hold.\<close>

definition role_id :: "port_role \<Rightarrow> int" where
  "role_id r = (case r of PASSIVE \<Rightarrow> 0 | SLAVE \<Rightarrow> 1 | MASTER \<Rightarrow> 2 | FAULTY \<Rightarrow> 3
    | UNKNOWN \<Rightarrow> 4 | LISTENING \<Rightarrow> 5)"

definition role_String :: "port_role \<Rightarrow> string" where
  "role_String r = (case r of PASSIVE \<Rightarrow> ''PASSIVE'' | SLAVE \<Rightarrow> ''SLAVE'' | MASTER \<Rightarrow> ''MASTER''
    | FAULTY \<Rightarrow> ''FAULTY'' | UNKNOWN \<Rightarrow> ''UNKNOWN'' | LISTENING \<Rightarrow> ''LISTENING'')"

definition PtpRoleMappings :: "(string, port_role) gomap" where
  "PtpRoleMappings =
    [(''PASSIVE'', PASSIVE), (''SLAVE'', SLAVE), (''MASTER'', MASTER), (''FAULTY'', FAULTY),
     (''UNKNOWN'', UNKNOWN), (''LISTENING'', LISTENING)]"

lemma role_String_mapped: "map_of PtpRoleMappings (role_String r) = Some r"
  by (cases r) (simp_all add: PtpRoleMappings_def role_String_def)

lemma role_id_inject: "role_id r = role_id r' \<longleftrightarrow> r = r'"
  by (cases r; cases r') (simp_all add: role_id_def)

section \<open>Synchronization states and event types\<close>

text \<open>
  \<open>ptp.SyncState\<close> is a string type; \<open>NoState\<close> is the empty string, and a string that is none
  of the constants the plug-in names is \<open>OtherState\<close>.
\<close>

datatype sync_state = NoState | FREERUN | HOLDOVER | LOCKED | SYNCHRONIZED | ACQUIRING_SYNC
  | FAILURE_NOFIX | OtherState string

definition sync_state_name :: "sync_state \<Rightarrow> string" where
  "sync_state_name s = (case s of NoState \<Rightarrow> '''' | FREERUN \<Rightarrow> ''FREERUN''
    | HOLDOVER \<Rightarrow> ''HOLDOVER'' | LOCKED \<Rightarrow> ''LOCKED'' | SYNCHRONIZED \<Rightarrow> ''SYNCHRONIZED''
    | ACQUIRING_SYNC \<Rightarrow> ''ACQUIRING-SYNC'' | FAILURE_NOFIX \<Rightarrow> ''FAILURE-NOFIX''
    | OtherState n \<Rightarrow> n)"

definition sync_state_of :: "string \<Rightarrow> sync_state" where
  "sync_state_of n =
    (if n = '''' then NoState else if n = ''FREERUN'' then FREERUN
     else if n = ''HOLDOVER'' then HOLDOVER else if n = ''LOCKED'' then LOCKED
     else if n = ''SYNCHRONIZED'' then SYNCHRONIZED
     else if n = ''ACQUIRING-SYNC'' then ACQUIRING_SYNC
     else if n = ''FAILURE-NOFIX'' then FAILURE_NOFIX else OtherState n)"

lemma sync_state_name_of [simp]: "sync_state_name (sync_state_of n) = n"
  by (simp add: sync_state_of_def sync_state_name_def)

text \<open>The numbers the clock-state metric reports (\<open>types.SyncState\<close>).\<close>

definition clock_state_id :: "sync_state \<Rightarrow> int" where
  "clock_state_id s = (case s of LOCKED \<Rightarrow> 1 | HOLDOVER \<Rightarrow> 2 | _ \<Rightarrow> 0)"

datatype event_type = SyncStateChange | OsClockSyncStateChange | PtpClockClassChange
  | PtpStateChange | GnssStateChange | SynceStateChange | SynceClockQualityChange

section \<open>Names used as keys\<close>

abbreviation (input) phc2sysProcessName :: string where "phc2sysProcessName \<equiv> ''phc2sys''"
abbreviation (input) ptp4lProcessName :: string where "ptp4lProcessName \<equiv> ''ptp4l''"
abbreviation (input) ts2phcProcessName :: string where "ts2phcProcessName \<equiv> ''ts2phc''"
abbreviation (input) gnssProcessName :: string where "gnssProcessName \<equiv> ''gnss''"
abbreviation (input) dpllProcessName :: string where "dpllProcessName \<equiv> ''dpll''"
abbreviation (input) gmProcessName :: string where "gmProcessName \<equiv> ''GM''"
abbreviation (input) bcProcessName :: string where "bcProcessName \<equiv> ''T-BC''"
abbreviation (input) syncE4lProcessName :: string where "syncE4lProcessName \<equiv> ''synce4l''"
abbreviation (input) chronydProcessName :: string where "chronydProcessName \<equiv> ''chronyd''"
abbreviation (input) ClockRealTime :: string where "ClockRealTime \<equiv> ''CLOCK_REALTIME''"
abbreviation (input) MasterClockType :: string where "MasterClockType \<equiv> ''master''"
abbreviation (input) TBCMainClockName :: string where "TBCMainClockName \<equiv> ''T-BC''"
abbreviation (input) GMMainClockName :: string where "GMMainClockName \<equiv> ''GM''"

definition FreeRunOffsetValue :: int where
  "FreeRunOffsetValue = -9999999999999999"

section \<open>The aggregation of two states\<close>

fun OverallState :: "sync_state \<Rightarrow> sync_state \<Rightarrow> sync_state" where
  "OverallState current updated =
    (if current = NoState then updated
     else case updated of
       FREERUN \<Rightarrow> FREERUN
     | HOLDOVER \<Rightarrow> (if current = FREERUN then current else updated)
     | LOCKED \<Rightarrow> current
     | NoState \<Rightarrow> current
     | _ \<Rightarrow> NoState)"

declare OverallState.simps [simp del]

text \<open>The states of a node, and how bad each is.\<close>

definition is_node_state :: "sync_state \<Rightarrow> bool" where
  "is_node_state s = (s = NoState \<or> s = FREERUN \<or> s = HOLDOVER \<or> s = LOCKED)"

definition severity :: "sync_state \<Rightarrow> nat" where
  "severity s = (case s of LOCKED \<Rightarrow> 1 | HOLDOVER \<Rightarrow> 2 | FREERUN \<Rightarrow> 3 | _ \<Rightarrow> 0)"

lemma OverallState_severity:
  assumes "is_node_state a" and "is_node_state b"
  shows "severity (OverallState a b) = max (severity a) (severity b)"
  using assms by (auto simp: is_node_state_def severity_def OverallState.simps)

lemma severity_inject:
  "is_node_state a \<Longrightarrow> is_node_state b \<Longrightarrow> severity a = severity b \<Longrightarrow> a = b"
  by (auto simp: is_node_state_def severity_def)

lemma OverallState_node_state:
  "is_node_state a \<Longrightarrow> is_node_state b \<Longrightarrow> is_node_state (OverallState a b)"
  by (auto simp: is_node_state_def OverallState.simps)

interpretation overall: worst_of OverallState is_node_state
proof unfold_locales
  fix a b c
  assume a: "is_node_state a"
  show "OverallState a a = a"
    using a by (auto simp: is_node_state_def OverallState.simps)
  assume b: "is_node_state b"
  show "is_node_state (OverallState a b)"
    using a b by (rule OverallState_node_state)
  show "OverallState a b = OverallState b a"
    using a b by (auto simp: is_node_state_def OverallState.simps)
  assume c: "is_node_state c"
  show "OverallState (OverallState a b) c = OverallState a (OverallState b c)"
    using a b c by (auto simp: is_node_state_def OverallState.simps)
qed

lemma collect_severity:
  assumes "\<forall>x\<in>set xs. is_node_state x" and "is_node_state a"
  shows "severity (overall.collect xs a) = Max (insert (severity a) (severity ` set xs))"
  using assms
proof (induction xs arbitrary: a)
  case Nil
  then show ?case by simp
next
  case (Cons x xs)
  then have "is_node_state (OverallState a x)" by (simp add: OverallState_node_state)
  then have "severity (overall.collect xs (OverallState a x)) =
      Max (insert (max (severity a) (severity x)) (severity ` set xs))"
    using Cons by (simp add: OverallState_severity)
  also have "\<dots> = Max (insert (severity a) (severity ` set (x # xs)))"
    by (cases "xs = []") (simp_all add: max.assoc max.left_commute)
  finally show ?case by simp
qed

end
