(* ===== verification/Registry.thy ===== *)
theory Registry
  imports PtpTypes
begin

text \<open>
  \<open>metrics/registry.go\<close> and \<open>metrics/sanity.go\<close>: the Prometheus gauges of the plug-in and the
  functions that write and delete their series. A gauge vector holds one sample per list of
  label values; a label set addresses a sample only when it names exactly the vector's labels,
  which is how the vendored client's \<open>hashLabels\<close> decides (\<open>Delete\<close> is a no-op otherwise).
\<close>

section \<open>Gauge vectors\<close>

type_synonym labels = "(string \<times> string) list"

record gauge_vec =
  var_labels :: "string list"
  samples :: "(string list, float64) gomap"

definition new_gauge :: "string list \<Rightarrow> gauge_vec" where
  "new_gauge ls = \<lparr>var_labels = ls, samples = []\<rparr>"

definition label_key :: "string list \<Rightarrow> labels \<Rightarrow> string list option" where
  "label_key names ls =
    (if length ls = length names \<and> list_all (\<lambda>n. map_of ls n \<noteq> None) names
     then Some (map (\<lambda>n. the (map_of ls n)) names) else None)"

definition gauge_set :: "labels \<Rightarrow> float64 \<Rightarrow> gauge_vec \<Rightarrow> gauge_vec" where
  "gauge_set ls v g =
    (case label_key (var_labels g) ls of
      None \<Rightarrow> g
    | Some k \<Rightarrow> g\<lparr>samples := AList.update k v (samples g)\<rparr>)"

definition gauge_delete :: "labels \<Rightarrow> gauge_vec \<Rightarrow> gauge_vec" where
  "gauge_delete ls g =
    (case label_key (var_labels g) ls of
      None \<Rightarrow> g
    | Some k \<Rightarrow> g\<lparr>samples := AList.delete k (samples g)\<rparr>)"

definition gauge_get :: "labels \<Rightarrow> gauge_vec \<Rightarrow> float64 option" where
  "gauge_get ls g =
    (case label_key (var_labels g) ls of None \<Rightarrow> None | Some k \<Rightarrow> map_of (samples g) k)"

lemma var_labels_gauge [simp]:
  "var_labels (gauge_set ls v g) = var_labels g"
  "var_labels (gauge_delete ls g) = var_labels g"
  by (simp_all add: gauge_set_def gauge_delete_def split: option.splits)

lemma gauge_get_set:
  "gauge_get ls (gauge_set ls' v g) =
    (if label_key (var_labels g) ls \<noteq> None \<and> label_key (var_labels g) ls = label_key (var_labels g) ls'
     then Some v else gauge_get ls g)"
  by (auto simp: gauge_get_def gauge_set_def gomap_simps split: option.splits)

lemma gauge_get_delete:
  "gauge_get ls (gauge_delete ls' g) =
    (if label_key (var_labels g) ls = label_key (var_labels g) ls' then None else gauge_get ls g)"
  by (auto simp: gauge_get_def gauge_delete_def gomap_simps split: option.splits)

text \<open>A label set of the wrong size addresses nothing: setting and deleting leave the vector.\<close>

lemma gauge_delete_mismatch:
  "length ls \<noteq> length (var_labels g) \<Longrightarrow> gauge_delete ls g = g"
  by (simp add: gauge_delete_def label_key_def)

section \<open>The registered metrics\<close>

record registry =
  reg_once :: bool
  ptpNodeName :: string
  PtpOffset :: gauge_vec
  PtpMaxOffset :: gauge_vec
  PtpFrequencyAdjustment :: gauge_vec
  PtpDelay :: gauge_vec
  SyncState :: gauge_vec
  NmeaStatus :: gauge_vec
  Threshold :: gauge_vec
  InterfaceRole :: gauge_vec
  ClockClassMetrics :: gauge_vec
  ProcessStatus :: gauge_vec
  ProcessReStartCount :: gauge_vec
  PTPHAMetrics :: gauge_vec
  SynceClockQL :: gauge_vec
  SynceQLInfo :: gauge_vec

definition offset_labels :: "string list" where
  "offset_labels = [''from'', ''process'', ''node'', ''iface'']"

definition iface_labels :: "string list" where
  "iface_labels = [''process'', ''node'', ''iface'']"

definition init_registry :: registry where
  "init_registry =
    \<lparr>reg_once = False, ptpNodeName = '''',
     PtpOffset = new_gauge offset_labels, PtpMaxOffset = new_gauge offset_labels,
     PtpFrequencyAdjustment = new_gauge offset_labels, PtpDelay = new_gauge offset_labels,
     SyncState = new_gauge iface_labels, NmeaStatus = new_gauge iface_labels,
     Threshold = new_gauge [''threshold'', ''node'', ''profile''],
     InterfaceRole = new_gauge iface_labels,
     ClockClassMetrics = new_gauge [''process'', ''config'', ''node''],
     ProcessStatus = new_gauge [''process'', ''node'', ''config''],
     ProcessReStartCount = new_gauge [''process'', ''node'', ''config''],
     PTPHAMetrics = new_gauge [''process'', ''node'', ''profile''],
     SynceClockQL = new_gauge [''process'', ''node'', ''profile'', ''network_option'', ''iface'', ''device''],
     SynceQLInfo = new_gauge
       [''process'', ''node'', ''profile'', ''network_option'', ''iface'', ''device'', ''ql_type'']\<rparr>"

definition RegisterMetrics :: "string \<Rightarrow> registry \<Rightarrow> registry" where
  "RegisterMetrics nodeName r = (if reg_once r then r else r\<lparr>reg_once := True, ptpNodeName := nodeName\<rparr>)"

definition CheckMetricSanity :: "string \<Rightarrow> string \<Rightarrow> bool" where
  "CheckMetricSanity process iface = (\<not> (process = '''' \<or> iface = ''''))"

section \<open>Writing and deleting series\<close>

definition UpdatePTPMetrics ::
  "string \<Rightarrow> string \<Rightarrow> string \<Rightarrow> float64 \<Rightarrow> float64 \<Rightarrow> float64 \<Rightarrow> float64 \<Rightarrow> registry \<Rightarrow> registry" where
  "UpdatePTPMetrics metricsType process eventResourceName off maxOffset frequencyAdjustment delay r =
    (if \<not> CheckMetricSanity process eventResourceName then r
     else (let ls = [(''from'', metricsType), (''process'', process), (''node'', ptpNodeName r),
                     (''iface'', eventResourceName)]
           in r\<lparr>PtpOffset := gauge_set ls off (PtpOffset r),
                PtpMaxOffset := gauge_set ls maxOffset (PtpMaxOffset r),
                PtpFrequencyAdjustment := gauge_set ls frequencyAdjustment (PtpFrequencyAdjustment r),
                PtpDelay := gauge_set ls delay (PtpDelay r)\<rparr>))"

definition UpdatePTPOffsetMetrics :: "string \<Rightarrow> string \<Rightarrow> string \<Rightarrow> float64 \<Rightarrow> registry \<Rightarrow> registry" where
  "UpdatePTPOffsetMetrics metricsType process eventResourceName off r =
    (if \<not> CheckMetricSanity process eventResourceName then r
     else r\<lparr>PtpOffset := gauge_set
              [(''from'', metricsType), (''process'', process), (''node'', ptpNodeName r),
               (''iface'', eventResourceName)] off (PtpOffset r)\<rparr>)"

definition DeletedPTPMetrics :: "string \<Rightarrow> string \<Rightarrow> string \<Rightarrow> registry \<Rightarrow> registry" where
  "DeletedPTPMetrics clockType processName eventResourceName r =
    (if \<not> CheckMetricSanity processName eventResourceName then r
     else (let ls = [(''from'', clockType), (''process'', processName), (''node'', ptpNodeName r),
                     (''iface'', eventResourceName)]
           in r\<lparr>PtpOffset := gauge_delete ls (PtpOffset r),
                PtpMaxOffset := gauge_delete ls (PtpMaxOffset r),
                PtpFrequencyAdjustment := gauge_delete ls (PtpFrequencyAdjustment r),
                PtpDelay := gauge_delete ls (PtpDelay r),
                SyncState := gauge_delete
                  [(''process'', processName), (''node'', ptpNodeName r), (''iface'', eventResourceName)]
                  (SyncState r)\<rparr>))"

definition DeleteThresholdMetrics :: "string \<Rightarrow> registry \<Rightarrow> registry" where
  "DeleteThresholdMetrics profile r =
    (let del = (\<lambda>t. gauge_delete [(''threshold'', t), (''node'', ptpNodeName r), (''profile'', profile)])
     in r\<lparr>Threshold := del ''HoldOverTimeout'' (del ''MaxOffsetThreshold''
            (del ''MinOffsetThreshold'' (Threshold r)))\<rparr>)"

definition UpdateSyncStateMetrics :: "string \<Rightarrow> string \<Rightarrow> sync_state \<Rightarrow> registry \<Rightarrow> registry" where
  "UpdateSyncStateMetrics process iface state r =
    (if \<not> CheckMetricSanity process iface then r
     else if iface = MasterClockType \<and> process = phc2sysProcessName then r
     else r\<lparr>SyncState := gauge_set
              [(''process'', process), (''node'', ptpNodeName r), (''iface'', iface)]
              (float_of_int (clock_state_id state)) (SyncState r)\<rparr>)"

definition DeleteSyncStateMetrics :: "string \<Rightarrow> string \<Rightarrow> registry \<Rightarrow> registry" where
  "DeleteSyncStateMetrics process iface r =
    r\<lparr>SyncState := gauge_delete
        [(''process'', process), (''node'', ptpNodeName r), (''iface'', iface)] (SyncState r)\<rparr>"

definition UpdateNmeaStatusMetrics :: "string \<Rightarrow> string \<Rightarrow> float64 \<Rightarrow> registry \<Rightarrow> registry" where
  "UpdateNmeaStatusMetrics process iface status r =
    (if \<not> CheckMetricSanity process iface then r
     else r\<lparr>NmeaStatus := gauge_set
              [(''process'', process), (''node'', ptpNodeName r), (''iface'', iface)]
              status (NmeaStatus r)\<rparr>)"

definition UpdatePTPHaMetrics :: "string \<Rightarrow> int \<Rightarrow> registry \<Rightarrow> registry" where
  "UpdatePTPHaMetrics profile status r =
    r\<lparr>PTPHAMetrics := gauge_set
        [(''process'', phc2sysProcessName), (''node'', ptpNodeName r), (''profile'', profile)]
        (float_of_int status) (PTPHAMetrics r)\<rparr>"

definition UpdateInterfaceRoleMetrics :: "string \<Rightarrow> string \<Rightarrow> port_role \<Rightarrow> registry \<Rightarrow> registry" where
  "UpdateInterfaceRoleMetrics process ptpInterface role r =
    (if \<not> CheckMetricSanity process ptpInterface then r
     else r\<lparr>InterfaceRole := gauge_set
              [(''process'', process), (''node'', ptpNodeName r), (''iface'', ptpInterface)]
              (float_of_int (role_id role)) (InterfaceRole r)\<rparr>)"

definition DeleteInterfaceRoleMetrics :: "string \<Rightarrow> string \<Rightarrow> registry \<Rightarrow> registry" where
  "DeleteInterfaceRoleMetrics process ptpInterface r =
    r\<lparr>InterfaceRole :=
       (if process \<noteq> ''''
        then gauge_delete [(''process'', process), (''iface'', ptpInterface), (''node'', ptpNodeName r)]
               (InterfaceRole r)
        else gauge_delete [(''iface'', ptpInterface), (''node'', ptpNodeName r)] (InterfaceRole r))\<rparr>"

definition DeletePTPHAMetrics :: "string \<Rightarrow> registry \<Rightarrow> registry" where
  "DeletePTPHAMetrics profile r =
    r\<lparr>PTPHAMetrics := gauge_delete
        [(''process'', phc2sysProcessName), (''node'', ptpNodeName r), (''profile'', profile)]
        (PTPHAMetrics r)\<rparr>"

text \<open>A counter's \<open>Inc\<close> on the integer counts the restart counter holds.\<close>

definition counter_inc :: "labels \<Rightarrow> gauge_vec \<Rightarrow> gauge_vec" where
  "counter_inc ls g =
    gauge_set ls (case gauge_get ls g of None \<Rightarrow> float_of_int 1
      | Some v \<Rightarrow> float_of_int (int_of_float v + 1)) g"

definition UpdateProcessStatusMetrics :: "string \<Rightarrow> string \<Rightarrow> int \<Rightarrow> registry \<Rightarrow> registry" where
  "UpdateProcessStatusMetrics process cfgName status r =
    (let ls = [(''process'', process), (''node'', ptpNodeName r), (''config'', cfgName)];
         r = r\<lparr>ProcessStatus := gauge_set ls (float_of_int status) (ProcessStatus r)\<rparr>
     in if status = 1 then r\<lparr>ProcessReStartCount := counter_inc ls (ProcessReStartCount r)\<rparr> else r)"

text \<open>The label map is built up and reused over the variadic list of processes.\<close>

definition delete_status :: "labels \<Rightarrow> registry \<Rightarrow> registry" where
  "delete_status ls r =
    r\<lparr>ProcessStatus := gauge_delete ls (ProcessStatus r),
      ProcessReStartCount := gauge_delete ls (ProcessReStartCount r)\<rparr>"

fun delete_status_loop :: "labels \<Rightarrow> string list \<Rightarrow> registry \<Rightarrow> registry" where
  "delete_status_loop ls [] r = r"
| "delete_status_loop ls (p # ps) r =
    (if p \<noteq> '''' then
       (let ls' = AList.update ''process'' p ls in delete_status_loop ls' ps (delete_status ls' r))
     else delete_status_loop ls ps r)"

definition DeleteProcessStatusMetricsForConfig ::
  "string \<Rightarrow> string \<Rightarrow> string list \<Rightarrow> registry \<Rightarrow> registry" where
  "DeleteProcessStatusMetricsForConfig node cfgName process r =
    (let ls = (if node \<noteq> '''' then [(''node'', node)] else []);
         ls = (if cfgName \<noteq> '''' then AList.update ''config'' cfgName ls else ls);
         r = (if process = [] then delete_status ls r else r)
     in delete_status_loop ls process r)"

definition UpdateSyncEClockQlMetrics ::
  "string \<Rightarrow> string \<Rightarrow> string \<Rightarrow> int \<Rightarrow> string \<Rightarrow> float64 \<Rightarrow> registry \<Rightarrow> registry" where
  "UpdateSyncEClockQlMetrics process cfgName iface networkOption device v r =
    r\<lparr>SynceClockQL := gauge_set
        [(''process'', process), (''node'', ptpNodeName r), (''profile'', cfgName),
         (''network_option'', itoa networkOption), (''iface'', iface), (''device'', device)]
        v (SynceClockQL r)\<rparr>"

definition UpdateSyncEQLMetrics ::
  "string \<Rightarrow> string \<Rightarrow> string \<Rightarrow> int \<Rightarrow> string \<Rightarrow> string \<Rightarrow> 8 word \<Rightarrow> registry \<Rightarrow> registry" where
  "UpdateSyncEQLMetrics process cfgName iface networkOption device qlType v r =
    r\<lparr>SynceQLInfo := gauge_set
        [(''process'', process), (''node'', ptpNodeName r), (''profile'', cfgName), (''iface'', iface),
         (''network_option'', itoa networkOption), (''device'', device), (''ql_type'', qlType)]
        (float_of_int (uint v)) (SynceQLInfo r)\<rparr>"

end
