(* ===== verification/AliasGate.thy ===== *)
theory AliasGate
  imports PtpTypes
begin

text \<open>
  \<open>gate/gate.go\<close> (the reusable gate that goroutines wait on while aliases are fetched) and
  \<open>alias/alias.go\<close> (the alias store with its negative cache). The daemon's HTTP answer and
  the clock are inputs; what other goroutines store while a caller waits on the gate is an
  input too.
\<close>

section \<open>The gate\<close>

text \<open>
  The channel and the \<open>sync.OnceFunc\<close> that closes it are \<open>None\<close> while nil; \<open>Some True\<close> is a
  closed channel, and a once-function that has run. Read locks are counted; the write lock is
  taken and released inside \<open>Reset\<close>, by \<open>TryLock\<close>. A close of a nil or closed channel panics.
\<close>

record gate =
  g_readers :: nat
  g_chan :: "bool option"
  g_once :: "bool option"
  g_panic :: bool

definition gate_zero :: gate where
  "gate_zero = \<lparr>g_readers = 0, g_chan = None, g_once = None, g_panic = False\<rparr>"

definition GateReset :: "gate \<Rightarrow> gate" where
  "GateReset g =
    (if g_readers g \<noteq> 0 then g
     else g\<lparr>g_chan := Some False, g_once := Some False\<rparr>)"

definition close_chan :: "gate \<Rightarrow> gate" where
  "close_chan g =
    (if g_chan g = Some False then g\<lparr>g_chan := Some True\<rparr> else g\<lparr>g_panic := True\<rparr>)"

definition GateOpen :: "gate \<Rightarrow> gate" where
  "GateOpen g =
    (case g_once g of
      None \<Rightarrow> g
    | Some fired \<Rightarrow> if fired then g else (close_chan g)\<lparr>g_once := Some True\<rparr>)"

text \<open>\<open>Wait\<close> holds a read lock from its entry to its return.\<close>

definition wait_enter :: "gate \<Rightarrow> gate" where
  "wait_enter g = g\<lparr>g_readers := g_readers g + 1\<rparr>"

definition wait_ready :: "gate \<Rightarrow> bool" where
  "wait_ready g = (g_chan g = None \<or> g_chan g = Some True)"

definition wait_return :: "gate \<Rightarrow> gate" where
  "wait_return g = g\<lparr>g_readers := g_readers g - 1\<rparr>"

datatype gate_event = Reset_ev | Open_ev | Enter_ev | Return_ev bool
  \<comment> \<open>the flag of a return: by the safety timeout\<close>

inductive gate_step :: "gate \<Rightarrow> gate_event \<Rightarrow> gate \<Rightarrow> bool" where
  reset: "gate_step g Reset_ev (GateReset g)"
| opens: "gate_step g Open_ev (GateOpen g)"
| enter: "gate_step g Enter_ev (wait_enter g)"
| ready: "0 < g_readers g \<Longrightarrow> wait_ready g \<Longrightarrow> gate_step g (Return_ev False) (wait_return g)"
| timeout: "0 < g_readers g \<Longrightarrow> \<not> wait_ready g \<Longrightarrow> gate_step g (Return_ev True) (wait_return g)"

inductive_cases gate_stepE: "gate_step g e h"

inductive gate_reach :: "gate \<Rightarrow> bool" where
  zero: "gate_reach gate_zero"
| step: "gate_reach g \<Longrightarrow> gate_step g e h \<Longrightarrow> gate_reach h"

lemmas gate_ops = GateReset_def GateOpen_def close_chan_def wait_enter_def wait_return_def
  wait_ready_def

definition gate_inv :: "gate \<Rightarrow> bool" where
  "gate_inv g \<longleftrightarrow> g_chan g = g_once g \<and> \<not> g_panic g"

lemma gate_step_inv: "gate_step g e h \<Longrightarrow> gate_inv g \<Longrightarrow> gate_inv h"
  by (erule gate_stepE) (auto simp: gate_inv_def gate_ops split: option.splits)

lemma gate_reach_inv: "gate_reach g \<Longrightarrow> gate_inv g"
proof (induction rule: gate_reach.induct)
  case zero
  show ?case by (simp add: gate_inv_def gate_zero_def)
next
  case (step g e h)
  then show ?case by (blast intro: gate_step_inv)
qed

section \<open>The alias store\<close>

record alias_store =
  aliases :: "(string, string) gomap"
  seen :: "(string, int) gomap"    \<comment> \<open>negative cache: deadline in nanoseconds\<close>

definition alias_zero :: alias_store where
  "alias_zero = \<lparr>aliases = [], seen = []\<rparr>"

definition missTTL :: int where
  "missTTL = 30 * 1000000000"

text \<open>What the environment contributes to one lookup.\<close>

record alias_env =
  a_now :: int
  a_waited :: "(string \<times> string) list"   \<comment> \<open>aliases other goroutines set while we wait\<close>
  a_daemon :: "(string \<times> string) list option"   \<comment> \<open>the daemon's answer; \<open>None\<close> on an error\<close>

definition recentlyMissed :: "int \<Rightarrow> string \<Rightarrow> alias_store \<Rightarrow> bool" where
  "recentlyMissed now ifname st =
    (case map_of (seen st) ifname of None \<Rightarrow> False | Some deadline \<Rightarrow> now < deadline)"

definition record_miss :: "int \<Rightarrow> string \<Rightarrow> alias_store \<Rightarrow> alias_store" where
  "record_miss now ifname st = st\<lparr>seen := AList.update ifname (now + missTTL) (seen st)\<rparr>"

definition SetAlias :: "string \<Rightarrow> string \<Rightarrow> alias_store \<Rightarrow> alias_store" where
  "SetAlias ifname al st =
    st\<lparr>aliases := AList.update ifname al (aliases st), seen := AList.delete ifname (seen st)\<rparr>"

definition fetchAlias :: "string \<Rightarrow> alias_store \<Rightarrow> string option" where
  "fetchAlias ifname st = map_of (aliases st) ifname"

definition set_all :: "(string \<times> string) list \<Rightarrow> alias_store \<Rightarrow> alias_store" where
  "set_all kvs st = fold (\<lambda>(k, v). SetAlias k v) kvs st"

definition SyncFromDaemon :: "alias_env \<Rightarrow> alias_store \<Rightarrow> nat option \<times> alias_store" where
  "SyncFromDaemon env st =
    (case a_daemon env of
      None \<Rightarrow> (None, st)
    | Some als \<Rightarrow> (Some (length als), set_all als st))"

definition handleMiss :: "alias_env \<Rightarrow> string \<Rightarrow> alias_store \<Rightarrow> string \<times> alias_store" where
  "handleMiss env ifname st =
    (let st = snd (SyncFromDaemon env st) in
     case fetchAlias ifname st of
       Some v \<Rightarrow> (v, st)
     | None \<Rightarrow> (ifname, record_miss (a_now env) ifname st))"

definition GetAlias :: "alias_env \<Rightarrow> string \<Rightarrow> alias_store \<Rightarrow> string \<times> alias_store" where
  "GetAlias env ifname st =
    (case fetchAlias ifname st of
      Some v \<Rightarrow> (v, st)
    | None \<Rightarrow>
        if recentlyMissed (a_now env) ifname st then (ifname, st)
        else (let st = set_all (a_waited env) st in
              case fetchAlias ifname st of
                Some v \<Rightarrow> (v, st)
              | None \<Rightarrow> handleMiss env ifname st))"

lemmas alias_ops = recentlyMissed_def record_miss_def fetchAlias_def SyncFromDaemon_def
  handleMiss_def

section \<open>Facts about the store\<close>

lemma fetchAlias_SetAlias:
  "fetchAlias k (SetAlias k' v st) = (if k = k' then Some v else fetchAlias k st)"
  by (simp add: fetchAlias_def SetAlias_def gomap_simps)

lemma seen_SetAlias:
  "map_of (seen (SetAlias k' v st)) k = (if k = k' then None else map_of (seen st) k)"
  by (simp add: SetAlias_def gomap_simps)

lemma set_all_aliases: "aliases (set_all kvs st) = fold (\<lambda>(k, v). AList.update k v) kvs (aliases st)"
  unfolding set_all_def
  by (induction kvs arbitrary: st) (auto simp: SetAlias_def)

lemma set_all_seen: "seen (set_all kvs st) = fold AList.delete (map fst kvs) (seen st)"
  unfolding set_all_def
  by (induction kvs arbitrary: st) (auto simp: SetAlias_def)

lemma fetchAlias_set_all:
  "fetchAlias k (set_all kvs st) =
    (case map_of (rev kvs) k of None \<Rightarrow> fetchAlias k st | Some v \<Rightarrow> Some v)"
  by (simp add: fetchAlias_def set_all_aliases gomap.lookup_insert_all split: option.split)

lemma seen_set_all:
  "map_of (seen (set_all kvs st)) k = (if k \<in> fst ` set kvs then None else map_of (seen st) k)"
  by (simp add: set_all_seen gomap.lookup_delete_all)

text \<open>No interface is both known and in the negative cache.\<close>

definition alias_inv :: "alias_store \<Rightarrow> bool" where
  "alias_inv st \<longleftrightarrow> dom (map_of (aliases st)) \<inter> dom (map_of (seen st)) = {}"

lemma alias_invI:
  "(\<And>k. fetchAlias k st \<noteq> None \<Longrightarrow> map_of (seen st) k = None) \<Longrightarrow> alias_inv st"
  by (auto simp: alias_inv_def fetchAlias_def)

lemma alias_invD: "alias_inv st \<Longrightarrow> fetchAlias k st \<noteq> None \<Longrightarrow> map_of (seen st) k = None"
  by (auto simp: alias_inv_def fetchAlias_def)

lemma alias_inv_SetAlias: "alias_inv st \<Longrightarrow> alias_inv (SetAlias k v st)"
  by (rule alias_invI) (auto simp: fetchAlias_SetAlias seen_SetAlias dest: alias_invD split: if_splits)

lemma alias_inv_set_all: "alias_inv st \<Longrightarrow> alias_inv (set_all kvs st)"
  unfolding set_all_def
  by (induction kvs arbitrary: st) (auto simp: alias_inv_SetAlias)

lemma alias_inv_record_miss:
  "alias_inv st \<Longrightarrow> fetchAlias k st = None \<Longrightarrow> alias_inv (record_miss now k st)"
  by (rule alias_invI)
    (auto simp: record_miss_def fetchAlias_def gomap_simps dest!: alias_invD [unfolded fetchAlias_def]
      split: if_splits)

lemma alias_inv_Sync: "alias_inv st \<Longrightarrow> alias_inv (snd (SyncFromDaemon env st))"
  by (auto simp: SyncFromDaemon_def alias_inv_set_all split: option.splits)

lemma alias_inv_handleMiss: "alias_inv st \<Longrightarrow> alias_inv (snd (handleMiss env k st))"
  using alias_inv_Sync [of st env]
  by (auto simp: handleMiss_def Let_def alias_inv_record_miss split: option.splits)

lemma GetAlias_known: "fetchAlias k st = Some v \<Longrightarrow> GetAlias env k st = (v, st)"
  by (simp add: GetAlias_def)


section \<open>Properties\<close>



lemma alias_inv_GetAlias: "alias_inv st \<Longrightarrow> alias_inv (snd (GetAlias env k st))"
  using alias_inv_handleMiss [of "set_all (a_waited env) st" env k]
  by (auto simp: GetAlias_def Let_def alias_inv_set_all split: option.splits)

text \<open>A lookup keeps the store consistent (no interface is both known and negatively cached)
  and returns the alias it then holds; it returns the raw name only when the store holds none
  and the name is in the negative cache.\<close>
theorem GetAlias_correct:
  assumes "alias_inv st" and "GetAlias env k st = (v, st')"
  shows "alias_inv st' \<and>
    (fetchAlias k st' = Some v \<or>
     (fetchAlias k st' = None \<and> v = k \<and> recentlyMissed (a_now env) k st'))"
proof -
  have "alias_inv st'" using alias_inv_GetAlias [OF assms(1), of env k] assms(2) by simp
  moreover have "fetchAlias k st' = Some v \<or>
     (fetchAlias k st' = None \<and> v = k \<and> recentlyMissed (a_now env) k st')"
    using assms(2)
    by (auto simp: GetAlias_def handleMiss_def Let_def record_miss_def recentlyMissed_def
        fetchAlias_def gomap_simps missTTL_def split: option.splits if_splits)
  ultimately show ?thesis by blast
qed

definition alias_env0 :: alias_env where
  "alias_env0 = \<lparr>a_now = 0, a_waited = [], a_daemon = None\<rparr>"

theorem GetAlias_correct_witness:
  "alias_inv (snd (GetAlias alias_env0 ''ens1f0'' alias_zero))"
  using GetAlias_correct [of alias_zero alias_env0 "''ens1f0''"]
  by (cases "GetAlias alias_env0 ''ens1f0'' alias_zero") (simp add: alias_inv_def alias_zero_def)

text \<open>The negative cache. After a lookup that fell back to the raw name, every lookup of that
  name within the TTL returns it at once with the store unchanged, whatever the daemon would
  answer; and once an alias is set it is returned, cache entry or not.\<close>
theorem negative_cache_ttl:
  assumes "handleMiss env k st = (k, st')" and "fetchAlias k st' = None"
    and "a_now env' < a_now env + missTTL"
  shows "GetAlias env' k st' = (k, st') \<and> fst (GetAlias env' k (SetAlias k v st')) = v"
proof -
  have "map_of (seen st') k = Some (a_now env + missTTL)"
    using assms(1,2)
    by (auto simp: handleMiss_def Let_def record_miss_def gomap_simps split: option.splits)
  then have "GetAlias env' k st' = (k, st')"
    using assms(2,3) by (simp add: GetAlias_def recentlyMissed_def)
  then show ?thesis
    using GetAlias_known [of k "SetAlias k v st'" v env'] by (simp add: fetchAlias_SetAlias)
qed

theorem negative_cache_ttl_witness:
  "GetAlias (alias_env0\<lparr>a_now := 5, a_daemon := Some [(''ens1f0'', ''ens1fx'')]\<rparr>) ''ens1f0''
      (record_miss 0 ''ens1f0'' alias_zero) = (''ens1f0'', record_miss 0 ''ens1f0'' alias_zero)"
proof -
  have "handleMiss alias_env0 ''ens1f0'' alias_zero = (''ens1f0'', record_miss 0 ''ens1f0'' alias_zero)"
    by (simp add: handleMiss_def SyncFromDaemon_def alias_env0_def alias_zero_def fetchAlias_def)
  then show ?thesis
    using negative_cache_ttl [of alias_env0 "''ens1f0''" alias_zero
        "record_miss 0 ''ens1f0'' alias_zero"
        "alias_env0\<lparr>a_now := 5, a_daemon := Some [(''ens1f0'', ''ens1fx'')]\<rparr>" "''ens1fx''"]
    by (simp add: alias_env0_def alias_zero_def record_miss_def fetchAlias_def missTTL_def)
qed

end
