(* ===== verification/World.thy ===== *)
theory World
  imports Registry AliasGate
begin

text \<open>
  What the log handlers share beside the manager: the registered metrics, the gauges created on
  the fly by the event package, the alias store, and the environment's input for the step (the
  clock, the daemon's answer). The dynamic gauges are heap objects: a \<open>*GaugeVec\<close> is an
  address, and the default Prometheus registry maps a metric name to the address registered
  under it (\<open>Register\<close> refuses a name that is taken, \<open>Unregister\<close> goes by name). The maps from
  value names to gauges are shared by the entries of a process, so they are heap objects too.
\<close>

record dyn_gauges =
  d_heap :: "(string \<times> gauge_vec) list"   \<comment> \<open>address = position; name and samples\<close>
  d_registered :: "(string, nat) gomap"
  d_maps :: "(string, nat) gomap list"    \<comment> \<open>the \<open>map[string]*PMetric\<close> objects\<close>

record world =
  w_reg :: registry
  w_dyn :: dyn_gauges
  w_alias :: alias_store
  w_env :: alias_env

definition init_world :: world where
  "init_world = \<lparr>w_reg = init_registry, w_dyn = \<lparr>d_heap = [], d_registered = [], d_maps = []\<rparr>,
     w_alias = alias_zero, w_env = alias_env0\<rparr>"

definition new_dyn_gauge :: "string \<Rightarrow> dyn_gauges \<Rightarrow> nat \<times> dyn_gauges" where
  "new_dyn_gauge name d =
    (length (d_heap d), d\<lparr>d_heap := d_heap d @ [(name, new_gauge offset_labels)]\<rparr>)"

text \<open>The flag is false when the registration is refused.\<close>

definition dyn_register :: "nat \<Rightarrow> dyn_gauges \<Rightarrow> bool \<times> dyn_gauges" where
  "dyn_register a d =
    (let name = fst (d_heap d ! a) in
     case map_of (d_registered d) name of
       Some _ \<Rightarrow> (False, d)
     | None \<Rightarrow> (True, d\<lparr>d_registered := AList.update name a (d_registered d)\<rparr>))"

definition dyn_unregister :: "nat \<Rightarrow> dyn_gauges \<Rightarrow> dyn_gauges" where
  "dyn_unregister a d =
    d\<lparr>d_registered := AList.delete (fst (d_heap d ! a)) (d_registered d)\<rparr>"

definition dyn_update :: "(gauge_vec \<Rightarrow> gauge_vec) \<Rightarrow> nat \<Rightarrow> dyn_gauges \<Rightarrow> dyn_gauges" where
  "dyn_update f a d =
    d\<lparr>d_heap := (d_heap d)[a := (fst (d_heap d ! a), f (snd (d_heap d ! a)))]\<rparr>"

definition new_metric_map :: "dyn_gauges \<Rightarrow> nat \<times> dyn_gauges" where
  "new_metric_map d = (length (d_maps d), d\<lparr>d_maps := d_maps d @ [[]]\<rparr>)"

definition set_metric :: "nat \<Rightarrow> string \<Rightarrow> nat \<Rightarrow> dyn_gauges \<Rightarrow> dyn_gauges" where
  "set_metric m k a d = d\<lparr>d_maps := (d_maps d)[m := AList.update k a (d_maps d ! m)]\<rparr>"

text \<open>The content of a possibly nil map.\<close>

definition metric_map :: "nat option \<Rightarrow> dyn_gauges \<Rightarrow> (string, nat) gomap" where
  "metric_map m d = (case m of None \<Rightarrow> [] | Some a \<Rightarrow> d_maps d ! a)"

definition on_reg :: "(registry \<Rightarrow> registry) \<Rightarrow> world \<Rightarrow> world" where
  "on_reg f w = w\<lparr>w_reg := f (w_reg w)\<rparr>"

definition on_dyn :: "(dyn_gauges \<Rightarrow> dyn_gauges) \<Rightarrow> world \<Rightarrow> world" where
  "on_dyn f w = w\<lparr>w_dyn := f (w_dyn w)\<rparr>"

text \<open>\<open>alias.GetAlias\<close> on the world's store.\<close>

definition world_alias :: "string \<Rightarrow> world \<Rightarrow> string \<times> world" where
  "world_alias ifname w =
    (let (a, st) = GetAlias (w_env w) ifname (w_alias w) in (a, w\<lparr>w_alias := st\<rparr>))"

lemma world_alias_frame [frame_simps]:
  "w_reg (snd (world_alias k w)) = w_reg w"
  "w_dyn (snd (world_alias k w)) = w_dyn w"
  "w_env (snd (world_alias k w)) = w_env w"
  by (simp_all add: world_alias_def split: prod.split)

lemma dyn_update_maps [simp]: "d_maps (dyn_update f a d) = d_maps d"
  by (simp add: dyn_update_def)

lemma metric_map_dyn_update [simp]: "metric_map m (dyn_update f a d) = metric_map m d"
  by (simp add: metric_map_def split: option.split)

end
