(* ===== verification/CommonAPI.thy ===== *)
theory CommonAPI
  imports World
begin

text \<open>
  \<open>pkg/common/common.go\<close>: the configuration shared by the proxy, the creation of events and the
  path of an event to the outgoing queue, and the health checks. The queue is what was handed to the
  outgoing Go channel, in order; whether the n-th send finds a place before its timeout, and the
  conversion of an event to a CloudEvent, are the environment's.
\<close>

section \<open>Events\<close>

datatype data_type = NOTIFICATION | METRIC
datatype value_type = ENUMERATION | DECIMAL
datatype ev_value = VState sync_state | VInt int | VFloat float64 | VString string

record data_value =
  dv_Resource :: string
  dv_DataType :: data_type
  dv_ValueType :: value_type
  dv_Value :: ev_value

type_synonym event_data = "data_value list"

record ce_event =
  ev_ID :: string
  ev_Type :: string
  ev_Source :: string
  ev_Data :: event_data

definition event_type_name :: "event_type \<Rightarrow> string" where
  "event_type_name t = (case t of
      GnssStateChange \<Rightarrow> ''event.sync.gnss-status.gnss-state-change''
    | OsClockSyncStateChange \<Rightarrow> ''event.sync.sync-status.os-clock-sync-state-change''
    | PtpClockClassChange \<Rightarrow> ''event.sync.ptp-status.ptp-clock-class-change''
    | PtpStateChange \<Rightarrow> ''event.sync.ptp-status.ptp-state-change''
    | SynceClockQualityChange \<Rightarrow> ''event.sync.synce-status.synce-clock-quality-change''
    | SynceStateChange \<Rightarrow> ''event.sync.synce-status.synce-state-change''
    | SyncStateChange \<Rightarrow> ''event.sync.sync-status.synchronization-state-change'')"

datatype api_error = IdRequired | TypeRequired | NoPublisher string | ConvertFailed

definition CreateEvent :: "string \<Rightarrow> string \<Rightarrow> string \<Rightarrow> event_data \<Rightarrow> api_error + ce_event" where
  "CreateEvent pubSubID eventType source data =
    (if pubSubID = '''' then Inl IdRequired
     else if eventType = '''' then Inl TypeRequired
     else Inr \<lparr>ev_ID = pubSubID, ev_Type = eventType, ev_Source = source, ev_Data = data\<rparr>)"

section \<open>The outgoing queue\<close>

datatype data_kind = EVENT_kind | STATUS_kind | SUBSCRIBER_kind | PUBLISHER_kind
datatype data_status = NEW_status | SUCCESS_status | FAILED_status | DELETE_status

record data_chan =
  dc_Type :: data_kind
  dc_Status :: data_status
  dc_Data :: "ce_event option"
  dc_Address :: string
  dc_ClientID :: nat

record out_channel =
  oc_queue :: "data_chan list"
  oc_attempts :: nat
  oc_accepts :: "nat \<Rightarrow> bool"   \<comment> \<open>whether the n-th send gets a place before the timeout\<close>

definition SendToChannel :: "data_chan \<Rightarrow> out_channel \<Rightarrow> bool \<times> out_channel" where
  "SendToChannel d ch =
    (let n = oc_attempts ch; ch = ch\<lparr>oc_attempts := n + 1\<rparr> in
     if oc_accepts ch n then (True, ch\<lparr>oc_queue := oc_queue ch @ [d]\<rparr>) else (False, ch))"

text \<open>The configuration; a client id of 0 is \<open>uuid.Nil\<close>.\<close>

record sc_config =
  EventOutCh :: out_channel
  sc_publishers :: "(string, string) gomap"     \<comment> \<open>publisher id to resource\<close>
  sc_converts :: bool
  sc_clientID :: nat
  sc_published :: "(string \<times> bool) list"         \<comment> \<open>counted successes and failures\<close>
  sc_writes :: bool                             \<comment> \<open>the store can be written\<close>

definition count_published :: "string \<Rightarrow> bool \<Rightarrow> sc_config \<Rightarrow> sc_config" where
  "count_published a okay sc = sc\<lparr>sc_published := sc_published sc @ [(a, okay)]\<rparr>"

definition GetPublishingCloudEvent :: "ce_event \<Rightarrow> sc_config \<Rightarrow> (api_error + ce_event) \<times> sc_config" where
  "GetPublishingCloudEvent cneEvent sc =
    (case map_of (sc_publishers sc) (ev_ID cneEvent) of
      None \<Rightarrow> (Inl (NoPublisher (ev_ID cneEvent)), count_published (ev_ID cneEvent) False sc)
    | Some r \<Rightarrow>
        if sc_converts sc then (Inr cneEvent, sc)
        else (Inl ConvertFailed, count_published r False sc))"

text \<open>The function always returns a nil error.\<close>

definition PublishEventViaAPI :: "ce_event \<Rightarrow> string \<Rightarrow> sc_config \<Rightarrow> sc_config" where
  "PublishEventViaAPI cneEvent resourceAddress sc =
    (case GetPublishingCloudEvent cneEvent sc of
      (Inl _, sc) \<Rightarrow> sc
    | (Inr ce, sc) \<Rightarrow>
        (let d = \<lparr>dc_Type = EVENT_kind, dc_Status = NEW_status, dc_Data = Some ce,
                  dc_Address = resourceAddress, dc_ClientID = sc_clientID sc\<rparr>;
             (sent, ch) = SendToChannel d (EventOutCh sc)
         in count_published (ev_Source ce) sent (sc\<lparr>EventOutCh := ch\<rparr>)))"

text \<open>The flag is the error.\<close>

definition SetClientID :: "nat \<Rightarrow> sc_config \<Rightarrow> bool \<times> sc_config" where
  "SetClientID clientID sc =
    (if sc_clientID sc \<noteq> 0 then (False, sc\<lparr>sc_clientID := clientID\<rparr>) else (True, sc))"

section \<open>Settings\<close>

definition SanitizeTransportHost :: "string \<Rightarrow> string \<Rightarrow> string \<Rightarrow> string" where
  "SanitizeTransportHost transportHost nodeIP nodeName =
    (if nodeIP \<noteq> '''' then replace_first transportHost ''NODE_IP'' nodeIP
     else if contains transportHost ''NODE_NAME'' then
       (if nodeName \<noteq> '''' then
          (if contains nodeName ''.''
           then replace_first transportHost ''NODE_NAME'' (hd (str_split CHR ''.'' nodeName))
           else replace_first transportHost ''NODE_NAME'' nodeName)
        else transportHost)
     else transportHost)"

definition GetIntEnv :: "string option \<Rightarrow> int" where
  "GetIntEnv val =
    (case val of
      None \<Rightarrow> 0
    | Some v \<Rightarrow> if v = '''' then 0 else (case Atoi v of (r, None) \<Rightarrow> r | _ \<Rightarrow> 0))"

definition GetFloatEnv :: "string option \<Rightarrow> float64" where
  "GetFloatEnv val =
    (case val of
      None \<Rightarrow> float_of_int 0
    | Some v \<Rightarrow> if v = '''' then float_of_int 0
        else (case ParseFloat v of (r, None) \<Rightarrow> r | _ \<Rightarrow> float_of_int 0))"

text \<open>\<open>strconv.ParseBool\<close> accepts these spellings only.\<close>

definition GetBoolEnv :: "string option \<Rightarrow> bool" where
  "GetBoolEnv val =
    (case val of
      None \<Rightarrow> False
    | Some v \<Rightarrow> v \<in> set [''1'', ''t'', ''T'', ''true'', ''TRUE'', ''True''])"

section \<open>Health checks\<close>

text \<open>
  \<open>tries\<close> requests are left; \<open>resp\<close> answers each with a status code or a connection error. The
  result is the flag and whether an error is returned. Both health checks have this loop.
\<close>

fun health_loop :: "nat \<Rightarrow> int option list \<Rightarrow> bool \<Rightarrow> bool \<times> bool" where
  "health_loop 0 resp err = (False, err)"
| "health_loop (Suc n) resp err =
    (case resp of
      [] \<Rightarrow> (False, err)
    | None # rs \<Rightarrow> health_loop n rs True
    | Some code # rs \<Rightarrow> if code = 200 then (True, False) else health_loop n rs err)"

definition APIHealthCheck :: "int option list \<Rightarrow> bool \<times> bool" where
  "APIHealthCheck resp = health_loop 6 resp False"

definition HTTPTransportHealthCheck :: "int option list \<Rightarrow> bool \<times> bool" where
  "HTTPTransportHealthCheck resp = health_loop 6 resp False"

section \<open>What the queue and the checks promise\<close>

text \<open>The queue holds what it held, and at most one more element, at its end.\<close>

lemma SendToChannel_queue:
  "oc_queue (snd (SendToChannel d ch)) = oc_queue ch @ (if fst (SendToChannel d ch) then [d] else [])"
  by (simp add: SendToChannel_def Let_def)

lemma PublishEventViaAPI_queue:
  "oc_queue (EventOutCh (PublishEventViaAPI e addr sc)) =
    oc_queue (EventOutCh sc) @
    (if map_of (sc_publishers sc) (ev_ID e) \<noteq> None \<and> sc_converts sc \<and>
        oc_accepts (EventOutCh sc) (oc_attempts (EventOutCh sc))
     then [\<lparr>dc_Type = EVENT_kind, dc_Status = NEW_status, dc_Data = Some e, dc_Address = addr,
            dc_ClientID = sc_clientID sc\<rparr>] else [])"
  by (auto simp: PublishEventViaAPI_def GetPublishingCloudEvent_def count_published_def
      SendToChannel_def Let_def split: option.split prod.split)

lemma PublishEventViaAPI_frame [frame_simps]:
  "sc_publishers (PublishEventViaAPI e addr sc) = sc_publishers sc"
  "sc_converts (PublishEventViaAPI e addr sc) = sc_converts sc"
  "sc_clientID (PublishEventViaAPI e addr sc) = sc_clientID sc"
  "oc_accepts (EventOutCh (PublishEventViaAPI e addr sc)) = oc_accepts (EventOutCh sc)"
  by (auto simp: PublishEventViaAPI_def GetPublishingCloudEvent_def count_published_def
      SendToChannel_def Let_def split: option.split prod.split)

text \<open>Every attempt to publish is counted exactly once, as a success exactly when the event was
  queued; the queue keeps its order, and the event goes to its end with the address it was
  published for. An event is lost without an error when the queue stays full.\<close>
theorem PublishEventViaAPI_counted:
  "let sc' = PublishEventViaAPI e addr sc in
    (\<exists>a okay. sc_published sc' = sc_published sc @ [(a, okay)] \<and>
       (if okay then \<exists>d. oc_queue (EventOutCh sc') = oc_queue (EventOutCh sc) @ [d] \<and>
           dc_Address d = addr \<and> dc_Data d = Some e \<and> dc_Type d = EVENT_kind
        else oc_queue (EventOutCh sc') = oc_queue (EventOutCh sc)))"
  by (auto simp: PublishEventViaAPI_def GetPublishingCloudEvent_def count_published_def
      SendToChannel_def Let_def split: option.split prod.split)

lemma health_loop_ok: "fst (health_loop n resp err) \<longleftrightarrow> Some 200 \<in> set (take n resp)"
  by (induction n resp err rule: health_loop.induct) (auto split: list.split option.split)

lemma health_loop_err:
  "snd (health_loop n resp err) \<longleftrightarrow> Some 200 \<notin> set (take n resp) \<and> (err \<or> None \<in> set (take n resp))"
  by (induction n resp err rule: health_loop.induct) (auto split: list.split option.split)

text \<open>The health checks. A check succeeds exactly when one of the first six answers has status
  200, and it returns an error exactly when none has and one of the six requests failed to connect.
  So six answers with another status give neither success nor an error.\<close>
theorem APIHealthCheck_spec:
  "APIHealthCheck resp = (Some 200 \<in> set (take 6 resp),
      Some 200 \<notin> set (take 6 resp) \<and> None \<in> set (take 6 resp)) \<and>
   HTTPTransportHealthCheck resp = APIHealthCheck resp \<and> APIHealthCheck (replicate 6 (Some 500)) = (False, False)"
proof -
  have "APIHealthCheck resp = (Some 200 \<in> set (take 6 resp),
      Some 200 \<notin> set (take 6 resp) \<and> None \<in> set (take 6 resp))" for resp
    using health_loop_ok [of 6 resp False] health_loop_err [of 6 resp False]
    by (simp add: APIHealthCheck_def prod_eq_iff)
  then show ?thesis by (simp add: HTTPTransportHealthCheck_def APIHealthCheck_def)
qed

text \<open>The client id. The error message says that an id once assigned cannot be reset; the guard is
  the other way round: a configuration without an id refuses every id, so no sequence of calls ever
  assigns one, and a configuration that has an id accepts any other.\<close>
theorem SetClientID_inverted:
  "(sc_clientID sc = 0 \<longrightarrow> sc_clientID (fold (\<lambda>i sc. snd (SetClientID i sc)) ids sc) = 0 \<and> fst (SetClientID i sc)) \<and>
   (sc_clientID sc \<noteq> 0 \<longrightarrow> SetClientID i sc = (False, sc\<lparr>sc_clientID := i\<rparr>))"
proof -
  have "sc_clientID sc = 0 \<Longrightarrow> sc_clientID (fold (\<lambda>i sc. snd (SetClientID i sc)) ids sc) = 0" for sc
    by (induction ids arbitrary: sc) (simp_all add: SetClientID_def)
  then show ?thesis by (simp add: SetClientID_def)
qed

definition sc0 :: sc_config where
  "sc0 = \<lparr>EventOutCh = \<lparr>oc_queue = [], oc_attempts = 0, oc_accepts = (\<lambda>n. True)\<rparr>, sc_publishers = [],
     sc_converts = True, sc_clientID = 0, sc_published = [], sc_writes = True\<rparr>"

theorem SetClientID_inverted_witness:
  "sc_clientID (fold (\<lambda>i sc. snd (SetClientID i sc)) [7, 9] sc0) = 0"
  using SetClientID_inverted [of sc0 "[7, 9]" 1] by (simp add: sc0_def)

end
