(* ===== verification/RestClient.thy ===== *)
theory RestClient
  imports CommonAPI
begin

text \<open>
  \<open>pkg/restclient/client.go\<close>: the HTTP client. What the network does with one request is the
  argument; a method gives the status and the error its caller sees. The REST calls of
  \<open>pkg/common/common.go\<close> that go through it are here too.
\<close>

section \<open>One request\<close>

datatype conn_error = DNSFailure | TimedOut | ConnRefused | OtherFailure

datatype http_outcome =
    RequestRefused                 \<comment> \<open>\<open>NewRequestWithContext\<close> fails\<close>
  | ConnectionFailed conn_error    \<comment> \<open>\<open>client.Do\<close> fails\<close>
  | BodyFailed int                 \<comment> \<open>the answer's status; its body cannot be read\<close>
  | Answered int string

datatype rest_error = MarshalFailed | CreateFailed | DoFailed conn_error | ReadFailed

definition StatusBadRequest :: int where "StatusBadRequest = 400"

text \<open>A body that cannot be read gives the outer error, which is nil.\<close>

definition Post :: "http_outcome \<Rightarrow> int \<times> rest_error option" where
  "Post r =
    (case r of
      RequestRefused \<Rightarrow> (StatusBadRequest, Some CreateFailed)
    | ConnectionFailed e \<Rightarrow> (StatusBadRequest, Some (DoFailed e))
    | BodyFailed _ \<Rightarrow> (StatusBadRequest, None)
    | Answered status _ \<Rightarrow> (status, None))"

text \<open>The flag says whether the event can be marshalled.\<close>

definition PostEvent :: "bool \<Rightarrow> http_outcome \<Rightarrow> rest_error option" where
  "PostEvent marshals r = (if \<not> marshals then Some MarshalFailed else snd (Post r))"

definition PostCloudEvent :: "bool \<Rightarrow> http_outcome \<Rightarrow> int \<times> rest_error option" where
  "PostCloudEvent marshals r = (if \<not> marshals then (StatusBadRequest, Some MarshalFailed) else Post r)"

definition PostWithReturn :: "http_outcome \<Rightarrow> int \<times> string option" where
  "PostWithReturn r =
    (case r of Answered status body \<Rightarrow> (status, Some body) | _ \<Rightarrow> (StatusBadRequest, None))"

definition PutStatus :: "http_outcome \<Rightarrow> int" where
  "PutStatus r =
    (case r of Answered status _ \<Rightarrow> status | BodyFailed status \<Rightarrow> status | _ \<Rightarrow> StatusBadRequest)"

definition DeleteStatus :: "http_outcome \<Rightarrow> int" where
  "DeleteStatus r =
    (case r of Answered status _ \<Rightarrow> status | BodyFailed status \<Rightarrow> status | _ \<Rightarrow> StatusBadRequest)"

definition RestGet :: "http_outcome \<Rightarrow> int \<times> string option \<times> rest_error option" where
  "RestGet r =
    (case r of
      RequestRefused \<Rightarrow> (StatusBadRequest, None, Some CreateFailed)
    | ConnectionFailed e \<Rightarrow> (StatusBadRequest, None, Some (DoFailed e))
    | BodyFailed _ \<Rightarrow> (StatusBadRequest, None, Some ReadFailed)
    | Answered status body \<Rightarrow> (status, Some body, None))"

text \<open>\<open>errors.As(err, &dnsError) || os.IsTimeout(err) || errors.Is(err, ECONNREFUSED)\<close>\<close>

definition unreachable :: "rest_error \<Rightarrow> bool" where
  "unreachable e = (e \<in> {DoFailed DNSFailure, DoFailed TimedOut, DoFailed ConnRefused})"

section \<open>Publishers and subscriptions over the API\<close>

record pub_sub =
  psub_ID :: string
  psub_Resource :: string
  psub_EndPoint :: "string option"
  psub_URILocation :: "string option"

datatype rest_api_error = ApiStatus int | BadJSON

text \<open>
  \<open>decode\<close> is \<open>json.Unmarshal\<close> into a fresh object. Both functions post the object and take the
  answer with status 201; the marshalling of a \<open>PubSub\<close> (strings and URLs) cannot fail.
\<close>

definition CreatePublisher :: "(string \<Rightarrow> pub_sub option) \<Rightarrow> http_outcome \<Rightarrow> rest_api_error + pub_sub" where
  "CreatePublisher decode r =
    (case PostWithReturn r of
      (status, body) \<Rightarrow>
        if status \<noteq> 201 then Inl (ApiStatus status)
        else (case body of None \<Rightarrow> Inl BadJSON
          | Some b \<Rightarrow> (case decode b of None \<Rightarrow> Inl BadJSON | Some p \<Rightarrow> Inr p)))"

definition CreateSubscription :: "(string \<Rightarrow> pub_sub option) \<Rightarrow> http_outcome \<Rightarrow> rest_api_error + pub_sub" where
  "CreateSubscription decode r =
    (case PostWithReturn r of
      (status, body) \<Rightarrow>
        if status \<noteq> 201 then Inl (ApiStatus status)
        else (case body of None \<Rightarrow> Inl BadJSON
          | Some b \<Rightarrow> (case decode b of None \<Rightarrow> Inl BadJSON | Some p \<Rightarrow> Inr p)))"

text \<open>\<open>PublishEvent\<close> through the API.\<close>

definition PublishEventViaREST :: "bool \<Rightarrow> http_outcome \<Rightarrow> rest_error option" where
  "PublishEventViaREST marshals r = PostEvent marshals r"

section \<open>What a caller can conclude\<close>

lemma PostCloudEvent_ok_status:
  "PostCloudEvent b r = (s, None) \<Longrightarrow> s \<noteq> StatusBadRequest \<Longrightarrow> \<exists>body. r = Answered s body"
  by (cases r) (auto simp: PostCloudEvent_def Post_def split: if_splits)

text \<open>
  An unreachable peer is a failed connection; a peer that answers is never taken for one, whatever its
  status is.
\<close>

lemma unreachable_iff:
  "(case snd (PostCloudEvent b r) of None \<Rightarrow> False | Some e \<Rightarrow> unreachable e) \<longleftrightarrow>
    b \<and> (\<exists>e. r = ConnectionFailed e \<and> e \<noteq> OtherFailure)"
  by (cases r; simp add: PostCloudEvent_def Post_def unreachable_def)
    (metis conn_error.distinct conn_error.exhaust)

text \<open>A publisher is created only from an answer with status 201 whose body decodes to it.\<close>

lemma CreatePublisher_created:
  "CreatePublisher decode r = Inr p \<longleftrightarrow> (\<exists>b. r = Answered 201 b \<and> decode b = Some p)"
  by (cases r) (auto simp: CreatePublisher_def PostWithReturn_def StatusBadRequest_def split: option.splits)

end
