(* ===== verification/EventState.thy ===== *)
theory EventState
  imports World
begin

text \<open>
  \<open>event/event.go\<close>: the states a clock depends on (per process, one entry per interface), the
  update of one of them by a log line, and the aggregation of all of them.
\<close>

section \<open>State\<close>

datatype clock_source = GNSS | DPLL | GM | TBC

record clock_state =
  cs_State :: sync_state
  cs_Offset :: "float64 option"
  cs_IFace :: "string option"
  cs_Process :: string
  cs_ClockSource :: clock_source
  cs_Value :: "(string, int) gomap"
  cs_Metric :: "nat option"      \<comment> \<open>address of the map of gauges; a nil map: \<open>None\<close>\<close>
  cs_NodeName :: string
  cs_HelpText :: "(string, string) gomap option"

record event_state =
  CurrentPTPStateEvent :: sync_state
  DependsOn :: "(string, clock_state list) gomap"

definition new_event_state :: event_state where
  "new_event_state = \<lparr>CurrentPTPStateEvent = NoState, DependsOn = []\<rparr>"

section \<open>Lookups in one process' entries\<close>

text \<open>
  The index of the entry of an interface. An entry without an interface before it is a nil
  dereference: \<open>None\<close>.
\<close>

fun hasClockState :: "string \<Rightarrow> clock_state list \<Rightarrow> nat option option" where
  "hasClockState iface [] = Some None"
| "hasClockState iface (dep # deps) =
    (case cs_IFace dep of
      None \<Rightarrow> None
    | Some i \<Rightarrow> if i = iface then Some (Some 0)
        else map_option (map_option Suc) (hasClockState iface deps))"

definition hasMetric :: "clock_state list \<Rightarrow> nat option" where
  "hasMetric deps = (case deps of [] \<Rightarrow> None | dep # _ \<Rightarrow> cs_Metric dep)"

definition hasMetricHelp :: "clock_state list \<Rightarrow> (string, string) gomap option" where
  "hasMetricHelp deps = (case deps of [] \<Rightarrow> None | dep # _ \<Rightarrow> cs_HelpText dep)"

section \<open>The aggregation\<close>

text \<open>One process' entries: the loop leaves at the first HOLDOVER; then the next process.\<close>

fun scan_states :: "sync_state \<Rightarrow> clock_state list \<Rightarrow> sync_state" where
  "scan_states currentState [] = currentState"
| "scan_states currentState (dd # dds) =
    (if cs_State dd \<noteq> LOCKED then
       (if cs_State dd = HOLDOVER then cs_State dd
        else scan_states (cs_State dd) dds)
     else if currentState = NoState then scan_states (cs_State dd) dds
     else scan_states currentState dds)"

definition aggregate_state :: "(string, clock_state list) gomap \<Rightarrow> sync_state" where
  "aggregate_state deps = fold (\<lambda>(p, v) cur. scan_states cur v) deps NoState"

section \<open>The update\<close>

type_synonym ev_world = "event_state \<times> world"

definition dep_labels :: "clock_state \<Rightarrow> string \<Rightarrow> labels" where
  "dep_labels c aliasValue =
    [(''from'', cs_Process c), (''process'', cs_Process c), (''node'', cs_NodeName c),
     (''iface'', aliasValue)]"

text \<open>Setting the gauges of an entry that exists; a value without a metric dereferences nil.\<close>

fun set_known_metrics ::
  "clock_state \<Rightarrow> string \<Rightarrow> (string \<times> int) list \<Rightarrow> ev_world \<Rightarrow> (unit, ev_world) res" where
  "set_known_metrics c al [] s = Ok () s"
| "set_known_metrics c al ((k, v) # kvs) (p, w) =
    (case map_of (metric_map (cs_Metric c) (w_dyn w)) k of
      None \<Rightarrow> Panic (p, w)
    | Some a \<Rightarrow> set_known_metrics c al kvs
        (p, on_dyn (dyn_update (gauge_set (dep_labels c al) (float_of_int v)) a) w))"

text \<open>
  The loop over the values of a new entry: gauges are created for names without one,
  registration may be refused (logged, through the interface name: a nil one panics), and a
  help text for a known name is stored into a nil map, which panics.
\<close>

fun create_metrics ::
  "clock_state \<Rightarrow> (string, string) gomap \<Rightarrow> nat \<Rightarrow> (string \<times> int) list \<Rightarrow> ev_world \<Rightarrow> (unit, ev_world) res" where
  "create_metrics c help m [] s = Ok () s"
| "create_metrics c help m ((k, v) # kvs) (p, w) =
    (let known = map_of (metric_map (Some m) (w_dyn w)) k in
     if known \<noteq> None \<and> map_of help k \<noteq> None then Panic (p, w)
     else
       (let (a, d) = (case known of
              Some a \<Rightarrow> (a, w_dyn w)
            | None \<Rightarrow> (let (a, d) = new_dyn_gauge k (w_dyn w) in (a, set_metric m k a d)));
            (okr, d) = dyn_register a d;
            w = w\<lparr>w_dyn := d\<rparr>
        in if \<not> okr \<and> cs_IFace c = None then Panic (p, w)
           else (let (al, w) = world_alias (case cs_IFace c of None \<Rightarrow> '''' | Some i \<Rightarrow> i) w
                 in create_metrics c help m kvs
                      (p, on_dyn (dyn_update (gauge_set (dep_labels c al) (float_of_int v)) a) w))))"

definition set_deps :: "string \<Rightarrow> clock_state list \<Rightarrow> event_state \<Rightarrow> event_state" where
  "set_deps proc deps p = p\<lparr>DependsOn := AList.update proc deps (DependsOn p)\<rparr>"

text \<open>The entry after the field updates of a known process: found, or appended.\<close>

definition updated_entry :: "clock_state list \<Rightarrow> nat option \<Rightarrow> clock_state \<Rightarrow> clock_state" where
  "updated_entry deps idx c =
    c\<lparr>cs_Metric := (case idx of None \<Rightarrow> hasMetric deps | Some i \<Rightarrow> cs_Metric (deps ! i)),
      cs_HelpText := (case idx of None \<Rightarrow> hasMetricHelp deps | Some i \<Rightarrow> cs_HelpText (deps ! i))\<rparr>"

definition put_entry :: "clock_state list \<Rightarrow> nat option \<Rightarrow> clock_state \<Rightarrow> clock_state list" where
  "put_entry deps idx e = (case idx of None \<Rightarrow> deps @ [e] | Some i \<Rightarrow> deps[i := e])"

definition update_deps ::
  "clock_state \<Rightarrow> nat option \<Rightarrow> (string, string) gomap option \<Rightarrow> ev_world \<Rightarrow>
    (unit, ev_world) res" where
  "update_deps c metrics help s =
    (let (p, w) = s in
     case map_of (DependsOn p) (cs_Process c) of
       Some deps \<Rightarrow>
         (case cs_IFace c of
           None \<Rightarrow> Panic (p, w)
         | Some iface \<Rightarrow>
             (case hasClockState iface deps of
               None \<Rightarrow> Panic (p, w)
             | Some idx \<Rightarrow>
                 (let e = updated_entry deps idx c;
                      p = set_deps (cs_Process c) (put_entry deps idx e) p;
                      (al, w) = world_alias iface w
                  in set_known_metrics e al (cs_Value c) (p, w))))
     | None \<Rightarrow>
         (let e = c\<lparr>cs_Metric := None, cs_HelpText := None\<rparr>;
              (m, d) = (case metrics of None \<Rightarrow> new_metric_map (w_dyn w) | Some m \<Rightarrow> (m, w_dyn w));
              h = (if metrics = None then [] else case help of None \<Rightarrow> [] | Some h \<Rightarrow> h)
          in res_bind (create_metrics e h m (cs_Value c) (p, w\<lparr>w_dyn := d\<rparr>))
               (\<lambda>_ (p, w). Ok () (set_deps (cs_Process c) [e\<lparr>cs_Metric := Some m\<rparr>] p, w))))"

definition UpdateCurrentEventState ::
  "clock_state \<Rightarrow> nat option \<Rightarrow> (string, string) gomap option \<Rightarrow> ev_world \<Rightarrow>
    (sync_state, ev_world) res" where
  "UpdateCurrentEventState c metrics help s =
    res_bind (update_deps c metrics help s)
      (\<lambda>_ (p, w). let currentState = aggregate_state (DependsOn p)
         in Ok currentState (p\<lparr>CurrentPTPStateEvent := currentState\<rparr>, w))"

section \<open>Unregistering\<close>

definition unregister_entry :: "clock_state \<Rightarrow> dyn_gauges \<Rightarrow> dyn_gauges" where
  "unregister_entry dd d =
    fold (\<lambda>(k, a). dyn_unregister a) (metric_map (cs_Metric dd) d) d"

definition UnRegisterMetrics :: "string \<Rightarrow> ev_world \<Rightarrow> ev_world" where
  "UnRegisterMetrics processName s =
    (case map_of (DependsOn (fst s)) processName of
      None \<Rightarrow> s
    | Some deps \<Rightarrow> (fst s, on_dyn (fold unregister_entry deps) (snd s)))"

text \<open>Only an entry with at least one metric has its process deleted.\<close>

definition UnRegisterAllMetrics :: "ev_world \<Rightarrow> ev_world" where
  "UnRegisterAllMetrics s =
    (let entries = concat (map snd (DependsOn (fst s)));
         gone = map cs_Process (filter (\<lambda>dd. metric_map (cs_Metric dd) (w_dyn (snd s)) \<noteq> []) entries)
     in ((fst s)\<lparr>DependsOn := fold AList.delete gone (DependsOn (fst s))\<rparr>,
         on_dyn (fold unregister_entry entries) (snd s)))"

text \<open>
  \<open>DeleteAllMetrics\<close>: for each entry with an interface, the samples of its own gauges are
  deleted by a label set without \<open>from\<close>, the gauges unregistered, and the samples of the given
  vectors deleted by the label set with and without \<open>from\<close>.
\<close>

definition delete_entry ::
  "clock_state \<Rightarrow> gauge_vec list \<times> ev_world \<Rightarrow> gauge_vec list \<times> ev_world" where
  "delete_entry dd st =
    (let (m, p, w) = st in
     case cs_IFace dd of
       None \<Rightarrow> st
     | Some iface \<Rightarrow>
         (let (al, w) = world_alias iface w;
              short = [(''process'', cs_Process dd), (''iface'', al), (''node'', cs_NodeName dd)];
              (m, w) = (case cs_Metric dd of
                 None \<Rightarrow> (m, w)
               | Some a \<Rightarrow>
                   (map (\<lambda>mm. gauge_delete [(''process'', cs_Process dd), (''node'', cs_NodeName dd), (''iface'', al)]
                          (gauge_delete (dep_labels dd al) mm)) m,
                    on_dyn (fold (\<lambda>(k, g) d. dyn_unregister g (dyn_update (gauge_delete short) g d))
                      (metric_map (cs_Metric dd) (w_dyn w))) w))
          in (m, p\<lparr>DependsOn := AList.delete (cs_Process dd) (DependsOn p)\<rparr>, w)))"

definition DeleteAllMetrics :: "gauge_vec list \<Rightarrow> ev_world \<Rightarrow> gauge_vec list \<times> ev_world" where
  "DeleteAllMetrics m s = fold delete_entry (concat (map snd (DependsOn (fst s)))) (m, s)"


section \<open>What the aggregation computes\<close>

definition is_clock_state :: "clock_state \<Rightarrow> bool" where
  "is_clock_state c \<longleftrightarrow> cs_State c = FREERUN \<or> cs_State c = HOLDOVER \<or> cs_State c = LOCKED"

definition dep_entries :: "(string, clock_state list) gomap \<Rightarrow> clock_state list" where
  "dep_entries deps = concat (map snd deps)"

lemma dep_entries_simps [simp]:
  "dep_entries [] = []"
  "dep_entries ((k, v) # deps) = v @ dep_entries deps"
  by (simp_all add: dep_entries_def)

text \<open>The invariant of the scan, relating the running state to the entries seen so far.\<close>

definition scan_inv :: "clock_state list \<Rightarrow> sync_state \<Rightarrow> bool" where
  "scan_inv es cur \<longleftrightarrow>
    (if es = [] then cur = NoState
     else if \<forall>e\<in>set es. cs_State e = LOCKED then cur = LOCKED
     else \<exists>e\<in>set es. cs_State e \<noteq> LOCKED \<and> cur = cs_State e)"

lemma scan_states_inv:
  "\<forall>e\<in>set ds. is_clock_state e \<Longrightarrow> \<forall>e\<in>set es. is_clock_state e \<Longrightarrow> scan_inv es cur \<Longrightarrow>
    scan_inv (es @ ds) (scan_states cur ds)"
proof (induction ds arbitrary: cur es)
  case Nil
  then show ?case by simp
next
  case (Cons d ds)
  consider (hold) "cs_State d = HOLDOVER" | (free) "cs_State d = FREERUN" | (lock) "cs_State d = LOCKED"
    using Cons.prems(1) by (auto simp: is_clock_state_def)
  then show ?case
  proof cases
    case hold
    then show ?thesis by (auto simp: scan_inv_def)
  next
    case free
    have "scan_inv (es @ [d]) FREERUN" using free by (auto simp: scan_inv_def)
    then have "scan_inv ((es @ [d]) @ ds) (scan_states FREERUN ds)"
      using Cons.prems by (intro Cons.IH) (auto simp: is_clock_state_def)
    then show ?thesis using free by simp
  next
    case lock
    let ?cur = "if cur = NoState then LOCKED else cur"
    have "scan_inv (es @ [d]) ?cur"
      using lock Cons.prems(2,3)
      by (auto simp: scan_inv_def is_clock_state_def split: if_splits)
    then have "scan_inv ((es @ [d]) @ ds) (scan_states ?cur ds)"
      using Cons.prems lock by (intro Cons.IH) (auto simp: is_clock_state_def)
    then show ?thesis using lock by (simp split: if_splits)
  qed
qed

lemma aggregate_inv_gen:
  "\<forall>e\<in>set (dep_entries deps). is_clock_state e \<Longrightarrow> \<forall>e\<in>set es. is_clock_state e \<Longrightarrow> scan_inv es cur \<Longrightarrow>
    scan_inv (es @ dep_entries deps) (fold (\<lambda>(p, v) cur. scan_states cur v) deps cur)"
proof (induction deps arbitrary: cur es)
  case Nil
  then show ?case by simp
next
  case (Cons kv deps)
  obtain k v where kv: "kv = (k, v)" by (cases kv)
  have "scan_inv (es @ v) (scan_states cur v)"
    using Cons.prems kv by (intro scan_states_inv) auto
  then have "scan_inv ((es @ v) @ dep_entries deps)
      (fold (\<lambda>(p, v) cur. scan_states cur v) deps (scan_states cur v))"
    using Cons.prems kv by (intro Cons.IH) auto
  then show ?case by (simp add: kv)
qed

lemma aggregate_inv:
  "\<forall>e\<in>set (dep_entries deps). is_clock_state e \<Longrightarrow> scan_inv (dep_entries deps) (aggregate_state deps)"
  using aggregate_inv_gen [of deps "[]" NoState] by (simp add: aggregate_state_def scan_inv_def)

text \<open>The aggregation of the states a clock depends on. In every visiting order of the map it
  is LOCKED exactly when there is an entry and all are LOCKED; otherwise it is the state of
  some entry that is not; and when the entries that are not LOCKED agree, it is their state.\<close>
theorem aggregate_state_spec:
  assumes "\<forall>e\<in>set (dep_entries deps). is_clock_state e"
  shows "(aggregate_state deps = LOCKED \<longleftrightarrow>
      dep_entries deps \<noteq> [] \<and> (\<forall>e\<in>set (dep_entries deps). cs_State e = LOCKED)) \<and>
    (\<forall>x. (\<exists>e\<in>set (dep_entries deps). cs_State e \<noteq> LOCKED) \<and>
         (\<forall>e\<in>set (dep_entries deps). cs_State e = LOCKED \<or> cs_State e = x) \<longrightarrow> aggregate_state deps = x)"
  using aggregate_inv [OF assms] by (auto simp: scan_inv_def split: if_splits)

definition plain_clock :: "sync_state \<Rightarrow> string \<Rightarrow> string \<Rightarrow> clock_state" where
  "plain_clock s proc iface =
    \<lparr>cs_State = s, cs_Offset = None, cs_IFace = Some iface, cs_Process = proc, cs_ClockSource = DPLL,
     cs_Value = [], cs_Metric = Some 0, cs_NodeName = ''n'', cs_HelpText = None\<rparr>"

theorem aggregate_state_spec_witness:
  "aggregate_state [(''dpll'', [plain_clock LOCKED ''dpll'' ''ens1f0'']),
     (''gnss'', [plain_clock HOLDOVER ''gnss'' ''ens1f0''])] = HOLDOVER"
  using aggregate_state_spec [of "[(''dpll'', [plain_clock LOCKED ''dpll'' ''ens1f0'']),
     (''gnss'', [plain_clock HOLDOVER ''gnss'' ''ens1f0''])]"]
  by (auto simp: plain_clock_def is_clock_state_def)

text \<open>The comment on the aggregation says that any HOLDOVER makes it HOLDOVER and any FREERUN
  makes it FREERUN. With both present in different processes the result depends on the order in
  which the map is visited.\<close>
theorem aggregate_order_dependent:
  "\<exists>deps deps'. mset deps = mset deps' \<and> distinct (map fst deps) \<and>
    (\<exists>e\<in>set (dep_entries deps). cs_State e = HOLDOVER) \<and>
    (\<exists>e\<in>set (dep_entries deps). cs_State e = FREERUN) \<and>
    aggregate_state deps = FREERUN \<and> aggregate_state deps' = HOLDOVER"
proof -
  let ?h = "(''gnss'', [plain_clock HOLDOVER ''gnss'' ''ens1f0''])"
  let ?f = "(''dpll'', [plain_clock FREERUN ''dpll'' ''ens1f0''])"
  have "mset [?h, ?f] = mset [?f, ?h]" by (simp add: add_mset_commute)
  moreover have "aggregate_state [?h, ?f] = FREERUN" "aggregate_state [?f, ?h] = HOLDOVER"
    by (simp_all add: aggregate_state_def plain_clock_def)
  ultimately show ?thesis
    by (intro exI [of _ "[?h, ?f]"] exI [of _ "[?f, ?h]"]) (auto simp: plain_clock_def)
qed

section \<open>The update keeps the entries well formed\<close>

text \<open>
  Every entry is filed under its own process and no list is empty; no entry has a help text
  (the code never stores one), so the assignment into the nil map is never reached.
\<close>

definition event_wf :: "event_state \<Rightarrow> bool" where
  "event_wf p \<longleftrightarrow> (\<forall>k ds. map_of (DependsOn p) k = Some ds \<longrightarrow>
     ds \<noteq> [] \<and> (\<forall>d\<in>set ds. cs_Process d = k \<and> cs_HelpText d = None \<and> cs_Metric d \<noteq> None \<and> cs_IFace d \<noteq> None))"

lemma event_wf_new: "event_wf new_event_state"
  by (simp add: event_wf_def new_event_state_def)

lemma event_wf_entries:
  "event_wf p \<Longrightarrow> map_of (DependsOn p) k = Some ds \<Longrightarrow> ds \<noteq> [] \<and> hasMetricHelp ds = None \<and> hasMetric ds \<noteq> None"
  by (cases ds) (auto simp: event_wf_def hasMetricHelp_def hasMetric_def)

lemma event_wf_set_deps:
  assumes "event_wf p" and "ds \<noteq> []"
    and "\<forall>d\<in>set ds. cs_Process d = k \<and> cs_HelpText d = None \<and> cs_Metric d \<noteq> None \<and> cs_IFace d \<noteq> None"
  shows "event_wf (set_deps k ds p)"
  using assms by (auto simp: event_wf_def set_deps_def gomap_simps split: if_splits)

lemma hasClockState_some:
  "\<forall>d\<in>set deps. cs_IFace d \<noteq> None \<Longrightarrow> \<exists>r. hasClockState iface deps = Some r"
  by (induction deps) (auto split: option.splits)

lemma hasClockState_found:
  "hasClockState iface deps = Some (Some i) \<Longrightarrow> i < length deps \<and> cs_IFace (deps ! i) = Some iface"
  by (induction iface deps arbitrary: i rule: hasClockState.induct)
    (auto split: option.splits if_splits)

lemma hasClockState_absent:
  "hasClockState iface deps = Some None \<Longrightarrow> d \<in> set deps \<Longrightarrow> cs_IFace d \<noteq> Some iface"
  by (induction iface deps rule: hasClockState.induct) (auto split: option.splits if_splits)

lemma put_entry_wf:
  assumes wf: "event_wf p" and ds: "map_of (DependsOn p) (cs_Process c) = Some deps"
    and ifc: "cs_IFace c = Some iface" and idx: "hasClockState iface deps = Some idx"
    and d: "d \<in> set (put_entry deps idx (updated_entry deps idx c))"
  shows "cs_Process d = cs_Process c \<and> cs_HelpText d = None \<and> cs_Metric d \<noteq> None \<and> cs_IFace d \<noteq> None"
proof -
  have old: "cs_Process e = cs_Process c \<and> cs_HelpText e = None \<and> cs_Metric e \<noteq> None \<and> cs_IFace e \<noteq> None"
    if "e \<in> set deps" for e
    using wf ds that by (auto simp: event_wf_def)
  have new: "cs_HelpText e = None \<and> cs_Metric e \<noteq> None" if "e = updated_entry deps idx c" for e
  proof (cases idx)
    case None
    then show ?thesis using that event_wf_entries [OF wf ds] by (simp add: updated_entry_def)
  next
    case (Some i)
    then have "deps ! i \<in> set deps" using hasClockState_found idx by fastforce
    then show ?thesis using that Some old by (simp add: updated_entry_def)
  qed
  have "d \<in> set deps \<or> d = updated_entry deps idx c"
    using d set_update_subset_insert [of deps] by (auto simp: put_entry_def split: option.splits)
  then show ?thesis
  proof
    assume "d \<in> set deps" then show ?thesis by (rule old)
  next
    assume "d = updated_entry deps idx c"
    then show ?thesis using new ifc by (simp add: updated_entry_def)
  qed
qed

section \<open>What one update does\<close>

lemma set_known_metrics_ok:
  "set (map fst kvs) \<subseteq> dom (map_of (metric_map (cs_Metric c) (w_dyn w))) \<Longrightarrow>
    \<exists>w'. set_known_metrics c al kvs (p, w) = Ok () (p, w')"
  by (induction kvs arbitrary: w) (auto simp: on_dyn_def)

lemma create_metrics_ok:
  "cs_IFace c \<noteq> None \<Longrightarrow> \<exists>w'. create_metrics c [] m kvs (p, w) = Ok () (p, w')"
  by (induction kvs arbitrary: w)
    (auto split: option.splits prod.splits simp: Let_def)

text \<open>The values of the line are among the gauges the entries of its process have.\<close>

definition values_known :: "clock_state \<Rightarrow> event_state \<Rightarrow> world \<Rightarrow> bool" where
  "values_known c p w \<longleftrightarrow> (case map_of (DependsOn p) (cs_Process c) of
      None \<Rightarrow> True
    | Some ds \<Rightarrow> \<forall>d\<in>set ds. set (map fst (cs_Value c)) \<subseteq> dom (map_of (metric_map (cs_Metric d) (w_dyn w))))"

lemma updated_entry_metric:
  assumes "hasClockState iface deps = Some idx" and "deps \<noteq> []"
  shows "\<exists>d\<in>set deps. cs_Metric (updated_entry deps idx c) = cs_Metric d"
proof (cases idx)
  case None
  then show ?thesis using assms(2) by (cases deps) (auto simp: updated_entry_def hasMetric_def)
next
  case (Some i)
  then have "i < length deps" using hasClockState_found assms(1) by blast
  then have "deps ! i \<in> set deps" by simp
  moreover have "cs_Metric (updated_entry deps idx c) = cs_Metric (deps ! i)"
    using Some by (simp add: updated_entry_def)
  ultimately show ?thesis by blast
qed

lemma put_entry_mem:
  "hasClockState iface deps = Some idx \<Longrightarrow> e \<in> set (put_entry deps idx e)"
  using hasClockState_found [of iface deps] by (auto simp: put_entry_def set_update_memI split: option.splits)

text \<open>What a caller may rely on after the entry of \<open>c\<close> was filed.\<close>

definition filed :: "clock_state \<Rightarrow> event_state \<Rightarrow> event_state \<Rightarrow> bool" where
  "filed c p p' \<longleftrightarrow> event_wf p' \<and>
     (\<exists>ds. map_of (DependsOn p') (cs_Process c) = Some ds \<and>
       (\<exists>d\<in>set ds. cs_IFace d = cs_IFace c \<and> cs_State d = cs_State c \<and> cs_Value d = cs_Value c)) \<and>
     (\<forall>k. k \<noteq> cs_Process c \<longrightarrow> map_of (DependsOn p') k = map_of (DependsOn p) k)"

lemma filed_set_deps:
  assumes "event_wf p" and "e \<in> set ds"
    and "cs_IFace e = cs_IFace c" "cs_State e = cs_State c" "cs_Value e = cs_Value c"
    and "\<forall>d\<in>set ds. cs_Process d = cs_Process c \<and> cs_HelpText d = None \<and> cs_Metric d \<noteq> None \<and> cs_IFace d \<noteq> None"
  shows "filed c p (set_deps (cs_Process c) ds p)"
  unfolding filed_def
proof (intro conjI)
  show "event_wf (set_deps (cs_Process c) ds p)"
    using assms by (intro event_wf_set_deps) auto
qed (use assms in \<open>auto simp: set_deps_def gomap_simps\<close>)

lemma update_deps_files:
  assumes wf: "event_wf p" and ifc: "cs_IFace c = Some iface" and vals: "values_known c p w"
  shows "\<exists>p' w'. update_deps c metrics None (p, w) = Ok () (p', w') \<and> filed c p p'"
proof (cases "map_of (DependsOn p) (cs_Process c)")
  case None
  let ?e = "c\<lparr>cs_Metric := None, cs_HelpText := None\<rparr>"
  obtain m d where md: "(case metrics of None \<Rightarrow> new_metric_map (w_dyn w) | Some m \<Rightarrow> (m, w_dyn w)) = (m, d)"
    by fastforce
  obtain w' where m: "create_metrics ?e [] m (cs_Value c) (p, w\<lparr>w_dyn := d\<rparr>) = Ok () (p, w')"
    using create_metrics_ok [of ?e m "cs_Value c" p "w\<lparr>w_dyn := d\<rparr>"] ifc by auto
  have "update_deps c metrics None (p, w) =
      Ok () (set_deps (cs_Process c) [?e\<lparr>cs_Metric := Some m\<rparr>] p, w')"
    using m unfolding update_deps_def Let_def prod.case None option.case md by simp
  moreover have "filed c p (set_deps (cs_Process c) [?e\<lparr>cs_Metric := Some m\<rparr>] p)"
    using wf ifc by (intro filed_set_deps [where e = "?e\<lparr>cs_Metric := Some m\<rparr>"]) auto
  ultimately show ?thesis by blast
next
  case (Some deps)
  have ne: "deps \<noteq> []" and ok: "\<forall>d\<in>set deps. cs_IFace d \<noteq> None"
    using wf Some by (auto simp: event_wf_def)
  obtain idx where idx: "hasClockState iface deps = Some idx" using hasClockState_some [OF ok] by blast
  let ?e = "updated_entry deps idx c"
  have keys: "set (map fst (cs_Value c)) \<subseteq> dom (map_of (metric_map (cs_Metric ?e) (w_dyn w)))"
  proof -
    obtain d where d: "d \<in> set deps" "cs_Metric ?e = cs_Metric d" using updated_entry_metric [OF idx ne] by blast
    have "\<forall>d\<in>set deps. set (map fst (cs_Value c)) \<subseteq> dom (map_of (metric_map (cs_Metric d) (w_dyn w)))"
      using vals unfolding values_known_def Some option.case .
    then show ?thesis unfolding d(2) using d(1) by (rule bspec)
  qed
  let ?p' = "set_deps (cs_Process c) (put_entry deps idx ?e) p"
  obtain al w1 where al: "world_alias iface w = (al, w1)" by fastforce
  have "w_dyn w1 = w_dyn w" using world_alias_frame(2) [of iface w] al by simp
  then obtain w2 where w2: "set_known_metrics ?e al (cs_Value c) (?p', w1) = Ok () (?p', w2)"
    using set_known_metrics_ok [of "cs_Value c" ?e w1 al ?p'] keys by auto
  have "update_deps c metrics None (p, w) = Ok () (?p', w2)"
    using Some ifc idx al w2 by (simp add: update_deps_def Let_def)
  moreover have "filed c p ?p'"
    using put_entry_mem [OF idx] put_entry_wf [OF wf Some ifc idx] wf
    by (intro filed_set_deps [where e = ?e]) (auto simp: updated_entry_def)
  ultimately show ?thesis by blast
qed

text \<open>A log line's clock state is filed. On well-formed entries, with an interface and values
  whose gauges exist, the update returns without a panic; the entry of its process and interface
  has the new state and values, the other processes' entries are untouched, the entries stay
  well formed, and the state it returns and stores is the aggregate of all entries.\<close>
theorem UpdateCurrentEventState_files:
  assumes "event_wf p" and "cs_IFace c \<noteq> None" and "values_known c p w"
  shows "\<exists>st p' w'. UpdateCurrentEventState c metrics None (p, w) = Ok st (p', w') \<and>
    filed c p p' \<and> CurrentPTPStateEvent p' = st \<and> st = aggregate_state (DependsOn p')"
proof -
  obtain iface where ifc: "cs_IFace c = Some iface" using assms(2) by blast
  obtain p' w' where up: "update_deps c metrics None (p, w) = Ok () (p', w')" and f: "filed c p p'"
    using update_deps_files [OF assms(1) ifc assms(3)] by blast
  have "filed c p (p'\<lparr>CurrentPTPStateEvent := aggregate_state (DependsOn p')\<rparr>)"
    using f by (simp add: filed_def event_wf_def)
  then show ?thesis using up by (simp add: UpdateCurrentEventState_def Let_def)
qed

definition dpll_line :: "sync_state \<Rightarrow> clock_state" where
  "dpll_line s = (plain_clock s ''dpll'' ''ens1f0'')\<lparr>cs_Value := [(''pps_status'', 1)], cs_Metric := None\<rparr>"

theorem UpdateCurrentEventState_files_witness:
  "\<exists>st p' w'. UpdateCurrentEventState (dpll_line HOLDOVER) None None (new_event_state, init_world) = Ok st (p', w') \<and>
    filed (dpll_line HOLDOVER) new_event_state p' \<and> CurrentPTPStateEvent p' = st \<and>
    st = aggregate_state (DependsOn p')"
  by (rule UpdateCurrentEventState_files [OF event_wf_new])
    (simp_all add: dpll_line_def plain_clock_def values_known_def new_event_state_def)

end
