(* ===== verification/OsClock.thy ===== *)
theory OsClock
  imports PtpTypes
begin

text \<open>
  \<open>stats/os_clock_discipline.go\<close>: the state machine that decides whether phc2sys disciplines
  CLOCK_REALTIME. The settle timer is a Go \<open>time.AfterFunc\<close>; its callback runs on another
  goroutine and may still be waiting for the manager's lock when the machine moves on. The
  timer therefore carries the generation it was armed with, and a separate list holds the
  callbacks that have been started but not run.
\<close>

unbundle bit_operations_syntax

type_synonym u64 = "64 word"

datatype os_phase = OsClockIdle | OsClockSelecting | OsClockSourceSelected | OsClockUndisciplined

text \<open>An armed timer: the generation its callback will carry, and whether it has gone off.\<close>

datatype settle_timer = SettleTimer (timer_gen: u64) (timer_fired: bool)

record os_clock =
  phase :: os_phase
  settle :: "settle_timer option"
  selectGen :: u64

definition os_clock_zero :: os_clock where
  "os_clock_zero = \<lparr>phase = OsClockIdle, settle = None, selectGen = 0\<rparr>"

section \<open>The operations\<close>

definition stopSettleLocked :: "os_clock \<Rightarrow> os_clock" where
  "stopSettleLocked d = (if settle d \<noteq> None then d\<lparr>settle := None\<rparr> else d)"

definition IsUndisciplined :: "os_clock \<Rightarrow> bool" where
  "IsUndisciplined d = (phase d = OsClockUndisciplined)"

definition IsWindowOpen :: "os_clock \<Rightarrow> bool" where
  "IsWindowOpen d = (phase d = OsClockSelecting \<or> phase d = OsClockSourceSelected)"

definition Begin :: "os_clock \<Rightarrow> os_clock" where
  "Begin d =
    (let d = stopSettleLocked d in d\<lparr>selectGen := selectGen d + 1, phase := OsClockSelecting\<rparr>)"

definition Abort :: "os_clock \<Rightarrow> os_clock" where
  "Abort d =
    (let d = stopSettleLocked d in
     if phase d = OsClockSelecting \<or> phase d = OsClockSourceSelected
     then d\<lparr>phase := OsClockIdle\<rparr> else d)"

definition SourceClockSelected :: "os_clock \<Rightarrow> os_clock" where
  "SourceClockSelected d =
    (if phase d \<noteq> OsClockSelecting \<and> phase d \<noteq> OsClockSourceSelected then d
     else (let d = stopSettleLocked (d\<lparr>phase := OsClockSourceSelected\<rparr>)
           in d\<lparr>settle := Some (SettleTimer (selectGen d) False)\<rparr>))"

definition SinkClockSelected :: "os_clock \<Rightarrow> os_clock" where
  "SinkClockSelected d = (stopSettleLocked d)\<lparr>phase := OsClockIdle\<rparr>"

definition ReArmSettle :: "os_clock \<Rightarrow> os_clock" where
  "ReArmSettle d =
    (if phase d \<noteq> OsClockSourceSelected then d
     else (let d = stopSettleLocked d
           in d\<lparr>settle := Some (SettleTimer (selectGen d) False)\<rparr>))"

definition finaliseLocked :: "os_clock \<Rightarrow> bool \<times> os_clock" where
  "finaliseLocked d =
    (let d = stopSettleLocked d in
     if phase d \<noteq> OsClockSelecting \<and> phase d \<noteq> OsClockSourceSelected then (False, d)
     else if phase d = OsClockSourceSelected
     then (True, d\<lparr>phase := OsClockUndisciplined\<rparr>)
     else (False, d\<lparr>phase := OsClockIdle\<rparr>))"

definition Finalise :: "os_clock \<Rightarrow> bool \<times> os_clock" where
  "Finalise d = finaliseLocked d"

definition FinaliseIfGeneration :: "u64 \<Rightarrow> os_clock \<Rightarrow> bool \<times> os_clock" where
  "FinaliseIfGeneration generation d =
    (if selectGen d \<noteq> generation then (False, d) else finaliseLocked d)"

definition ClearOnRealtimeOffset :: "os_clock \<Rightarrow> os_clock" where
  "ClearOnRealtimeOffset d = (stopSettleLocked d)\<lparr>phase := OsClockIdle\<rparr>"

definition OsReset :: "os_clock \<Rightarrow> os_clock" where
  "OsReset d = (stopSettleLocked d)\<lparr>phase := OsClockIdle\<rparr>"

lemmas os_clock_ops =
  stopSettleLocked_def IsWindowOpen_def IsUndisciplined_def Begin_def Abort_def
  SourceClockSelected_def SinkClockSelected_def ReArmSettle_def finaliseLocked_def
  Finalise_def FinaliseIfGeneration_def ClearOnRealtimeOffset_def OsReset_def Let_def

section \<open>The machine with its timer callbacks\<close>

record os_sys =
  dev :: os_clock
  pending :: "u64 list"   \<comment> \<open>started callbacks, by generation\<close>

definition os_init :: os_sys where
  "os_init = \<lparr>dev = os_clock_zero, pending = []\<rparr>"

datatype os_event = EvBegin | EvAbort | EvSource | EvSink | EvReArm | EvFinalise | EvClear
  | EvReset | EvFire | EvCallback u64

text \<open>
  One step; the flag says whether the step makes the caller publish FREERUN. \<open>EvFire\<close> is the
  timer going off (its callback is started), \<open>EvCallback\<close> is a started callback getting the
  lock.
\<close>

inductive os_step :: "os_sys \<Rightarrow> os_event \<Rightarrow> bool \<Rightarrow> os_sys \<Rightarrow> bool" where
  begin_window: "os_step s EvBegin False (s\<lparr>dev := Begin (dev s)\<rparr>)"
| abort: "os_step s EvAbort False (s\<lparr>dev := Abort (dev s)\<rparr>)"
| source: "os_step s EvSource False (s\<lparr>dev := SourceClockSelected (dev s)\<rparr>)"
| sink: "os_step s EvSink False (s\<lparr>dev := SinkClockSelected (dev s)\<rparr>)"
| rearm: "os_step s EvReArm False (s\<lparr>dev := ReArmSettle (dev s)\<rparr>)"
| finalise: "Finalise (dev s) = (b, d) \<Longrightarrow> os_step s EvFinalise b (s\<lparr>dev := d\<rparr>)"
| clear: "os_step s EvClear False (s\<lparr>dev := ClearOnRealtimeOffset (dev s)\<rparr>)"
| reset: "os_step s EvReset False (s\<lparr>dev := OsReset (dev s)\<rparr>)"
| fire: "settle (dev s) = Some (SettleTimer g False) \<Longrightarrow>
    os_step s EvFire False
      (s\<lparr>dev := (dev s)\<lparr>settle := Some (SettleTimer g True)\<rparr>, pending := pending s @ [g]\<rparr>)"
| callback: "g \<in> set (pending s) \<Longrightarrow> FinaliseIfGeneration g (dev s) = (b, d) \<Longrightarrow>
    os_step s (EvCallback g) b (s\<lparr>dev := d, pending := remove1 g (pending s)\<rparr>)"

inductive_cases os_stepE: "os_step s e b t"

text \<open>A run: the events in order, with the state at the end.\<close>

inductive os_run :: "(os_event \<times> bool) list \<Rightarrow> os_sys \<Rightarrow> bool" where
  run_init: "os_run [] os_init"
| run_step: "os_run h s \<Longrightarrow> os_step s e b t \<Longrightarrow> os_run (h @ [(e, b)]) t"

section \<open>Invariants of the reachable states\<close>

definition os_inv :: "os_clock \<Rightarrow> bool" where
  "os_inv d \<longleftrightarrow> (case settle d of None \<Rightarrow> True
     | Some t \<Rightarrow> phase d = OsClockSourceSelected \<and> timer_gen t = selectGen d)"

lemma os_inv_zero: "os_inv os_clock_zero"
  by (simp add: os_inv_def os_clock_zero_def)

lemma os_step_inv: "os_step s e b t \<Longrightarrow> os_inv (dev s) \<Longrightarrow> os_inv (dev t)"
  by (erule os_stepE)
    (auto simp: os_inv_def os_clock_ops split: option.splits if_splits)

lemma os_run_inv: "os_run h s \<Longrightarrow> os_inv (dev s)"
proof (induction rule: os_run.induct)
  case run_init
  show ?case by (simp add: os_init_def os_inv_zero)
next
  case (run_step h s e b t)
  then show ?case by (blast intro: os_step_inv)
qed

section \<open>The transition diagram of the documentation\<close>

text \<open>
  The phases as the comment of the source draws them, with the transitions into
  \<open>Undisciplined\<close> marked as the only ones that report. \<open>Begin\<close> from any phase, and
  \<open>SinkClockSelected\<close> and \<open>Reset\<close> out of \<open>Undisciplined\<close>, are in the code and not in the
  drawing.
\<close>

inductive diagram :: "os_phase \<Rightarrow> bool \<Rightarrow> os_phase \<Rightarrow> bool" where
  stay: "diagram p False p"
| opens: "diagram p False OsClockSelecting"
| selects: "p = OsClockSelecting \<or> p = OsClockSourceSelected \<Longrightarrow>
    diagram p False OsClockSourceSelected"
| closes: "diagram p False OsClockIdle"
| reports: "diagram OsClockSourceSelected True OsClockUndisciplined"

lemma os_step_diagram:
  "os_step s e b t \<Longrightarrow> diagram (phase (dev s)) b (phase (dev t))"
  by (erule os_stepE)
    (auto simp: os_clock_ops intro: diagram.intros split: if_splits)

inductive_cases diagram_trueE: "diagram p True q"

section \<open>When FREERUN is reported\<close>

definition closing :: "os_event set" where
  "closing = {EvBegin, EvAbort, EvSink, EvFinalise, EvClear, EvReset}"

lemma phase_selecting:
  assumes "os_step s e b t" and "phase (dev t) = OsClockSelecting"
  shows "e = EvBegin \<or> (phase (dev s) = OsClockSelecting \<and> e \<notin> closing \<and> \<not> b)"
  using assms by (auto elim!: os_stepE simp: os_clock_ops closing_def split: if_splits)

lemma phase_source_selected:
  assumes "os_step s e b t" and "phase (dev t) = OsClockSourceSelected"
  shows "\<not> b \<and> e \<notin> closing \<and>
    (phase (dev s) = OsClockSourceSelected \<or> (phase (dev s) = OsClockSelecting \<and> e = EvSource))"
  using assms by (auto elim!: os_stepE simp: os_clock_ops closing_def split: if_splits)

lemma open_window_history:
  assumes "os_run h s"
  shows "phase (dev s) = OsClockSelecting \<Longrightarrow>
      \<exists>h1 b1 h2. h = h1 @ (EvBegin, b1) # h2 \<and> (\<forall>x\<in>set h2. fst x \<notin> closing \<and> \<not> snd x)"
    and "phase (dev s) = OsClockSourceSelected \<Longrightarrow>
      \<exists>h1 b1 h2 h3. h = h1 @ (EvBegin, b1) # h2 @ (EvSource, False) # h3 \<and>
        (\<forall>x\<in>set h2 \<union> set h3. fst x \<notin> closing \<and> \<not> snd x)"
  using assms
proof (induction rule: os_run.induct)
  case run_init
  {
    case 1
    then show ?case by (simp add: os_init_def os_clock_zero_def)
  next
    case 2
    then show ?case by (simp add: os_init_def os_clock_zero_def)
  }
next
  case (run_step h s e b t)
  {
    case 1
    then consider "e = EvBegin" | "phase (dev s) = OsClockSelecting" "e \<notin> closing" "\<not> b"
      using phase_selecting [OF run_step.hyps(2)] by blast
    then show ?case
    proof cases
      case 1
      then show ?thesis by fastforce
    next
      case 2
      then obtain h1 b1 h2 where "h = h1 @ (EvBegin, b1) # h2"
        and "\<forall>x\<in>set h2. fst x \<notin> closing \<and> \<not> snd x"
        using run_step.IH(1) by blast
      then have "h @ [(e, b)] = h1 @ (EvBegin, b1) # (h2 @ [(e, b)])"
        and "\<forall>x\<in>set (h2 @ [(e, b)]). fst x \<notin> closing \<and> \<not> snd x"
        using 2 by auto
      then show ?thesis by blast
    qed
  next
    case 2
    then consider "phase (dev s) = OsClockSourceSelected" "e \<notin> closing" "\<not> b"
      | "phase (dev s) = OsClockSelecting" "e = EvSource" "\<not> b"
      using phase_source_selected [OF run_step.hyps(2)] by blast
    then show ?case
    proof cases
      case 1
      then obtain h1 b1 h2 h3 where "h = h1 @ (EvBegin, b1) # h2 @ (EvSource, False) # h3"
        and "\<forall>x\<in>set h2 \<union> set h3. fst x \<notin> closing \<and> \<not> snd x"
        using run_step.IH(2) by blast
      then have "h @ [(e, b)] = h1 @ (EvBegin, b1) # h2 @ (EvSource, False) # (h3 @ [(e, b)])"
        and "\<forall>x\<in>set h2 \<union> set (h3 @ [(e, b)]). fst x \<notin> closing \<and> \<not> snd x"
        using 1 by auto
      then show ?thesis by blast
    next
      case 2
      then obtain h1 b1 h2 where "h = h1 @ (EvBegin, b1) # h2"
        and "\<forall>x\<in>set h2. fst x \<notin> closing \<and> \<not> snd x"
        using run_step.IH(1) by blast
      then have "h @ [(e, b)] = h1 @ (EvBegin, b1) # h2 @ (EvSource, False) # []"
        and "\<forall>x\<in>set h2 \<union> set []. fst x \<notin> closing \<and> \<not> snd x"
        using 2 by auto
      then show ?thesis by blast
    qed
  }
qed

lemma report_from_source_selected:
  "os_step s e True t \<Longrightarrow> phase (dev s) = OsClockSourceSelected \<and> phase (dev t) = OsClockUndisciplined"
  by (drule os_step_diagram) (auto elim: diagram_trueE)


text \<open>C6: FREERUN is reported for the OS clock only when a selection burst was opened by a
  reconfigure line, a source clock was selected in it, and since then nothing closed it: no
  selection of CLOCK_REALTIME, no offset sample, no abort, no new burst, no earlier report.\<close>
theorem freerun_only_after_burst:
  assumes "os_run h s" and "os_step s e True t"
  shows "\<exists>h1 b1 h2 h3. h = h1 @ (EvBegin, b1) # h2 @ (EvSource, False) # h3 \<and>
    (\<forall>x\<in>set h2 \<union> set h3. fst x \<notin> closing \<and> \<not> snd x)"
proof -
  have "phase (dev s) = OsClockSourceSelected"
    using report_from_source_selected [OF assms(2)] by simp
  then show ?thesis using open_window_history(2) [OF assms(1)] by blast
qed

text \<open>A concrete burst: reconfigure, a NIC selected, the settle timer goes off.\<close>

definition burst_dev :: os_clock where
  "burst_dev = SourceClockSelected (Begin os_clock_zero)"

definition burst_sys :: os_sys where
  "burst_sys = \<lparr>dev = burst_dev\<lparr>settle := Some (SettleTimer 1 True)\<rparr>, pending = [1]\<rparr>"

lemma burst_run: "os_run [(EvBegin, False), (EvSource, False), (EvFire, False)] burst_sys"
proof -
  let ?s1 = "os_init\<lparr>dev := Begin (dev os_init)\<rparr>"
  let ?s2 = "?s1\<lparr>dev := SourceClockSelected (dev ?s1)\<rparr>"
  have "os_run ([] @ [(EvBegin, False)]) ?s1"
    by (rule run_step [OF run_init]) (rule begin_window)
  then have "os_run (([] @ [(EvBegin, False)]) @ [(EvSource, False)]) ?s2"
    by (rule run_step) (rule source)
  moreover have "os_step ?s2 EvFire False burst_sys"
    using fire [of ?s2 1]
    by (simp add: burst_sys_def burst_dev_def os_init_def os_clock_ops os_clock_zero_def)
  ultimately have "os_run ((([] @ [(EvBegin, False)]) @ [(EvSource, False)]) @ [(EvFire, False)]) burst_sys"
    by (rule run_step)
  then show ?thesis by simp
qed

lemma burst_report:
  "os_step burst_sys (EvCallback 1) True
    (burst_sys\<lparr>dev := burst_dev\<lparr>settle := None, phase := OsClockUndisciplined\<rparr>, pending := []\<rparr>)"
  using callback [of 1 burst_sys True "burst_dev\<lparr>settle := None, phase := OsClockUndisciplined\<rparr>"]
  by (simp add: burst_sys_def burst_dev_def os_clock_ops os_clock_zero_def)

theorem freerun_only_after_burst_witness:
  "\<exists>h1 b1 h2 h3. [(EvBegin, False), (EvSource, False), (EvFire, False)] =
      h1 @ (EvBegin, b1) # h2 @ (EvSource, False) # h3"
  using freerun_only_after_burst [OF burst_run burst_report] by blast

text \<open>The source-selected phase always has its timer, and a timer that went off its callback.\<close>

definition os_live :: "os_sys \<Rightarrow> bool" where
  "os_live s \<longleftrightarrow> (phase (dev s) = OsClockSourceSelected \<longrightarrow>
     (case settle (dev s) of None \<Rightarrow> False
      | Some t \<Rightarrow> timer_gen t = selectGen (dev s) \<and> (timer_fired t \<longrightarrow> timer_gen t \<in> set (pending s))))"

lemma os_step_live: "os_step s e b t \<Longrightarrow> os_live s \<Longrightarrow> os_live t"
  by (erule os_stepE)
    (auto simp: os_live_def os_clock_ops split: option.splits if_splits)

lemma os_run_live: "os_run h s \<Longrightarrow> os_live s"
proof (induction rule: os_run.induct)
  case run_init
  show ?case by (simp add: os_live_def os_init_def os_clock_zero_def)
next
  case (run_step h s e b t)
  then show ?case by (blast intro: os_step_live)
qed

text \<open>Silence reports. In every reachable state where a source clock is selected, the report
  of FREERUN is one step (the started callback) or two steps (the timer, then its callback)
  away: the machine cannot be stuck waiting for a log line.\<close>
theorem settle_silence_reports:
  assumes "os_run h s" and "phase (dev s) = OsClockSourceSelected"
  shows "(\<exists>g t. os_step s (EvCallback g) True t) \<or>
    (\<exists>s' g t. os_step s EvFire False s' \<and> os_step s' (EvCallback g) True t)"
proof -
  obtain g f where st: "settle (dev s) = Some (SettleTimer g f)" "g = selectGen (dev s)"
    "f \<longrightarrow> g \<in> set (pending s)"
    using os_run_live [OF assms(1)] assms(2)
    by (cases "settle (dev s)"; cases "the (settle (dev s))") (auto simp: os_live_def)
  have reports: "\<exists>d. FinaliseIfGeneration (selectGen d0) d0 = (True, d)"
    if "phase d0 = OsClockSourceSelected" for d0
    using that by (simp add: os_clock_ops)
  show ?thesis
  proof (cases f)
    case True
    then have "g \<in> set (pending s)" using st(3) by simp
    then show ?thesis using reports [OF assms(2)] st(2) os_step.callback by blast
  next
    case False
    let ?s = "s\<lparr>dev := (dev s)\<lparr>settle := Some (SettleTimer g True)\<rparr>, pending := pending s @ [g]\<rparr>"
    have "os_step s EvFire False ?s" using st(1) False by (auto intro: os_step.fire)
    moreover obtain d where "FinaliseIfGeneration g (dev ?s) = (True, d)"
      using reports [of "dev ?s"] assms(2) st(2) by auto
    then have "os_step ?s (EvCallback g) True (?s\<lparr>dev := d, pending := remove1 g (pending ?s)\<rparr>)"
      by (intro os_step.callback) simp_all
    ultimately show ?thesis by blast
  qed
qed

theorem settle_silence_reports_witness:
  "(\<exists>g t. os_step burst_sys (EvCallback g) True t) \<or>
    (\<exists>s' g t. os_step burst_sys EvFire False s' \<and> os_step s' (EvCallback g) True t)"
  by (rule settle_silence_reports [OF burst_run])
    (simp add: burst_sys_def burst_dev_def os_clock_ops os_clock_zero_def)

section \<open>Silence\<close>

text \<open>Without log lines only the timer and the callbacks act. A silent run is the list of their reports.\<close>

fun silent_event :: "os_event \<Rightarrow> bool" where
  "silent_event EvFire = True"
| "silent_event (EvCallback g) = True"
| "silent_event _ = False"

inductive silent_run :: "os_sys \<Rightarrow> bool list \<Rightarrow> os_sys \<Rightarrow> bool" where
  none: "silent_run s [] s"
| more: "os_step s e b t \<Longrightarrow> silent_event e \<Longrightarrow> silent_run t bs u \<Longrightarrow> silent_run s (b # bs) u"

definition at_rest :: "os_sys \<Rightarrow> bool" where
  "at_rest s \<longleftrightarrow> pending s = [] \<and> (case settle (dev s) of Some (SettleTimer g f) \<Rightarrow> f | None \<Rightarrow> True)"

text \<open>The steps that can still be taken: an armed timer stands for itself and for its callback.\<close>

definition work :: "os_sys \<Rightarrow> nat" where
  "work s = (case settle (dev s) of Some (SettleTimer g False) \<Rightarrow> 2 | _ \<Rightarrow> 0) + length (pending s)"

lemma silent_work: "os_step s e b t \<Longrightarrow> silent_event e \<Longrightarrow> work t < work s"
  by (erule os_stepE)
    (auto simp: work_def os_clock_ops length_remove1 dest: length_pos_if_in_set
      split: option.splits settle_timer.splits bool.splits if_splits)

lemma silent_phase:
  "os_step s e b t \<Longrightarrow> silent_event e \<Longrightarrow> phase (dev t) = OsClockSourceSelected \<or> b \<longleftrightarrow> phase (dev s) = OsClockSourceSelected"
  "os_step s e b t \<Longrightarrow> silent_event e \<Longrightarrow> \<not> (phase (dev t) = OsClockSourceSelected \<and> b)"
  by (auto elim!: os_stepE simp: os_clock_ops split: if_splits)

lemma silent_run_work: "silent_run s bs u \<Longrightarrow> length bs + work u \<le> work s"
  by (induction rule: silent_run.induct) (fastforce dest: silent_work)+

lemma silent_run_live: "silent_run s bs u \<Longrightarrow> os_live s \<Longrightarrow> os_live u"
  by (induction rule: silent_run.induct) (auto dest: os_step_live)

lemma silent_run_reports:
  "silent_run s bs u \<Longrightarrow> length (filter id bs) + of_bool (phase (dev u) = OsClockSourceSelected) =
    of_bool (phase (dev s) = OsClockSourceSelected)"
proof (induction rule: silent_run.induct)
  case (more s e b t bs u)
  then show ?case using silent_phase [OF more.hyps(1,2)] by (auto simp: of_bool_def split: if_splits)
qed simp

lemma at_rest_phase: "os_live s \<Longrightarrow> at_rest s \<Longrightarrow> phase (dev s) \<noteq> OsClockSourceSelected"
  by (auto simp: os_live_def at_rest_def split: option.splits settle_timer.splits)

lemma silent_step_ex: "\<not> at_rest s \<Longrightarrow> \<exists>e b t. os_step s e b t \<and> silent_event e"
proof (cases "pending s")
  case (Cons g gs)
  then show ?thesis
    using os_step.callback [of g s] by (metis list.set_intros(1) prod.exhaust silent_event.simps(2))
next
  case Nil
  assume "\<not> at_rest s"
  with Nil obtain g where "settle (dev s) = Some (SettleTimer g False)"
    by (auto simp: at_rest_def split: option.splits settle_timer.splits)
  then show ?thesis using os_step.fire silent_event.simps(1) by blast
qed

lemma silent_run_rests: "\<exists>bs u. silent_run s bs u \<and> at_rest u"
proof (induction "work s" arbitrary: s rule: less_induct)
  case less
  show ?case
  proof (cases "at_rest s")
    case True
    then show ?thesis using silent_run.none by blast
  next
    case False
    then obtain e b t where st: "os_step s e b t" "silent_event e" using silent_step_ex by blast
    then show ?thesis using less [OF silent_work [OF st]] silent_run.more by blast
  qed
qed

text \<open>C13: silence ends. Without further log lines the machine takes at most \<open>work s\<close> steps, whatever the
  order of the timer and of late callbacks, and it can always come to rest; when it is at rest no source
  clock is selected, and FREERUN was reported exactly once if one was selected and never otherwise.\<close>
theorem silence_ends:
  assumes "os_run h s"
  shows "(\<forall>bs u. silent_run s bs u \<longrightarrow> length bs \<le> work s) \<and> (\<exists>bs u. silent_run s bs u \<and> at_rest u) \<and>
    (\<forall>bs u. silent_run s bs u \<longrightarrow> at_rest u \<longrightarrow> phase (dev u) \<noteq> OsClockSourceSelected \<and>
      length (filter id bs) = (if phase (dev s) = OsClockSourceSelected then 1 else 0))"
proof -
  have "length bs \<le> work s" if "silent_run s bs u" for bs u using silent_run_work [OF that] by simp
  moreover have "phase (dev u) \<noteq> OsClockSourceSelected \<and>
      length (filter id bs) = (if phase (dev s) = OsClockSourceSelected then 1 else 0)"
    if "silent_run s bs u" "at_rest u" for bs u
    using at_rest_phase [OF silent_run_live [OF that(1) os_run_live [OF assms]] that(2)]
      silent_run_reports [OF that(1)] by auto
  ultimately show ?thesis using silent_run_rests by blast
qed

theorem silence_ends_witness:
  "\<exists>bs u. silent_run burst_sys bs u \<and> at_rest u \<and> length bs \<le> 1 \<and> length (filter id bs) = 1"
proof -
  have "work burst_sys = 1" and "phase (dev burst_sys) = OsClockSourceSelected"
    by (simp_all add: work_def burst_sys_def burst_dev_def os_clock_ops os_clock_zero_def)
  then show ?thesis using silence_ends [OF burst_run] by (metis (full_types))
qed

text \<open>Every step of the code is a transition of the documented diagram, and it reports exactly
  on the transition from source-selected to undisciplined; a callback of a superseded
  generation neither reports nor changes the machine.\<close>
theorem os_clock_refines_diagram:
  assumes "os_step s e b t"
  shows "diagram (phase (dev s)) b (phase (dev t)) \<and>
    (\<forall>g. e = EvCallback g \<and> g \<noteq> selectGen (dev s) \<longrightarrow> \<not> b \<and> dev t = dev s)"
  using assms os_step_diagram [OF assms]
  by (auto elim!: os_stepE simp: FinaliseIfGeneration_def)

theorem os_clock_refines_diagram_witness:
  "diagram OsClockSourceSelected True OsClockUndisciplined"
  using os_clock_refines_diagram [OF burst_report]
  by (simp add: burst_sys_def burst_dev_def os_clock_ops os_clock_zero_def)

end
