(* ===== verification/StatsModel.thy ===== *)
theory StatsModel
  imports EventState OsClock
begin

text \<open>
  \<open>stats/stats.go\<close>: what the plug-in keeps per clock (an interface, the master offset or
  CLOCK_REALTIME), the SyncE port states, and the table of clocks of one configuration. The 64-bit
  fields are integers wrapped by \<open>wrap64\<close>.
\<close>

section \<open>Data\<close>

record port_state =
  ps_Name :: string
  ps_State :: sync_state
  ClockQuality :: string
  QL :: "8 word"
  ExtQL :: "8 word"
  ExtendedTvlEnabled :: bool
  LastQLState :: int

record synce_stats =
  se_Name :: string
  ExtSource :: string
  Port :: "(string, port_state) gomap"
  ClockState :: sync_state
  NetworkOption :: int

record stats =
  configName :: string
  offsetSource :: string
  processName :: string
  s_num :: int
  s_max :: int
  s_min :: int
  s_mean :: int
  sumSqr :: int
  sumDiffSqr :: int
  frequencyAdjustment :: int
  s_delay :: int
  lastOffset :: int
  lastSyncState :: sync_state
  aliasName :: string
  clockClass :: int
  s_role :: port_role
  ptpDependentEventState :: "event_state option"
  configDeleted :: bool
  syncE :: "synce_stats option"
  s_OsClock :: os_clock

type_synonym PTPStats = "(string, stats) gomap"

definition NewStats :: "string \<Rightarrow> stats" where
  "NewStats cfg =
    \<lparr>configName = cfg, offsetSource = '''', processName = '''', s_num = 0, s_max = 0, s_min = 0,
     s_mean = 0, sumSqr = 0, sumDiffSqr = 0, frequencyAdjustment = 0, s_delay = 0, lastOffset = 0,
     lastSyncState = NoState, aliasName = '''', clockClass = 0, s_role = PASSIVE,
     ptpDependentEventState = None, configDeleted = False, syncE = None,
     s_OsClock = os_clock_zero\<rparr>"

section \<open>The sample window\<close>

text \<open>
  Every Go operation wraps. The count is divided by only after it was incremented; it is zero
  there after \<open>2 ^ 64\<close> samples only.
\<close>

definition AddValue :: "int \<Rightarrow> stats \<Rightarrow> stats" where
  "AddValue val s =
    (let oldMean = s_mean s;
         s = (if s_max s < val then s\<lparr>s_max := val\<rparr> else s);
         s = (if s_num s = 0 \<or> s_min s > val then s\<lparr>s_min := val\<rparr> else s);
         s = s\<lparr>s_num := wrap64 (s_num s + 1)\<rparr>;
         s = s\<lparr>s_mean := wrap64 (oldMean + quot64 (wrap64 (val - oldMean)) (s_num s))\<rparr>;
         s = s\<lparr>sumSqr := wrap64 (sumSqr s + wrap64 (val * val))\<rparr>
     in s\<lparr>sumDiffSqr := wrap64 (sumDiffSqr s
            + wrap64 (wrap64 (val - oldMean) * wrap64 (val - s_mean s)))\<rparr>)"

definition MaxAbs :: "stats \<Rightarrow> int" where
  "MaxAbs s = (if s_max s > s_min s then s_max s else s_min s)"

definition stats_reset :: "stats \<Rightarrow> stats" where
  "stats_reset s =
    s\<lparr>s_num := 0, s_max := 0, s_mean := 0, s_min := 0, sumDiffSqr := 0, sumSqr := 0,
      aliasName := '''', s_role := UNKNOWN, frequencyAdjustment := 0, s_delay := 0, clockClass := 0,
      configDeleted := False, processName := '''', lastOffset := 0, offsetSource := '''',
      s_OsClock := OsReset (s_OsClock s)\<rparr>"

section \<open>Setters\<close>

definition SetOffsetSource :: "string \<Rightarrow> stats \<Rightarrow> stats" where
  "SetOffsetSource os s = s\<lparr>offsetSource := os\<rparr>"

definition SetProcessName :: "string \<Rightarrow> stats \<Rightarrow> stats" where
  "SetProcessName p s = s\<lparr>processName := p\<rparr>"

definition StSetAlias :: "string \<Rightarrow> stats \<Rightarrow> stats" where
  "StSetAlias val s = s\<lparr>aliasName := val\<rparr>"

definition SetFrequencyAdjustment :: "int \<Rightarrow> stats \<Rightarrow> stats" where
  "SetFrequencyAdjustment val s = s\<lparr>frequencyAdjustment := val\<rparr>"

definition SetDelay :: "int \<Rightarrow> stats \<Rightarrow> stats" where
  "SetDelay val s = s\<lparr>s_delay := val\<rparr>"

definition SetLastOffset :: "int \<Rightarrow> stats \<Rightarrow> stats" where
  "SetLastOffset val s = s\<lparr>lastOffset := val\<rparr>"

definition SetClockClass :: "int \<Rightarrow> stats \<Rightarrow> stats" where
  "SetClockClass val s = s\<lparr>clockClass := val\<rparr>"

definition SetLastSyncState :: "sync_state \<Rightarrow> stats \<Rightarrow> stats" where
  "SetLastSyncState val s = s\<lparr>lastSyncState := val\<rparr>"

definition SetRole :: "port_role \<Rightarrow> stats \<Rightarrow> stats" where
  "SetRole r s = s\<lparr>s_role := r\<rparr>"

definition SetSyncE :: "synce_stats \<Rightarrow> stats \<Rightarrow> stats" where
  "SetSyncE se s = s\<lparr>syncE := Some se\<rparr>"

lemmas stats_setters = SetOffsetSource_def SetProcessName_def StSetAlias_def
  SetFrequencyAdjustment_def SetDelay_def SetLastOffset_def SetClockClass_def
  SetLastSyncState_def SetRole_def SetSyncE_def

section \<open>The dependent event state\<close>

definition GetCurrentDependentEventState :: "stats \<Rightarrow> sync_state" where
  "GetCurrentDependentEventState s =
    (case ptpDependentEventState s of None \<Rightarrow> LOCKED | Some e \<Rightarrow> CurrentPTPStateEvent e)"

definition SetPtpDependentEventState ::
  "clock_state \<Rightarrow> nat option \<Rightarrow> (string, string) gomap option \<Rightarrow> stats \<times> world \<Rightarrow> (unit, stats \<times> world) res" where
  "SetPtpDependentEventState e metrics help sw =
    (let (s, w) = sw;
         es = (case ptpDependentEventState s of None \<Rightarrow> new_event_state | Some x \<Rightarrow> x);
         s = s\<lparr>ptpDependentEventState := Some es\<rparr>
     in if configDeleted s then Ok () (s, w)
        else (case UpdateCurrentEventState e metrics help (es, w) of
            Ok _ (es, w) \<Rightarrow> Ok () (s\<lparr>ptpDependentEventState := Some es\<rparr>, w)
          | Panic (es, w) \<Rightarrow> Panic (s\<lparr>ptpDependentEventState := Some es\<rparr>, w)))"

definition dep_lookup :: "string \<Rightarrow> stats \<Rightarrow> clock_state list option" where
  "dep_lookup proc s =
    (case ptpDependentEventState s of None \<Rightarrow> None | Some e \<Rightarrow> map_of (DependsOn e) proc)"

text \<open>
  The readers walk a process' entries; \<open>*state.IFace\<close> of an entry without an interface is a nil
  dereference. Results: \<open>None\<close> for the panic, \<open>Some None\<close> for the error.
\<close>

fun find_state :: "string \<Rightarrow> clock_state list \<Rightarrow> sync_state option option" where
  "find_state iface [] = Some None"
| "find_state iface (d # ds) =
    (case cs_IFace d of
      None \<Rightarrow> None
    | Some i \<Rightarrow> if i = iface then Some (Some (cs_State d)) else find_state iface ds)"

definition GetStateState :: "string \<Rightarrow> string option \<Rightarrow> stats \<Rightarrow> sync_state option option" where
  "GetStateState proc iface s =
    (case dep_lookup proc s of
      None \<Rightarrow> Some None
    | Some d \<Rightarrow>
        (case iface of
          None \<Rightarrow> Some (case d of [] \<Rightarrow> None | e # _ \<Rightarrow> Some (cs_State e))
        | Some i \<Rightarrow> find_state i d))"

definition entry_value :: "string \<Rightarrow> clock_state \<Rightarrow> (int \<times> float64 \<times> sync_state) option option" where
  "entry_value key d =
    (case map_of (cs_Value d) key of
      None \<Rightarrow> Some None
    | Some v \<Rightarrow> (case cs_Offset d of None \<Rightarrow> None | Some off \<Rightarrow> Some (Some (v, off, cs_State d))))"

fun find_value ::
  "string \<Rightarrow> string \<Rightarrow> clock_state list \<Rightarrow> (int \<times> float64 \<times> sync_state) option option" where
  "find_value iface key [] = Some None"
| "find_value iface key (d # ds) =
    (case cs_IFace d of
      None \<Rightarrow> None
    | Some i \<Rightarrow>
        if i = iface then
          (case entry_value key d of
            Some None \<Rightarrow> find_value iface key ds
          | r \<Rightarrow> r)
        else find_value iface key ds)"

text \<open>On the error the code returns 0, 99999999999 and FREERUN with it.\<close>

definition GetDependsOnValueState ::
  "string \<Rightarrow> string option \<Rightarrow> string \<Rightarrow> stats \<Rightarrow> (int \<times> float64 \<times> sync_state) option option" where
  "GetDependsOnValueState proc iface key s =
    (case dep_lookup proc s of
      None \<Rightarrow> Some None
    | Some d \<Rightarrow>
        (case iface of
          None \<Rightarrow> (case d of [] \<Rightarrow> Some None | e # _ \<Rightarrow> entry_value key e)
        | Some i \<Rightarrow> find_value i key d))"

definition value_or_default :: "(int \<times> float64 \<times> sync_state) option \<Rightarrow> int \<times> float64 \<times> sync_state" where
  "value_or_default r = (case r of None \<Rightarrow> (0, float_of_int 99999999999, FREERUN) | Some x \<Rightarrow> x)"

definition HasProcessEnabled :: "string \<Rightarrow> stats \<Rightarrow> bool" where
  "HasProcessEnabled proc s = (dep_lookup proc s \<noteq> None)"

text \<open>The guard is \<open>len(d) >= index\<close>; an index equal to the length, or a negative one, panics.\<close>

definition GetInterfaceByIndex :: "string \<Rightarrow> int \<Rightarrow> stats \<Rightarrow> string option option" where
  "GetInterfaceByIndex proc index s =
    (case dep_lookup proc s of
      None \<Rightarrow> Some None
    | Some d \<Rightarrow>
        if int (length d) \<ge> index then
          (if 0 \<le> index \<and> nat index < length d then Some (cs_IFace (d ! nat index)) else None)
        else Some None)"

definition StDeleteAllMetrics :: "gauge_vec list \<Rightarrow> stats \<times> world \<Rightarrow> gauge_vec list \<times> stats \<times> world" where
  "StDeleteAllMetrics m sw =
    (case ptpDependentEventState (fst sw) of
      None \<Rightarrow> (m, sw)
    | Some e \<Rightarrow>
        (let (m, e, w) = DeleteAllMetrics m (e, snd sw)
         in (m, (fst sw)\<lparr>ptpDependentEventState := Some e\<rparr>, w)))"

section \<open>SyncE\<close>

definition GetSyncEPortStats :: "string \<Rightarrow> synce_stats \<Rightarrow> port_state option" where
  "GetSyncEPortStats source ss = map_of (Port ss) source"

definition synce_join :: "sync_state \<Rightarrow> sync_state \<Rightarrow> sync_state" where
  "synce_join p currentState =
    (case p of
      HOLDOVER \<Rightarrow> HOLDOVER
    | FREERUN \<Rightarrow> if currentState \<noteq> HOLDOVER then FREERUN else currentState
    | LOCKED \<Rightarrow> if currentState \<noteq> HOLDOVER \<and> currentState \<noteq> FREERUN then LOCKED else currentState
    | _ \<Rightarrow> currentState)"

definition UpdateSyncEClockState :: "synce_stats \<Rightarrow> synce_stats" where
  "UpdateSyncEClockState ss =
    ss\<lparr>ClockState := fold (\<lambda>(k, p) cur. synce_join (ps_State p) cur) (Port ss) LOCKED\<rparr>"

definition DeleteSyncEMetrics :: "string \<Rightarrow> string \<Rightarrow> synce_stats \<Rightarrow> registry \<Rightarrow> registry" where
  "DeleteSyncEMetrics process cfgName ss r =
    fold (\<lambda>iface r.
      let base = [(''process'', process), (''node'', ptpNodeName r), (''profile'', cfgName),
                  (''iface'', iface), (''device'', se_Name ss),
                  (''network_option'', itoa (NetworkOption ss))]
      in r\<lparr>SynceQLInfo := gauge_delete (base @ [(''ql_type'', ''Extended SSM'')])
              (gauge_delete (base @ [(''ql_type'', ''SSM'')]) (SynceQLInfo r)),
           SynceClockQL := gauge_delete base (SynceClockQL r),
           SyncState := gauge_delete [(''process'', process), (''node'', ptpNodeName r), (''iface'', iface)]
              (SyncState r)\<rparr>) (map fst (Port ss)) r"

section \<open>The table of one configuration\<close>

definition CheckSource :: "string \<Rightarrow> string \<Rightarrow> string \<Rightarrow> PTPStats \<Rightarrow> PTPStats" where
  "CheckSource k cfg proc ps =
    (if map_of ps k = None then AList.update k (SetProcessName proc (NewStats cfg)) ps else ps)"

definition SetConfigAsDeleted :: "bool \<Rightarrow> PTPStats \<Rightarrow> PTPStats" where
  "SetConfigAsDeleted state ps = map (\<lambda>(k, s). (k, s\<lparr>configDeleted := state\<rparr>)) ps"

definition StatsReset :: "PTPStats \<Rightarrow> PTPStats" where
  "StatsReset ps = map (\<lambda>(k, s). (k, stats_reset s)) ps"

text \<open>The first entry of the process found in any clock of the table.\<close>

fun first_dep :: "string \<Rightarrow> PTPStats \<Rightarrow> clock_state option" where
  "first_dep proc [] = None"
| "first_dep proc ((k, s) # ps) =
    (case dep_lookup proc s of
      Some (c # _) \<Rightarrow> Some c
    | _ \<Rightarrow> first_dep proc ps)"

definition HasMetrics :: "string \<Rightarrow> PTPStats \<Rightarrow> nat option" where
  "HasMetrics proc ps = (case first_dep proc ps of None \<Rightarrow> None | Some c \<Rightarrow> cs_Metric c)"

definition HasMetricHelp :: "string \<Rightarrow> PTPStats \<Rightarrow> (string, string) gomap option" where
  "HasMetricHelp proc ps = (case first_dep proc ps of None \<Rightarrow> None | Some c \<Rightarrow> cs_HelpText c)"

definition GetMainClockName :: "PTPStats \<Rightarrow> string" where
  "GetMainClockName ps =
    (if map_of ps GMMainClockName \<noteq> None then GMMainClockName
     else if map_of ps TBCMainClockName \<noteq> None then TBCMainClockName
     else MasterClockType)"

section \<open>What the sample window holds\<close>

lemma sdiv_between:
  fixes d n :: int
  assumes "1 \<le> n"
  shows "0 \<le> d \<Longrightarrow> 0 \<le> d sdiv n \<and> d sdiv n \<le> d"
    and "d \<le> 0 \<Longrightarrow> d \<le> d sdiv n \<and> d sdiv n \<le> 0"
proof -
  have "x div n \<le> x" if "0 \<le> x" for x
    using that assms zdiv_mono2 [of x 1 n] by simp
  then show "0 \<le> d \<Longrightarrow> 0 \<le> d sdiv n \<and> d sdiv n \<le> d"
    using assms by (auto simp: signed_divide_int_def sgn_if pos_imp_zdiv_nonneg_iff)
next
  have le: "x div n \<le> x" if "0 \<le> x" for x
    using that assms zdiv_mono2 [of x 1 n] by simp
  show "d \<le> 0 \<Longrightarrow> d \<le> d sdiv n \<and> d sdiv n \<le> 0"
    using assms le [of "- d"]
    by (auto simp: signed_divide_int_def sgn_if pos_imp_zdiv_nonneg_iff)
qed

text \<open>A moving mean stays between the old mean and the new sample.\<close>

lemma mean_step_between:
  assumes "1 \<le> n" and "lo \<le> m" "m \<le> hi" "lo \<le> v" "v \<le> hi"
    and "- (2 ^ 62) < lo" and "hi < 2 ^ 62"
  shows "lo \<le> wrap64 (m + quot64 (wrap64 (v - m)) n) \<and> wrap64 (m + quot64 (wrap64 (v - m)) n) \<le> hi"
proof -
  let ?q = "(v - m) sdiv n"
  have rng: "is_int64 (v - m)" using assms by (auto simp: is_int64_def)
  have q: "(0 \<le> ?q \<and> ?q \<le> v - m) \<or> (v - m \<le> ?q \<and> ?q \<le> 0)"
    using sdiv_between [OF assms(1), of "v - m"] by linarith
  then have "is_int64 ?q" using rng by (auto simp: is_int64_def)
  moreover have mq: "lo \<le> m + ?q \<and> m + ?q \<le> hi" using q assms by linarith
  then have "is_int64 (m + ?q)" using assms by (auto simp: is_int64_def)
  ultimately show ?thesis using rng mq by (simp add: quot64_def)
qed

definition window_inv :: "int list \<Rightarrow> stats \<Rightarrow> bool" where
  "window_inv vs s \<longleftrightarrow> s_num s = int (length vs) \<and> s_max s = Max (insert 0 (set vs)) \<and>
    (if vs = [] then s_min s = 0 \<and> s_mean s = 0
     else s_min s = Min (set vs) \<and> Min (set vs) \<le> s_mean s \<and> s_mean s \<le> Max (set vs))"

lemma AddValue_fields:
  "s_num (AddValue v s) = wrap64 (s_num s + 1)"
  "s_max (AddValue v s) = max (s_max s) v"
  "s_min (AddValue v s) = (if s_num s = 0 then v else min (s_min s) v)"
  "s_mean (AddValue v s) = wrap64 (s_mean s + quot64 (wrap64 (v - s_mean s)) (wrap64 (s_num s + 1)))"
  by (auto simp: AddValue_def Let_def)

lemma AddValue_frame [frame_simps]:
  "lastSyncState (AddValue v s) = lastSyncState s"
  "lastOffset (AddValue v s) = lastOffset s"
  "s_role (AddValue v s) = s_role s"
  "aliasName (AddValue v s) = aliasName s"
  "processName (AddValue v s) = processName s"
  "ptpDependentEventState (AddValue v s) = ptpDependentEventState s"
  "s_OsClock (AddValue v s) = s_OsClock s"
  by (auto simp: AddValue_def Let_def)

lemma window_inv_step:
  assumes inv: "window_inv vs s" and len: "int (length vs) < 2 ^ 62"
    and rng: "\<forall>x\<in>set (vs @ [v]). - (2 ^ 62) < x \<and> x < 2 ^ 62"
  shows "window_inv (vs @ [v]) (AddValue v s)"
proof (cases "vs = []")
  case True
  then have s: "s_num s = 0" "s_max s = 0" "s_mean s = 0" using inv by (auto simp: window_inv_def)
  have "is_int64 v" "is_int64 1" "is_int64 0" using rng by (auto simp: is_int64_def)
  then have "wrap64 (quot64 (wrap64 v) (wrap64 1)) = v" by (simp add: quot64_def signed_divide_int_def sgn_if)
  then show ?thesis
    using s True \<open>is_int64 1\<close> by (simp add: window_inv_def AddValue_fields max.commute)
next
  case False
  let ?lo = "Min (set (vs @ [v]))" and ?hi = "Max (set (vs @ [v]))"
  have s: "s_num s = int (length vs)" "s_max s = Max (insert 0 (set vs))" "s_min s = Min (set vs)"
    "Min (set vs) \<le> s_mean s" "s_mean s \<le> Max (set vs)"
    using inv False by (auto simp: window_inv_def)
  have n: "wrap64 (s_num s + 1) = int (length vs) + 1"
    using len s(1) by (simp add: is_int64_def)
  have ne: "set vs \<noteq> {}" using False by simp
  have lohi: "?lo = min (Min (set vs)) v" "?hi = max (Max (set vs)) v"
    using ne by (simp_all add: min.commute max.commute)
  have mem: "?lo \<in> set (vs @ [v])" "?hi \<in> set (vs @ [v])"
    by (intro Min_in Max_in; simp)+
  have "?lo \<le> s_mean (AddValue v s) \<and> s_mean (AddValue v s) \<le> ?hi"
    unfolding AddValue_fields n
  proof (rule mean_step_between)
    show "?lo \<le> s_mean s" using s(4) lohi by linarith
    show "s_mean s \<le> ?hi" using s(5) lohi by linarith
  qed (use lohi mem rng in auto)
  moreover have "Max (insert 0 (set (vs @ [v]))) = max (s_max s) v"
    using s(2) ne by (simp add: max.commute max.left_commute)
  ultimately show ?thesis
    using s False n lohi by (simp add: window_inv_def AddValue_fields)
qed

lemma window_inv_fold:
  "int (length vs) < 2 ^ 62 \<Longrightarrow> \<forall>x\<in>set vs. - (2 ^ 62) < x \<and> x < 2 ^ 62 \<Longrightarrow>
    window_inv [] s \<Longrightarrow> window_inv vs (fold AddValue vs s)"
proof (induction vs rule: rev_induct)
  case Nil
  then show ?case by simp
next
  case (snoc v vs)
  have "window_inv (vs @ [v]) (AddValue v (fold AddValue vs s))"
    using snoc by (intro window_inv_step) auto
  then show ?case by simp
qed

text \<open>C29: the sample window. After any number of samples from a reset, the count is the number of
  samples, the minimum their minimum, the mean lies between their minimum and maximum (no
  intermediate overflow), and what \<open>MaxAbs\<close> reports is the largest of 0 and the samples: the
  magnitude of a negative sample is never reported.\<close>
theorem AddValue_window:
  assumes "vs \<noteq> []" and "int (length vs) < 2 ^ 62" and "\<forall>x\<in>set vs. \<bar>x\<bar> < 2 ^ 62"
  shows "let s = fold AddValue vs (stats_reset s0) in
    s_num s = int (length vs) \<and> s_min s = Min (set vs) \<and> Min (set vs) \<le> s_mean s \<and>
    s_mean s \<le> Max (set vs) \<and> MaxAbs s = Max (insert 0 (set vs))"
proof -
  have "\<forall>x\<in>set vs. - (2 ^ 62) < x \<and> x < 2 ^ 62" using assms(3) by (auto simp: abs_less_iff)
  then have inv: "window_inv vs (fold AddValue vs (stats_reset s0))"
    using assms(2) by (intro window_inv_fold) (simp_all add: window_inv_def stats_reset_def)
  have "Min (set vs) \<le> Max (insert 0 (set vs))"
    using assms(1) by (metis List.finite_set Max_ge Min_in finite_insert insertI2 set_empty)
  then show ?thesis
    using inv assms(1) by (auto simp: window_inv_def MaxAbs_def Let_def)
qed

theorem AddValue_window_witness:
  "let s = fold AddValue [-50, -70] (stats_reset (NewStats ''ptp4l.0.config'')) in
    s_num s = 2 \<and> s_min s = -70 \<and> MaxAbs s = 0"
  using AddValue_window [of "[-50, -70]" "NewStats ''ptp4l.0.config''"] by (simp add: Let_def)

section \<open>The SyncE clock state\<close>

definition synce_pick :: "sync_state list \<Rightarrow> sync_state \<Rightarrow> sync_state" where
  "synce_pick xs cur =
    (if cur = HOLDOVER \<or> HOLDOVER \<in> set xs then HOLDOVER
     else if cur = FREERUN \<or> FREERUN \<in> set xs then FREERUN
     else if LOCKED \<in> set xs then LOCKED else cur)"

lemma synce_pick_step: "synce_pick xs (synce_join x cur) = synce_pick (x # xs) cur"
  by (cases x) (auto simp: synce_pick_def synce_join_def)

lemma synce_fold:
  "fold (\<lambda>(k, p) cur. synce_join (ps_State p) cur) ps cur = synce_pick (map (\<lambda>(k, p). ps_State p) ps) cur"
proof (induction ps arbitrary: cur)
  case Nil
  then show ?case by (auto simp: synce_pick_def)
next
  case (Cons kp ps)
  obtain k p where kp: "kp = (k, p)" by (cases kp)
  show ?case by (simp add: kp Cons.IH synce_pick_step)
qed

text \<open>The SyncE clock state is the worst state of its ports in every visiting order of the port
  map: HOLDOVER before FREERUN before LOCKED, states of no other kind counted. This ranks HOLDOVER
  above FREERUN, the opposite of the ranking of the node's overall state.\<close>
theorem synce_clock_state_worst:
  "ClockState (UpdateSyncEClockState ss) =
    (if (\<exists>(k, p)\<in>set (Port ss). ps_State p = HOLDOVER) then HOLDOVER
     else if (\<exists>(k, p)\<in>set (Port ss). ps_State p = FREERUN) then FREERUN else LOCKED) \<and>
   Port (UpdateSyncEClockState ss) = Port ss \<and> OverallState HOLDOVER FREERUN = FREERUN"
proof -
  have "(\<exists>(k, p)\<in>set (Port ss). ps_State p = x) \<longleftrightarrow> x \<in> set (map (\<lambda>(k, p). ps_State p) (Port ss))" for x
    by force
  then show ?thesis
    by (simp only: UpdateSyncEClockState_def synce_fold synce_pick_def) (simp add: OverallState.simps)
qed

end
