(* ===== verification/PtpConf.thy ===== *)
theory PtpConf
  imports World
begin

text \<open>
  \<open>ptp4lconf/ptp4lConfig.go\<close>: the configuration files of ptp4l, phc2sys, synce4l and chronyd. The
  regular expressions are written out as the matchers they are; the text is read as bytes. File
  contents come from the parameter \<open>readFile\<close>.
\<close>

section \<open>Data\<close>

record ptp_config_update =
  u_Name :: string
  Ptp4lConf :: "string option"
  u_Profile :: "string option"
  Removed :: bool

record ptp_interface =
  pi_Name :: string
  PortID :: int
  PortName :: string
  Role :: port_role

datatype profile_type = TBC_profile | TGM_profile | NONE_profile | UnsetProfile

record ptp4l_config =
  pc_Name :: string
  pc_Profile :: string
  Interfaces :: "ptp_interface option list"     \<comment> \<open>pointers; nil: \<open>None\<close>\<close>
  Sections :: "(string, (string, string) gomap) gomap"
  ProfileType :: profile_type

definition zero_interface :: ptp_interface where
  "zero_interface = \<lparr>pi_Name = '''', PortID = 0, PortName = '''', Role = PASSIVE\<rparr>"

definition find_interface :: "(ptp_interface \<Rightarrow> bool) \<Rightarrow> ptp4l_config \<Rightarrow> ptp_interface option" where
  "find_interface P cfg =
    (case find (\<lambda>p. p \<noteq> None \<and> P (the p)) (Interfaces cfg) of None \<Rightarrow> None | Some p \<Rightarrow> p)"

definition PtpConfigUpdate_String :: "ptp_config_update \<Rightarrow> string" where
  "PtpConfigUpdate_String u = '' name:'' @ u_Name u @ ''  ptp4lconf:'' @ (case Ptp4lConf u of None \<Rightarrow> [] | Some c \<Rightarrow> c) @
     '' removed:'' @ (if Removed u then ''true'' else ''false'')"

text \<open>The text of a configuration; a nil interface panics: \<open>None\<close>.\<close>

definition interface_String :: "ptp_interface \<Rightarrow> string" where
  "interface_String p =
    (let nl = [CHR 0x0A] in
     ''  name: '' @ pi_Name p @ nl @ ''  portName: '' @ PortName p @ nl @ ''  role: '' @ role_String (Role p) @ nl @
     ''  portID: '' @ itoa (PortID p) @ nl)"

definition PTP4lConfig_String :: "ptp4l_config \<Rightarrow> string option" where
  "PTP4lConfig_String cfg =
    (let nl = [CHR 0x0A]; cr = [CHR 0x0D, CHR 0x0A] in
     if None \<in> set (Interfaces cfg) then None
     else Some (''  configName: '' @ pc_Name cfg @ cr @ ''  profileName: '' @ pc_Profile cfg @ cr @
       ''  Ptp4lConfigInterfaces: '' @ nl @ concat (map (\<lambda>p. interface_String (the p)) (Interfaces cfg))))"

text \<open>The error prints the configuration, so a nil interface panics when the role is not found: the outer \<open>None\<close>.\<close>

definition ByRole :: "port_role \<Rightarrow> ptp4l_config \<Rightarrow> ptp_interface option option" where
  "ByRole r cfg =
    (case find_interface (\<lambda>p. Role p = r) cfg of
      Some p \<Rightarrow> Some (Some p)
    | None \<Rightarrow> (case PTP4lConfig_String cfg of None \<Rightarrow> None | Some _ \<Rightarrow> Some None))"

definition ByInterface :: "string \<Rightarrow> ptp4l_config \<Rightarrow> ptp_interface option" where
  "ByInterface iface cfg = find_interface (\<lambda>p. pi_Name p = iface) cfg"

definition ByPortID :: "int \<Rightarrow> ptp4l_config \<Rightarrow> ptp_interface option" where
  "ByPortID i cfg = find_interface (\<lambda>p. PortID p = i) cfg"

text \<open>The alias of the first interface; the flag is the error. A nil first entry panics.\<close>

definition GetUnknownAlias :: "ptp4l_config \<Rightarrow> world \<Rightarrow> (string \<times> bool, world) res" where
  "GetUnknownAlias cfg w =
    (case Interfaces cfg of
      [] \<Rightarrow> Ok (''unknown'', True) w
    | None # _ \<Rightarrow> Panic w
    | Some p # _ \<Rightarrow> (let (a, w) = world_alias (pi_Name p) w in Ok (a, False) w))"

definition GetAliasByInterface :: "ptp_interface \<Rightarrow> world \<Rightarrow> string \<times> world" where
  "GetAliasByInterface p w = world_alias (pi_Name p) w"

definition UpdateRole :: "port_role \<Rightarrow> ptp_interface \<Rightarrow> ptp_interface" where
  "UpdateRole r p = p\<lparr>Role := r\<rparr>"

section \<open>File names\<close>

definition is_newline :: "char \<Rightarrow> bool" where
  "is_newline c = (c = CHR 0x0A)"

text \<open>\<open>[0-9]*.config\<close> at the start of the text: the star gives back digits as needed.\<close>

fun digits_dot_config :: "string \<Rightarrow> bool" where
  "digits_dot_config [] = False"
| "digits_dot_config (c # s) =
    ((\<not> is_newline c \<and> has_prefix s ''config'') \<or> (is_digit c \<and> digits_dot_config s))"

definition conf_at :: "string \<Rightarrow> string \<Rightarrow> bool" where
  "conf_at proc s =
    (has_prefix s proc \<and>
     (case drop (length proc) s of [] \<Rightarrow> False | c # t \<Rightarrow> \<not> is_newline c \<and> digits_dot_config t))"

fun conf_match :: "string \<Rightarrow> string \<Rightarrow> bool" where
  "conf_match proc [] = conf_at proc []"
| "conf_match proc (c # s) = (conf_at proc (c # s) \<or> conf_match proc s)"

definition checkIfPtP4lConf :: "string \<Rightarrow> bool" where
  "checkIfPtP4lConf f = conf_match ''ptp4l'' f"

definition checkIfPhc2SysConf :: "string \<Rightarrow> bool" where
  "checkIfPhc2SysConf f = conf_match ''phc2sys'' f"

definition checkIfSyncE4lConf :: "string \<Rightarrow> bool" where
  "checkIfSyncE4lConf f = conf_match ''synce4l'' f"

definition checkIfChronydConf :: "string \<Rightarrow> bool" where
  "checkIfChronydConf f = conf_match ''chronyd'' f"

definition is_conf :: "string \<Rightarrow> bool" where
  "is_conf f = (checkIfPtP4lConf f \<or> checkIfPhc2SysConf f \<or> checkIfSyncE4lConf f \<or> checkIfChronydConf f)"

text \<open>What follows the last slash.\<close>

definition path_filename :: "string \<Rightarrow> string" where
  "path_filename path = rev (takeWhile (\<lambda>c. c \<noteq> CHR ''/'') (rev path))"

section \<open>Reading a configuration text\<close>

text \<open>All matches of \<open>\[([^\[\]]*)\]\<close>; the first argument is the open bracket's text, reversed.\<close>

fun section_heads :: "string option \<Rightarrow> string \<Rightarrow> string list" where
  "section_heads open_text [] = []"
| "section_heads None (c # s) = (if c = CHR ''['' then section_heads (Some []) s else section_heads None s)"
| "section_heads (Some acc) (c # s) =
    (if c = CHR '']'' then rev acc # section_heads None s
     else if c = CHR ''['' then section_heads (Some []) s
     else section_heads (Some (c # acc)) s)"

definition GetAllInterface :: "ptp_config_update \<Rightarrow> string list" where
  "GetAllInterface p =
    (case Ptp4lConf p of
      None \<Rightarrow> []
    | Some conf \<Rightarrow> filter (\<lambda>v. v \<noteq> ''global'' \<and> \<not> checkIfPtP4lConf v) (section_heads None conf))"

text \<open>\<open>bufio.ScanLines\<close>: an empty last line is not delivered, one carriage return is dropped.\<close>

definition drop_cr :: "string \<Rightarrow> string" where
  "drop_cr l = (if l \<noteq> [] \<and> last l = CHR 0x0D then butlast l else l)"

definition scan_lines :: "string \<Rightarrow> string list" where
  "scan_lines s =
    (let ls = str_split CHR 0x0A s in map drop_cr (if last ls = [] then butlast ls else ls))"

definition is_bracket :: "char \<Rightarrow> bool" where
  "is_bracket c = (c = CHR ''['' \<or> c = CHR '']'')"

text \<open>One line: the current section and the table so far.\<close>

definition section_line ::
  "string \<Rightarrow> string \<times> (string, (string, string) gomap) gomap \<Rightarrow> string \<times> (string, (string, string) gomap) gomap" where
  "section_line raw st =
    (let (cur, table) = st; line = trim_space raw in
     if line = '''' \<or> has_prefix line ''#'' then st
     else if has_prefix line ''['' \<and> has_suffix line '']'' then
       (let cur = trim_with is_bracket line
        in (cur, if map_of table cur = None then AList.update cur [] table else table))
     else if cur \<noteq> '''' then
       (case split2 CHR '' '' line [] of
         [k, v] \<Rightarrow> (cur, madjust cur (AList.update (trim_space k) (trim_space v)) table)
       | _ \<Rightarrow> st)
     else st)"

text \<open>Without a configuration text the code dereferences nil.\<close>

definition GetAllSections :: "ptp_config_update \<Rightarrow> (string, (string, string) gomap) gomap option" where
  "GetAllSections p =
    (case Ptp4lConf p of
      None \<Rightarrow> None
    | Some conf \<Rightarrow> Some (snd (fold section_line (scan_lines conf) ('''', []))))"

definition is_word_char :: "char \<Rightarrow> bool" where
  "is_word_char c =
    (is_digit c \<or> (CHR ''a'' \<le> c \<and> c \<le> CHR ''z'') \<or> (CHR ''A'' \<le> c \<and> c \<le> CHR ''Z'') \<or> c = CHR ''_'')"

definition is_regex_space :: "char \<Rightarrow> bool" where
  "is_regex_space c = (c = CHR '' '' \<or> c = CHR 0x09 \<or> c = CHR 0x0A \<or> c = CHR 0x0C \<or> c = CHR 0x0D)"

text \<open>\<open>profile: \s*([\w-_]+)\<close>: the first position where it matches.\<close>

definition profile_at :: "string \<Rightarrow> string" where
  "profile_at s =
    (if has_prefix s ''profile: ''
     then takeWhile (\<lambda>c. is_word_char c \<or> c = CHR ''-'')
       (dropWhile is_regex_space (drop (length ''profile: '') s))
     else [])"

fun GetPTPProfileName :: "string \<Rightarrow> string" where
  "GetPTPProfileName [] = []"
| "GetPTPProfileName (c # s) =
    (if profile_at (c # s) \<noteq> [] then profile_at (c # s) else GetPTPProfileName s)"

section \<open>Reading the files\<close>

definition readConfig :: "(string \<Rightarrow> string option) \<Rightarrow> string \<Rightarrow> ptp_config_update option" where
  "readConfig readFile path =
    (let fName = path_filename path; path = path_clean path in
     if \<not> has_prefix path ''/var/run/'' then None
     else (case readFile path of
         None \<Rightarrow> None
       | Some b \<Rightarrow> Some \<lparr>u_Name = fName, Ptp4lConf = Some b, u_Profile = Some (GetPTPProfileName b),
           Removed = False\<rparr>))"

text \<open>The directory's entries are the parameter \<open>files\<close> (empty on a read error).\<close>

definition ReadAllConfig ::
  "(string \<Rightarrow> string option) \<Rightarrow> string list \<Rightarrow> string \<Rightarrow> ptp_config_update list" where
  "ReadAllConfig readFile files dir =
    concat (map (\<lambda>f. case readConfig readFile (path_join [dir, f]) of None \<Rightarrow> [] | Some p \<Rightarrow> [p])
      (filter is_conf files))"

text \<open>One file-system event of the watcher: the write and remove bits and the name.\<close>

definition watch_event ::
  "(string \<Rightarrow> string option) \<Rightarrow> bool \<Rightarrow> bool \<Rightarrow> string \<Rightarrow> ptp_config_update list" where
  "watch_event readFile op_write op_remove name =
    (if op_write then
       (if is_conf name then (case readConfig readFile name of None \<Rightarrow> [] | Some p \<Rightarrow> [p]) else [])
     else if op_remove then
       (if is_conf name then [\<lparr>u_Name = path_filename name, Ptp4lConf = None, u_Profile = None, Removed = True\<rparr>]
        else [])
     else [])"

section \<open>The interfaces of a rendered configuration\<close>

text \<open>A configuration text as sections: the name in brackets, then the body.\<close>

definition render_config :: "(string \<times> string) list \<Rightarrow> string" where
  "render_config secs = concat (map (\<lambda>(n, b). CHR ''['' # n @ CHR '']'' # b) secs)"

definition no_brackets :: "string \<Rightarrow> bool" where
  "no_brackets s \<longleftrightarrow> (\<forall>c\<in>set s. \<not> is_bracket c)"

lemma section_heads_body:
  "no_brackets b \<Longrightarrow> section_heads None (b @ s) = section_heads None s"
  by (induction b) (auto simp: no_brackets_def is_bracket_def)

lemma section_heads_name:
  "no_brackets n \<Longrightarrow> section_heads (Some acc) (n @ CHR '']'' # s) = (rev acc @ n) # section_heads None s"
  by (induction n arbitrary: acc) (auto simp: no_brackets_def is_bracket_def)

lemma section_heads_render:
  "\<forall>(n, b)\<in>set secs. no_brackets n \<and> no_brackets b \<Longrightarrow>
    section_heads None (render_config secs) = map fst secs"
proof (induction secs)
  case Nil
  then show ?case by (simp add: render_config_def)
next
  case (Cons nb secs)
  obtain n b where nb: "nb = (n, b)" by (cases nb)
  have "section_heads None (render_config secs) = map fst secs" using Cons by simp
  moreover have "render_config (nb # secs) = CHR ''['' # n @ CHR '']'' # b @ render_config secs"
    by (simp add: render_config_def nb)
  moreover have "no_brackets n" "no_brackets b" using Cons.prems nb by auto
  ultimately show ?case using nb by (simp add: section_heads_name section_heads_body)
qed

text \<open>The interfaces of a configuration file. Rendering any sections whose names and bodies hold
  no brackets and reading the interfaces back gives exactly the section names, in order, less
  the global section and the names of ptp4l configuration files.\<close>
theorem GetAllInterface_render:
  assumes "\<forall>(n, b)\<in>set secs. no_brackets n \<and> no_brackets b"
    and "Ptp4lConf p = Some (preamble @ render_config secs)" and "no_brackets preamble"
  shows "GetAllInterface p = filter (\<lambda>n. n \<noteq> ''global'' \<and> \<not> checkIfPtP4lConf n) (map fst secs)"
  using assms by (simp add: GetAllInterface_def section_heads_body section_heads_render)

theorem GetAllInterface_render_witness:
  "GetAllInterface \<lparr>u_Name = ''ptp4l.0.config'',
      Ptp4lConf = Some (''# profile: bc'' @ render_config [(''global'', '' domainNumber 24''), (''ens1f0'', '' masterOnly 0''), (''ens1f1'', '''')]),
      u_Profile = None, Removed = False\<rparr> = [''ens1f0'', ''ens1f1'']"
  by (subst GetAllInterface_render [of "[(''global'', '' domainNumber 24''), (''ens1f0'', '' masterOnly 0''), (''ens1f1'', '''')]"
        _ "''# profile: bc''"])
    (simp_all add: no_brackets_def is_bracket_def checkIfPtP4lConf_def conf_at_def)

section \<open>Files are read inside the run directory only\<close>

definition plain_part :: "string \<Rightarrow> bool" where
  "plain_part p \<longleftrightarrow> p \<noteq> '''' \<and> p \<noteq> ''.'' \<and> CHR ''/'' \<notin> set p"

lemma split_aux_parts:
  "d \<notin> set cur \<Longrightarrow> p \<in> set (split_aux d s cur) \<Longrightarrow> d \<notin> set p"
  by (induction d s cur rule: split_aux.induct) (auto split: if_splits)

lemma clean_parts_plain:
  "\<forall>p\<in>set ps. CHR ''/'' \<notin> set p \<Longrightarrow> \<forall>p\<in>set out. plain_part p \<and> (rooted \<longrightarrow> p \<noteq> ''..'') \<Longrightarrow>
    \<forall>p\<in>set (clean_parts rooted ps out). plain_part p \<and> (rooted \<longrightarrow> p \<noteq> ''..'')"
proof (induction ps arbitrary: out)
  case Nil
  then show ?case by simp
next
  case (Cons p ps)
  have slash: "\<forall>p\<in>set ps. CHR ''/'' \<notin> set p" using Cons.prems(1) by simp
  have tl: "\<forall>p\<in>set (tl out). plain_part p \<and> (rooted \<longrightarrow> p \<noteq> ''..'')"
    using Cons.prems(2) by (cases out) auto
  have dots: "plain_part ''..''" by (simp add: plain_part_def)
  note IH = Cons.IH [OF slash]
  consider "p = '''' \<or> p = ''.''" | "p = ''..''" | "plain_part p" "p \<noteq> ''..''"
    using Cons.prems(1) by (auto simp: plain_part_def)
  then show ?case
  proof cases
    case 1
    then show ?thesis using IH [OF Cons.prems(2)] by simp
  next
    case 2
    have dd: "\<forall>q\<in>set (''..'' # out). plain_part q \<and> (rooted \<longrightarrow> q \<noteq> ''..'')" if "\<not> rooted"
      unfolding list.set ball_simps using Cons.prems(2) dots that by blast
    have "clean_parts rooted (p # ps) out = clean_parts rooted ps (tl out) \<or>
        clean_parts rooted (p # ps) out = clean_parts rooted ps out \<or>
        \<not> rooted \<and> clean_parts rooted (p # ps) out = clean_parts rooted ps (''..'' # out)"
      unfolding clean_parts.simps(2) 2 by simp
    then show ?thesis
    proof (elim disjE conjE)
      assume "clean_parts rooted (p # ps) out = clean_parts rooted ps (tl out)"
      then show ?thesis using IH [OF tl] by (elim ssubst)
    next
      assume "clean_parts rooted (p # ps) out = clean_parts rooted ps out"
      then show ?thesis using IH [OF Cons.prems(2)] by (elim ssubst)
    next
      assume "\<not> rooted" and "clean_parts rooted (p # ps) out = clean_parts rooted ps (''..'' # out)"
      then show ?thesis using IH [OF dd] by (elim ssubst)
    qed
  next
    case 3
    have "\<forall>q\<in>set (p # out). plain_part q \<and> (rooted \<longrightarrow> q \<noteq> ''..'')"
      unfolding list.set ball_simps using Cons.prems(2) 3 by blast
    note IHp = IH [OF this]
    have "p \<noteq> ''''" "p \<noteq> ''.''" using 3(1) unfolding plain_part_def by blast+
    then have "clean_parts rooted (p # ps) out = clean_parts rooted ps (p # out)"
      using 3(2) unfolding clean_parts.simps(2) by simp
    then show ?thesis using IHp by (elim ssubst)
  qed
qed

lemma join_slash_plain:
  "\<forall>p\<in>set ps. plain_part p \<Longrightarrow> \<not> has_prefix (join_slash ps) ''/''"
proof (induction ps rule: join_slash.induct)
  case 1
  then show ?case by simp
next
  case (2 p)
  then show ?case by (cases p) (auto simp: plain_part_def)
next
  case (3 p q qs)
  then show ?case by (cases p) (auto simp: plain_part_def)
qed

lemma path_clean_parts:
  "path_clean path =
    (let ps = clean_parts (has_prefix path ''/'') (str_split CHR ''/'' path) []
     in if has_prefix path ''/'' then CHR ''/'' # join_slash ps
        else if join_slash ps = [] then ''.'' else join_slash ps)"
  by (simp add: path_clean_def Let_def)

lemma path_clean_plain:
  "\<forall>p\<in>set (clean_parts rooted (str_split CHR ''/'' path) []). plain_part p \<and> (rooted \<longrightarrow> p \<noteq> ''..'')"
  by (intro clean_parts_plain) (auto simp: str_split_def dest: split_aux_parts [rotated])

lemma path_clean_below:
  assumes "has_prefix (path_clean path) ''/var/run/''"
  shows "\<exists>ps. path_clean path = CHR ''/'' # join_slash ps \<and> (\<forall>p\<in>set ps. plain_part p \<and> p \<noteq> ''..'')"
proof (cases "has_prefix path ''/''")
  case True
  then show ?thesis using path_clean_plain [of True path] by (auto simp: path_clean_parts Let_def)
next
  case False
  have "\<not> has_prefix (path_clean path) ''/''"
    using False join_slash_plain path_clean_plain [of False path] by (simp add: path_clean_parts Let_def)
  then show ?thesis using assms by (cases "path_clean path") auto
qed

text \<open>Confinement of the reads. Whatever name the watcher is given, a configuration is read only
  from a cleaned path below \<open>/var/run/\<close> none of whose components is \<open>..\<close>: two file systems
  that agree on such paths answer every read alike.\<close>
theorem readConfig_confined:
  assumes "\<And>ps. \<forall>p\<in>set ps. plain_part p \<and> p \<noteq> ''..'' \<Longrightarrow>
      has_prefix (CHR ''/'' # join_slash ps) ''/var/run/'' \<Longrightarrow>
      rf (CHR ''/'' # join_slash ps) = rf' (CHR ''/'' # join_slash ps)"
  shows "readConfig rf path = readConfig rf' path"
proof (cases "has_prefix (path_clean path) ''/var/run/''")
  case False
  then show ?thesis by (simp add: readConfig_def Let_def)
next
  case True
  then obtain ps where "path_clean path = CHR ''/'' # join_slash ps" "\<forall>p\<in>set ps. plain_part p \<and> p \<noteq> ''..''"
    using path_clean_below by blast
  then have "rf (path_clean path) = rf' (path_clean path)" using assms [of ps] True by simp
  then show ?thesis by (simp add: readConfig_def Let_def)
qed

theorem readConfig_confined_witness:
  "readConfig (\<lambda>f. if f = ''/etc/passwd'' then Some ''secret'' else None) ''/var/run/../../etc/passwd'' = None"
proof -
  have "readConfig (\<lambda>f. if f = ''/etc/passwd'' then Some ''secret'' else None) ''/var/run/../../etc/passwd'' =
      readConfig (\<lambda>f. None) ''/var/run/../../etc/passwd''"
    by (rule readConfig_confined) auto
  then show ?thesis by (simp add: readConfig_def Let_def)
qed

end
