(* ===== verification/PtpConfig.thy ===== *)
theory PtpConfig
  imports PtpConf
begin

text \<open>
  \<open>config/config.go\<close>: the node's PTP profiles, the thresholds and process options derived from
  them, and the channels that cancel a holdover timer. A channel is an index into a table of
  closed flags. JSON decoding and the file system are parameters.
\<close>

section \<open>Data\<close>

record ptp_clock_threshold =
  HoldOverTimeout :: int
  MaxOffsetThreshold :: int
  MinOffsetThreshold :: int
  Close :: "nat option"       \<comment> \<open>the channel; \<open>None\<close> is nil\<close>

record ptp_profile =
  pp_Name :: "string option"
  pp_Interface :: "string option"
  PtpClockThreshold :: "ptp_clock_threshold option"
  pp_Ptp4lOpts :: "string option"
  pp_Phc2sysOpts :: "string option"
  pp_TS2PhcOpts :: "string option"
  pp_ChronydOpts :: "string option"
  pp_Ptp4lConf :: "string option"
  TS2PhcConf :: "string option"
  pp_PtpSettings :: "(string, string) gomap"
  Plugins :: "(string, string option) gomap"
  pp_Interfaces :: "string list"

record ptp_process_opts =
  Ptp4lOpts :: "string option"
  Phc2Opts :: "string option"
  TS2PhcOpts :: "string option"
  ChronydOpts :: "string option"
  SyncE4lOpts :: "string option"

record ptp_conf_map =
  UpdateCh :: bool            \<comment> \<open>the one-place channel is full\<close>
  NodeProfiles :: "ptp_profile list"
  appliedNodeProfileJSON :: string
  profilePath :: string
  EventThreshold :: "(string, ptp_clock_threshold) gomap"
  PtpProcessOpts :: "(string, ptp_process_opts) gomap"
  PtpSettings :: "(string, (string, string) gomap) gomap"
  HAProfile :: string
  TBCProfiles :: "string list"
  OnThresholdUpdate :: bool   \<comment> \<open>a callback is set\<close>
  threshold_calls :: "(string, ptp_clock_threshold) gomap list"   \<comment> \<open>its calls\<close>
  chans :: "bool list"        \<comment> \<open>closed flags\<close>

definition new_ptp_conf_map :: "string \<Rightarrow> ptp_conf_map" where
  "new_ptp_conf_map path =
    \<lparr>UpdateCh = False, NodeProfiles = [], appliedNodeProfileJSON = '''', profilePath = path,
     EventThreshold = [], PtpProcessOpts = [], PtpSettings = [], HAProfile = '''', TBCProfiles = [],
     OnThresholdUpdate = False, threshold_calls = [], chans = []\<rparr>"

definition opt_enabled :: "string option \<Rightarrow> bool" where
  "opt_enabled opts = (opts \<noteq> None \<and> opts \<noteq> Some '''')"

definition Ptp4lEnabled :: "ptp_process_opts \<Rightarrow> bool" where
  "Ptp4lEnabled o' = opt_enabled (Ptp4lOpts o')"

definition SyncE4lEnabled :: "ptp_process_opts \<Rightarrow> bool" where
  "SyncE4lEnabled o' = opt_enabled (SyncE4lOpts o')"

definition Phc2SysEnabled :: "ptp_process_opts \<Rightarrow> bool" where
  "Phc2SysEnabled o' = opt_enabled (Phc2Opts o')"

definition TS2PhcEnabled :: "ptp_process_opts \<Rightarrow> bool" where
  "TS2PhcEnabled o' = opt_enabled (TS2PhcOpts o')"

definition ChronydEnabled :: "ptp_process_opts \<Rightarrow> bool" where
  "ChronydEnabled o' = opt_enabled (ChronydOpts o')"

section \<open>The holdover channels\<close>

definition make_chan :: "ptp_conf_map \<Rightarrow> nat \<times> ptp_conf_map" where
  "make_chan l = (length (chans l), l\<lparr>chans := chans l @ [False]\<rparr>)"

definition chan_closed :: "nat \<Rightarrow> ptp_conf_map \<Rightarrow> bool" where
  "chan_closed c l = (c < length (chans l) \<and> chans l ! c)"

text \<open>
  A receive from a closed channel is ready, so the first case of the select is taken; closing a
  nil channel panics, which is recovered and turns the result to false.
\<close>

definition SafeClose :: "ptp_clock_threshold \<Rightarrow> ptp_conf_map \<Rightarrow> bool \<times> ptp_conf_map" where
  "SafeClose pt l =
    (case Close pt of
      None \<Rightarrow> (False, l)
    | Some c \<Rightarrow> (True, if chan_closed c l then l else l\<lparr>chans := (chans l)[c := True]\<rparr>))"

definition closeHoldover :: "ptp_clock_threshold \<Rightarrow> ptp_conf_map \<Rightarrow> ptp_conf_map" where
  "closeHoldover t l =
    (case Close t of
      None \<Rightarrow> l
    | Some c \<Rightarrow> if chan_closed c l then l else l\<lparr>chans := (chans l)[c := True]\<rparr>)"

definition DeletePTPThreshold :: "string \<Rightarrow> ptp_conf_map \<Rightarrow> ptp_conf_map" where
  "DeletePTPThreshold name l =
    (case map_of (EventThreshold l) name of
      None \<Rightarrow> l
    | Some t \<Rightarrow> (let l = closeHoldover t l in l\<lparr>EventThreshold := AList.delete name (EventThreshold l)\<rparr>))"

definition DeleteAllPTPThreshold :: "ptp_conf_map \<Rightarrow> ptp_conf_map" where
  "DeleteAllPTPThreshold l =
    fold (\<lambda>(k, t) l. let l = closeHoldover t l in l\<lparr>EventThreshold := AList.delete k (EventThreshold l)\<rparr>)
      (EventThreshold l) l"

text \<open>Looking a profile up falls back to the first entry visited; its key is returned with it.\<close>

definition LookupEventThreshold :: "string \<Rightarrow> ptp_conf_map \<Rightarrow> (string \<times> ptp_clock_threshold) option" where
  "LookupEventThreshold profileName l =
    (case map_of (EventThreshold l) profileName of
      Some t \<Rightarrow> Some (profileName, t)
    | None \<Rightarrow> (case EventThreshold l of [] \<Rightarrow> None | kt # _ \<Rightarrow> Some kt))"

definition holdoverTimeout :: int where "holdoverTimeout = 5"
definition maxOffsetThreshold :: int where "maxOffsetThreshold = 100"

definition GetDefaultThreshold :: "ptp_conf_map \<Rightarrow> ptp_clock_threshold \<times> ptp_conf_map" where
  "GetDefaultThreshold l =
    (let (c, l) = make_chan l
     in (\<lparr>HoldOverTimeout = holdoverTimeout, MaxOffsetThreshold = maxOffsetThreshold,
          MinOffsetThreshold = 0, Close = Some c\<rparr>, l))"

section \<open>Deriving the caches from the profiles\<close>

text \<open>A profile without a name is a nil dereference.\<close>

definition process_options_of :: "ptp_profile \<Rightarrow> ptp_process_opts" where
  "process_options_of profile =
    \<lparr>Ptp4lOpts = pp_Ptp4lOpts profile, Phc2Opts = pp_Phc2sysOpts profile,
     TS2PhcOpts = (if TS2PhcConf profile \<noteq> None \<and>
                      (pp_TS2PhcOpts profile = None \<or> pp_TS2PhcOpts profile = Some '''')
                   then Some ''-m'' else pp_TS2PhcOpts profile),
     ChronydOpts = pp_ChronydOpts profile, SyncE4lOpts = None\<rparr>"

definition UpdatePTPProcessOptions :: "ptp_conf_map \<Rightarrow> (unit, ptp_conf_map) res" where
  "UpdatePTPProcessOptions l =
    res_fold (\<lambda>profile l.
        case pp_Name profile of
          None \<Rightarrow> Panic l
        | Some name \<Rightarrow> Ok () (l\<lparr>
            PtpProcessOpts := AList.update name (process_options_of profile) (PtpProcessOpts l),
            PtpSettings := AList.update name (pp_PtpSettings profile) (PtpSettings l)\<rparr>))
      (NodeProfiles l) (l\<lparr>PtpProcessOpts := []\<rparr>)"

text \<open>
  \<open>gnss\<close> decodes the plug-in's options; \<open>None\<close> when they cannot be decoded.
\<close>

definition isNtpFailoverEnabled :: "(string \<Rightarrow> bool option) \<Rightarrow> ptp_profile \<Rightarrow> bool" where
  "isNtpFailoverEnabled gnss profile =
    (case map_of (Plugins profile) ''ntpfailover'' of
      Some (Some raw) \<Rightarrow> gnss raw = Some True
    | _ \<Rightarrow> False)"

record threshold_vars =
  maxOffsetTh :: int
  minOffsetTh :: int
  holdOverTh :: int

definition set_threshold_vars :: "(string \<Rightarrow> bool option) \<Rightarrow> ptp_profile \<Rightarrow> threshold_vars \<Rightarrow> threshold_vars" where
  "set_threshold_vars gnss profile v =
    (case PtpClockThreshold profile of
      Some pct \<Rightarrow>
        (let mx = (if MaxOffsetThreshold pct > 0 then MaxOffsetThreshold pct else maxOffsetThreshold)
         in \<lparr>maxOffsetTh = mx,
             minOffsetTh = (if MinOffsetThreshold pct > mx then mx - 1 else MinOffsetThreshold pct),
             holdOverTh = (if HoldOverTimeout pct > 0 then HoldOverTimeout pct else holdoverTimeout)\<rparr>)
    | None \<Rightarrow>
        if isNtpFailoverEnabled gnss profile then v\<lparr>holdOverTh := holdoverTimeout, maxOffsetTh := 1000\<rparr>
        else v\<lparr>holdOverTh := holdoverTimeout, maxOffsetTh := maxOffsetThreshold\<rparr>)"

definition store_threshold :: "string \<Rightarrow> threshold_vars \<Rightarrow> ptp_conf_map \<Rightarrow> ptp_conf_map" where
  "store_threshold name v l =
    (let (c, l) = make_chan l
     in l\<lparr>EventThreshold := AList.update name
            \<lparr>HoldOverTimeout = holdOverTh v, MaxOffsetThreshold = maxOffsetTh v,
             MinOffsetThreshold = minOffsetTh v, Close = Some c\<rparr> (EventThreshold l)\<rparr>)"

definition threshold_step ::
  "(string \<Rightarrow> bool option) \<Rightarrow> ptp_profile \<Rightarrow> threshold_vars \<times> ptp_conf_map \<Rightarrow>
    (unit, threshold_vars \<times> ptp_conf_map) res" where
  "threshold_step gnss profile = (\<lambda>(v, l).
    let v = set_threshold_vars gnss profile v
    in case pp_Name profile of None \<Rightarrow> Panic (v, l) | Some name \<Rightarrow> Ok () (v, store_threshold name v l))"

definition UpdatePTPThreshold :: "(string \<Rightarrow> bool option) \<Rightarrow> ptp_conf_map \<Rightarrow> (unit, ptp_conf_map) res" where
  "UpdatePTPThreshold gnss l =
    (case res_fold (threshold_step gnss) (NodeProfiles l)
          (\<lparr>maxOffsetTh = 0, minOffsetTh = 0, holdOverTh = 0\<rparr>, l) of
       Panic (v, l) \<Rightarrow> Panic l
     | Ok _ (v, l) \<Rightarrow> Ok ()
         (if OnThresholdUpdate l then l\<lparr>threshold_calls := threshold_calls l @ [EventThreshold l]\<rparr> else l))"

definition add_tbc_profile :: "string \<Rightarrow> ptp_profile \<Rightarrow> string list \<Rightarrow> string list" where
  "add_tbc_profile name profile tbc =
    (let tbc = (if map_of (pp_PtpSettings profile) ''controllingProfile'' \<noteq> None then tbc @ [name] else tbc)
     in case pp_TS2PhcOpts profile of
          Some opts \<Rightarrow> if contains opts ''external_pps'' \<and> name \<notin> set tbc then tbc @ [name] else tbc
        | None \<Rightarrow> tbc)"

definition UpdatePTPSetting :: "ptp_conf_map \<Rightarrow> (unit, ptp_conf_map) res" where
  "UpdatePTPSetting l =
    res_fold (\<lambda>profile l.
        case pp_Name profile of
          None \<Rightarrow> Panic l
        | Some name \<Rightarrow> Ok () (l\<lparr>
            PtpSettings := AList.update name (pp_PtpSettings profile) (PtpSettings l),
            HAProfile := (if map_of (pp_PtpSettings profile) ''haProfiles'' \<noteq> None then name else HAProfile l),
            TBCProfiles := add_tbc_profile name profile (TBCProfiles l)\<rparr>))
      (NodeProfiles l) (l\<lparr>HAProfile := '''', TBCProfiles := []\<rparr>)"

section \<open>Loading the profiles\<close>

definition GetInterface :: "ptp_profile \<Rightarrow> string list" where
  "GetInterface p =
    (let single = (case pp_Interface p of None \<Rightarrow> '''' | Some i \<Rightarrow> i);
         first = (if opt_enabled (pp_Interface p) then [single] else [])
     in case pp_Ptp4lConf p of
          None \<Rightarrow> first
        | Some conf \<Rightarrow> if conf = '''' then first else
            first @ filter (\<lambda>v. v \<noteq> ''global'' \<and> v \<noteq> single \<and> \<not> checkIfPtP4lConf v)
              (section_heads None conf))"

definition notifyUpdate :: "ptp_conf_map \<Rightarrow> ptp_conf_map" where
  "notifyUpdate l = l\<lparr>UpdateCh := True\<rparr>"

text \<open>
  \<open>decode\<close> reads a list of profiles, \<open>decode_old\<close> a single one. The result is the
  returned flag and whether an error came with it.
\<close>

definition UpdateConfig ::
  "(string \<Rightarrow> ptp_profile list option) \<Rightarrow> (string \<Rightarrow> ptp_profile option) \<Rightarrow> string \<Rightarrow> ptp_conf_map \<Rightarrow>
    (bool \<times> bool) \<times> ptp_conf_map" where
  "UpdateConfig decode decode_old json l =
    (if appliedNodeProfileJSON l = json then ((True, False), l)
     else case decode json of
       Some profiles \<Rightarrow>
         ((True, False), notifyUpdate (l\<lparr>appliedNodeProfileJSON := json,
            NodeProfiles := map (\<lambda>np. np\<lparr>pp_Interfaces := GetInterface np\<rparr>) profiles\<rparr>))
     | None \<Rightarrow>
         (case decode_old json of
           Some p \<Rightarrow>
             if pp_Name p = None \<or> pp_Interface p = None then ((False, False), l)
             else ((True, False), notifyUpdate (l\<lparr>appliedNodeProfileJSON := json, NodeProfiles := [p]\<rparr>))
         | None \<Rightarrow> ((False, True), l)))"

text \<open>What the file system says of the profile file: missing, another error, or its reads.\<close>

datatype file_status = NotExist | StatError | ReadError | Content string

record conf_env =
  ce_file :: "string \<Rightarrow> file_status"
  ce_decode :: "string \<Rightarrow> ptp_profile list option"
  ce_decode_old :: "string \<Rightarrow> ptp_profile option"
  ce_gnss :: "string \<Rightarrow> bool option"

definition updatePtpConfig :: "conf_env \<Rightarrow> string \<Rightarrow> ptp_conf_map \<Rightarrow> bool \<times> ptp_conf_map" where
  "updatePtpConfig env nodeName l =
    (let nodeProfile = path_join [profilePath l, nodeName] in
     case ce_file env nodeProfile of
       NotExist \<Rightarrow> (False, notifyUpdate l)
     | StatError \<Rightarrow> (False, l)
     | st \<Rightarrow>
         (let nodeProfile = path_clean nodeProfile in
          if \<not> has_prefix nodeProfile (profilePath l) then (False, l)
          else (case st of
              Content json \<Rightarrow>
                (let ((updated, err), l) = UpdateConfig (ce_decode env) (ce_decode_old env) json l
                 in (updated, l))
            | _ \<Rightarrow> (False, l))))"

definition EnsureProcessOptions :: "conf_env \<Rightarrow> string \<Rightarrow> ptp_conf_map \<Rightarrow> (unit, ptp_conf_map) res" where
  "EnsureProcessOptions env nodeName l =
    (let l = (if NodeProfiles l = [] then snd (updatePtpConfig env nodeName l) else l) in
     if NodeProfiles l = [] then Ok () l
     else if PtpProcessOpts l \<noteq> [] then Ok () l
     else res_bind (UpdatePTPProcessOptions l) (\<lambda>_ l.
          res_bind (UpdatePTPThreshold (ce_gnss env) l) (\<lambda>_ l. UpdatePTPSetting l)))"

definition LookupPtpProcessOpts :: "string \<Rightarrow> ptp_conf_map \<Rightarrow> ptp_process_opts option" where
  "LookupPtpProcessOpts profileName l =
    (if profileName = '''' then None else map_of (PtpProcessOpts l) profileName)"

definition LookupOrEnsurePtpProcessOpts ::
  "conf_env \<Rightarrow> string \<Rightarrow> string \<Rightarrow> ptp_conf_map \<Rightarrow> (ptp_process_opts option, ptp_conf_map) res" where
  "LookupOrEnsurePtpProcessOpts env nodeName profileName l =
    (if profileName = '''' then Ok None l
     else case map_of (PtpProcessOpts l) profileName of
       Some opts \<Rightarrow> Ok (Some opts) l
     | None \<Rightarrow>
         res_bind (if PtpProcessOpts l = [] then EnsureProcessOptions env nodeName l else Ok () l)
           (\<lambda>_ l. Ok (LookupPtpProcessOpts profileName l) l))"

section \<open>The thresholds derived from the profiles\<close>

definition threshold_ok :: "ptp_profile \<Rightarrow> ptp_clock_threshold \<Rightarrow> bool" where
  "threshold_ok profile t \<longleftrightarrow> HoldOverTimeout t > 0 \<and> MaxOffsetThreshold t > 0 \<and>
    (PtpClockThreshold profile \<noteq> None \<longrightarrow> MinOffsetThreshold t \<le> MaxOffsetThreshold t)"

lemma set_threshold_vars_ok:
  "threshold_ok profile \<lparr>HoldOverTimeout = holdOverTh (set_threshold_vars gnss profile v),
     MaxOffsetThreshold = maxOffsetTh (set_threshold_vars gnss profile v),
     MinOffsetThreshold = minOffsetTh (set_threshold_vars gnss profile v), Close = c\<rparr>"
  by (auto simp: threshold_ok_def set_threshold_vars_def Let_def maxOffsetThreshold_def
      holdoverTimeout_def split: option.splits)

lemma threshold_step_named:
  "pp_Name q = Some name \<Longrightarrow> threshold_step gnss q (v, l) =
    Ok () (set_threshold_vars gnss q v, store_threshold name (set_threshold_vars gnss q v) l)"
  by (simp add: threshold_step_def Let_def)

text \<open>The part of the table that belongs to the profiles already visited.\<close>

definition thresholds_for :: "ptp_profile list \<Rightarrow> nat \<Rightarrow> ptp_conf_map \<Rightarrow> bool" where
  "thresholds_for ps n l \<longleftrightarrow> n \<le> length (chans l) \<and>
    (\<forall>p\<in>set ps. \<exists>t c. map_of (EventThreshold l) (the (pp_Name p)) = Some t \<and> threshold_ok p t \<and>
       Close t = Some c \<and> n \<le> c \<and> c < length (chans l) \<and> \<not> chans l ! c)"

lemma thresholds_for_step:
  assumes "thresholds_for ps n l" and "pp_Name p = Some name" and "name \<notin> (\<lambda>p. the (pp_Name p)) ` set ps"
  shows "thresholds_for (ps @ [p]) n (store_threshold name (set_threshold_vars gnss p v) l)"
proof -
  let ?l = "store_threshold name (set_threshold_vars gnss p v) l"
  have ch: "chans ?l = chans l @ [False]" by (simp add: store_threshold_def make_chan_def)
  have new: "map_of (EventThreshold ?l) name = Some \<lparr>HoldOverTimeout = holdOverTh (set_threshold_vars gnss p v),
     MaxOffsetThreshold = maxOffsetTh (set_threshold_vars gnss p v),
     MinOffsetThreshold = minOffsetTh (set_threshold_vars gnss p v), Close = Some (length (chans l))\<rparr>"
    and old: "k \<noteq> name \<Longrightarrow> map_of (EventThreshold ?l) k = map_of (EventThreshold l) k" for k
    by (simp_all add: store_threshold_def make_chan_def gomap_simps)
  show ?thesis
    unfolding thresholds_for_def
  proof (intro conjI ballI)
    show "n \<le> length (chans ?l)" using assms(1) by (simp add: thresholds_for_def ch)
    fix q assume "q \<in> set (ps @ [p])"
    then consider "q = p" | "q \<in> set ps" "the (pp_Name q) \<noteq> name" using assms(3) by auto
    then show "\<exists>t c. map_of (EventThreshold ?l) (the (pp_Name q)) = Some t \<and> threshold_ok q t \<and>
       Close t = Some c \<and> n \<le> c \<and> c < length (chans ?l) \<and> \<not> chans ?l ! c"
    proof cases
      case 1
      then show ?thesis
        using assms(1,2) new set_threshold_vars_ok by (auto simp: ch thresholds_for_def)
    next
      case 2
      then obtain t c where "map_of (EventThreshold l) (the (pp_Name q)) = Some t" "threshold_ok q t"
        "Close t = Some c" "n \<le> c" "c < length (chans l)" "\<not> chans l ! c"
        using assms(1) by (fastforce simp: thresholds_for_def)
      then show ?thesis using old [OF 2(2)] by (auto simp: ch nth_append)
    qed
  qed
qed

lemma threshold_loop:
  assumes "\<forall>p\<in>set (ps @ qs). pp_Name p \<noteq> None" and "distinct (map (\<lambda>p. the (pp_Name p)) (ps @ qs))"
    and "thresholds_for ps n l"
  shows "\<exists>v' l'. res_fold (threshold_step gnss) qs (v, l) = Ok () (v', l') \<and> thresholds_for (ps @ qs) n l'"
  using assms
proof (induction qs arbitrary: ps v l)
  case Nil
  then show ?case by simp
next
  case (Cons q qs)
  obtain name where name: "pp_Name q = Some name" using Cons.prems(1) by auto
  let ?v = "set_threshold_vars gnss q v"
  have fresh: "name \<notin> (\<lambda>p. the (pp_Name p)) ` set ps" using Cons.prems(2) name by auto
  have step: "thresholds_for (ps @ [q]) n (store_threshold name ?v l)"
    using thresholds_for_step [OF Cons.prems(3) name fresh] .
  have "\<forall>p\<in>set ((ps @ [q]) @ qs). pp_Name p \<noteq> None" "distinct (map (\<lambda>p. the (pp_Name p)) ((ps @ [q]) @ qs))"
    using Cons.prems(1,2) by auto
  from Cons.IH [OF this step, of ?v] obtain v' l' where "res_fold (threshold_step gnss) qs (?v, store_threshold name ?v l) = Ok () (v', l')"
    "thresholds_for ((ps @ [q]) @ qs) n l'"
    by blast
  then show ?case by (auto simp: threshold_step_named [OF name])
qed

text \<open>The thresholds. When all profiles are named and the names differ, the update returns, and
  every profile gets a threshold with a positive holdover timeout, a positive maximum and a fresh
  open channel of its own; when the profile sets thresholds, the minimum is at most the maximum.\<close>
theorem UpdatePTPThreshold_ok:
  assumes "\<forall>p\<in>set (NodeProfiles l). pp_Name p \<noteq> None"
    and "distinct (map (\<lambda>p. the (pp_Name p)) (NodeProfiles l))"
  shows "\<exists>l'. UpdatePTPThreshold gnss l = Ok () l' \<and> thresholds_for (NodeProfiles l) (length (chans l)) l'"
proof -
  have "thresholds_for [] (length (chans l)) l" by (simp add: thresholds_for_def)
  then obtain v' l' where loop: "res_fold (threshold_step gnss) (NodeProfiles l)
      (\<lparr>maxOffsetTh = 0, minOffsetTh = 0, holdOverTh = 0\<rparr>, l) = Ok () (v', l')"
    "thresholds_for ([] @ NodeProfiles l) (length (chans l)) l'"
    using threshold_loop [of "[]" "NodeProfiles l"] assms by fastforce
  then show ?thesis
    by (auto simp: UpdatePTPThreshold_def thresholds_for_def)
qed

definition named_profile :: "string \<Rightarrow> ptp_clock_threshold option \<Rightarrow> ptp_profile" where
  "named_profile name t =
    \<lparr>pp_Name = Some name, pp_Interface = None, PtpClockThreshold = t, pp_Ptp4lOpts = Some ''-2'',
     pp_Phc2sysOpts = None, pp_TS2PhcOpts = None, pp_ChronydOpts = None, pp_Ptp4lConf = None,
     TS2PhcConf = None, pp_PtpSettings = [], Plugins = [], pp_Interfaces = []\<rparr>"

definition two_profiles :: ptp_conf_map where
  "two_profiles = (new_ptp_conf_map ''/etc/linuxptp'')\<lparr>NodeProfiles :=
    [named_profile ''gm'' (Some \<lparr>HoldOverTimeout = 0, MaxOffsetThreshold = 500, MinOffsetThreshold = 400, Close = None\<rparr>),
     named_profile ''bc'' None]\<rparr>"

theorem UpdatePTPThreshold_ok_witness:
  "\<exists>l'. UpdatePTPThreshold (\<lambda>_. None) two_profiles = Ok () l' \<and> thresholds_for (NodeProfiles two_profiles) 0 l'"
  using UpdatePTPThreshold_ok [of two_profiles "\<lambda>_. None"]
  by (simp add: two_profiles_def named_profile_def new_ptp_conf_map_def)

text \<open>The comment at the end of each branch says that the minimum of a profile without thresholds
  is left at its zero value. The variable lives outside the loop, so the profile inherits the minimum
  of the profile before it: here the minimum of \<open>bc\<close> is 400, above its own maximum of 100.\<close>
theorem min_threshold_leaks:
  "\<exists>l' t. UpdatePTPThreshold (\<lambda>_. None) two_profiles = Ok () l' \<and>
     map_of (EventThreshold l') ''bc'' = Some t \<and> MaxOffsetThreshold t = 100 \<and> MinOffsetThreshold t = 400"
  by (simp add: UpdatePTPThreshold_def two_profiles_def named_profile_def new_ptp_conf_map_def
      set_threshold_vars_def isNtpFailoverEnabled_def store_threshold_def make_chan_def
      maxOffsetThreshold_def threshold_step_def Let_def)

section \<open>Cancelling holdover timers\<close>

lemma closeHoldover_frame [frame_simps]:
  "EventThreshold (closeHoldover t l) = EventThreshold l"
  "length (chans (closeHoldover t l)) = length (chans l)"
  by (auto simp: closeHoldover_def split: option.split)

lemma closeHoldover_closed:
  "chan_closed c (closeHoldover t l) \<longleftrightarrow> chan_closed c l \<or> (Close t = Some c \<and> c < length (chans l))"
  by (auto simp: closeHoldover_def chan_closed_def nth_list_update split: option.split)
    (metis nth_list_update_eq nth_list_update_neq)

lemma delete_loop:
  "let l' = fold (\<lambda>(k, t) l. let l = closeHoldover t l in l\<lparr>EventThreshold := AList.delete k (EventThreshold l)\<rparr>) kts l
   in EventThreshold l' = fold (\<lambda>(k, t). AList.delete k) kts (EventThreshold l) \<and>
      length (chans l') = length (chans l) \<and>
      (\<forall>c. chan_closed c l' \<longleftrightarrow> chan_closed c l \<or> (\<exists>(k, t)\<in>set kts. Close t = Some c \<and> c < length (chans l)))"
proof (induction kts arbitrary: l)
  case Nil
  then show ?case by simp
next
  case (Cons kt kts)
  obtain k t where kt: "kt = (k, t)" by (cases kt)
  let ?l = "(closeHoldover t l)\<lparr>EventThreshold := AList.delete k (EventThreshold (closeHoldover t l))\<rparr>"
  have "chan_closed c ?l \<longleftrightarrow> chan_closed c l \<or> (Close t = Some c \<and> c < length (chans l))" for c
    using closeHoldover_closed [of c t l] by (simp add: chan_closed_def)
  then show ?case
    using Cons.IH [of ?l] by (auto simp: kt Let_def frame_simps)
qed

text \<open>Deleting all thresholds cancels every holdover timer: the table is empty afterwards, every
  channel a threshold of the table owned is closed, and a channel closes only if it was owned.\<close>
theorem DeleteAllPTPThreshold_cancels:
  "EventThreshold (DeleteAllPTPThreshold l) = [] \<and>
   (\<forall>c. chan_closed c (DeleteAllPTPThreshold l) \<longleftrightarrow>
      chan_closed c l \<or> (\<exists>(k, t)\<in>set (EventThreshold l). Close t = Some c \<and> c < length (chans l)))"
proof -
  have "fold (\<lambda>(k, t). AList.delete k) kts m = filter (\<lambda>kv. fst kv \<notin> fst ` set kts) m"
    for kts :: "(string \<times> ptp_clock_threshold) list" and m :: "(string \<times> ptp_clock_threshold) list"
    by (induction kts arbitrary: m) (auto simp: AList.delete_eq split_def intro!: filter_cong)
  then have "fold (\<lambda>(k, t). AList.delete k) (EventThreshold l) (EventThreshold l) = []"
    by (force simp: filter_empty_conv)
  then show ?thesis
    using delete_loop [of "EventThreshold l" l] by (simp add: DeleteAllPTPThreshold_def Let_def)
qed

end
