(* ===== verification/Manager.thy ===== *)
theory Manager
  imports StatsModel PtpConfig CommonAPI
begin

text \<open>
  \<open>metrics/manager.go\<close>: the event manager. Its state holds every clock's statistics, the ptp4l
  configurations, the thresholds, the process states, what it last reported for the node, the saved
  file, and the world the log handlers act on. The clock a method works on by pointer is named by
  its configuration and key.
\<close>

section \<open>State\<close>

record publisher =
  pub_Resource :: string
  PubID :: string

record saved_metrics =
  sm_Timestamp :: int
  LastClockState :: sync_state
  PortRoles :: "(string, (string, port_role) gomap) gomap"
  ProcessStates :: "(string, (string, bool) gomap) gomap"

text \<open>A goroutine waiting for its holdover to be cancelled or to time out.\<close>

record holdover_timer =
  ht_config :: string
  ht_profile :: string
  ht_timeout :: int
  ht_alias :: string
  ht_chan :: "nat option"

datatype store_file = NoFile | GarbageFile | SavedFile saved_metrics

record manager =
  resourcePrefix :: string
  publisherTypes :: "(event_type, publisher) gomap"
  nodeName :: string
  scConfig :: "sc_config option"
  Stats :: "(string, PTPStats) gomap"
  mock :: bool
  mockEvent :: "event_type list"
  PtpConfigMapUpdates :: ptp_conf_map
  Ptp4lConfigInterfaces :: "(string, ptp4l_config) gomap"
  lastOverallSyncState :: sync_state
  lastOverallGMState :: sync_state
  processStates :: "(string, (string, bool) gomap) gomap"
  masterOffsetSource :: string        \<comment> \<open>a package variable of the log handlers\<close>
  m_store :: store_file
  m_timers :: "holdover_timer list"
  m_world :: world
  m_conf_env :: conf_env

definition conf_env0 :: conf_env where
  "conf_env0 = \<lparr>ce_file = (\<lambda>_. NotExist), ce_decode = (\<lambda>_. None), ce_decode_old = (\<lambda>_. None),
     ce_gnss = (\<lambda>_. None)\<rparr>"

definition NewPTPEventManager ::
  "string \<Rightarrow> (event_type, publisher) gomap \<Rightarrow> string \<Rightarrow> sc_config option \<Rightarrow> manager" where
  "NewPTPEventManager prefix pubs node config =
    \<lparr>resourcePrefix = prefix, publisherTypes = pubs, nodeName = node, scConfig = config, Stats = [],
     mock = False, mockEvent = [], PtpConfigMapUpdates = new_ptp_conf_map ''/etc/linuxptp'',
     Ptp4lConfigInterfaces = [], lastOverallSyncState = NoState, lastOverallGMState = NoState,
     processStates = [], masterOffsetSource = '''', m_store = NoFile, m_timers = [], m_world = init_world,
     m_conf_env = conf_env0\<rparr>"

type_synonym 'a m_res = "('a, manager) res"

section \<open>Thresholds\<close>

definition PtpThreshold :: "string \<Rightarrow> bool \<Rightarrow> manager \<Rightarrow> ptp_clock_threshold \<times> manager" where
  "PtpThreshold profileName resetCh m =
    (let l = PtpConfigMapUpdates m in
     case LookupEventThreshold profileName l of
       None \<Rightarrow> (let (t, l) = GetDefaultThreshold l in (t, m\<lparr>PtpConfigMapUpdates := l\<rparr>))
     | Some (k, t) \<Rightarrow>
         if resetCh then
           (let l = snd (SafeClose t l);
                (c, l) = make_chan l;
                t = t\<lparr>Close := Some c\<rparr>;
                l = l\<lparr>EventThreshold := AList.update k t (EventThreshold l)\<rparr>
            in (t, m\<lparr>PtpConfigMapUpdates := l\<rparr>))
         else (t, m))"

section \<open>The table of statistics\<close>

definition DeleteStats :: "string \<Rightarrow> string \<Rightarrow> manager \<Rightarrow> manager" where
  "DeleteStats name key m = m\<lparr>Stats := madjust name (AList.delete key) (Stats m)\<rparr>"

definition DeleteStatsConfig :: "string \<Rightarrow> manager \<Rightarrow> manager" where
  "DeleteStatsConfig key m = m\<lparr>Stats := AList.delete key (Stats m)\<rparr>"

definition GetStats :: "string \<Rightarrow> manager \<Rightarrow> PTPStats \<times> manager" where
  "GetStats name m =
    (case map_of (Stats m) name of
      Some ps \<Rightarrow> (ps, m)
    | None \<Rightarrow> ([], m\<lparr>Stats := AList.update name [] (Stats m)\<rparr>))"

definition GetStatsForInterface :: "string \<Rightarrow> string \<Rightarrow> manager \<Rightarrow> stats \<times> manager" where
  "GetStatsForInterface name iface m =
    (let (ps, m) = GetStats name m in
     case map_of ps iface of
       Some s \<Rightarrow> (s, m)
     | None \<Rightarrow> (let s = NewStats name
               in (s, m\<lparr>Stats := AList.update name (AList.update iface s ps) (Stats m)\<rparr>)))"

text \<open>The clock behind a pointer, and an update through it.\<close>

definition stat_at :: "string \<Rightarrow> string \<Rightarrow> manager \<Rightarrow> stats option" where
  "stat_at cfg iface m =
    (case map_of (Stats m) cfg of None \<Rightarrow> None | Some ps \<Rightarrow> map_of ps iface)"

definition on_stat :: "string \<Rightarrow> string \<Rightarrow> (stats \<Rightarrow> stats) \<Rightarrow> manager \<Rightarrow> manager" where
  "on_stat cfg iface f m = m\<lparr>Stats := madjust cfg (madjust iface f) (Stats m)\<rparr>"

definition updateProcessStatus :: "string \<Rightarrow> string \<Rightarrow> bool \<Rightarrow> manager \<Rightarrow> manager" where
  "updateProcessStatus cfg process status m =
    m\<lparr>processStates := AList.update cfg (AList.update process status (mget_or [] (processStates m) cfg))
        (processStates m)\<rparr>"

section \<open>The ptp4l configurations\<close>

definition AddPTPConfig :: "string \<Rightarrow> ptp4l_config \<Rightarrow> manager \<Rightarrow> manager" where
  "AddPTPConfig fileName cfg m =
    m\<lparr>Ptp4lConfigInterfaces := AList.update fileName cfg (Ptp4lConfigInterfaces m)\<rparr>"

definition empty_config :: "string \<Rightarrow> ptp4l_config" where
  "empty_config name = \<lparr>pc_Name = name, pc_Profile = '''', Interfaces = [], Sections = [], ProfileType = UnsetProfile\<rparr>"

definition GetPTPConfig :: "string \<Rightarrow> manager \<Rightarrow> ptp4l_config \<times> manager" where
  "GetPTPConfig name m =
    (case map_of (Ptp4lConfigInterfaces m) name of
      Some c \<Rightarrow> (c, m)
    | None \<Rightarrow> (empty_config name, AddPTPConfig name (empty_config name) m))"

definition GetPTPConfigByProfile :: "string \<Rightarrow> manager \<Rightarrow> string" where
  "GetPTPConfigByProfile profile m =
    (case find (\<lambda>(k, c). pc_Profile c = profile) (Ptp4lConfigInterfaces m) of
      None \<Rightarrow> '''' | Some (k, c) \<Rightarrow> pc_Name c)"

definition GetPTPConfigDeepCopy :: "string \<Rightarrow> manager \<Rightarrow> ptp4l_config" where
  "GetPTPConfigDeepCopy name m =
    (case map_of (Ptp4lConfigInterfaces m) name of
      Some c \<Rightarrow> \<lparr>pc_Name = pc_Name c, pc_Profile = pc_Profile c, Interfaces = Interfaces c,
                 Sections = [], ProfileType = UnsetProfile\<rparr>
    | None \<Rightarrow> empty_config name)"

definition DeletePTPConfig :: "string \<Rightarrow> manager \<Rightarrow> manager" where
  "DeletePTPConfig key m = m\<lparr>Ptp4lConfigInterfaces := AList.delete key (Ptp4lConfigInterfaces m)\<rparr>"

section \<open>The saved file\<close>

text \<open>A nil interface in a configuration is dereferenced.\<close>

fun port_roles :: "ptp_interface option list \<Rightarrow> (string, port_role) gomap option" where
  "port_roles [] = Some []"
| "port_roles (None # is) = None"
| "port_roles (Some i # is) =
    (case port_roles is of None \<Rightarrow> None
      | Some rs \<Rightarrow> Some (if map_of rs (pi_Name i) = None then (pi_Name i, Role i) # rs else rs))"

fun all_port_roles :: "(string, ptp4l_config) gomap \<Rightarrow> (string, (string, port_role) gomap) gomap option" where
  "all_port_roles [] = Some []"
| "all_port_roles ((k, c) # cs) =
    (case (port_roles (Interfaces c), all_port_roles cs) of
      (Some rs, Some rest) \<Rightarrow> Some (if Interfaces c = [] then rest else (k, rs) # rest)
    | _ \<Rightarrow> None)"

text \<open>The process states are not put into the saved data.\<close>

definition saveToStore :: "manager \<Rightarrow> unit m_res" where
  "saveToStore m =
    (case scConfig m of
      None \<Rightarrow> Ok () m
    | Some sc \<Rightarrow>
        (case all_port_roles (Ptp4lConfigInterfaces m) of
          None \<Rightarrow> Panic m
        | Some roles \<Rightarrow> Ok () (if sc_writes sc then
              m\<lparr>m_store := SavedFile \<lparr>sm_Timestamp = a_now (w_env (m_world m)), LastClockState = lastOverallSyncState m,
                 PortRoles = roles, ProcessStates = []\<rparr>\<rparr> else m)))"

text \<open>The role is set on a copy of the interface. The result is the timestamp, or an error.\<close>

definition load_role :: "string \<Rightarrow> string \<times> port_role \<Rightarrow> manager \<Rightarrow> manager" where
  "load_role cfg pr m =
    (let (c, m) = GetPTPConfig cfg m in
     case ByInterface (fst pr) c of
       None \<Rightarrow> m
     | Some i \<Rightarrow> (let _ = UpdateRole (snd pr) i in m))"

definition LoadFromStore :: "manager \<Rightarrow> int option \<times> manager" where
  "LoadFromStore m =
    (case m_store m of
      NoFile \<Rightarrow> (Some 0, m)
    | GarbageFile \<Rightarrow> (None, m)
    | SavedFile sm \<Rightarrow>
        (let m = m\<lparr>lastOverallSyncState := LastClockState sm, processStates := ProcessStates sm\<rparr>;
             m = fold (\<lambda>(cfg, prs) m. fold (load_role cfg) prs m) (PortRoles sm) m
         in (Some (sm_Timestamp sm), m)))"

definition SetStats :: "string \<Rightarrow> PTPStats \<Rightarrow> manager \<Rightarrow> unit m_res" where
  "SetStats cfg s m = saveToStore (m\<lparr>Stats := AList.update cfg s (Stats m)\<rparr>)"

definition UpdateSyncState :: "sync_state \<Rightarrow> manager \<Rightarrow> unit m_res" where
  "UpdateSyncState s m = saveToStore (m\<lparr>lastOverallSyncState := s\<rparr>)"

definition on_registry :: "(registry \<Rightarrow> registry) \<Rightarrow> manager \<Rightarrow> manager" where
  "on_registry f m = m\<lparr>m_world := on_reg f (m_world m)\<rparr>"

definition updateRoleMetricFromData :: "string \<Rightarrow> string \<Rightarrow> port_role \<Rightarrow> manager \<Rightarrow> manager" where
  "updateRoleMetricFromData cfg portName portRole m =
    on_registry (UpdateInterfaceRoleMetrics (hd (str_split CHR ''.'' cfg)) portName portRole) m"

definition SetInitalMetrics :: "manager \<Rightarrow> unit m_res" where
  "SetInitalMetrics m =
    res_bind
      (res_fold (\<lambda>(cfg, c). res_fold (\<lambda>i m. case i of None \<Rightarrow> Panic m
            | Some i \<Rightarrow> Ok () (updateRoleMetricFromData cfg (pi_Name i) (Role i) m)) (Interfaces c))
        (Ptp4lConfigInterfaces m) m)
      (\<lambda>_ m. Ok () (fold (\<lambda>(cfg, procs). fold (\<lambda>(p, status).
            on_registry (UpdateProcessStatusMetrics p cfg (if status then 1 else 0))) procs)
          (processStates m) m))"

section \<open>The node's state\<close>

definition ChronydActiveAsE3 :: "manager \<Rightarrow> bool" where
  "ChronydActiveAsE3 m =
    list_ex (\<lambda>(cfg, ps). case map_of ps ClockRealTime of
        None \<Rightarrow> False
      | Some cr \<Rightarrow> processName cr = chronydProcessName \<and> lastSyncState cr \<noteq> NoState) (Stats m)"

text \<open>Whether the clock under a key of one configuration counts, and its state.\<close>

definition node_state_of :: "bool \<Rightarrow> string \<Rightarrow> string \<Rightarrow> stats \<Rightarrow> sync_state option" where
  "node_state_of chronydActive mainClockName iface stat =
    (if iface \<noteq> ClockRealTime \<and> iface \<noteq> mainClockName \<and>
        (iface \<noteq> MasterClockType \<or> mainClockName = TBCMainClockName) then None
     else if iface = ClockRealTime \<and> chronydActive \<and> processName stat \<noteq> chronydProcessName then None
     else let s = lastSyncState stat in
       if s \<noteq> FREERUN \<and> s \<noteq> HOLDOVER \<and> s \<noteq> LOCKED then None else Some s)"

definition collect_config :: "bool \<Rightarrow> PTPStats \<Rightarrow> sync_state \<times> bool \<Rightarrow> sync_state \<times> bool" where
  "collect_config chronydActive ps acc =
    fold (\<lambda>(iface, stat) (finalState, found).
        case node_state_of chronydActive (GetMainClockName ps) iface stat of
          None \<Rightarrow> (finalState, found)
        | Some s \<Rightarrow> (OverallState finalState s, True)) ps acc"

definition GetNodeSyncState :: "sync_state \<Rightarrow> manager \<Rightarrow> sync_state" where
  "GetNodeSyncState currentState m =
    (let currentState = (if currentState = NoState then FREERUN else currentState);
         (finalState, found) =
           fold (\<lambda>(cfg, ps). collect_config (ChronydActiveAsE3 m) ps) (Stats m) (NoState, False)
     in if \<not> found then currentState else OverallState currentState finalState)"

section \<open>Publishing\<close>

definition GetPTPEventsData :: "sync_state \<Rightarrow> int \<Rightarrow> string \<Rightarrow> event_type \<Rightarrow> manager \<Rightarrow> event_data" where
  "GetPTPEventsData state ptpOffset source eventType m =
    (let eventSource = path_join [resourcePrefix m, nodeName m, source] in
     (if eventType \<noteq> PtpClockClassChange \<and> eventType \<noteq> SynceClockQualityChange \<and> state \<noteq> NoState
      then [\<lparr>dv_Resource = eventSource, dv_DataType = NOTIFICATION, dv_ValueType = ENUMERATION,
             dv_Value = VState state\<rparr>] else []) @
     (if eventType \<noteq> SyncStateChange \<and> eventType \<noteq> SynceStateChange
      then [\<lparr>dv_Resource = eventSource, dv_DataType = METRIC, dv_ValueType = DECIMAL,
             dv_Value = VInt ptpOffset\<rparr>] else []))"

text \<open>A missing publisher or a refused event is only logged.\<close>

definition publish :: "event_data \<Rightarrow> string \<Rightarrow> event_type \<Rightarrow> manager \<Rightarrow> unit m_res" where
  "publish data resourceAddress eventType m =
    (case map_of (publisherTypes m) eventType of
      None \<Rightarrow> Ok () m
    | Some pub \<Rightarrow>
        (case CreateEvent (PubID pub) (event_type_name eventType) (pub_Resource pub) data of
          Inl _ \<Rightarrow> Ok () m
        | Inr e \<Rightarrow>
            (case scConfig m of
              None \<Rightarrow> Panic m
            | Some sc \<Rightarrow> Ok () (m\<lparr>scConfig := Some (PublishEventViaAPI e resourceAddress sc)\<rparr>))))"

text \<open>The publisher's resource; a missing one is a nil dereference.\<close>

definition with_resource :: "event_type \<Rightarrow> (string \<Rightarrow> manager \<Rightarrow> 'a m_res) \<Rightarrow> manager \<Rightarrow> 'a m_res" where
  "with_resource eventType f m =
    (case map_of (publisherTypes m) eventType of None \<Rightarrow> Panic m | Some pub \<Rightarrow> f (pub_Resource pub) m)"

text \<open>The event about the node's state, and the remembering of it.\<close>

definition send_node_event :: "sync_state \<Rightarrow> int \<Rightarrow> manager \<Rightarrow> unit m_res" where
  "send_node_event nodeState ptpOffset m =
    (if mock m then Ok () m
     else with_resource SyncStateChange (\<lambda>source m.
       publish (GetPTPEventsData nodeState ptpOffset source SyncStateChange m)
         (path_join [resourcePrefix m, nodeName m, source]) SyncStateChange m) m)"

definition node_change :: "sync_state \<Rightarrow> int \<Rightarrow> manager \<Rightarrow> unit m_res" where
  "node_change state ptpOffset m =
    (let nodeState = GetNodeSyncState state m in
     if nodeState = lastOverallSyncState m then Ok () m
     else res_bind (send_node_event nodeState ptpOffset m) (\<lambda>_ m. UpdateSyncState nodeState m))"

definition is_node_event :: "event_type \<Rightarrow> bool" where
  "is_node_event t = (t = PtpStateChange \<or> t = OsClockSyncStateChange)"

definition send_event :: "sync_state \<Rightarrow> int \<Rightarrow> string \<Rightarrow> event_type \<Rightarrow> manager \<Rightarrow> unit m_res" where
  "send_event state ptpOffset source eventType m =
    (if mock m then
       Ok () (m\<lparr>mockEvent := eventType # (if is_node_event eventType then [SyncStateChange] else [])\<rparr>)
     else with_resource eventType (\<lambda>r m.
       publish (GetPTPEventsData state ptpOffset source eventType m)
         (path_join [resourcePrefix m, nodeName m, r]) eventType m) m)"

definition PublishEvent :: "sync_state \<Rightarrow> int \<Rightarrow> string \<Rightarrow> event_type \<Rightarrow> manager \<Rightarrow> unit m_res" where
  "PublishEvent state ptpOffset source eventType m =
    (if state = NoState then Ok () m
     else res_bind (send_event state ptpOffset source eventType m)
       (\<lambda>_ m. if is_node_event eventType then node_change state ptpOffset m else Ok () m))"

definition PublishClockClassEvent :: "float64 \<Rightarrow> string \<Rightarrow> event_type \<Rightarrow> manager \<Rightarrow> unit m_res" where
  "PublishClockClassEvent clkClass source eventType m =
    (if mock m then Ok () (m\<lparr>mockEvent := [eventType]\<rparr>)
     else
       (let data = GetPTPEventsData LOCKED (int_of_float clkClass) source eventType m in
        with_resource eventType (\<lambda>r m. publish data (path_join [resourcePrefix m, nodeName m, r]) eventType m) m))"

definition publishSyncEEvent ::
  "sync_state \<Rightarrow> string \<Rightarrow> 8 word \<Rightarrow> 8 word \<Rightarrow> bool \<Rightarrow> event_type \<Rightarrow> manager \<Rightarrow> unit m_res" where
  "publishSyncEEvent syncState source ql extQl extendedTvlEnabled eventType m =
    (if mock m then Ok () (m\<lparr>mockEvent := [eventType]\<rparr>)
     else if map_of (publisherTypes m) eventType = None then Ok () m
     else
       (let metric = (\<lambda>r v. \<lparr>dv_Resource = r, dv_DataType = METRIC, dv_ValueType = DECIMAL, dv_Value = v\<rparr>);
            at = (\<lambda>parts. path_join ([resourcePrefix m, nodeName m, source] @ parts));
            data = (if syncState = NoState then
                [metric (at [''Ql'']) (VFloat (float_of_int (uint ql))),
                 metric (at [''extQl'']) (VInt (if \<not> extendedTvlEnabled then 0xFF else uint extQl))]
              else [metric (at []) (VState syncState)])
        in with_resource eventType (\<lambda>r m. publish data (path_join [resourcePrefix m, nodeName m, r]) eventType m) m))"

section \<open>Working on the clocks of one configuration\<close>

text \<open>
  The log handlers hold the map of one configuration's clocks; it is the table under the
  configuration's name. A method of a clock that is not in the map is a nil dereference.
\<close>

definition table_of :: "string \<Rightarrow> manager \<Rightarrow> PTPStats" where
  "table_of cfg m = mget_or [] (Stats m) cfg"

definition on_table :: "string \<Rightarrow> (PTPStats \<Rightarrow> PTPStats) \<Rightarrow> manager \<Rightarrow> manager" where
  "on_table cfg f m = m\<lparr>Stats := madjust cfg f (Stats m)\<rparr>"

definition check_source :: "string \<Rightarrow> string \<Rightarrow> string \<Rightarrow> manager \<Rightarrow> manager" where
  "check_source cfg k proc m = on_table cfg (CheckSource k cfg proc) m"

definition need :: "string \<Rightarrow> string \<Rightarrow> (stats \<Rightarrow> manager \<Rightarrow> 'a m_res) \<Rightarrow> manager \<Rightarrow> 'a m_res" where
  "need cfg k f m = (case stat_at cfg k m of None \<Rightarrow> Panic m | Some st \<Rightarrow> f st m)"

definition upd :: "string \<Rightarrow> string \<Rightarrow> (stats \<Rightarrow> stats) \<Rightarrow> manager \<Rightarrow> unit m_res" where
  "upd cfg k g m = need cfg k (\<lambda>_ m. Ok () (on_stat cfg k g m)) m"

text \<open>Statements one after the other.\<close>

definition do_all :: "(manager \<Rightarrow> unit m_res) list \<Rightarrow> manager \<Rightarrow> unit m_res" where
  "do_all fs m = res_fold (\<lambda>f m. f m) fs m"

definition pure :: "(manager \<Rightarrow> manager) \<Rightarrow> manager \<Rightarrow> unit m_res" where
  "pure f m = Ok () (f m)"

definition alias_of :: "string \<Rightarrow> manager \<Rightarrow> string \<times> manager" where
  "alias_of ifname m = (let (a, w) = world_alias ifname (m_world m) in (a, m\<lparr>m_world := w\<rparr>))"

section \<open>From a log line's state to an event\<close>

text \<open>\<open>absInt64\<close> keeps the most negative number, as the negation wraps.\<close>

definition absInt64 :: "int \<Rightarrow> int" where
  "absInt64 v = (if v < 0 then wrap64 (- v) else v)"

definition isOffsetInRange :: "int \<Rightarrow> int \<Rightarrow> bool" where
  "isOffsetInRange ptpOffset maxOffset = (absInt64 ptpOffset < maxOffset)"

text \<open>The fix state a GNSS event reports.\<close>

definition GetGPSFixState :: "int \<Rightarrow> sync_state \<Rightarrow> sync_state" where
  "GetGPSFixState gpsFix syncState =
    (if syncState = LOCKED then SYNCHRONIZED
     else if gpsFix \<ge> 3 then ACQUIRING_SYNC
     else if gpsFix = 0 then FAILURE_NOFIX
     else if gpsFix < 3 then ACQUIRING_SYNC
     else FAILURE_NOFIX)"

definition publishGNSSEvent :: "int \<Rightarrow> float64 \<Rightarrow> sync_state \<Rightarrow> string \<Rightarrow> event_type \<Rightarrow> manager \<Rightarrow> unit m_res" where
  "publishGNSSEvent state off syncState source eventType m =
    (if mock m then Ok () (m\<lparr>mockEvent := [eventType]\<rparr>)
     else
       (let data = GetPTPEventsData (GetGPSFixState state syncState) (int_of_float off) source eventType m in
        case data of
          [] \<Rightarrow> Panic m
        | d # _ \<Rightarrow>
            (let data = data @ [\<lparr>dv_Resource = dv_Resource d @ ''/gpsFix'', dv_DataType = METRIC,
                                 dv_ValueType = DECIMAL, dv_Value = VInt state\<rparr>]
             in with_resource eventType (\<lambda>r m. publish data (path_join [resourcePrefix m, nodeName m, r]) eventType m) m)))"

text \<open>
  The pointer to the statistics is the pair of configuration and key; a panic in the body is
  recovered, so what it wrote before stays.
\<close>

definition GenPTPEvent ::
  "string \<Rightarrow> string \<times> string \<Rightarrow> string \<Rightarrow> int \<Rightarrow> sync_state \<Rightarrow> event_type \<Rightarrow> manager \<Rightarrow> unit m_res" where
  "GenPTPEvent ptpProfileName clk eventResourceName ptpOffset clockState eventType m =
    (let (cfg, iface) = clk in
     if clockState = NoState then Ok () m
     else case stat_at cfg iface m of
       None \<Rightarrow> Ok () m
     | Some oStats \<Rightarrow>
         (let lastClockState = lastSyncState oStats;
              (threshold, m) = PtpThreshold ptpProfileName False m;
              inRange = isOffsetInRange ptpOffset (MaxOffsetThreshold threshold);
              setState = (\<lambda>s. on_stat cfg iface (SetLastSyncState s));
              setOffset = on_stat cfg iface (SetLastOffset ptpOffset);
              addValue = on_stat cfg iface (AddValue ptpOffset);
              announce = (\<lambda>s t m. PublishEvent s ptpOffset eventResourceName t (setState s m));
              close = (\<lambda>m. m\<lparr>PtpConfigMapUpdates := snd (SafeClose threshold (PtpConfigMapUpdates m))\<rparr>)
          in recovered
            (case clockState of
              LOCKED \<Rightarrow>
                (case lastClockState of
                  FREERUN \<Rightarrow>
                    if inRange then res_bind (announce LOCKED eventType m) (\<lambda>_ m. Ok () (addValue (setOffset m)))
                    else Ok () m
                | LOCKED \<Rightarrow>
                    if inRange then Ok () (addValue (setOffset m))
                    else res_bind (announce FREERUN eventType m) (\<lambda>_ m. Ok () (setOffset m))
                | HOLDOVER \<Rightarrow>
                    if inRange then res_bind (announce LOCKED eventType (close m)) (\<lambda>_ m. Ok () (addValue (setOffset m)))
                    else Ok () m
                | _ \<Rightarrow> res_bind (announce (if inRange then LOCKED else FREERUN) eventType m)
                    (\<lambda>_ m. Ok () (setOffset m)))
            | HOLDOVER \<Rightarrow>
                res_bind
                  (if lastClockState \<noteq> HOLDOVER then announce HOLDOVER eventType m else Ok () (setState HOLDOVER m))
                  (\<lambda>_ m. Ok () (addValue (setOffset m)))
            | FREERUN \<Rightarrow>
                if lastClockState \<noteq> HOLDOVER \<or> eventType = OsClockSyncStateChange then
                  res_bind
                    (if lastClockState \<noteq> FREERUN then announce FREERUN eventType m else Ok () (setState FREERUN m))
                    (\<lambda>_ m. Ok () (addValue (setOffset m)))
                else Ok () (setState FREERUN m)
            | _ \<Rightarrow> res_bind (announce (if inRange then LOCKED else FREERUN) PtpStateChange m)
                (\<lambda>_ m. Ok () (setOffset m)))))"

section \<open>Profiles\<close>

definition IsHAProfile :: "string \<Rightarrow> manager \<Rightarrow> bool" where
  "IsHAProfile name m = (HAProfile (PtpConfigMapUpdates m) = name)"

text \<open>The first settings visited that hold the HA identifier.\<close>

definition HAProfiles :: "manager \<Rightarrow> string \<times> string list" where
  "HAProfiles m =
    (case find (\<lambda>(name, settings). map_of settings ''haProfiles'' \<noteq> None) (PtpSettings (PtpConfigMapUpdates m)) of
      None \<Rightarrow> ('''', [])
    | Some (name, settings) \<Rightarrow>
        (name, map trim_space (str_split CHR '','' (the (map_of settings ''haProfiles'')))))"

definition IsTBCProfile :: "string \<Rightarrow> manager \<Rightarrow> bool" where
  "IsTBCProfile name m = list_ex (\<lambda>p. p = name) (TBCProfiles (PtpConfigMapUpdates m))"

definition GetProfileType :: "string \<Rightarrow> manager \<Rightarrow> profile_type" where
  "GetProfileType name m =
    (if list_ex (\<lambda>p. p = name) (TBCProfiles (PtpConfigMapUpdates m)) then TBC_profile else NONE_profile)"

definition GetProfileTypeByConfigName :: "string \<Rightarrow> manager \<Rightarrow> profile_type" where
  "GetProfileTypeByConfigName cfgName m =
    (case map_of (Ptp4lConfigInterfaces m) cfgName of
      None \<Rightarrow> NONE_profile
    | Some cfg \<Rightarrow>
        if ProfileType cfg \<noteq> NONE_profile then ProfileType cfg else GetProfileType (pc_Profile cfg) m)"

definition RefreshProfileTypes :: "manager \<Rightarrow> manager" where
  "RefreshProfileTypes m =
    m\<lparr>Ptp4lConfigInterfaces :=
       map (\<lambda>(k, cfg). (k, cfg\<lparr>ProfileType := GetProfileType (pc_Profile cfg) m\<rparr>)) (Ptp4lConfigInterfaces m)\<rparr>"

definition ListHAProfilesWith :: "string \<Rightarrow> manager \<Rightarrow> string \<times> string list" where
  "ListHAProfilesWith currentProfile m =
    (let currentProfile = trim_space currentProfile in
     if currentProfile = '''' then ('''', [])
     else (let (profile, profiles) = HAProfiles m in
       if trim_space currentProfile \<in> set profiles then (profile, profiles) else ('''', [])))"

definition resolveProfileName :: "string \<Rightarrow> string \<Rightarrow> manager \<Rightarrow> string \<times> manager" where
  "resolveProfileName profileName cfgName m =
    (if profileName \<noteq> '''' then (profileName, m)
     else if cfgName = '''' then ('''', m)
     else (let (c, m) = GetPTPConfig cfgName m in (pc_Profile c, m)))"

definition lookup_or_ensure :: "string \<Rightarrow> manager \<Rightarrow> ptp_process_opts option m_res" where
  "lookup_or_ensure profileName m =
    (case LookupOrEnsurePtpProcessOpts (m_conf_env m) (nodeName m) profileName (PtpConfigMapUpdates m) of
      Ok r l \<Rightarrow> Ok r (m\<lparr>PtpConfigMapUpdates := l\<rparr>)
    | Panic l \<Rightarrow> Panic (m\<lparr>PtpConfigMapUpdates := l\<rparr>))"

definition GetPtpProcessOpts :: "string \<Rightarrow> string \<Rightarrow> manager \<Rightarrow> ptp_process_opts option m_res" where
  "GetPtpProcessOpts profileName cfgName m =
    (let (profileName, m) = resolveProfileName profileName cfgName m;
         look = (\<lambda>p m. if mock m then Ok (LookupPtpProcessOpts p (PtpConfigMapUpdates m)) m else lookup_or_ensure p m)
     in res_bind (look profileName m) (\<lambda>r m.
       if r \<noteq> None then Ok r m
       else if cfgName = '''' then Ok None m
       else (let (cfg, m) = GetPTPConfig cfgName m in
         if pc_Profile cfg = '''' then Ok None m
         else res_bind (if mock m then Ok None m else lookup_or_ensure (pc_Profile cfg) m) (\<lambda>r m.
           if r \<noteq> None then Ok r m
           else Ok (LookupPtpProcessOpts (pc_Profile cfg) (PtpConfigMapUpdates m)) m))))"

end
