(* ===== verification/LogExtract.thy ===== *)
theory LogExtract
  imports PtpTypes GoConv
begin

text \<open>
  The pure extractors of \<open>metrics/logparser.go\<close> and \<open>metrics/logData.go\<close>: from a log line to
  numbers, roles and states. A result \<open>None\<close> is an index out of range.
\<close>

section \<open>Finding the configuration name\<close>

definition config_names :: "string list" where
  "config_names = [''ptp4l'', ''ts2phc'', ''phc2sys'', ''synce4l'', ''chronyd'']"

text \<open>\<open>(ptp4l|ts2phc|phc2sys|synce4l|chronyd)\.[0-9]*\.config\<close> at the start of the text.\<close>

definition config_at :: "string \<Rightarrow> bool" where
  "config_at s = list_ex (\<lambda>p. has_prefix s (p @ ''.'') \<and>
     has_prefix (dropWhile is_digit (drop (length p + 1) s)) ''.config'') config_names"

fun FindInLogForCfgFileIndex :: "string \<Rightarrow> nat option" where
  "FindInLogForCfgFileIndex [] = None"
| "FindInLogForCfgFileIndex (c # s) =
    (if config_at (c # s) then Some 0 else map_option Suc (FindInLogForCfgFileIndex s))"

definition bracket_pairs :: "(string \<times> string) list" where
  "bracket_pairs = [(''['', '' ''), ('']'', '' ''), ('':'', '' '')]"

definition fld :: "string list \<Rightarrow> nat \<Rightarrow> string option" where
  "fld xs i = (if i < length xs then Some (xs ! i) else None)"

section \<open>States\<close>

definition GetSyncState :: "string \<Rightarrow> sync_state" where
  "GetSyncState s = (if s = ''s0'' then FREERUN else if s = ''s1'' then HOLDOVER
     else if s = ''s2'' then LOCKED else FREERUN)"

definition GetSyncStateID :: "string \<Rightarrow> int" where
  "GetSyncStateID s = (if s = ''s0'' then 0 else if s = ''s1'' then 2 else if s = ''s2'' then 1 else 0)"

text \<open>The state of an offset line: s0 and s1 are free running, s2 and s3 locked.\<close>

definition offset_line_state :: "string \<Rightarrow> sync_state option" where
  "offset_line_state s =
    (if s = ''s0'' then Some FREERUN else if s = ''s1'' then Some FREERUN
     else if s = ''s2'' \<or> s = ''s3'' then Some LOCKED else None)"

section \<open>Summary lines\<close>

record line_metrics =
  lm_iface :: string
  lm_offset :: float64
  lm_max :: float64
  lm_freq :: float64
  lm_delay :: float64
  lm_state :: sync_state

definition zero_metrics :: line_metrics where
  "zero_metrics = \<lparr>lm_iface = '''', lm_offset = float_of_int 0, lm_max = float_of_int 0,
     lm_freq = float_of_int 0, lm_delay = float_of_int 0, lm_state = NoState\<rparr>"

definition summary_fields :: "string list \<Rightarrow> line_metrics option" where
  "summary_fields fs =
    (if length fs < 8 then Some zero_metrics
     else if fs ! 1 \<noteq> ''rms'' \<and> fs ! 1 \<noteq> ClockRealTime then Some zero_metrics
     else
       (let fs = (if fs ! 1 = ''rms'' then hd fs # MasterClockType # tl fs else fs);
            res = zero_metrics\<lparr>lm_iface := fs ! 1, lm_offset := fst (ParseFloat (fs ! 3)),
                    lm_max := fst (ParseFloat (fs ! 5)), lm_freq := fst (ParseFloat (fs ! 7))\<rparr>
        in if length fs \<ge> 11 then
             (case fld fs 11 of None \<Rightarrow> None
              | Some d \<Rightarrow> Some (res\<lparr>lm_delay := fst (ParseFloat d)\<rparr>))
           else Some res))"

definition extractSummaryMetrics :: "string \<Rightarrow> line_metrics option" where
  "extractSummaryMetrics output =
    (if str_index output ''rms'' = None then Some zero_metrics
     else (let output = replacer bracket_pairs output in
       case FindInLogForCfgFileIndex output of
         None \<Rightarrow> Some zero_metrics
       | Some i \<Rightarrow> summary_fields (str_fields (drop i output))))"

section \<open>Regular lines\<close>

text \<open>
  \<open>ok\<close> below is the state; a parse error of the offset or the frequency, or an unknown state, gives an
  empty interface name, with what was parsed before it.
\<close>

definition regular_values :: "string \<Rightarrow> string \<Rightarrow> string list \<Rightarrow> line_metrics option" where
  "regular_values proc iface fs =
    (let res = zero_metrics\<lparr>lm_iface := iface\<rparr>;
         (off, err) = ParseFloat (fs ! 3);
         skip = res\<lparr>lm_iface := '''', lm_offset := off\<rparr>
     in if err \<noteq> None then Some skip
        else case fld fs 6 of
          None \<Rightarrow> None
        | Some f6 \<Rightarrow>
          (let (freq, err) = ParseFloat f6;
               skip = skip\<lparr>lm_max := off, lm_freq := freq\<rparr>
           in if err \<noteq> None then Some skip
              else case offset_line_state (fs ! 4) of
                None \<Rightarrow> Some skip
              | Some st \<Rightarrow>
                (let res = res\<lparr>lm_offset := off, lm_max := off, lm_freq := freq, lm_state := st\<rparr> in
                 if length fs \<ge> 8 \<and> proc = ts2phcProcessName \<and> fs ! 7 = ''holdover''
                 then Some (res\<lparr>lm_state := HOLDOVER\<rparr>)
                 else if length fs \<ge> 8 then
                   (case fld fs 8 of None \<Rightarrow> None
                    | Some d \<Rightarrow> Some (res\<lparr>lm_delay := fst (ParseFloat d)\<rparr>))
                 else if proc \<noteq> ts2phcProcessName then Some (res\<lparr>lm_state := HOLDOVER\<rparr>)
                 else Some res)))"

definition regular_fields :: "string \<Rightarrow> string list \<Rightarrow> line_metrics option" where
  "regular_fields proc fs =
    (if length fs < 7 then Some zero_metrics
     else
       (let iface = fs ! 1;
            fs = (if fs ! 2 \<noteq> ''offset'' \<and> proc = ts2phcProcessName
                      then hd fs # drop 2 fs else fs)
        in if fs ! 2 \<noteq> ''offset'' then Some (zero_metrics\<lparr>lm_iface := iface\<rparr>)
           else regular_values proc iface fs))"

definition regular_pairs :: "(string \<times> string) list" where
  "regular_pairs = bracket_pairs @ [('' phc '', '' ''), ('' sys '', '' '')]"

text \<open>The index is found before the text is rewritten; slicing beyond its end panics.\<close>

definition extractRegularMetrics :: "string \<Rightarrow> string \<Rightarrow> line_metrics option" where
  "extractRegularMetrics proc output =
    (case FindInLogForCfgFileIndex output of
      None \<Rightarrow> Some zero_metrics
    | Some i \<Rightarrow>
        (let output = replacer regular_pairs (replace_first output ''path'' '''') in
         if i \<le> length output then regular_fields proc (str_fields (drop i output)) else None))"

section \<open>NMEA and HA lines\<close>

definition extractNmeaMetrics :: "string \<Rightarrow> string \<times> float64 \<times> float64 \<times> sync_state" where
  "extractNmeaMetrics output =
    (case FindInLogForCfgFileIndex output of
      None \<Rightarrow> ('''', float_of_int 0, float_of_int 0, NoState)
    | Some i \<Rightarrow>
        (let fs = str_fields (drop i (replacer bracket_pairs output)) in
         if length fs < 7 then ('''', float_of_int 0, float_of_int 0, NoState)
         else (fs ! 1, fst (ParseFloat (fs ! 3)), fst (ParseFloat (fs ! 5)),
               case offset_line_state (fs ! 6) of None \<Rightarrow> NoState | Some s \<Rightarrow> s)))"

text \<open>Profile, state, and whether the state was not a number.\<close>

definition extractPTPHaMetrics :: "string \<Rightarrow> string \<times> int \<times> bool" where
  "extractPTPHaMetrics output =
    (case FindInLogForCfgFileIndex output of
      None \<Rightarrow> ('''', -1, False)
    | Some i \<Rightarrow>
        (let fs = str_fields (drop i (replacer bracket_pairs output)) in
         if length fs < 5 then ('''', -1, False)
         else (let (state, err) = ParseInt0 (fs ! 4) in (fs ! 2, state, err \<noteq> None))))"

section \<open>Port events of ptp4l\<close>

definition handlePort :: "string \<Rightarrow> int \<times> bool" where
  "handlePort portIndex =
    (if portIndex = '''' \<or> \<not> list_all is_digit portIndex then (0, False)
     else (let (n, err) = Atoi portIndex in (n, err \<noteq> None)))"

definition port_event :: "string \<Rightarrow> port_role \<times> sync_state" where
  "port_event output =
    (let has = contains output in
     if has ''UNCALIBRATED to SLAVE'' \<or> has ''LISTENING to SLAVE'' then (SLAVE, FREERUN)
     else if has ''UNCALIBRATED to PASSIVE'' \<or> has ''MASTER to PASSIVE'' \<or> has ''SLAVE to PASSIVE'' \<or>
       has ''LISTENING to PASSIVE'' then (PASSIVE, FREERUN)
     else if has ''UNCALIBRATED to MASTER'' \<or> has ''LISTENING to MASTER'' \<or> has ''to PRE_MASTER'' \<or>
       has ''PRE_MASTER to MASTER'' then (MASTER, FREERUN)
     else if has ''FAULT_DETECTED'' \<or> has ''SYNCHRONIZATION_FAULT'' \<or> has ''SLAVE to UNCALIBRATED''
       then (FAULTY, HOLDOVER)
     else if has ''MASTER to UNCALIBRATED'' \<or> has ''LISTENING to UNCALIBRATED'' then (LISTENING, HOLDOVER)
     else if has ''SLAVE to MASTER'' \<or> has ''SLAVE to GRAND_MASTER'' then (MASTER, HOLDOVER)
     else if has ''SLAVE to LISTENING'' then (LISTENING, HOLDOVER)
     else if has ''FAULTY to LISTENING'' \<or> has ''UNCALIBRATED to LISTENING'' \<or> has ''INITIALIZING to LISTENING''
       then (LISTENING, FREERUN)
     else (UNKNOWN, FREERUN))"

definition extractPTP4lEventState :: "string \<Rightarrow> int \<times> port_role \<times> sync_state" where
  "extractPTP4lEventState output =
    (let output = replacer bracket_pairs output in
     case str_index output '' port '' of
       None \<Rightarrow> (0, UNKNOWN, FREERUN)
     | Some i \<Rightarrow>
         (let output = drop i output; fs = str_fields output in
          if length fs < 2 then (0, UNKNOWN, FREERUN)
          else (let (portID, err) = handlePort (fs ! 1) in
            if err then (portID, UNKNOWN, FREERUN) else (portID, port_event output))))"

section \<open>SyncE lines\<close>

record synce_log =
  sl_Process :: string
  sl_Timestamp :: int
  sl_Config :: string
  sl_Interface :: string
  sl_Device :: string
  EECState :: string
  sl_ClockQuality :: string
  sl_ExtQL :: "8 word"
  sl_QL :: "8 word"
  sl_NetworkOption :: int
  sl_State :: string
  ExtendedQlEnabled :: bool

definition set_hex_ql :: "string \<Rightarrow> (8 word \<Rightarrow> synce_log \<Rightarrow> synce_log) \<Rightarrow> synce_log \<Rightarrow> synce_log" where
  "set_hex_ql v upd s =
    (case ParseUint (trim_prefix v ''0x'') 16 8 of (n, None) \<Rightarrow> upd (word_of_int n) s | _ \<Rightarrow> s)"

definition synce_pair :: "string \<times> string \<Rightarrow> synce_log \<Rightarrow> synce_log" where
  "synce_pair kv s =
    (let (k, v) = kv in
     if k = ''eec_state'' then s\<lparr>EECState := v\<rparr>
     else if k = ''clock_quality'' then s\<lparr>sl_ClockQuality := v\<rparr>
     else if k = ''ext_ql'' then
       (set_hex_ql v (\<lambda>q s. s\<lparr>sl_ExtQL := q\<rparr>) s)\<lparr>ExtendedQlEnabled := True\<rparr>
     else if k = ''ql'' then set_hex_ql v (\<lambda>q s. s\<lparr>sl_QL := q\<rparr>) s
     else if k = ''device'' then s\<lparr>sl_Device := v\<rparr>
     else if k = ''network_option'' then s\<lparr>sl_NetworkOption := fst (Atoi v)\<rparr>
     else s)"

text \<open>
  The loop \<open>for i := 4; i < len-2; i += 2\<close> over the rest of the fields: it stops when fewer than three
  are left.
\<close>

fun synce_pairs :: "string list \<Rightarrow> synce_log \<Rightarrow> synce_log" where
  "synce_pairs (k # v # w # rest) s = synce_pairs (w # rest) (synce_pair (k, v) s)"
| "synce_pairs _ s = s"

definition empty_synce_log :: synce_log where
  "empty_synce_log = \<lparr>sl_Process = '''', sl_Timestamp = 0, sl_Config = '''', sl_Interface = '''', sl_Device = '''',
     EECState = '''', sl_ClockQuality = '''', sl_ExtQL = 0, sl_QL = 0, sl_NetworkOption = 0, sl_State = '''',
     ExtendedQlEnabled = False\<rparr>"

definition SyncEParse :: "string list \<Rightarrow> synce_log \<Rightarrow> synce_log option" where
  "SyncEParse out s =
    (if length out < 10 then None
     else case ParseInt64 10 (out ! 1) of
       (ts, None) \<Rightarrow>
         Some (synce_pairs (drop 4 out)
           (s\<lparr>sl_Process := out ! 0, sl_Timestamp := ts, sl_Config := out ! 2, sl_Interface := out ! 3,
              sl_NetworkOption := 0, sl_State := last out, ExtendedQlEnabled := False\<rparr>))
     | _ \<Rightarrow> None)"

section \<open>Which lines are read, and which panic\<close>

lemma fld_beyond [simp]: "length xs \<le> i \<Longrightarrow> fld xs i = None"
  by (simp add: fld_def)

lemma fld_below [simp]: "i < length xs \<Longrightarrow> fld xs i = Some (xs ! i)"
  by (simp add: fld_def)

text \<open>A summary line is read without a panic except when it has exactly one field too few: the
  code reads the field at index 11 when there are at least 11. A line of the master (the interface
  name is inserted) panics with 10 fields, a line of CLOCK_REALTIME with 11.\<close>
theorem summary_panics_iff:
  "summary_fields fs = None \<longleftrightarrow>
    (length fs = 10 \<and> fs ! 1 = ''rms'') \<or> (length fs = 11 \<and> fs ! 1 = ClockRealTime)"
proof (cases "8 \<le> length fs \<and> (fs ! 1 = ''rms'' \<or> fs ! 1 = ClockRealTime)")
  case False
  then show ?thesis by (auto simp: summary_fields_def)
next
  case True
  define gs where "gs = (if fs ! 1 = ''rms'' then hd fs # MasterClockType # tl fs else fs)"
  have "length gs = (if fs ! 1 = ''rms'' then length fs + 1 else length fs)"
    using True by (cases fs) (auto simp: gs_def)
  moreover have "summary_fields fs = None \<longleftrightarrow> length gs = 11"
    using True unfolding summary_fields_def gs_def [symmetric]
    by (auto simp: Let_def fld_def split: option.split)
  moreover have "''rms'' \<noteq> ClockRealTime" by simp
  ultimately show ?thesis using True by auto
qed

text \<open>An offset line of ptp4l or phc2sys, by its length. With a delay it gives the state of its
  token (s0 and s1 FREERUN, s2 and s3 LOCKED) and the delay; without one (7 fields) it is HOLDOVER
  whatever its token says; with one field more and no delay value (8 fields) it panics. A ts2phc line
  that ends in \<open>holdover\<close> is HOLDOVER, and one without an eighth field has its token's state.\<close>
theorem regular_line_by_length:
  assumes "ParseFloat o' = (off, None)" and "ParseFloat f = (freq, None)" and "offset_line_state st = Some s"
    and "proc \<noteq> ts2phcProcessName"
  shows "map_option lm_state (regular_fields proc [c, i, ''offset'', o', st, ''freq'', f, ''delay'', d]) = Some s \<and>
    map_option lm_state (regular_fields proc [c, i, ''offset'', o', st, ''freq'', f]) = Some HOLDOVER \<and>
    regular_fields proc [c, i, ''offset'', o', st, ''freq'', f, ''delay''] = None \<and>
    map_option lm_state (regular_fields ts2phcProcessName [c, i, ''offset'', o', st, ''freq'', f, ''holdover''])
      = Some HOLDOVER \<and>
    map_option lm_state (regular_fields ts2phcProcessName [c, i, ''offset'', o', st, ''freq'', f]) = Some s"
  using assms by (simp add: regular_fields_def regular_values_def fld_def Let_def)

theorem regular_line_by_length_witness:
  "map_option lm_state (regular_fields ''ptp4l'' [''ptp4l.0.config'', ''master'', ''offset'', ''-3'', ''s2'', ''freq'', ''7'']) = Some HOLDOVER"
proof -
  have p: "ParseFloat ''-3'' = (float_of_int (-3), None)" "ParseFloat ''7'' = (float_of_int 7, None)"
    by code_simp+
  have "offset_line_state ''s2'' = Some LOCKED" by (simp add: offset_line_state_def)
  from regular_line_by_length [OF p this, of "''ptp4l''" "''ptp4l.0.config''" "''master''"] show ?thesis by simp
qed

text \<open>The two readings of a state token differ. The status lines (T-BC, T-GM, DPLL, GNSS, SyncE)
  take s1 for HOLDOVER and s3 for FREERUN, the offset lines s1 for FREERUN and s3 for LOCKED; on s0 and
  s2 they agree, and the number reported for a status token is the number of its state.\<close>
theorem state_tokens:
  "GetSyncState ''s1'' = HOLDOVER \<and> offset_line_state ''s1'' = Some FREERUN \<and>
   GetSyncState ''s3'' = FREERUN \<and> offset_line_state ''s3'' = Some LOCKED \<and>
   (\<forall>s \<in> {''s0'', ''s2''}. offset_line_state s = Some (GetSyncState s)) \<and>
   (\<forall>s. GetSyncStateID s = clock_state_id (GetSyncState s))"
  by (simp add: GetSyncState_def GetSyncStateID_def offset_line_state_def clock_state_id_def)

theorem state_tokens_witness:
  "offset_line_state ''s2'' = Some LOCKED"
  using state_tokens by (simp add: GetSyncState_def)

section \<open>The order of the pairs of a SyncE line\<close>

definition hex_or :: "string \<Rightarrow> 8 word \<Rightarrow> 8 word" where
  "hex_or v q = (case ParseUint (trim_prefix v ''0x'') 16 8 of (n, None) \<Rightarrow> word_of_int n | _ \<Rightarrow> q)"

lemma synce_pair_fields:
  "EECState (synce_pair (k, v) s) = (if k = ''eec_state'' then v else EECState s)"
  "sl_ClockQuality (synce_pair (k, v) s) = (if k = ''clock_quality'' then v else sl_ClockQuality s)"
  "sl_Device (synce_pair (k, v) s) = (if k = ''device'' then v else sl_Device s)"
  "sl_NetworkOption (synce_pair (k, v) s) = (if k = ''network_option'' then fst (Atoi v) else sl_NetworkOption s)"
  "sl_ExtQL (synce_pair (k, v) s) = (if k = ''ext_ql'' then hex_or v (sl_ExtQL s) else sl_ExtQL s)"
  "sl_QL (synce_pair (k, v) s) = (if k = ''ql'' then hex_or v (sl_QL s) else sl_QL s)"
  "ExtendedQlEnabled (synce_pair (k, v) s) = (k = ''ext_ql'' \<or> ExtendedQlEnabled s)"
  by (simp_all add: synce_pair_def set_hex_ql_def hex_or_def split: prod.split option.split)

lemma synce_pair_rest:
  "sl_Process (synce_pair kv s) = sl_Process s" "sl_Timestamp (synce_pair kv s) = sl_Timestamp s"
  "sl_Config (synce_pair kv s) = sl_Config s" "sl_Interface (synce_pair kv s) = sl_Interface s"
  "sl_State (synce_pair kv s) = sl_State s"
  by (simp_all add: synce_pair_def set_hex_ql_def split: prod.split option.split)

lemma synce_pair_swap:
  assumes "fst x \<noteq> fst y"
  shows "synce_pair x (synce_pair y s) = synce_pair y (synce_pair x s)"
proof -
  have unit_eq: "(a :: unit) = b" for a b by simp
  obtain k v k' v' where xy: "x = (k, v)" "y = (k', v')" by fastforce
  show ?thesis
    using assms unfolding xy
    by (intro synce_log.equality unit_eq) (auto simp only: synce_pair_fields synce_pair_rest fst_conv split: if_splits)
qed

lemma synce_pairs_flat:
  "synce_pairs (concat (map (\<lambda>(k, v). [k, v]) prs) @ [st]) s = fold synce_pair prs s"
proof (induction prs arbitrary: s)
  case Nil
  then show ?case by simp
next
  case (Cons kv prs)
  obtain k v where "kv = (k, v)" by (cases kv)
  then show ?case
    using Cons.IH by (cases prs) (auto simp: split_def)
qed

definition synce_line :: "string list \<Rightarrow> (string \<times> string) list \<Rightarrow> string \<Rightarrow> string list" where
  "synce_line header prs st = header @ concat (map (\<lambda>(k, v). [k, v]) prs) @ [st]"

text \<open>A SyncE line is read by its keys: for every list of key-value pairs with different keys between
  a four-field header and the state, the order of the pairs does not change what is read.\<close>
theorem synce_parse_order:
  assumes "mset prs = mset prs'" and "distinct (map fst prs)" and "length header = 4"
  shows "SyncEParse (synce_line header prs st) s = SyncEParse (synce_line header prs' st) s"
proof -
  have len: "length (synce_line header prs st) = length (synce_line header prs' st)"
    using mset_eq_length [OF assms(1)]
    by (simp add: synce_line_def length_concat comp_def split_def sum_list_triv)
  have "fold synce_pair prs s = fold synce_pair prs' s" for s
  proof -
    have "fold synce_pair prs = fold synce_pair prs'"
    proof (rule fold_multiset_equiv)
      fix x y assume "x \<in> set prs" "y \<in> set prs"
      then have "x = y \<or> fst x \<noteq> fst y" using assms(2) by (auto simp: distinct_map inj_on_def)
      then show "synce_pair x \<circ> synce_pair y = synce_pair y \<circ> synce_pair x"
        using synce_pair_swap [of x y] by (cases "x = y") (auto simp: fun_eq_iff simp del: split_paired_All)
    qed (use assms(1) in auto)
    then show ?thesis by simp
  qed
  moreover have "synce_line header prs st ! i = synce_line header prs' st ! i" if "i < 4" for i
    using that assms(3) by (simp add: synce_line_def nth_append)
  moreover have "drop 4 (synce_line header ps st) = concat (map (\<lambda>(k, v). [k, v]) ps) @ [st]" for ps
    using assms(3) by (simp add: synce_line_def)
  moreover have "last (synce_line header ps st) = st" for ps by (simp add: synce_line_def)
  ultimately show ?thesis
    by (simp add: SyncEParse_def len synce_pairs_flat split: prod.split option.split)
qed

definition synce_header :: "string list" where
  "synce_header = [''synce4l'', ''1722458091'', ''synce4l.0.config'', ''ens7f0'']"

theorem synce_parse_order_witness:
  "SyncEParse (synce_line synce_header [(''ql'', ''0x1''), (''device'', ''synce1''), (''ext_ql'', ''0x20'')] ''s2'') empty_synce_log =
   SyncEParse (synce_line synce_header [(''device'', ''synce1''), (''ext_ql'', ''0x20''), (''ql'', ''0x1'')] ''s2'') empty_synce_log"
  by (rule synce_parse_order) (simp_all add: synce_header_def)

end
