(* ===== verification/OsClockHandler.thy ===== *)
theory OsClockHandler
  imports Manager LogExtract
begin

text \<open>
  \<open>metrics/os_clock_discipline.go\<close>: the lines of phc2sys that drive the OS clock machine of the
  CLOCK_REALTIME clock, the callback of its settle timer, and the FREERUN event it leads to.
\<close>

datatype os_line = LineOther | LineReconfigure | LineWaiting | LineSourceClock | LineFinalised

definition classifyOsClockLine :: "string \<Rightarrow> os_line" where
  "classifyOsClockLine output =
    (let has = contains output in
     if has ''reconfiguring after port state change'' then LineReconfigure
     else if has ''source clock not ready, waiting'' \<or>
       has ''multiple source clocks available, postponing sync'' \<or> has ''no PHC ready, waiting'' then LineWaiting
     else if has ''as domain source clock'' \<or> has ''as out-of-domain source clock'' then LineSourceClock
     else if has ''already selected'' \<or> has '' offset '' then LineFinalised
     else LineOther)"

fun index_of :: "string \<Rightarrow> string list \<Rightarrow> nat option" where
  "index_of x [] = None"
| "index_of x (y # ys) = (if y = x then Some 0 else map_option Suc (index_of x ys))"

definition parseSelectingForSynchronization :: "string list \<Rightarrow> string option" where
  "parseSelectingForSynchronization fs =
    (case index_of ''selecting'' fs of
      None \<Rightarrow> None
    | Some i \<Rightarrow>
        if i + 3 < length fs \<and> fs ! (i + 2) = ''for'' \<and> fs ! (i + 3) = ''synchronization'' then Some (fs ! (i + 1))
        else if i + 4 < length fs \<and> fs ! (i + 1) = ''system'' \<and> fs ! (i + 2) = ''clock'' \<and>
          fs ! (i + 3) = ''for'' \<and> fs ! (i + 4) = ''synchronization'' then Some ClockRealTime
        else None)"

definition os_of :: "string \<Rightarrow> manager \<Rightarrow> os_clock" where
  "os_of cfg m = (case stat_at cfg ClockRealTime m of None \<Rightarrow> os_clock_zero | Some s \<Rightarrow> s_OsClock s)"

definition on_os :: "string \<Rightarrow> (os_clock \<Rightarrow> os_clock) \<Rightarrow> manager \<Rightarrow> manager" where
  "on_os cfg f m = on_stat cfg ClockRealTime (\<lambda>s. s\<lparr>s_OsClock := f (s_OsClock s)\<rparr>) m"

definition publishOsClockFreerunUndisciplined :: "string \<Rightarrow> string \<Rightarrow> manager \<Rightarrow> manager" where
  "publishOsClockFreerunUndisciplined profile cfg m =
    (if stat_at cfg ClockRealTime m = None then m
     else
       (let opts = LookupPtpProcessOpts profile (PtpConfigMapUpdates m) in
        if opts \<noteq> None \<and> ChronydEnabled (the opts) then m
        else on_registry (UpdateSyncStateMetrics phc2sysProcessName ClockRealTime FREERUN)
          (res_state (GenPTPEvent profile (cfg, ClockRealTime) ClockRealTime FreeRunOffsetValue FREERUN
             OsClockSyncStateChange m))))"

text \<open>The body of the settle timer's callback, once it has the lock.\<close>

definition on_settle :: "string \<Rightarrow> string \<Rightarrow> u64 \<Rightarrow> manager \<Rightarrow> manager" where
  "on_settle profile cfg generation m =
    (let (fin, d) = FinaliseIfGeneration generation (os_of cfg m);
         m = on_os cfg (\<lambda>_. d) m
     in if fin then publishOsClockFreerunUndisciplined profile cfg m else m)"

definition selecting_line :: "string \<Rightarrow> string list \<Rightarrow> manager \<Rightarrow> bool \<times> manager" where
  "selecting_line cfg fs m =
    (case parseSelectingForSynchronization fs of
      None \<Rightarrow> (False, m)
    | Some clockName \<Rightarrow>
        if \<not> IsWindowOpen (os_of cfg m) then
          (True, if clockName = ClockRealTime then on_os cfg SinkClockSelected m else m)
        else if clockName = ClockRealTime then (True, on_os cfg SinkClockSelected m)
        else (True, on_os cfg SourceClockSelected m))"

text \<open>The result tells whether the line is consumed.\<close>

definition handlePhc2sysSyncDirection ::
  "string \<Rightarrow> string \<Rightarrow> string \<Rightarrow> string list \<Rightarrow> manager \<Rightarrow> bool \<times> manager" where
  "handlePhc2sysSyncDirection profile cfg output fs m =
    (let m = check_source cfg ClockRealTime phc2sysProcessName m in
     case classifyOsClockLine output of
       LineReconfigure \<Rightarrow> (True, on_os cfg Begin m)
     | LineWaiting \<Rightarrow> (True, if IsWindowOpen (os_of cfg m) then on_os cfg Abort m else m)
     | LineSourceClock \<Rightarrow> (True, on_os cfg ReArmSettle m)
     | LineFinalised \<Rightarrow>
         if \<not> IsWindowOpen (os_of cfg m) then (False, m)
         else if contains output ClockRealTime \<and> contains output '' offset '' then (False, on_os cfg Abort m)
         else
           (let (fin, d) = Finalise (os_of cfg m);
                m = on_os cfg (\<lambda>_. d) m;
                m = (if fin then publishOsClockFreerunUndisciplined profile cfg m else m)
            in (\<not> contains output '' offset '', m))
     | LineOther \<Rightarrow> selecting_line cfg fs m)"

definition handlePhc2sysOffsetSyncDirection :: "string \<Rightarrow> string \<Rightarrow> manager \<Rightarrow> manager" where
  "handlePhc2sysOffsetSyncDirection cfg interfaceName m =
    (if interfaceName \<noteq> ClockRealTime then m
     else on_os cfg ClearOnRealtimeOffset (check_source cfg ClockRealTime phc2sysProcessName m))"

end
