(* ===== verification/LogParsers.thy ===== *)
theory LogParsers
  imports OsClockHandler
begin

text \<open>
  The log parsers of \<open>metrics/logparser.go\<close> that change the manager: process states, GM, T-BC, DPLL,
  GNSS and SyncE lines. A parser gets the fields of the line; a field that is read out of range is a
  panic.
\<close>

definition field :: "string list \<Rightarrow> nat \<Rightarrow> (string \<Rightarrow> manager \<Rightarrow> 'a m_res) \<Rightarrow> manager \<Rightarrow> 'a m_res" where
  "field fs i f m = (case fld fs i of None \<Rightarrow> Panic m | Some x \<Rightarrow> f x m)"

definition node_name :: "manager \<Rightarrow> string" where
  "node_name m = ptpNodeName (w_reg (m_world m))"

text \<open>\<open>SyncState.With(...).Set(...)\<close> without the sanity check of the update function.\<close>

definition set_sync_gauge :: "string \<Rightarrow> string \<Rightarrow> int \<Rightarrow> manager \<Rightarrow> manager" where
  "set_sync_gauge proc iface v m =
    on_registry (\<lambda>r. r\<lparr>SyncState := gauge_set
      [(''process'', proc), (''node'', ptpNodeName r), (''iface'', iface)] (float_of_int v) (SyncState r)\<rparr>) m"

text \<open>\<open>ptpStats[k].SetPtpDependentEventState(...)\<close> with the process' metrics.\<close>

definition set_dependent :: "string \<Rightarrow> string \<Rightarrow> string \<Rightarrow> clock_state \<Rightarrow> manager \<Rightarrow> unit m_res" where
  "set_dependent cfg k proc c m =
    need cfg k (\<lambda>st m.
      let put = (\<lambda>(st, w). (on_stat cfg k (\<lambda>_. st) m)\<lparr>m_world := w\<rparr>) in
      case SetPtpDependentEventState c (HasMetrics proc (table_of cfg m)) (HasMetricHelp proc (table_of cfg m))
             (st, m_world m) of
        Ok _ sw \<Rightarrow> Ok () (put sw)
      | Panic sw \<Rightarrow> Panic (put sw)) m"

definition line_clock ::
  "sync_state \<Rightarrow> float64 option \<Rightarrow> string \<Rightarrow> string \<Rightarrow> clock_source \<Rightarrow> (string, int) gomap \<Rightarrow> manager \<Rightarrow> clock_state" where
  "line_clock st off iface proc src vals m =
    \<lparr>cs_State = st, cs_Offset = off, cs_IFace = Some iface, cs_Process = proc, cs_ClockSource = src,
     cs_Value = vals, cs_Metric = None, cs_NodeName = node_name m, cs_HelpText = None\<rparr>"

text \<open>\<open>if stat.Alias() != a { stat.SetAlias(a) }\<close>\<close>

definition refresh_alias :: "string \<Rightarrow> string \<Rightarrow> string \<Rightarrow> manager \<Rightarrow> unit m_res" where
  "refresh_alias cfg k a m =
    need cfg k (\<lambda>st m. Ok () (if aliasName st \<noteq> a then on_stat cfg k (StSetAlias a) m else m)) m"

definition master_resource :: "string \<Rightarrow> string" where
  "master_resource a = a @ ''/'' @ MasterClockType"

section \<open>Process status\<close>

text \<open>The status and whether there was an error.\<close>

definition parsePTPStatus :: "string list \<Rightarrow> manager \<Rightarrow> (int \<times> bool) \<times> manager" where
  "parsePTPStatus fs m =
    (if length fs < 5 then ((0, True), m)
     else case ParseInt64 10 (fs ! 4) of
       (_, Some _) \<Rightarrow> ((0, True), m)
     | (status, None) \<Rightarrow>
         ((status, False),
          on_registry (UpdateProcessStatusMetrics (fs ! 0) (fs ! 2) status)
            (updateProcessStatus (fs ! 2) (fs ! 0) (status = 1) m)))"

section \<open>T-GM status\<close>

definition gm_announce :: "string \<Rightarrow> string \<Rightarrow> sync_state \<Rightarrow> string \<Rightarrow> sync_state \<Rightarrow> manager \<Rightarrow> unit m_res" where
  "gm_announce proc cfg state a lastClockState m =
    need cfg GMMainClockName (\<lambda>st m.
      let off = lastOffset st in
      if state \<noteq> lastClockState \<and> state \<noteq> NoState then
        do_all
          [upd cfg GMMainClockName (SetLastSyncState state),
           PublishEvent state off (master_resource a) PtpStateChange,
           pure (lastOverallGMState_update (\<lambda>_. state)),
           need cfg GMMainClockName (\<lambda>st. pure (on_registry (UpdateSyncStateMetrics proc a (lastSyncState st)))),
           pure (on_registry (UpdatePTPOffsetMetrics proc proc a (float_of_int off)))] m
      else Ok () m) m"

definition ParseGMLogs :: "string \<Rightarrow> string \<Rightarrow> string \<Rightarrow> string list \<Rightarrow> manager \<Rightarrow> unit m_res" where
  "ParseGMLogs proc cfg output fs m =
    (if \<not> contains output ''T-GM-STATUS'' then Ok () m
     else if length fs < 4 then Ok () m
     else
       field fs 3 (\<lambda>iface. field fs 5 (\<lambda>syncState m.
         let m = check_source cfg GMMainClockName ts2phcProcessName m;
             c = line_clock (GetSyncState syncState) None iface proc GM [] m;
             (a, m) = alias_of iface m
         in do_all
           [refresh_alias cfg GMMainClockName a,
            pure (set_sync_gauge proc a (GetSyncStateID syncState)),
            set_dependent cfg GMMainClockName proc c,
            (\<lambda>m. need cfg GMMainClockName (\<lambda>gm m.
              need cfg iface (\<lambda>st m.
                case GetDependsOnValueState dpllProcessName (Some iface) ''phase_status'' st of
                  None \<Rightarrow> Panic m
                | Some r \<Rightarrow>
                    (let (_, phaseOffset, _) = value_or_default r in
                     do_all
                       [upd cfg GMMainClockName (SetLastOffset (int_of_float phaseOffset)),
                        gm_announce proc cfg (cs_State c) a (lastSyncState gm)] m)) m) m)] m)) m)"

section \<open>T-BC status\<close>

definition ParseTBCLogs :: "string \<Rightarrow> string \<Rightarrow> string \<Rightarrow> string list \<Rightarrow> manager \<Rightarrow> unit m_res" where
  "ParseTBCLogs proc cfg output fs m =
    (if \<not> contains output ''T-BC-STATUS'' then Ok () m
     else if length fs < 8 then Ok () m
     else
       (let m = check_source cfg TBCMainClockName ts2phcProcessName m;
            iface = fs ! 3;
            syncState = fs ! 7;
            state = (if length fs \<ge> 9 \<and> fs ! 8 = ''holdover'' then HOLDOVER else GetSyncState syncState)
        in case ParseInt64 10 (fs ! 5) of
             (_, Some _) \<Rightarrow> Ok () m
           | (offs, None) \<Rightarrow>
               (let (a, m) = alias_of iface m in
                do_all
                  [refresh_alias cfg TBCMainClockName a,
                   pure (set_sync_gauge proc a (GetSyncStateID syncState)),
                   (\<lambda>m. set_dependent cfg TBCMainClockName proc (line_clock state None iface proc TBC [] m) m),
                   need cfg TBCMainClockName (\<lambda>st.
                     do_all
                       [upd cfg TBCMainClockName (SetLastOffset offs),
                        pure (on_registry (UpdatePTPOffsetMetrics proc proc a (float_of_int offs))),
                        (\<lambda>m. if state \<noteq> lastSyncState st \<and> state \<noteq> NoState then
                           do_all [upd cfg TBCMainClockName (SetLastSyncState state),
                                   PublishEvent state offs (master_resource a) PtpStateChange] m
                         else Ok () m)]),
                   pure (on_registry (UpdateSyncStateMetrics proc a state)),
                   pure (on_registry (UpdateSyncStateMetrics ts2phcProcessName a state))] m)))"

section \<open>DPLL\<close>

record dpll_values =
  dv_freq :: int
  dv_phase :: float64
  dv_offset :: float64
  dv_pps :: float64

text \<open>
  The loop over the fields 4, 6, 8 and 10: the first number that does not parse ends it. The flag is
  the error.
\<close>

fun dpll_loop :: "nat list \<Rightarrow> string list \<Rightarrow> dpll_values \<Rightarrow> dpll_values \<times> bool" where
  "dpll_loop [] fs v = (v, False)"
| "dpll_loop (i # is) fs v =
    (let k = fs ! i; x = fs ! (i + 1) in
     if k = ''frequency_status'' then
       (let (n, e) = ParseInt64 10 x; v = v\<lparr>dv_freq := n\<rparr> in if e \<noteq> None then (v, True) else dpll_loop is fs v)
     else if k = ''phase_status'' then
       (let (n, e) = ParseFloat x; v = v\<lparr>dv_phase := n\<rparr> in if e \<noteq> None then (v, True) else dpll_loop is fs v)
     else if k = ''offset'' then
       (let (n, e) = ParseFloat x; v = v\<lparr>dv_offset := n\<rparr> in if e \<noteq> None then (v, True) else dpll_loop is fs v)
     else if k = ''pps_status'' then
       (let (n, e) = ParseFloat x; v = v\<lparr>dv_pps := n\<rparr> in if e \<noteq> None then (v, True) else dpll_loop is fs v)
     else dpll_loop is fs v)"

definition ParseDPLLLogs :: "string \<Rightarrow> string \<Rightarrow> string \<Rightarrow> string list \<Rightarrow> manager \<Rightarrow> unit m_res" where
  "ParseDPLLLogs proc cfg output fs m =
    (if \<not> contains output ''frequency_status'' then Ok () m
     else if length fs < 12 then Ok () m
     else
       field fs 12 (\<lambda>syncState m.
         let iface = fs ! 3;
             m = check_source cfg iface ts2phcProcessName m;
             z = float_of_int 0;
             (v, err) = dpll_loop [4, 6, 8, 10] fs \<lparr>dv_freq = 0, dv_phase = z, dv_offset = z, dv_pps = z\<rparr>
         in if err then Ok () m
            else
              (let (a, m) = alias_of iface m;
                   vals = [(''frequency_status'', dv_freq v), (''phase_status'', int_of_float (dv_phase v)),
                           (''pps_status'', int_of_float (dv_pps v))]
               in do_all
                 [refresh_alias cfg iface a,
                  (\<lambda>m. set_dependent cfg iface proc
                     (line_clock (GetSyncState syncState) (Some (dv_offset v)) iface dpllProcessName DPLL vals m) m),
                  pure (set_sync_gauge proc a (GetSyncStateID syncState)),
                  pure (on_registry (UpdatePTPOffsetMetrics proc proc a (dv_offset v)))] m)) m)"

section \<open>GNSS\<close>

text \<open>A state that does not parse is only logged: the error checked is that of the offset.\<close>

definition ParseGNSSLogs :: "string \<Rightarrow> string \<Rightarrow> string \<Rightarrow> string list \<Rightarrow> manager \<Rightarrow> unit m_res" where
  "ParseGNSSLogs proc cfg output fs m =
    (if \<not> contains output ''gnss_status'' then Ok () m
     else if length fs < 8 then Ok () m
     else
       (let iface = fs ! 3; m = check_source cfg iface ts2phcProcessName m in
        field fs 8 (\<lambda>syncState m.
          let gnssState = fst (ParseInt64 10 (fs ! 5));
              (gnssOffset, err) = ParseFloat (fs ! 7);
              state = GetSyncState syncState
          in if err \<noteq> None then Ok () m
             else
               (let (a, m) = alias_of iface m in
                do_all
                  [refresh_alias cfg iface a,
                   need cfg iface (\<lambda>st m.
                     case GetStateState proc (Some iface) st of
                       None \<Rightarrow> Panic m
                     | Some lastState \<Rightarrow>
                         do_all
                           [pure (on_registry (\<lambda>r. r\<lparr>PtpOffset := gauge_set
                              [(''from'', proc), (''node'', ptpNodeName r), (''process'', proc), (''iface'', a)]
                              gnssOffset (PtpOffset r)\<rparr>)),
                            pure (set_sync_gauge proc a (GetSyncStateID syncState)),
                            (\<lambda>m. set_dependent cfg iface proc
                               (line_clock state (Some gnssOffset) iface proc GNSS [(''gnss_status'', gnssState)] m) m),
                            (\<lambda>m. if lastState \<noteq> Some state
                               then publishGNSSEvent gnssState gnssOffset state (master_resource a) GnssStateChange m
                               else Ok () m)] m)] m)) m))"

section \<open>SyncE\<close>

definition ql_sum :: "synce_log \<Rightarrow> int" where
  "ql_sum l = (if ExtendedQlEnabled l then uint (sl_QL l + sl_ExtQL l) else uint (sl_QL l))"

definition zero_port :: port_state where
  "zero_port = \<lparr>ps_Name = '''', ps_State = NoState, ClockQuality = '''', QL = 0, ExtQL = 0,
     ExtendedTvlEnabled = False, LastQLState = 0\<rparr>"

definition new_synce :: "synce_log \<Rightarrow> synce_stats" where
  "new_synce l =
    \<lparr>se_Name = sl_Device l, ExtSource = '''',
     Port = [(sl_Interface l, \<lparr>ps_Name = sl_Interface l, ps_State = GetSyncState (sl_State l),
       ClockQuality = sl_ClockQuality l, QL = sl_QL l,
       ExtQL = (if EECState l = '''' \<and> ExtendedQlEnabled l then sl_ExtQL l else 0),
       ExtendedTvlEnabled = ExtendedQlEnabled l, LastQLState = ql_sum l\<rparr>)],
     ClockState = sync_state_of (sl_State l), NetworkOption = sl_NetworkOption l\<rparr>"

definition update_synce :: "synce_log \<Rightarrow> synce_stats \<Rightarrow> synce_stats" where
  "update_synce l ss =
    (let p = mget_or zero_port (Port ss) (sl_Interface l);
         p = (if EECState l \<noteq> '''' then p\<lparr>ps_State := GetSyncState (sl_State l)\<rparr>
              else p\<lparr>ClockQuality := sl_ClockQuality l, QL := sl_QL l, ps_Name := sl_Interface l,
                     ExtendedTvlEnabled := ExtendedQlEnabled l,
                     ExtQL := (if ExtendedQlEnabled l then sl_ExtQL l else 0xA), LastQLState := ql_sum l\<rparr>)
     in UpdateSyncEClockState (ss\<lparr>Port := AList.update (sl_Interface l) p (Port ss)\<rparr>))"

definition synce_report :: "string \<Rightarrow> string \<Rightarrow> synce_log \<Rightarrow> manager \<Rightarrow> unit m_res" where
  "synce_report proc cfg l m =
    (let res = sl_Device l @ ''/'' @ sl_Interface l;
         ql = (\<lambda>t v. pure (on_registry (UpdateSyncEQLMetrics proc cfg (sl_Interface l) (sl_NetworkOption l)
                 (sl_Device l) t v)));
         clock_ql = (\<lambda>v. pure (on_registry (UpdateSyncEClockQlMetrics proc cfg (sl_Interface l)
                 (sl_NetworkOption l) (sl_Device l) (float_of_int v))))
     in if EECState l \<noteq> '''' then
          do_all
            [publishSyncEEvent (GetSyncState (sl_State l)) res 0 0 (ExtendedQlEnabled l) SynceStateChange,
             pure (set_sync_gauge proc (sl_Interface l) (GetSyncStateID (sl_State l)))] m
        else
          do_all
            ([publishSyncEEvent NoState res (sl_QL l) (sl_ExtQL l) (ExtendedQlEnabled l) SynceClockQualityChange,
              ql ''SSM'' (sl_QL l)] @
             (if ExtendedQlEnabled l
              then [ql ''Extended SSM'' (sl_ExtQL l), clock_ql (uint (sl_QL l) + uint (sl_ExtQL l))]
              else [ql ''Extended SSM'' 0xFF, clock_ql (uint (sl_QL l) + 0xFF)])) m)"

definition ParseSyncELogs :: "string \<Rightarrow> string \<Rightarrow> string \<Rightarrow> string list \<Rightarrow> manager \<Rightarrow> unit m_res" where
  "ParseSyncELogs proc cfg output fs m =
    (if \<not> contains output ''eec_state'' \<and> \<not> contains output ''clock_quality'' then Ok () m
     else case SyncEParse fs empty_synce_log of
       None \<Rightarrow> Ok () m
     | Some l \<Rightarrow>
         (let old = (case stat_at cfg (sl_Device l) m of None \<Rightarrow> None | Some st \<Rightarrow> syncE st);
              ss = (case old of None \<Rightarrow> new_synce l | Some ss \<Rightarrow> update_synce l ss)
          in do_all
               [pure (check_source cfg (sl_Device l) proc),
                upd cfg (sl_Device l) (SetSyncE ss),
                (\<lambda>m. if mock m then Ok () m else synce_report proc cfg l m)] m))"

end
