(* ===== verification/NodeState.thy ===== *)
theory NodeState
  imports Manager
begin

text \<open>
  What the node's overall state is: the worst of the states that count, whatever the order in which
  the two levels of maps are visited; and what publishing an event does to it.
\<close>

section \<open>The states that count\<close>

definition config_states :: "bool \<Rightarrow> PTPStats \<Rightarrow> sync_state list" where
  "config_states ch ps =
    concat (map (\<lambda>(iface, stat). case node_state_of ch (GetMainClockName ps) iface stat of
       None \<Rightarrow> [] | Some s \<Rightarrow> [s]) ps)"

definition node_states :: "manager \<Rightarrow> sync_state list" where
  "node_states m = concat (map (\<lambda>(cfg, ps). config_states (ChronydActiveAsE3 m) ps) (Stats m))"

lemma node_state_of_clock: "node_state_of ch main i st = Some s \<Longrightarrow> s = FREERUN \<or> s = HOLDOVER \<or> s = LOCKED"
  by (auto simp: node_state_of_def Let_def split: if_splits)

lemma config_states_ok: "s \<in> set (config_states ch ps) \<Longrightarrow> is_node_state s \<and> s \<noteq> NoState"
  by (auto simp: config_states_def is_node_state_def split: option.splits dest!: node_state_of_clock [OF sym])

lemma node_states_ok: "s \<in> set (node_states m) \<Longrightarrow> is_node_state s \<and> s \<noteq> NoState"
  using config_states_ok by (fastforce simp: node_states_def)

lemma collect_append: "overall.collect (xs @ ys) a = overall.collect ys (overall.collect xs a)"
  by (simp add: overall.collect_def)

lemma collect_config_states:
  "collect_config ch ps (a, b) =
    (overall.collect (config_states ch ps) a, b \<or> config_states ch ps \<noteq> [])"
proof -
  have "fold (\<lambda>(iface, stat) (fs, found). case node_state_of ch main iface stat of
            None \<Rightarrow> (fs, found) | Some s \<Rightarrow> (OverallState fs s, True)) qs (a, b) =
      (overall.collect (concat (map (\<lambda>(iface, stat). case node_state_of ch main iface stat of
            None \<Rightarrow> [] | Some s \<Rightarrow> [s]) qs)) a,
       b \<or> concat (map (\<lambda>(iface, stat). case node_state_of ch main iface stat of
            None \<Rightarrow> [] | Some s \<Rightarrow> [s]) qs) \<noteq> [])" for main qs a b
  proof (induction qs arbitrary: a b)
    case Nil
    then show ?case by simp
  next
    case (Cons q qs)
    obtain i st where "q = (i, st)" by (cases q)
    then show ?case by (cases "node_state_of ch main i st") (simp_all add: Cons.IH)
  qed
  then show ?thesis by (simp add: collect_config_def config_states_def)
qed

lemma collect_configs:
  "fold (\<lambda>(cfg, ps). collect_config ch ps) S (a, b) =
    (overall.collect (concat (map (\<lambda>(cfg, ps). config_states ch ps) S)) a,
     b \<or> concat (map (\<lambda>(cfg, ps). config_states ch ps) S) \<noteq> [])"
proof (induction S arbitrary: a b)
  case Nil
  then show ?case by simp
next
  case (Cons kps S)
  obtain k ps where "kps = (k, ps)" by (cases kps)
  then show ?case by (simp add: collect_config_states Cons.IH collect_append disj_assoc)
qed

lemma GetNodeSyncState_collect:
  "GetNodeSyncState cur m =
    (let cur = (if cur = NoState then FREERUN else cur) in
     if node_states m = [] then cur else OverallState cur (overall.collect (node_states m) NoState))"
  by (simp add: GetNodeSyncState_def collect_configs node_states_def Let_def split: prod.split)

section \<open>The worst state, in every visiting order\<close>

lemma node_state_severity:
  assumes "is_node_state cur"
  shows "is_node_state (GetNodeSyncState cur m) \<and>
    severity (GetNodeSyncState cur m) =
      Max (insert (severity (if cur = NoState then FREERUN else cur)) (severity ` set (node_states m)))"
proof -
  let ?cur = "if cur = NoState then FREERUN else cur"
  have cur: "is_node_state ?cur" and ne: "is_node_state NoState"
    using assms by (auto simp: is_node_state_def)
  have all: "\<forall>x\<in>set (node_states m). is_node_state x" using node_states_ok by blast
  show ?thesis
  proof (cases "node_states m = []")
    case True
    then show ?thesis using cur by (simp add: GetNodeSyncState_collect)
  next
    case False
    let ?w = "overall.collect (node_states m) NoState"
    have w: "is_node_state ?w" using all ne by (rule overall.collect_ok)
    have "severity (OverallState ?cur ?w) =
        max (severity ?cur) (Max (insert (severity NoState) (severity ` set (node_states m))))"
      using OverallState_severity [OF cur w] collect_severity [OF all ne] by simp
    also have "\<dots> = Max (insert (severity ?cur) (severity ` set (node_states m)))"
      using False by (simp add: severity_def)
    finally show ?thesis
      using False OverallState_node_state [OF cur w] by (simp add: GetNodeSyncState_collect)
  qed
qed

text \<open>C5: the node's overall state is the worst of the state just reported and the states that count:
  those of CLOCK_REALTIME (of chronyd alone while chronyd reports it), of each configuration's main
  clock, and of the master offset outside T-BC. FREERUN is worse than HOLDOVER, HOLDOVER than LOCKED;
  an empty reported state stands for FREERUN.\<close>
theorem node_state_worst:
  assumes "is_node_state cur"
  shows "is_node_state (GetNodeSyncState cur m) \<and>
    severity (GetNodeSyncState cur m) =
      Max (insert (severity (if cur = NoState then FREERUN else cur)) (severity ` set (node_states m)))"
  using assms by (rule node_state_severity)

definition clk :: "string \<Rightarrow> sync_state \<Rightarrow> stats" where
  "clk proc s = (NewStats ''ptp4l.0.config'')\<lparr>processName := proc, lastSyncState := s\<rparr>"

definition demo_manager :: manager where
  "demo_manager = (NewPTPEventManager ''/cluster/node'' [] ''n1'' None)\<lparr>mock := True,
     Stats := [(''ptp4l.0.config'', [(''master'', clk ''ptp4l'' LOCKED), (''CLOCK_REALTIME'', clk ''phc2sys'' HOLDOVER),
                                    (''ens1f0'', clk ''ptp4l'' FREERUN)])]\<rparr>"

lemma demo_states: "node_states demo_manager = [LOCKED, HOLDOVER]"
  by code_simp

theorem node_state_worst_witness:
  "severity (GetNodeSyncState LOCKED demo_manager) = 2 \<and> GetNodeSyncState LOCKED demo_manager = HOLDOVER"
proof -
  have "severity (GetNodeSyncState LOCKED demo_manager) = 2" and ok: "is_node_state (GetNodeSyncState LOCKED demo_manager)"
    using node_state_worst [of LOCKED demo_manager] demo_states by (simp_all add: is_node_state_def severity_def)
  then show ?thesis by (auto simp: is_node_state_def severity_def)
qed

text \<open>Two tables that hold the same entries, visited in different orders at both levels.\<close>

definition same_table :: "(string, PTPStats) gomap \<Rightarrow> (string, PTPStats) gomap \<Rightarrow> bool" where
  "same_table S S' \<longleftrightarrow> (\<exists>T. list_all2 (\<lambda>(k, ps) (k', ps'). k = k' \<and> set ps = set ps' \<and>
      distinct (map fst ps) \<and> distinct (map fst ps')) S T \<and> set T = set S')"

lemma config_same:
  assumes "set ps = set ps'" and "distinct (map fst ps)" and "distinct (map fst ps')"
  shows "map_of ps = map_of ps'" and "set (config_states ch ps) = set (config_states ch ps')"
proof -
  show eq: "map_of ps = map_of ps'" using assms by (simp add: map_of_inject_set)
  then show "set (config_states ch ps) = set (config_states ch ps')"
    using assms(1) by (simp add: config_states_def GetMainClockName_def)
qed

lemma ChronydActiveAsE3_set:
  "ChronydActiveAsE3 m \<longleftrightarrow> (\<exists>ps\<in>snd ` set (Stats m). case map_of ps ClockRealTime of
        None \<Rightarrow> False | Some cr \<Rightarrow> processName cr = chronydProcessName \<and> lastSyncState cr \<noteq> NoState)"
  by (force simp: ChronydActiveAsE3_def list_ex_iff)

lemma same_table_image:
  assumes "same_table S S'"
    and "\<And>ps ps'. set ps = set ps' \<Longrightarrow> distinct (map fst ps) \<Longrightarrow> distinct (map fst ps') \<Longrightarrow> f ps = f ps'"
  shows "(\<lambda>kp. f (snd kp)) ` set S = (\<lambda>kp. f (snd kp)) ` set S'"
proof -
  obtain T where T: "list_all2 (\<lambda>(k, ps) (k', ps'). k = k' \<and> set ps = set ps' \<and>
      distinct (map fst ps) \<and> distinct (map fst ps')) S T" "set T = set S'"
    using assms(1) by (auto simp: same_table_def)
  have "map (\<lambda>kp. f (snd kp)) S = map (\<lambda>kp. f (snd kp)) T"
    using T(1)
  proof (induction rule: list_all2_induct)
    case Nil
    then show ?case by simp
  next
    case (Cons x xs y ys)
    have "f (snd x) = f (snd y)" using Cons.hyps(1) by (intro assms(2)) auto
    then show ?case using Cons.IH by simp
  qed
  then have "(\<lambda>kp. f (snd kp)) ` set S = (\<lambda>kp. f (snd kp)) ` set T" by (metis list.set_map)
  then show ?thesis using T(2) by simp
qed

lemma same_table_chronyd:
  assumes "same_table (Stats m) (Stats m')"
  shows "ChronydActiveAsE3 m = ChronydActiveAsE3 m'"
proof -
  let ?f = "\<lambda>ps. case map_of ps ClockRealTime of
        None \<Rightarrow> False | Some cr \<Rightarrow> processName cr = chronydProcessName \<and> lastSyncState cr \<noteq> NoState"
  have "(\<lambda>kp. ?f (snd kp)) ` set (Stats m) = (\<lambda>kp. ?f (snd kp)) ` set (Stats m')"
  proof (rule same_table_image [OF assms])
    fix ps ps' :: PTPStats
    assume "set ps = set ps'" "distinct (map fst ps)" "distinct (map fst ps')"
    then have "map_of ps = map_of ps'" by (rule config_same(1))
    then show "?f ps = ?f ps'" by simp
  qed
  then have "True \<in> (\<lambda>kp. ?f (snd kp)) ` set (Stats m) \<longleftrightarrow> True \<in> (\<lambda>kp. ?f (snd kp)) ` set (Stats m')"
    by simp
  then show ?thesis unfolding ChronydActiveAsE3_set by (auto simp: image_iff)
qed

lemma node_states_set: "set (node_states m) = \<Union> ((\<lambda>kp. set (config_states (ChronydActiveAsE3 m) (snd kp))) ` set (Stats m))"
  by (force simp: node_states_def)

lemma same_table_states:
  assumes "same_table (Stats m) (Stats m')"
  shows "set (node_states m) = set (node_states m')"
proof -
  have "(\<lambda>kp. set (config_states (ChronydActiveAsE3 m) (snd kp))) ` set (Stats m) =
      (\<lambda>kp. set (config_states (ChronydActiveAsE3 m) (snd kp))) ` set (Stats m')"
    using assms by (rule same_table_image) (rule config_same(2))
  then show ?thesis using same_table_chronyd [OF assms] by (simp add: node_states_set)
qed

text \<open>C26: the overall state does not depend on the order in which Go visits the map of configurations
  or the maps of clocks, for any state reported, known or not.\<close>
theorem node_state_order:
  assumes "same_table (Stats m) (Stats m')"
  shows "GetNodeSyncState cur m = GetNodeSyncState cur m'"
proof -
  have eq: "set (node_states m) = set (node_states m')" using same_table_states [OF assms] .
  have "overall.collect (node_states m) NoState = overall.collect (node_states m') NoState"
    using node_states_ok eq by (intro overall.collect_set_eq) (auto simp: is_node_state_def)
  moreover have "node_states m = [] \<longleftrightarrow> node_states m' = []" using eq by (metis set_empty)
  ultimately show ?thesis by (simp add: GetNodeSyncState_collect)
qed

definition demo_swapped :: manager where
  "demo_swapped = demo_manager\<lparr>Stats := [(''ptp4l.0.config'', [(''ens1f0'', clk ''ptp4l'' FREERUN),
      (''CLOCK_REALTIME'', clk ''phc2sys'' HOLDOVER), (''master'', clk ''ptp4l'' LOCKED)])]\<rparr>"

theorem node_state_order_witness:
  "GetNodeSyncState LOCKED demo_manager = GetNodeSyncState LOCKED demo_swapped"
  by (rule node_state_order)
    (auto simp: same_table_def demo_manager_def demo_swapped_def list_all2_Cons1 intro!: exI)

end
