(* ===== verification/Publishing.thy ===== *)
theory Publishing
  imports NodeState
begin

text \<open>
  What publishing keeps and changes, and the state machine of one clock that \<open>GenPTPEvent\<close>
  drives: its transition table, when it announces, and that it never reports LOCKED out of range.
\<close>

section \<open>Saving\<close>

text \<open>No configuration holds a nil interface, so saving cannot panic.\<close>

definition no_nil :: "manager \<Rightarrow> bool" where
  "no_nil m \<longleftrightarrow> (\<forall>(k, c)\<in>set (Ptp4lConfigInterfaces m). None \<notin> set (Interfaces c))"

lemma port_roles_some: "None \<notin> set is \<Longrightarrow> \<exists>rs. port_roles is = Some rs"
  by (induction "is" rule: port_roles.induct) auto

lemma all_port_roles_some:
  "\<forall>(k, c)\<in>set cs. None \<notin> set (Interfaces c) \<Longrightarrow> \<exists>rs. all_port_roles cs = Some rs"
proof (induction cs rule: all_port_roles.induct)
  case 1
  then show ?case by simp
next
  case (2 k c cs)
  moreover obtain rs where "port_roles (Interfaces c) = Some rs" using port_roles_some [of "Interfaces c"] 2 by auto
  ultimately show ?case by auto
qed

lemma save_ok: "no_nil m \<Longrightarrow> \<exists>m'. saveToStore m = Ok () m' \<and> (\<exists>f. m' = m\<lparr>m_store := f\<rparr>)"
proof -
  assume "no_nil m"
  then obtain rs where "all_port_roles (Ptp4lConfigInterfaces m) = Some rs"
    using all_port_roles_some by (auto simp: no_nil_def)
  moreover have "\<exists>f. m = m\<lparr>m_store := f\<rparr>" by (rule exI [of _ "m_store m"]) simp
  ultimately show ?thesis by (auto simp: saveToStore_def split: option.split)
qed

lemma set_AList_update: "set (AList.update k v al) \<subseteq> insert (k, v) (set al)"
  by (induction al) auto

lemma AddPTPConfig_no_nil: "no_nil m \<Longrightarrow> None \<notin> set (Interfaces c) \<Longrightarrow> no_nil (AddPTPConfig n c m)"
  using set_AList_update [of n c "Ptp4lConfigInterfaces m"] by (fastforce simp: no_nil_def AddPTPConfig_def)

section \<open>What publishing keeps\<close>

definition pub_frame :: "manager \<Rightarrow> manager \<Rightarrow> bool" where
  "pub_frame m m' \<longleftrightarrow> Stats m' = Stats m \<and> mock m' = mock m \<and> publisherTypes m' = publisherTypes m \<and>
    PtpConfigMapUpdates m' = PtpConfigMapUpdates m \<and> Ptp4lConfigInterfaces m' = Ptp4lConfigInterfaces m \<and>
    m_world m' = m_world m \<and> masterOffsetSource m' = masterOffsetSource m \<and> processStates m' = processStates m \<and> lastOverallGMState m' = lastOverallGMState m \<and>
    (scConfig m' = None \<longleftrightarrow> scConfig m = None)"

lemma pub_frame_refl [simp]: "pub_frame m m"
  by (simp add: pub_frame_def)

lemma pub_frame_trans: "pub_frame m m' \<Longrightarrow> pub_frame m' m'' \<Longrightarrow> pub_frame m m''"
  by (auto simp: pub_frame_def)

lemma pub_frame_bind:
  assumes "pub_frame m (res_state r)"
    and "\<And>x m'. r = Ok x m' \<Longrightarrow> pub_frame m m' \<Longrightarrow> pub_frame m' (res_state (f x m'))"
  shows "pub_frame m (res_state (res_bind r f))"
  using assms pub_frame_trans by (cases r) auto

lemma publish_frame: "pub_frame m (res_state (publish data addr t m))"
  by (auto simp: publish_def pub_frame_def split: option.split sum.split)

lemma saveToStore_frame: "pub_frame m (res_state (saveToStore m))"
  by (auto simp: saveToStore_def pub_frame_def split: option.split)

lemma UpdateSyncState_frame: "pub_frame m (res_state (UpdateSyncState s m))"
proof -
  have "pub_frame m (m\<lparr>lastOverallSyncState := s\<rparr>)" by (simp add: pub_frame_def)
  then show ?thesis using saveToStore_frame pub_frame_trans by (auto simp: UpdateSyncState_def)
qed

lemma with_resource_frame:
  "(\<And>r. pub_frame m (res_state (f r m))) \<Longrightarrow> pub_frame m (res_state (with_resource t f m))"
  by (simp add: with_resource_def split: option.split)

lemma send_node_event_frame: "pub_frame m (res_state (send_node_event s off m))"
  by (auto simp: send_node_event_def intro: with_resource_frame publish_frame)

lemma node_change_frame: "pub_frame m (res_state (node_change state off m))"
  by (auto simp: node_change_def Let_def intro!: pub_frame_bind send_node_event_frame UpdateSyncState_frame)

lemma send_event_frame: "pub_frame m (res_state (send_event state off source t m))"
proof (cases "mock m")
  case True
  then show ?thesis by (simp add: send_event_def pub_frame_def)
next
  case False
  then show ?thesis by (auto simp: send_event_def intro: with_resource_frame publish_frame)
qed

lemma PublishEvent_frame: "pub_frame m (res_state (PublishEvent state off source t m))"
  by (auto simp: PublishEvent_def intro!: pub_frame_bind send_event_frame node_change_frame)

section \<open>A publishing that succeeds\<close>

text \<open>The publishers are there, and no configuration holds a nil interface.\<close>

definition can_publish :: "event_type \<Rightarrow> manager \<Rightarrow> bool" where
  "can_publish t m \<longleftrightarrow>
    (mock m \<or> (scConfig m \<noteq> None \<and> map_of (publisherTypes m) t \<noteq> None \<and>
      map_of (publisherTypes m) SyncStateChange \<noteq> None)) \<and>
    (scConfig m \<noteq> None \<longrightarrow> all_port_roles (Ptp4lConfigInterfaces m) \<noteq> None)"

lemma can_publish_frame: "pub_frame m m' \<Longrightarrow> can_publish t m' = can_publish t m"
  by (simp add: can_publish_def pub_frame_def)

lemma node_state_frame: "pub_frame m m' \<Longrightarrow> GetNodeSyncState s m' = GetNodeSyncState s m"
  by (simp add: GetNodeSyncState_def ChronydActiveAsE3_def pub_frame_def)

lemma publish_ok: "scConfig m \<noteq> None \<Longrightarrow> \<exists>m'. publish data addr t m = Ok () m'"
  by (auto simp: publish_def split: option.split sum.split)

lemma publish_keeps_overall: "publish data addr t m = Ok () m' \<Longrightarrow> lastOverallSyncState m' = lastOverallSyncState m"
  by (auto simp: publish_def split: option.splits sum.splits)

lemma UpdateSyncState_ok:
  "(scConfig m \<noteq> None \<longrightarrow> all_port_roles (Ptp4lConfigInterfaces m) \<noteq> None) \<Longrightarrow>
    \<exists>m'. UpdateSyncState s m = Ok () m' \<and> lastOverallSyncState m' = s"
  by (auto simp: UpdateSyncState_def saveToStore_def split: option.split)

lemma node_change_ok:
  assumes "can_publish t m"
  shows "\<exists>m'. node_change state off m = Ok () m' \<and> lastOverallSyncState m' = GetNodeSyncState state m"
proof (cases "GetNodeSyncState state m = lastOverallSyncState m")
  case True
  then show ?thesis by (simp add: node_change_def)
next
  case False
  let ?r = "send_node_event (GetNodeSyncState state m) off m"
  have "\<exists>m1. ?r = Ok () m1"
    using assms publish_ok by (auto simp: can_publish_def with_resource_def send_node_event_def)
  then obtain m1 where m1: "?r = Ok () m1" by blast
  then have "can_publish t m1"
    using can_publish_frame [OF send_node_event_frame [of m "GetNodeSyncState state m" off]] assms by simp
  then have "\<exists>m'. UpdateSyncState (GetNodeSyncState state m) m1 = Ok () m' \<and>
      lastOverallSyncState m' = GetNodeSyncState state m"
    by (intro UpdateSyncState_ok) (simp add: can_publish_def)
  then show ?thesis using False m1 by (simp add: node_change_def Let_def)
qed

lemma send_event_ok: "can_publish t m \<Longrightarrow> \<exists>m'. send_event state off source t m = Ok () m'"
  using publish_ok by (auto simp: can_publish_def with_resource_def send_event_def)

lemma PublishEvent_coherent_gen:
  assumes "can_publish t m" and "is_node_event t" and "state \<noteq> NoState"
  shows "\<exists>m'. PublishEvent state off source t m = Ok () m' \<and>
    lastOverallSyncState m' = GetNodeSyncState state m' \<and> pub_frame m m'"
proof -
  obtain m1 where m1: "send_event state off source t m = Ok () m1"
    using send_event_ok [OF assms(1)] by blast
  then have fr: "pub_frame m m1" using send_event_frame [of m state off source t] by simp
  then have "can_publish t m1" using can_publish_frame assms by simp
  then obtain m' where m': "node_change state off m1 = Ok () m'"
    "lastOverallSyncState m' = GetNodeSyncState state m1"
    using node_change_ok by blast
  have fr': "pub_frame m1 m'" using node_change_frame [of m1 state off] m'(1) by simp
  have "PublishEvent state off source t m = Ok () m'"
    using assms(2,3) m1 m'(1) by (simp add: PublishEvent_def)
  then show ?thesis
    using m'(2) node_state_frame [OF fr'] pub_frame_trans [OF fr fr'] by simp
qed

text \<open>C8: after an event about the master offset or the operating system's clock was published, the
  node's last reported state is the node's state computed from the clocks, whether it changed or not,
  and the clocks are what they were. The publishing returns when the publishers are registered.\<close>
theorem PublishEvent_coherent:
  assumes "can_publish t m" and "is_node_event t" and "state \<noteq> NoState"
  shows "\<exists>m'. PublishEvent state off source t m = Ok () m' \<and>
    lastOverallSyncState m' = GetNodeSyncState state m' \<and> pub_frame m m'"
  using PublishEvent_coherent_gen [OF assms] .

theorem PublishEvent_coherent_witness:
  "\<exists>m'. PublishEvent FREERUN 120 ''ens1fx/master'' PtpStateChange demo_manager = Ok () m' \<and>
    lastOverallSyncState m' = GetNodeSyncState FREERUN m' \<and> pub_frame demo_manager m'"
  by (rule PublishEvent_coherent)
    (simp_all add: can_publish_def is_node_event_def demo_manager_def NewPTPEventManager_def)

section \<open>The transition table\<close>

definition next_state :: "sync_state \<Rightarrow> sync_state \<Rightarrow> bool \<Rightarrow> sync_state" where
  "next_state clockState prev inRange =
    (case clockState of
      HOLDOVER \<Rightarrow> HOLDOVER
    | FREERUN \<Rightarrow> FREERUN
    | LOCKED \<Rightarrow> if inRange then LOCKED else if prev = HOLDOVER then HOLDOVER else FREERUN
    | _ \<Rightarrow> if inRange then LOCKED else FREERUN)"

text \<open>When the line is announced.\<close>

definition announces :: "sync_state \<Rightarrow> sync_state \<Rightarrow> bool \<Rightarrow> event_type \<Rightarrow> bool" where
  "announces clockState prev inRange t \<longleftrightarrow>
    (if clockState = FREERUN \<and> prev = HOLDOVER \<and> t \<noteq> OsClockSyncStateChange then False
     else if clockState = FREERUN \<or> clockState = HOLDOVER \<or> clockState = LOCKED
     then next_state clockState prev inRange \<noteq> prev
     else True)"

definition range_of :: "string \<Rightarrow> int \<Rightarrow> manager \<Rightarrow> bool" where
  "range_of profile off m = isOffsetInRange off (MaxOffsetThreshold (fst (PtpThreshold profile False m)))"

lemma stat_at_on_stat:
  "stat_at c i (on_stat c' i' f m) =
    (if c = c' \<and> i = i' then map_option f (stat_at c i m) else stat_at c i m)"
  by (auto simp: stat_at_def on_stat_def map_of_madjust split: option.split)

lemma stat_at_frame: "pub_frame m m' \<Longrightarrow> stat_at c i m' = stat_at c i m"
  by (simp add: stat_at_def pub_frame_def)

lemma stat_at_threshold: "stat_at c i (snd (PtpThreshold p b m)) = stat_at c i m"
  by (auto simp: stat_at_def PtpThreshold_def GetDefaultThreshold_def Let_def split: option.split prod.split)

text \<open>
  The state part of a result: the clock has the state \<open>s\<close>, the others are as in \<open>m\<close>.
\<close>

definition clock_now :: "string \<times> string \<Rightarrow> sync_state \<Rightarrow> manager \<Rightarrow> manager \<Rightarrow> bool" where
  "clock_now ci s m m' \<longleftrightarrow>
    (\<exists>st. stat_at (fst ci) (snd ci) m' = Some st \<and> lastSyncState st = s) \<and>
    (\<forall>c i. (c, i) \<noteq> ci \<longrightarrow> stat_at c i m' = stat_at c i m)"

lemma clock_now_offset:
  "clock_now ci s m m' \<Longrightarrow> clock_now ci s m (on_stat (fst ci) (snd ci) (SetLastOffset off) m')"
  "clock_now ci s m m' \<Longrightarrow> clock_now ci s m (on_stat (fst ci) (snd ci) (AddValue off) m')"
  by (auto simp: clock_now_def stat_at_on_stat SetLastOffset_def frame_simps)

lemma clock_now_announce:
  assumes "stat_at c i m \<noteq> None"
  shows "clock_now (c, i) s m (res_state (PublishEvent s off src t (on_stat c i (SetLastSyncState s) m)))"
proof -
  have "clock_now (c, i) s m (on_stat c i (SetLastSyncState s) m)"
    using assms by (auto simp: clock_now_def stat_at_on_stat SetLastSyncState_def)
  then show ?thesis
    using stat_at_frame [OF PublishEvent_frame] by (simp add: clock_now_def)
qed

text \<open>The branches of \<open>GenPTPEvent\<close>, by what they leave behind.\<close>

lemma clock_now_here:
  "stat_at c i m = Some st \<Longrightarrow> lastSyncState st = s \<Longrightarrow> clock_now (c, i) s m m"
  by (simp add: clock_now_def)

lemma clock_now_set:
  "stat_at c i m \<noteq> None \<Longrightarrow> clock_now (c, i) s m (on_stat c i (SetLastSyncState s) m)"
  by (auto simp: clock_now_def stat_at_on_stat SetLastSyncState_def)

lemma clock_now_then:
  assumes "clock_now (c, i) s m (res_state r)"
  shows "clock_now (c, i) s m (res_state (res_bind r (\<lambda>_ m. Ok () (on_stat c i (SetLastOffset off) m))))"
    and "clock_now (c, i) s m (res_state (res_bind r
          (\<lambda>_ m. Ok () (on_stat c i (AddValue off) (on_stat c i (SetLastOffset off) m)))))"
  using assms clock_now_offset [of "(c, i)" s m] by (cases r; simp)+

lemma clock_now_conf [simp]:
  "clock_now ci s (m\<lparr>PtpConfigMapUpdates := l\<rparr>) m' = clock_now ci s m m'"
  by (simp add: clock_now_def stat_at_def)

lemma stat_at_conf [simp]: "stat_at c i (m\<lparr>PtpConfigMapUpdates := l\<rparr>) = stat_at c i m"
  by (simp add: stat_at_def)

lemma clock_now_announce':
  assumes "stat_at c i m \<noteq> None"
  shows "clock_now (c, i) s m (res_state (PublishEvent s off src t
    (on_stat c i (SetLastSyncState s) (m\<lparr>PtpConfigMapUpdates := l\<rparr>))))"
  using clock_now_announce [of c i "m\<lparr>PtpConfigMapUpdates := l\<rparr>" s off src t] assms by simp

lemma GenPTPEvent_moves:
  assumes st: "stat_at c i m = Some st" and ne: "clockState \<noteq> NoState"
  shows "\<exists>m'. GenPTPEvent profile (c, i) src off clockState t m = Ok () m' \<and>
    clock_now (c, i) (next_state clockState (lastSyncState st) (range_of profile off m)) m m' \<and>
    (next_state clockState (lastSyncState st) (range_of profile off m) = LOCKED \<longrightarrow> range_of profile off m)"
proof -
  obtain th m1 where th: "PtpThreshold profile False m = (th, m1)" by fastforce
  let ?in = "isOffsetInRange off (MaxOffsetThreshold th)"
  have same: "stat_at c' i' m1 = stat_at c' i' m" for c' i'
    using stat_at_threshold [of c' i' profile False m] th by simp
  have some: "stat_at c i m1 = Some st" "stat_at c i m1 \<noteq> None" using same st by simp_all
  have rng: "range_of profile off m = ?in" using th by (simp add: range_of_def)
  have now: "clock_now (c, i) s m = clock_now (c, i) s m1" for s
    by (intro ext) (simp add: clock_now_def same)
  note rules = clock_now_then clock_now_announce [OF some(2)] clock_now_announce' [OF some(2)]
    clock_now_set [OF some(2)] clock_now_here [OF some(1)] clock_now_offset [of "(c, i)", unfolded fst_conv snd_conv]
  obtain m' where gen: "GenPTPEvent profile (c, i) src off clockState t m = Ok () m'" and
    now': "clock_now (c, i) (next_state clockState (lastSyncState st) ?in) m1 m'"
  proof (cases clockState)
    case LOCKED
    show thesis
      by (rule that, use LOCKED st th in \<open>simp add: GenPTPEvent_def recovered_def Let_def; fail\<close>)
        (use LOCKED in \<open>auto simp: next_state_def intro!: rules split: sync_state.split\<close>)
  next
    case HOLDOVER
    show thesis
      by (rule that, use HOLDOVER st th in \<open>simp add: GenPTPEvent_def recovered_def Let_def; fail\<close>)
        (use HOLDOVER in \<open>auto simp: next_state_def intro!: rules\<close>)
  next
    case FREERUN
    show thesis
      by (rule that, use FREERUN st th in \<open>simp add: GenPTPEvent_def recovered_def Let_def; fail\<close>)
        (use FREERUN in \<open>auto simp: next_state_def intro!: rules\<close>)
  qed (rule that, use ne st th in \<open>simp add: GenPTPEvent_def recovered_def Let_def; fail\<close>,
      use ne in \<open>auto simp: next_state_def intro!: rules\<close>)+
  show ?thesis
    using gen now' unfolding now rng by (auto simp: next_state_def split: sync_state.splits if_splits)
qed

text \<open>C1: the state machine of one clock. Whatever happens while publishing, a panic included, a line
  with a clock state moves the clock along the table: HOLDOVER and FREERUN are taken over; LOCKED and
  unknown states are judged by the offset against the profile's threshold, except that a clock in
  HOLDOVER stays there while out of range. So a clock becomes or stays LOCKED only within range, and
  the other clocks keep their states.\<close>
theorem GenPTPEvent_state:
  assumes "stat_at c i m = Some st" and "clockState \<noteq> NoState"
  shows "\<exists>m'. GenPTPEvent profile (c, i) src off clockState t m = Ok () m' \<and>
    clock_now (c, i) (next_state clockState (lastSyncState st) (range_of profile off m)) m m' \<and>
    (next_state clockState (lastSyncState st) (range_of profile off m) = LOCKED \<longrightarrow> range_of profile off m)"
  using GenPTPEvent_moves [OF assms] .

theorem GenPTPEvent_state_witness:
  "\<exists>m'. GenPTPEvent ''bc'' (''ptp4l.0.config'', ''master'') ''ens1fx/master'' 12 HOLDOVER PtpStateChange demo_manager = Ok () m' \<and>
    clock_now (''ptp4l.0.config'', ''master'') HOLDOVER demo_manager m'"
proof -
  have "stat_at ''ptp4l.0.config'' ''master'' demo_manager = Some (clk ''ptp4l'' LOCKED)"
    by (simp add: demo_manager_def stat_at_def)
  from GenPTPEvent_state [OF this, of HOLDOVER "''bc''" "''ens1fx/master''" 12 PtpStateChange]
  show ?thesis by (auto simp: next_state_def)
qed

section \<open>When the machine announces\<close>

text \<open>What has left the manager: the queue, the mock events, the state last reported, the saved file.\<close>

definition out_of :: "manager \<Rightarrow> sc_config option \<times> event_type list \<times> sync_state \<times> store_file" where
  "out_of m = (scConfig m, mockEvent m, lastOverallSyncState m, m_store m)"

lemma out_of_simps [simp]:
  "out_of (on_stat c i f m) = out_of m"
  "out_of (m\<lparr>PtpConfigMapUpdates := l\<rparr>) = out_of m"
  by (simp_all add: out_of_def on_stat_def)

lemma out_of_threshold: "out_of (snd (PtpThreshold p b m)) = out_of m"
  by (auto simp: PtpThreshold_def GetDefaultThreshold_def Let_def out_of_def split: option.split prod.split)

text \<open>No news, no event: a line that does not change the clock's state publishes nothing, counts
  nothing, and leaves the node's reported state and the saved file alone. The same is true of a line that
  takes a clock from HOLDOVER to FREERUN without being about the operating system's clock, although the
  state changes.\<close>
theorem GenPTPEvent_quiet:
  assumes st: "stat_at c i m = Some st"
    and quiet: "\<not> announces clockState (lastSyncState st) (range_of profile off m) t"
  shows "out_of (res_state (GenPTPEvent profile (c, i) src off clockState t m)) = out_of m"
proof -
  obtain th m1 where th: "PtpThreshold profile False m = (th, m1)" by fastforce
  have m1: "out_of m1 = out_of m" using out_of_threshold [of profile False m] th by simp
  show ?thesis
    using st th quiet
    by (cases clockState; cases "lastSyncState st")
      (simp_all add: GenPTPEvent_def recovered_def Let_def announces_def next_state_def range_of_def m1
        split: if_splits)
qed

theorem GenPTPEvent_quiet_witness:
  "out_of (res_state (GenPTPEvent ''bc'' (''ptp4l.0.config'', ''master'') ''ens1fx/master'' 12 LOCKED PtpStateChange demo_manager))
    = out_of demo_manager"
  by (rule GenPTPEvent_quiet [of _ _ _ "clk ''ptp4l'' LOCKED"])
    (simp_all add: demo_manager_def stat_at_def clk_def NewPTPEventManager_def new_ptp_conf_map_def announces_def
      next_state_def range_of_def isOffsetInRange_def absInt64_def PtpThreshold_def LookupEventThreshold_def
      GetDefaultThreshold_def make_chan_def maxOffsetThreshold_def)

lemma can_publish_on [simp]:
  "can_publish t (on_stat c i f m) = can_publish t m"
  "can_publish t (m\<lparr>PtpConfigMapUpdates := l\<rparr>) = can_publish t m"
  by (simp_all add: can_publish_def on_stat_def)

lemma can_publish_threshold: "can_publish t (snd (PtpThreshold p b m)) = can_publish t m"
  by (auto simp: PtpThreshold_def GetDefaultThreshold_def Let_def can_publish_def split: option.split prod.split)

text \<open>Changes of a clock that the node's state does not see.\<close>

definition state_blind :: "(stats \<Rightarrow> stats) \<Rightarrow> bool" where
  "state_blind f \<longleftrightarrow> (\<forall>st. lastSyncState (f st) = lastSyncState st \<and> processName (f st) = processName st)"

lemma state_blind_updates: "state_blind (SetLastOffset off)" "state_blind (AddValue off)"
  by (simp_all add: state_blind_def SetLastOffset_def frame_simps)

lemma GetMainClockName_madjust: "GetMainClockName (madjust i f ps) = GetMainClockName ps"
  by (simp add: GetMainClockName_def map_of_madjust)

lemma concat_madjust:
  assumes "\<And>v. g k (f v) = g k v"
  shows "concat (map (\<lambda>(i, v). g i v) (madjust k f m)) = concat (map (\<lambda>(i, v). g i v) m)"
  using assms by (induction m) (auto simp: madjust_def)

lemma list_ex_madjust:
  assumes "\<And>v. P k (f v) = P k v"
  shows "list_ex (\<lambda>(i, v). P i v) (madjust k f m) = list_ex (\<lambda>(i, v). P i v) m"
  using assms by (induction m) (auto simp: madjust_def split: if_splits)

lemma config_states_blind:
  assumes "state_blind f"
  shows "config_states ch (madjust i f ps) = config_states ch ps"
proof -
  have "node_state_of ch mn k (f st) = node_state_of ch mn k st" for mn k st
    using assms by (simp add: node_state_of_def state_blind_def Let_def)
  then show ?thesis
    unfolding config_states_def GetMainClockName_madjust by (intro concat_madjust) simp
qed

lemma node_states_blind:
  assumes "state_blind f"
  shows "GetNodeSyncState s (on_stat c i f m) = GetNodeSyncState s m"
proof -
  have S: "Stats (on_stat c i f m) = madjust c (madjust i f) (Stats m)" by (simp add: on_stat_def)
  have ch: "ChronydActiveAsE3 (on_stat c i f m) = ChronydActiveAsE3 m"
    unfolding ChronydActiveAsE3_def S
    using assms by (intro list_ex_madjust) (auto simp: map_of_madjust state_blind_def split: option.split)
  have "node_states (on_stat c i f m) = node_states m"
    unfolding node_states_def ch S
    by (intro concat_madjust config_states_blind assms)
  then show ?thesis by (simp add: GetNodeSyncState_collect)
qed

text \<open>
  After a body that announced, the node's reported state is the one computed from the clocks, and
  it stays so while offsets and samples are stored.
\<close>

definition coherent :: "sync_state \<Rightarrow> manager \<Rightarrow> bool" where
  "coherent s m \<longleftrightarrow> lastOverallSyncState m = GetNodeSyncState s m"

lemma coherent_announce:
  assumes "can_publish t m" and "is_node_event t" and "s \<noteq> NoState"
  shows "\<exists>m'. PublishEvent s off src t m = Ok () m' \<and> coherent s m'"
  using PublishEvent_coherent_gen [OF assms, of off src] by (auto simp: coherent_def)

lemma coherent_stat:
  "coherent s m \<Longrightarrow> state_blind f \<Longrightarrow> coherent s (on_stat c i f m)"
  by (simp add: coherent_def node_states_blind) (simp add: on_stat_def)

lemma coherent_then:
  assumes "\<exists>m'. r = Ok () m' \<and> coherent s m'"
  shows "coherent s (res_state (res_bind r (\<lambda>_ m. Ok () (on_stat c i (SetLastOffset off) m))))"
    and "coherent s (res_state (res_bind r
          (\<lambda>_ m. Ok () (on_stat c i (AddValue off) (on_stat c i (SetLastOffset off) m)))))"
  using assms by (auto intro!: coherent_stat state_blind_updates)

text \<open>News is announced: when the line changes the clock's state, other than from HOLDOVER to
  FREERUN off the operating system's clock, and the publishers are registered, the node's reported
  state agrees with the clocks afterwards.\<close>
theorem GenPTPEvent_announces:
  assumes st: "stat_at c i m = Some st" and "clockState \<in> {LOCKED, HOLDOVER, FREERUN}"
    and ann: "announces clockState (lastSyncState st) (range_of profile off m) t"
    and pub: "can_publish t m" "is_node_event t"
  shows "coherent (next_state clockState (lastSyncState st) (range_of profile off m))
    (res_state (GenPTPEvent profile (c, i) src off clockState t m))"
proof -
  obtain th m1 where th: "PtpThreshold profile False m = (th, m1)" by fastforce
  have m1: "can_publish t m1" using can_publish_threshold [of t profile False m] th pub(1) by simp
  have ok: "\<exists>m'. PublishEvent s off src t (on_stat c i f (m1\<lparr>PtpConfigMapUpdates := l\<rparr>)) = Ok () m' \<and> coherent s m'"
    "\<exists>m'. PublishEvent s off src t (on_stat c i f m1) = Ok () m' \<and> coherent s m'" if "s \<noteq> NoState" for s f l
    using coherent_announce that m1 pub(2) by simp_all
  consider "clockState = LOCKED" | "clockState = HOLDOVER" | "clockState = FREERUN" using assms(2) by blast
  then show ?thesis
  proof cases
    case 1
    then show ?thesis using st th ann
      by (cases "lastSyncState st")
        (auto simp: GenPTPEvent_def recovered_def Let_def announces_def next_state_def range_of_def
          simp del: res_bind.simps intro!: coherent_then ok)
  next
    case 2
    then show ?thesis using st th ann
      by (auto simp: GenPTPEvent_def recovered_def Let_def announces_def next_state_def range_of_def
          simp del: res_bind.simps intro!: coherent_then ok)
  next
    case 3
    show ?thesis
    proof (cases "t = OsClockSyncStateChange")
      case True
      then show ?thesis using st th ann 3
        by (auto simp: GenPTPEvent_def recovered_def Let_def announces_def next_state_def range_of_def
            simp del: res_bind.simps intro!: coherent_then ok [unfolded True])
    next
      case False
      then show ?thesis using st th ann 3
        by (auto simp: GenPTPEvent_def recovered_def Let_def announces_def next_state_def range_of_def
            simp del: res_bind.simps intro!: coherent_then ok split: if_splits)
    qed
  qed
qed

theorem GenPTPEvent_announces_witness:
  "coherent FREERUN (res_state (GenPTPEvent ''bc'' (''ptp4l.0.config'', ''master'') ''ens1fx/master'' (-250) LOCKED
     PtpStateChange demo_manager))"
proof -
  have out: "\<not> range_of ''bc'' (-250) demo_manager" by code_simp
  have "stat_at ''ptp4l.0.config'' ''master'' demo_manager = Some (clk ''ptp4l'' LOCKED)"
    by (simp add: demo_manager_def stat_at_def)
  from GenPTPEvent_announces [OF this, of LOCKED "''bc''" "-250" PtpStateChange]
  show ?thesis
    using out by (simp add: clk_def announces_def next_state_def is_node_event_def can_publish_def
        demo_manager_def NewPTPEventManager_def)
qed

end
