(* ===== verification/Ptp4lParse.thy ===== *)
theory Ptp4lParse
  imports LogParsers Publishing
begin

text \<open>
  \<open>metrics/ptp4lParse.go\<close>: clock class changes and port events of ptp4l, the entry into HOLDOVER, and
  the timer goroutine that ends it. A timer that waits is an entry of \<open>m_timers\<close>.
\<close>

section \<open>Operations\<close>

definition config_of :: "string \<Rightarrow> manager \<Rightarrow> ptp4l_config" where
  "config_of cfg m = mget_or (empty_config cfg) (Ptp4lConfigInterfaces m) cfg"

definition unknown_alias :: "string \<Rightarrow> manager \<Rightarrow> string m_res" where
  "unknown_alias cfg m =
    (case GetUnknownAlias (config_of cfg m) (m_world m) of
      Ok r w \<Rightarrow> Ok (fst r) (m\<lparr>m_world := w\<rparr>)
    | Panic w \<Rightarrow> Panic (m\<lparr>m_world := w\<rparr>))"

text \<open>\<open>ptp4lCfg.Interfaces[portID-1].UpdateRole(role)\<close>\<close>

definition set_port_role :: "string \<Rightarrow> int \<Rightarrow> port_role \<Rightarrow> manager \<Rightarrow> unit m_res" where
  "set_port_role cfg portID role m =
    (let c = config_of cfg m; n = nat (portID - 1) in
     if portID < 1 \<or> length (Interfaces c) \<le> n then Panic m
     else case Interfaces c ! n of
       None \<Rightarrow> Panic m
     | Some i \<Rightarrow> Ok () (AddPTPConfig cfg (c\<lparr>Interfaces := (Interfaces c)[n := Some (UpdateRole role i)]\<rparr>) m))"

text \<open>The process options are only logged.\<close>

definition startHoldoverTimer ::
  "ptp_process_opts option \<Rightarrow> string \<Rightarrow> string \<Rightarrow> string \<Rightarrow> manager \<Rightarrow> manager" where
  "startHoldoverTimer ptpOpts cfg profile a m =
    (if mock m then m
     else
       (let (threshold, m) = PtpThreshold profile True m in
        m\<lparr>m_timers := m_timers m @
           [\<lparr>ht_config = cfg, ht_profile = profile, ht_timeout = HoldOverTimeout threshold, ht_alias = a,
             ht_chan = Close threshold\<rparr>]\<rparr>))"

text \<open>The second case of the timer's select, with its deferred recover.\<close>

definition holdover_expired :: "holdover_timer \<Rightarrow> manager \<Rightarrow> manager" where
  "holdover_expired t m =
    (let (ptpStats, m) = GetStats (ht_config t) m in
     case map_of ptpStats MasterClockType of
       None \<Rightarrow> m
     | Some mStats \<Rightarrow>
         if lastSyncState mStats \<noteq> HOLDOVER \<or> aliasName mStats = '''' then m
         else res_state (do_all
           [upd (ht_config t) MasterClockType (SetLastSyncState FREERUN),
            PublishEvent FREERUN (lastOffset mStats) (master_resource (aliasName mStats)) PtpStateChange,
            pure (on_registry (UpdateSyncStateMetrics (processName mStats) (aliasName mStats) FREERUN))] m))"

text \<open>
  The goroutine: a closed channel or the elapsed timeout makes its select ready; with both, either
  case is taken. A nil channel is never ready.
\<close>

definition remove_timer :: "holdover_timer \<Rightarrow> manager \<Rightarrow> manager" where
  "remove_timer t m = m\<lparr>m_timers := remove1 t (m_timers m)\<rparr>"

definition timer_cancelled :: "holdover_timer \<Rightarrow> manager \<Rightarrow> bool" where
  "timer_cancelled t m =
    (case ht_chan t of None \<Rightarrow> False | Some c \<Rightarrow> chan_closed c (PtpConfigMapUpdates m))"

inductive handleHoldOverState :: "holdover_timer \<Rightarrow> manager \<Rightarrow> manager \<Rightarrow> bool" where
  cancelled: "t \<in> set (m_timers m) \<Longrightarrow> timer_cancelled t m \<Longrightarrow> handleHoldOverState t m (remove_timer t m)"
| expired: "t \<in> set (m_timers m) \<Longrightarrow> handleHoldOverState t m (holdover_expired t (remove_timer t m))"

inductive_simps handleHoldOverState_iff: "handleHoldOverState t m m'"

definition clock_class_line :: "string \<Rightarrow> string \<Rightarrow> string list \<Rightarrow> manager \<Rightarrow> unit m_res" where
  "clock_class_line proc cfg fs m =
    (if length fs < 5 then Ok () m
     else
       (let mainClock = GetMainClockName (table_of cfg m);
            m = check_source cfg mainClock ptp4lProcessName m
        in case ParseFloat (fs ! 4) of
             (_, Some _) \<Rightarrow> Ok () m
           | (cls, None) \<Rightarrow>
               need cfg mainClock (\<lambda>st m.
                 if clockClass st = int_of_float cls then Ok () m
                 else res_bind (if aliasName st \<noteq> '''' then Ok (aliasName st) m else unknown_alias cfg m) (\<lambda>a m.
                   do_all
                     [upd cfg mainClock (SetClockClass (int_of_float cls)),
                      pure (on_registry (\<lambda>r. r\<lparr>ClockClassMetrics := gauge_set
                        [(''process'', proc), (''config'', cfg), (''node'', ptpNodeName r)] cls (ClockClassMetrics r)\<rparr>)),
                      PublishClockClassEvent cls (master_resource a) PtpClockClassChange] m)) m))"

text \<open>The port's new role is stored, saved and shown.\<close>

definition role_change :: "string \<Rightarrow> string \<Rightarrow> int \<Rightarrow> ptp_interface \<Rightarrow> port_role \<Rightarrow> manager \<Rightarrow> unit m_res" where
  "role_change proc cfg portID port role m =
    do_all
      [(\<lambda>m. if Role port = FAULTY \<and> role = SLAVE then upd cfg MasterClockType (SetRole role) m else Ok () m),
       set_port_role cfg portID role,
       saveToStore,
       pure (on_registry (UpdateInterfaceRoleMetrics proc (pi_Name port) role))] m"

definition enter_holdover :: "string \<Rightarrow> string \<Rightarrow> sync_state \<Rightarrow> manager \<Rightarrow> unit m_res" where
  "enter_holdover cfg profile syncState m =
    need cfg MasterClockType (\<lambda>st m.
      if syncState = NoState \<or> syncState = lastSyncState st \<or> syncState \<noteq> HOLDOVER then Ok () m
      else res_bind (upd cfg MasterClockType (SetRole FAULTY) m) (\<lambda>_ m.
        if processName st \<noteq> masterOffsetSource m then Ok () m
        else do_all
          [upd cfg MasterClockType (SetLastSyncState syncState),
           PublishEvent syncState (lastOffset st) (master_resource (aliasName st)) PtpStateChange,
           pure (on_registry (UpdateSyncStateMetrics (processName st) (aliasName st) syncState)),
           (\<lambda>m. res_bind (GetPtpProcessOpts profile cfg m) (\<lambda>opts m.
              Ok () (startHoldoverTimer opts cfg profile (aliasName st) m)))] m)) m"

definition tbc_fault :: "string \<Rightarrow> string \<Rightarrow> port_role \<Rightarrow> port_role \<Rightarrow> manager \<Rightarrow> unit m_res" where
  "tbc_fault proc cfg lastRole role m =
    (case stat_at cfg MasterClockType m of
      Some st \<Rightarrow>
        if role = FAULTY \<and> lastRole = SLAVE \<and> aliasName st \<noteq> '''' then
          do_all [upd cfg MasterClockType (SetLastSyncState FREERUN),
                  pure (on_registry (UpdateSyncStateMetrics proc (aliasName st) FREERUN))] m
        else Ok () m
    | None \<Rightarrow> Ok () m)"

definition port_line :: "string \<Rightarrow> string \<Rightarrow> string \<Rightarrow> string \<Rightarrow> manager \<Rightarrow> unit m_res" where
  "port_line proc cfg profile output m =
    (let (portID, role, syncState) = extractPTP4lEventState output in
     if portID = 0 \<or> role = UNKNOWN then Ok () m
     else case ByPortID portID (config_of cfg m) of
       None \<Rightarrow> Ok () m
     | Some port \<Rightarrow>
         do_all
           [(\<lambda>m. if role = SLAVE \<or> masterOffsetSource m = ts2phcProcessName then
               upd cfg MasterClockType (SetRole role)
                 (check_source cfg MasterClockType (masterOffsetSource m)
                   (check_source cfg ClockRealTime phc2sysProcessName m))
             else Ok () m),
            (\<lambda>m. if Role port \<noteq> role then role_change proc cfg portID port role m else Ok () m),
            (\<lambda>m. if ProfileType (config_of cfg m) = TBC_profile then tbc_fault proc cfg (Role port) role m
               else if Role port \<noteq> SLAVE \<or> stat_at cfg MasterClockType m = None then Ok () m
               else enter_holdover cfg profile syncState m)] m)"

definition ParsePTP4l :: "string \<Rightarrow> string \<Rightarrow> string \<Rightarrow> string \<Rightarrow> string list \<Rightarrow> manager \<Rightarrow> unit m_res" where
  "ParsePTP4l proc cfg profile output fs m =
    (if contains output ''CLOCK_CLASS_CHANGE'' then clock_class_line proc cfg fs m
     else if contains output '' port '' \<and> proc = ptp4lProcessName then port_line proc cfg profile output m
     else Ok () m)"

end
