(* ===== verification/Extract.thy ===== *)
theory Extract
  imports Ptp4lParse
begin

text \<open>
  \<open>metrics/metrics.go\<close>: \<open>ExtractMetrics\<close>, which takes one log line to the handler of its process.
  A branch of it gives a flag: whether the line goes on to \<open>ParsePTP4l\<close>. The function holds a lock
  for the whole line and recovers from a panic of any handler.
\<close>

section \<open>Lines that end a process\<close>

definition iface_down :: "string \<Rightarrow> string \<Rightarrow> string \<Rightarrow> manager \<Rightarrow> unit m_res" where
  "iface_down proc cfg iface m =
    (if iface = ClockRealTime \<or> iface = MasterClockType then Ok () m
     else
       (let m = on_stat cfg iface (\<lambda>s. SetLastSyncState FREERUN (SetLastOffset FreeRunOffsetValue s)) m;
            (a, m) = alias_of iface m
        in do_all
          [refresh_alias cfg iface a,
           need cfg iface (\<lambda>st. pure (on_registry (\<lambda>r.
             UpdatePTPMetrics ''master'' proc a (float_of_int FreeRunOffsetValue) (float_of_int (MaxAbs st))
               (float_of_int (frequencyAdjustment st)) (float_of_int (s_delay st))
               (UpdateSyncStateMetrics proc a (lastSyncState st) r))))] m))"

text \<open>The aggregate T-BC clock, the clock the process was the source of, and the system's clock.\<close>

definition tbc_down :: "string \<Rightarrow> string \<Rightarrow> string \<Rightarrow> profile_type \<Rightarrow> manager \<Rightarrow> unit m_res" where
  "tbc_down profile proc cfg ptype m =
    (case stat_at cfg TBCMainClockName m of
      Some st \<Rightarrow>
        if ptype = TBC_profile \<and> proc = ptp4lProcessName \<and> aliasName st \<noteq> '''' then
          GenPTPEvent profile (cfg, TBCMainClockName) (master_resource (aliasName st)) FreeRunOffsetValue FREERUN
            PtpStateChange m
        else Ok () m
    | None \<Rightarrow> Ok () m)"

definition master_down :: "string \<Rightarrow> string \<Rightarrow> string \<Rightarrow> manager \<Rightarrow> unit m_res" where
  "master_down profile proc cfg m =
    (if masterOffsetSource m = proc then
       need cfg MasterClockType (\<lambda>st m.
         if aliasName st \<noteq> '''' then
           GenPTPEvent profile (cfg, MasterClockType) (master_resource (aliasName st)) FreeRunOffsetValue FREERUN
             PtpStateChange m
         else Ok () m) m
     else Ok () m)"

definition realtime_down :: "string \<Rightarrow> string \<Rightarrow> manager \<Rightarrow> unit m_res" where
  "realtime_down profile cfg m =
    (if stat_at cfg ClockRealTime m = None then Ok () m
     else case LookupPtpProcessOpts profile (PtpConfigMapUpdates m) of
       Some opts \<Rightarrow>
         if Phc2SysEnabled opts \<and> \<not> ChronydEnabled opts then
           do_all
             [GenPTPEvent profile (cfg, ClockRealTime) ClockRealTime FreeRunOffsetValue FREERUN OsClockSyncStateChange,
              pure (on_registry (UpdateSyncStateMetrics phc2sysProcessName ClockRealTime FREERUN))] m
         else Ok () m
     | None \<Rightarrow> Ok () m)"

definition processDownEvent :: "string \<Rightarrow> string \<Rightarrow> string \<Rightarrow> profile_type \<Rightarrow> manager \<Rightarrow> unit m_res" where
  "processDownEvent profile proc cfg ptype m =
    (if proc = ts2phcProcessName then
       do_all (map (\<lambda>(iface, st). iface_down proc cfg iface) (table_of cfg m)) m
     else
       do_all [tbc_down profile proc cfg ptype, master_down profile proc cfg, realtime_down profile cfg] m)"

section \<open>Helpers\<close>

definition clearStaleClockRealTimeMetric :: "string \<Rightarrow> string \<Rightarrow> manager \<Rightarrow> manager" where
  "clearStaleClockRealTimeMetric profile active m =
    (case LookupPtpProcessOpts profile (PtpConfigMapUpdates m) of
      None \<Rightarrow> m
    | Some opts \<Rightarrow>
        if \<not> Phc2SysEnabled opts \<or> \<not> ChronydEnabled opts then m
        else on_registry (DeleteSyncStateMetrics
          (if active = chronydProcessName then phc2sysProcessName else chronydProcessName) ClockRealTime) m)"

definition validLogToProcess :: "string \<Rightarrow> string \<Rightarrow> nat \<Rightarrow> manager \<Rightarrow> bool" where
  "validLogToProcess profile proc ifaces m =
    (if profile = '''' then False
     else \<not> (ifaces = 0 \<and> \<not> IsHAProfile profile m \<and> proc \<noteq> chronydProcessName))"

text \<open>The empty name when there is no slave; \<open>None\<close> is the panic of \<open>ByRole\<close>.\<close>

definition slave_name :: "string \<Rightarrow> manager \<Rightarrow> string option" where
  "slave_name cfg m = map_option (\<lambda>p. case p of None \<Rightarrow> '''' | Some p \<Rightarrow> pi_Name p) (ByRole SLAVE (config_of cfg m))"

section \<open>chronyd\<close>

definition chronyd_state :: "string \<Rightarrow> sync_state option" where
  "chronyd_state output =
    (if contains output ''Selected source'' then Some LOCKED
     else if contains output ''no selectable sources'' then Some FREERUN else None)"

definition chronyd_line :: "string \<Rightarrow> string \<Rightarrow> string \<Rightarrow> string \<Rightarrow> manager \<Rightarrow> unit m_res" where
  "chronyd_line proc cfg profile output m =
    do_all
      [pure (check_source cfg ClockRealTime proc),
       upd cfg ClockRealTime (SetProcessName proc),
       (\<lambda>m. case chronyd_state output of
          None \<Rightarrow> Ok () m
        | Some s \<Rightarrow> do_all
            [pure (on_registry (UpdateSyncStateMetrics chronydProcessName ClockRealTime s)),
             pure (clearStaleClockRealTimeMetric profile chronydProcessName),
             GenPTPEvent profile (cfg, ClockRealTime) ClockRealTime 0 s OsClockSyncStateChange] m)] m"

section \<open>Summary and NMEA lines\<close>

definition summary_line :: "string \<Rightarrow> string \<Rightarrow> string \<Rightarrow> manager \<Rightarrow> unit m_res" where
  "summary_line proc cfg output m =
    (case extractSummaryMetrics output of
      None \<Rightarrow> Panic m
    | Some l \<Rightarrow>
        (let show = (\<lambda>src name. pure (on_registry
               (UpdatePTPMetrics src proc name (lm_offset l) (lm_max l) (lm_freq l) (lm_delay l))));
             aliased = (\<lambda>name m. let (a, m) = alias_of name m in
               do_all [upd cfg MasterClockType (StSetAlias a), show ''master'' a] m)
         in if lm_iface l = ClockRealTime then show ''phc'' ClockRealTime m
            else if lm_iface l = MasterClockType then
              (case slave_name cfg m of
                None \<Rightarrow> Panic m
              | Some name \<Rightarrow> if name \<noteq> '''' then aliased name m else Ok () m)
            else if proc = ts2phcProcessName then aliased (lm_iface l) m
            else Ok () m))"

definition nmea_line :: "string \<Rightarrow> string \<Rightarrow> manager \<Rightarrow> unit m_res" where
  "nmea_line proc output m =
    (let (iface, status, _, _) = extractNmeaMetrics output;
         (a, m) = alias_of iface m
     in Ok () (on_registry (UpdateNmeaStatusMetrics proc a status) m))"

definition ha_line :: "string \<Rightarrow> manager \<Rightarrow> unit m_res" where
  "ha_line output m =
    (let (profile, state, _) = extractPTPHaMetrics output
     in Ok () (if state > -1 then on_registry (UpdatePTPHaMetrics profile state) m else m))"

section \<open>Offset lines\<close>

text \<open>The state of the clock that E3 depends on: missing it counts as FREERUN for T-BC and T-GM only.\<close>

definition e1_state :: "string \<Rightarrow> manager \<Rightarrow> sync_state" where
  "e1_state cfg m =
    (let ptype = GetProfileTypeByConfigName cfg m;
         mainClockKey = (if ptype = TBC_profile then TBCMainClockName else GetMainClockName (table_of cfg m));
         default = (if ptype = TBC_profile \<or> ptype = TGM_profile then FREERUN else NoState)
     in case stat_at cfg mainClockKey m of
          None \<Rightarrow> default
        | Some st \<Rightarrow> if lastSyncState st \<noteq> NoState then lastSyncState st else default)"

definition e3_state :: "string \<Rightarrow> sync_state \<Rightarrow> manager \<Rightarrow> sync_state" where
  "e3_state cfg s m = (if e1_state cfg m \<noteq> NoState then OverallState s (e1_state cfg m) else s)"

definition realtime_offset ::
  "string \<Rightarrow> string \<Rightarrow> string \<Rightarrow> string \<Rightarrow> line_metrics \<Rightarrow> sync_state \<Rightarrow> manager \<Rightarrow> unit m_res" where
  "realtime_offset proc cfg profile src l s m =
    (let s = e3_state cfg s m;
         gen = GenPTPEvent profile (cfg, ClockRealTime) ClockRealTime (int_of_float (lm_offset l)) s
                 OsClockSyncStateChange
     in do_all
       [(\<lambda>m. if (case stat_at cfg MasterClockType m of None \<Rightarrow> False | Some r \<Rightarrow> s_role r = SLAVE) \<or>
            masterOffsetSource m = ts2phcProcessName then gen m else Ok () m),
        (\<lambda>m. upd cfg ClockRealTime (StSetAlias
           (case stat_at cfg MasterClockType m of None \<Rightarrow> ''ptp-ha-enabled'' | Some r \<Rightarrow> aliasName r)) m),
        gen,
        need cfg ClockRealTime (\<lambda>st. pure (on_registry (UpdateSyncStateMetrics proc ClockRealTime (lastSyncState st)))),
        pure (\<lambda>m. if proc = phc2sysProcessName then clearStaleClockRealTimeMetric profile phc2sysProcessName m else m),
        need cfg ClockRealTime (\<lambda>st. pure (on_registry (UpdatePTPMetrics src proc ClockRealTime (lm_offset l)
          (float_of_int (MaxAbs st)) (lm_freq l) (lm_delay l))))] m)"

definition master_offset ::
  "string \<Rightarrow> string \<Rightarrow> string \<Rightarrow> string \<Rightarrow> string \<Rightarrow> line_metrics \<Rightarrow> sync_state \<Rightarrow> manager \<Rightarrow> unit m_res" where
  "master_offset proc cfg profile src port l s m =
    (if port = '''' then Ok () m
     else
       (let (a, m) = alias_of port m; k = MasterClockType; off = int_of_float (lm_offset l) in
        do_all
          [refresh_alias cfg k a,
           need cfg k (\<lambda>st. pure (on_registry (UpdatePTPMetrics src proc a (lm_offset l)
             (float_of_int (MaxAbs st)) (lm_freq l) (lm_delay l)))),
           (\<lambda>m. if ProfileType (config_of cfg m) \<noteq> TBC_profile then
              do_all
                [GenPTPEvent profile (cfg, k) (master_resource a) off s PtpStateChange,
                 need cfg k (\<lambda>st. pure (on_registry (UpdateSyncStateMetrics proc a (lastSyncState st))))] m
            else
              do_all [upd cfg k (SetLastSyncState s), pure (on_registry (UpdateSyncStateMetrics proc a s))] m),
           upd cfg k (AddValue off)] m))"

definition iface_offset ::
  "string \<Rightarrow> string \<Rightarrow> string \<Rightarrow> string \<Rightarrow> line_metrics \<Rightarrow> sync_state \<Rightarrow> manager \<Rightarrow> unit m_res" where
  "iface_offset proc cfg profile src l s m =
    (if proc \<noteq> ts2phcProcessName then Ok () m
     else
       (let k = lm_iface l; off = int_of_float (lm_offset l); (a, m) = alias_of k m in
        do_all
          [refresh_alias cfg k a,
           need cfg MasterClockType (\<lambda>ms m.
             if \<not> HasProcessEnabled gmProcessName ms \<and> ProfileType (config_of cfg m) \<noteq> TBC_profile then
               GenPTPEvent profile (cfg, k) (master_resource a) off s PtpStateChange m
             else
               (let (threshold, m) = PtpThreshold profile False m;
                    s = (if s \<noteq> HOLDOVER \<and> \<not> isOffsetInRange off (MaxOffsetThreshold threshold)
                         then FREERUN else s)
                in upd cfg k (\<lambda>st. AddValue off (SetLastOffset off (SetLastSyncState s st))) m)),
           need cfg k (\<lambda>st. pure (on_registry (\<lambda>r.
             UpdatePTPMetrics src proc a (lm_offset l) (float_of_int (MaxAbs st)) (lm_freq l) (lm_delay l)
               (UpdateSyncStateMetrics proc a (lastSyncState st) r))))] m))"

text \<open>The clock is created and takes the line's values; a ts2phc line also claims the master clock.\<close>

definition note_offset :: "string \<Rightarrow> string \<Rightarrow> string \<Rightarrow> line_metrics \<Rightarrow> manager \<Rightarrow> unit m_res" where
  "note_offset proc cfg src l m =
    do_all
      [(\<lambda>m. if proc = ts2phcProcessName then
          upd cfg MasterClockType (\<lambda>st. SetOffsetSource src (SetProcessName proc st))
            (check_source cfg MasterClockType proc m)
        else Ok () m),
       pure (check_source cfg (lm_iface l) proc),
       upd cfg (lm_iface l) (\<lambda>st. SetDelay (int_of_float (lm_delay l))
         (SetFrequencyAdjustment (int_of_float (lm_freq l)) (SetProcessName proc (SetOffsetSource src st))))] m"

definition offset_line :: "string \<Rightarrow> string \<Rightarrow> string \<Rightarrow> string \<Rightarrow> manager \<Rightarrow> bool m_res" where
  "offset_line proc cfg profile output m =
    (case extractRegularMetrics proc output of
      None \<Rightarrow> Panic m
    | Some l \<Rightarrow>
        if lm_iface l = '''' then Ok False m
        else
          (let iface = lm_iface l;
               m = (if proc = phc2sysProcessName then handlePhc2sysOffsetSyncDirection cfg iface m else m)
           in if proc \<noteq> ts2phcProcessName \<and> iface \<noteq> MasterClockType \<and> iface \<noteq> ClockRealTime then Ok False m
              else
                (let s = (if proc \<noteq> ts2phcProcessName \<and> masterOffsetSource m = ts2phcProcessName \<and>
                            lastOverallGMState m = FREERUN then FREERUN else lm_state l);
                     src = (if contains output ''sys offset'' then ''sys''
                            else if contains output ''phc offset'' then ''phc'' else ''master'');
                     port = (if proc = ts2phcProcessName then Some iface else slave_name cfg m)
                 in case port of
                      None \<Rightarrow> Panic m
                    | Some port \<Rightarrow> res_bind
                        (do_all
                          [note_offset proc cfg src l,
                           (if iface = ClockRealTime then realtime_offset proc cfg profile src l s
                            else if iface = MasterClockType then master_offset proc cfg profile src port l s
                            else iface_offset proc cfg profile src l s)] m)
                        (\<lambda>_ m. Ok True m))))"

section \<open>The line\<close>

definition continue :: "(manager \<Rightarrow> unit m_res) \<Rightarrow> manager \<Rightarrow> bool m_res" where
  "continue f m = res_bind (f m) (\<lambda>_ m. Ok True m)"

text \<open>The lines of ptp4l, phc2sys and ts2phc.\<close>

definition sync_line :: "string \<Rightarrow> string \<Rightarrow> string \<Rightarrow> string \<Rightarrow> string list \<Rightarrow> manager \<Rightarrow> bool m_res" where
  "sync_line proc cfg profile output fs m =
    (if contains output '' max '' then continue (summary_line proc cfg output) m
     else if contains output ''nmea_status'' \<and> proc = ts2phcProcessName then continue (nmea_line proc output) m
     else if contains output ''process_status'' \<and> proc = ts2phcProcessName then Ok False m
     else
       (let (taken, m) = (if proc = phc2sysProcessName then handlePhc2sysSyncDirection profile cfg output fs m
                          else (False, m))
        in if taken then Ok False m
           else if contains output '' offset '' then offset_line proc cfg profile output m
           else if proc = phc2sysProcessName \<and> contains output ''ptp_ha_profile'' then continue (ha_line output) m
           else Ok True m))"

definition process_line :: "string \<Rightarrow> string \<Rightarrow> string \<Rightarrow> string \<Rightarrow> string list \<Rightarrow> manager \<Rightarrow> bool m_res" where
  "process_line proc cfg profile output fs m =
    (if proc = gnssProcessName then continue (ParseGNSSLogs proc cfg output fs) m
     else if proc = dpllProcessName then continue (ParseDPLLLogs proc cfg output fs) m
     else if proc = gmProcessName then continue (ParseGMLogs proc cfg output fs) m
     else if proc = bcProcessName then continue (ParseTBCLogs proc cfg output fs) m
     else if proc = syncE4lProcessName then continue (ParseSyncELogs proc cfg output fs) m
     else if proc = chronydProcessName then continue (chronyd_line proc cfg profile output) m
     else sync_line proc cfg profile output fs m)"

definition status_line :: "string \<Rightarrow> string \<Rightarrow> string \<Rightarrow> string list \<Rightarrow> manager \<Rightarrow> unit m_res" where
  "status_line proc cfg profile fs m =
    (let ((status, err), m) = parsePTPStatus fs m in
     if \<not> err \<and> status = 0
     then processDownEvent profile proc cfg (ProfileType (config_of cfg m)) m else Ok () m)"

definition source_of_master :: "string \<Rightarrow> manager \<Rightarrow> manager" where
  "source_of_master cfg m =
    (case stat_at cfg MasterClockType m of None \<Rightarrow> m | Some st \<Rightarrow> m\<lparr>masterOffsetSource := processName st\<rparr>)"

definition extract_line :: "string \<Rightarrow> manager \<Rightarrow> unit m_res" where
  "extract_line msg m =
    (let output = replacer bracket_pairs msg; fs = str_fields output in
     if FindInLogForCfgFileIndex output = None \<or> length fs < 3 then Ok () m
     else
       (let proc = fs ! 0;
            cfg = replace_first (fs ! 2) ts2phcProcessName ptp4lProcessName;
            (c, m) = GetPTPConfig cfg m;
            (_, m) = GetStats cfg m;
            profile = pc_Profile c
        in if contains output ''PTP_PROCESS_STATUS'' then status_line proc cfg profile fs m
           else if proc = syncE4lProcessName \<and> cfg = '''' then Ok () m
           else if proc \<noteq> syncE4lProcessName \<and> \<not> validLogToProcess profile proc (length (Interfaces c)) m then Ok () m
           else res_bind (process_line proc cfg profile output fs (source_of_master cfg m))
             (\<lambda>on m. if on then ParsePTP4l proc cfg profile output fs m else Ok () m)))"

definition ExtractMetrics :: "string \<Rightarrow> manager \<Rightarrow> manager" where
  "ExtractMetrics msg m = res_state (recovered (extract_line msg m))"

definition SetMasterOffsetSource :: "string \<Rightarrow> manager \<Rightarrow> manager" where
  "SetMasterOffsetSource proc m = m\<lparr>masterOffsetSource := proc\<rparr>"

end
