(* ===== verification/PluginEntry.thy ===== *)
theory PluginEntry
  imports RestClient Extract
begin

text \<open>
  \<open>ptp_operator_plugin.go\<close>: the start of the plug-in (publishers, saved state, the first profiles, the
  configuration files), the lines of a connection, and the answer to a request for the current state.
  What the watcher's first read of the profiles gives, and the answers of the publisher API, are
  parameters.
\<close>

section \<open>Publishers\<close>

definition event_resource :: "event_type \<Rightarrow> string" where
  "event_resource t = (case t of
      SyncStateChange \<Rightarrow> ''/sync/sync-status/sync-state''
    | OsClockSyncStateChange \<Rightarrow> ''/sync/sync-status/os-clock-sync-state''
    | PtpClockClassChange \<Rightarrow> ''/sync/ptp-status/clock-class''
    | PtpStateChange \<Rightarrow> ''/sync/ptp-status/lock-state''
    | GnssStateChange \<Rightarrow> ''/sync/gnss-status/gnss-sync-status''
    | SynceStateChange \<Rightarrow> ''/sync/synce-status/lock-state''
    | SynceClockQualityChange \<Rightarrow> ''/sync/synce-status/clock-quality'')"

definition InitPubSubTypes :: "(event_type, publisher) gomap" where
  "InitPubSubTypes =
    map (\<lambda>t. (t, \<lparr>pub_Resource = event_resource t, PubID = ''''\<rparr>))
      [SyncStateChange, OsClockSyncStateChange, PtpClockClassChange, PtpStateChange, GnssStateChange,
       SynceStateChange, SynceClockQualityChange]"

text \<open>The publishers are created one by one; the first that fails ends the start.\<close>

fun create_publishers ::
  "(event_type \<Rightarrow> http_outcome) \<Rightarrow> (string \<Rightarrow> pub_sub option) \<Rightarrow> (event_type, publisher) gomap \<Rightarrow>
    (event_type, publisher) gomap option" where
  "create_publishers api decode [] = Some []"
| "create_publishers api decode ((t, p) # ps) =
    (case CreatePublisher decode (api t) of
      Inl _ \<Rightarrow> None
    | Inr pub \<Rightarrow> map_option (Cons (t, p\<lparr>PubID := psub_ID pub\<rparr>)) (create_publishers api decode ps))"

section \<open>The configuration files at the start\<close>

definition default_role :: "(string, (string, string) gomap) gomap \<Rightarrow> port_role" where
  "default_role allSections =
    (case map_of allSections ''global'' of
      Some globalSection \<Rightarrow>
        if map_of globalSection ''clientOnly'' = Some ''1'' then SLAVE
        else if map_of globalSection ''slaveOnly'' = Some ''1'' then SLAVE
        else SLAVE
    | None \<Rightarrow> SLAVE)"

definition role_of_flag :: "string \<Rightarrow> port_role" where
  "role_of_flag v = (if v = ''1'' then MASTER else if v = ''0'' then SLAVE else UNKNOWN)"

definition section_role :: "(string, (string, string) gomap) gomap \<Rightarrow> string \<Rightarrow> port_role" where
  "section_role allSections ptpInterface =
    (case map_of allSections ptpInterface of
      None \<Rightarrow> UNKNOWN
    | Some interfaceSection \<Rightarrow>
        (case map_of interfaceSection ''serverOnly'' of
          Some v \<Rightarrow> role_of_flag v
        | None \<Rightarrow>
            (case map_of interfaceSection ''masterOnly'' of
              Some v \<Rightarrow> role_of_flag v
            | None \<Rightarrow> default_role allSections)))"

definition make_interface :: "(string, (string, string) gomap) gomap \<Rightarrow> nat \<Rightarrow> string \<Rightarrow> ptp_interface" where
  "make_interface allSections index name =
    \<lparr>pi_Name = name, PortID = int index + 1, PortName = ''port '' @ itoa (int index + 1),
     Role = section_role allSections name\<rparr>"

definition make_interfaces :: "(string, (string, string) gomap) gomap \<Rightarrow> string list \<Rightarrow> ptp_interface list" where
  "make_interfaces allSections names = map (\<lambda>(i, n). make_interface allSections i n) (enumerate 0 names)"

definition processConfigCreate :: "ptp_config_update option \<Rightarrow> manager \<Rightarrow> unit m_res" where
  "processConfigCreate ev m =
    (case ev of
      None \<Rightarrow> Ok () m
    | Some u \<Rightarrow>
        (case u_Profile u of
          None \<Rightarrow> Ok () m
        | Some profile \<Rightarrow>
            (case GetAllSections u of
              None \<Rightarrow> Panic m
            | Some allSections \<Rightarrow>
                (let ptpInterfaces = make_interfaces allSections (GetAllInterface u);
                     m = fold (\<lambda>i. on_registry (UpdateInterfaceRoleMetrics ptp4lProcessName (pi_Name i) (Role i)))
                           ptpInterfaces m;
                     cfg = \<lparr>pc_Name = u_Name u, pc_Profile = profile, Interfaces = map Some ptpInterfaces,
                            Sections = allSections, ProfileType = GetProfileType profile m\<rparr>
                 in Ok () (AddPTPConfig (u_Name u) cfg m)))))"

definition loadInitialPtp4lConfigs :: "(string \<Rightarrow> string option) \<Rightarrow> string list \<Rightarrow> manager \<Rightarrow> unit m_res" where
  "loadInitialPtp4lConfigs readFile files m =
    res_bind (res_fold processConfigCreate (map Some (ReadAllConfig readFile files ''/var/run/'')) m)
      (\<lambda>_ m. let w = m_world m in Ok () (m\<lparr>m_world := w\<lparr>w_alias := snd (SyncFromDaemon (w_env w) (w_alias w))\<rparr>\<rparr>))"

section \<open>The first profiles\<close>

definition setThresholdMetrics :: "string \<Rightarrow> (string, ptp_clock_threshold) gomap \<Rightarrow> registry \<Rightarrow> registry" where
  "setThresholdMetrics node thresholds r =
    fold (\<lambda>(key, np) r.
      let put = (\<lambda>name v r. r\<lparr>Threshold := gauge_set
            [(''threshold'', name), (''node'', node), (''profile'', key)] (float_of_int v) (Threshold r)\<rparr>)
      in put ''HoldOverTimeout'' (HoldOverTimeout np) (put ''MaxOffsetThreshold'' (MaxOffsetThreshold np)
           (put ''MinOffsetThreshold'' (MinOffsetThreshold np) r))) thresholds r"

text \<open>The calls of the callback since there were \<open>n\<close> of them.\<close>

definition run_callbacks :: "string \<Rightarrow> nat \<Rightarrow> manager \<Rightarrow> manager" where
  "run_callbacks node n m =
    fold (\<lambda>t. on_registry (setThresholdMetrics node t)) (drop n (threshold_calls (PtpConfigMapUpdates m))) m"

definition on_conf :: "(ptp_conf_map \<Rightarrow> (unit, ptp_conf_map) res) \<Rightarrow> manager \<Rightarrow> unit m_res" where
  "on_conf f m =
    (case f (PtpConfigMapUpdates m) of
      Ok _ l \<Rightarrow> Ok () (m\<lparr>PtpConfigMapUpdates := l\<rparr>)
    | Panic l \<Rightarrow> Panic (m\<lparr>PtpConfigMapUpdates := l\<rparr>))"

text \<open>
  The watcher reads the profile file; if that notifies, the update is taken, otherwise (a timeout, or
  the closing of the process) the start goes on without.
\<close>

definition startPtpConfigSync :: "string \<Rightarrow> conf_env \<Rightarrow> manager \<Rightarrow> unit m_res" where
  "startPtpConfigSync node env m =
    (let l = snd (updatePtpConfig env node (PtpConfigMapUpdates m)) in
     if \<not> UpdateCh l then Ok () (m\<lparr>PtpConfigMapUpdates := l\<rparr>)
     else
       (let l = l\<lparr>UpdateCh := False\<rparr>; m = m\<lparr>PtpConfigMapUpdates := l\<rparr> in
        if NodeProfiles l = [] then Ok () m
        else
          res_bind (on_conf UpdatePTPProcessOptions m) (\<lambda>_ m.
          res_bind (on_conf (UpdatePTPThreshold (ce_gnss env)) m) (\<lambda>_ m.
          res_bind (on_conf UpdatePTPSetting (run_callbacks node (length (threshold_calls l)) m)) (\<lambda>_ m.
          Ok () (RefreshProfileTypes m))))))"

text \<open>
  The start up to the socket; \<open>None\<close> is an error returned to the loader. The parameters are the node's
  name, the API and its decoder, the configuration, the saved file, the environment of the profiles
  and the files.
\<close>

definition PluginStart ::
  "string \<Rightarrow> (event_type \<Rightarrow> http_outcome) \<Rightarrow> (string \<Rightarrow> pub_sub option) \<Rightarrow> sc_config \<Rightarrow> store_file \<Rightarrow>
    conf_env \<Rightarrow> (string \<Rightarrow> string option) \<Rightarrow> string list \<Rightarrow> world \<Rightarrow> unit m_res option" where
  "PluginStart node api decode sc saved env readFile files w =
    (if node = '''' then None
     else case create_publishers api decode InitPubSubTypes of
       None \<Rightarrow> None
     | Some pubs \<Rightarrow> Some
        (let m = (NewPTPEventManager ''/cluster/node'' pubs node (Some sc))
                   \<lparr>m_world := on_reg (RegisterMetrics node) w, m_store := saved, m_conf_env := env\<rparr>;
             m = snd (LoadFromStore m)
         in res_bind (SetInitalMetrics m) (\<lambda>_ m.
            res_bind (startPtpConfigSync node env
                (m\<lparr>PtpConfigMapUpdates := (PtpConfigMapUpdates m)\<lparr>OnThresholdUpdate := True\<rparr>\<rparr>)) (\<lambda>_ m.
            loadInitialPtp4lConfigs readFile files m))))"

section \<open>A connection\<close>

text \<open>The lines of a connection: a restart request ends it, and the process with it.\<close>

datatype conn_end = ConnClosed | ConnRestart

fun processMessages :: "string list \<Rightarrow> manager \<Rightarrow> conn_end \<times> manager" where
  "processMessages [] m = (ConnClosed, m)"
| "processMessages (msg # msgs) m =
    (if msg = ''CMD RESTART'' then (ConnRestart, m)
     else if msg = ''CMD LIVE_START'' then processMessages msgs m
     else processMessages msgs (ExtractMetrics msg m))"

section \<open>The current state\<close>

text \<open>The kind of a resource, by what its address contains.\<close>

definition classify_source :: "string \<Rightarrow> (event_type \<times> string) option" where
  "classify_source src =
    (if contains src (event_resource PtpStateChange) then Some (PtpStateChange, event_resource PtpStateChange)
     else if contains src (event_resource OsClockSyncStateChange)
       then Some (OsClockSyncStateChange, event_resource OsClockSyncStateChange)
     else if contains src (event_resource PtpClockClassChange)
       then Some (PtpClockClassChange, event_resource PtpClockClassChange)
     else if contains src ''/sync/ptp-status/ptp-clock-class-change''
       then Some (PtpClockClassChange, ''/sync/ptp-status/ptp-clock-class-change'')
     else if contains src (event_resource GnssStateChange) then Some (GnssStateChange, event_resource GnssStateChange)
     else if contains src (event_resource SyncStateChange) then Some (SyncStateChange, event_resource SyncStateChange)
     else if contains src (event_resource SynceStateChange) then Some (SynceStateChange, event_resource SynceStateChange)
     else if contains src (event_resource SynceClockQualityChange)
       then Some (SynceClockQualityChange, event_resource SynceClockQualityChange)
     else None)"

text \<open>The data collected so far (\<open>None\<close>: nil) and the overall state.\<close>

type_synonym query_acc = "event_data option \<times> sync_state"

definition processDataFn :: "event_data option \<Rightarrow> event_data \<Rightarrow> event_data option" where
  "processDataFn data d = (case data of None \<Rightarrow> Some d | Some xs \<Rightarrow> Some (xs @ d))"

definition metric_value :: "string \<Rightarrow> int \<Rightarrow> data_value" where
  "metric_value resource v = \<lparr>dv_Resource = resource, dv_DataType = METRIC, dv_ValueType = DECIMAL, dv_Value = VInt v\<rparr>"

definition main_clock_data :: "event_type \<Rightarrow> manager \<Rightarrow> string \<Rightarrow> stats \<Rightarrow> query_acc \<Rightarrow> query_acc" where
  "main_clock_data eventType m iface s = (\<lambda>(data, overallSyncState).
    (let iface = (if aliasName s \<noteq> '''' then aliasName s @ ''/'' @ MasterClockType else iface) in
     case eventType of
       PtpStateChange \<Rightarrow>
         (processDataFn data (GetPTPEventsData (lastSyncState s) (lastOffset s) iface eventType m), overallSyncState)
     | PtpClockClassChange \<Rightarrow>
         (if clockClass s \<noteq> 0
          then processDataFn data (GetPTPEventsData (lastSyncState s) (clockClass s) (iface @ ''/'' @ ''CLOCK_CLASS'') eventType m)
          else data, overallSyncState)
     | SyncStateChange \<Rightarrow> (data, OverallState overallSyncState (lastSyncState s))
     | _ \<Rightarrow> (data, overallSyncState)))"

definition realtime_data :: "event_type \<Rightarrow> bool \<Rightarrow> manager \<Rightarrow> stats \<Rightarrow> query_acc \<Rightarrow> query_acc" where
  "realtime_data eventType chronydIsE3 m s = (\<lambda>(data, overallSyncState).
    (if processName s \<noteq> chronydProcessName \<and> chronydIsE3 then (data, overallSyncState)
     else case eventType of
       OsClockSyncStateChange \<Rightarrow>
         (processDataFn data (GetPTPEventsData (lastSyncState s) (lastOffset s) ClockRealTime eventType m), overallSyncState)
     | SyncStateChange \<Rightarrow> (data, OverallState overallSyncState (lastSyncState s))
     | _ \<Rightarrow> (data, overallSyncState)))"

text \<open>
  A card of the GNSS receiver: its state, and its fix under the resource of the first value
  collected. The result is \<open>None\<close> when a nil value or an empty list is indexed.
\<close>

definition gnss_data :: "manager \<Rightarrow> stats \<Rightarrow> event_data option \<Rightarrow> event_data option option" where
  "gnss_data m s data =
    (if \<not> HasProcessEnabled gnssProcessName s then Some data
     else case GetDependsOnValueState gnssProcessName None ''gnss_status'' s of
       None \<Rightarrow> None
     | Some r \<Rightarrow>
         (let (gpsFixState, off, syncState) = value_or_default r;
              state = GetGPSFixState gpsFixState syncState;
              iface = aliasName s @ ''/'' @ MasterClockType
          in case processDataFn data (GetPTPEventsData state (int_of_float off) iface GnssStateChange m) of
               Some (v # vs) \<Rightarrow> Some (Some ((v # vs) @ [metric_value (dv_Resource v @ ''/'' @ ''gpsFix'') gpsFixState]))
             | _ \<Rightarrow> None))"

definition synce_state_data :: "manager \<Rightarrow> synce_stats \<Rightarrow> event_data option \<Rightarrow> event_data option" where
  "synce_state_data m ss data =
    fold (\<lambda>(k, p) data.
        if ps_State p \<noteq> NoState
        then processDataFn data (GetPTPEventsData (ps_State p) 0 (se_Name ss @ ''/'' @ ps_Name p) SynceStateChange m)
        else data) (Port ss) data"

definition synce_quality_data :: "manager \<Rightarrow> synce_stats \<Rightarrow> event_data option \<Rightarrow> event_data option" where
  "synce_quality_data m ss data =
    fold (\<lambda>(k, p) data.
        let at = (\<lambda>n. se_Name ss @ ''/'' @ ps_Name p @ ''/'' @ n)
        in processDataFn
             (processDataFn data (GetPTPEventsData (OtherState ''NA'') (uint (QL p)) (at ''Ql'') SynceClockQualityChange m))
             [metric_value (at ''ExtQL'') (if ExtendedTvlEnabled p then uint (ExtQL p) else 0xFF)]) (Port ss) data"

definition other_data :: "event_type \<Rightarrow> manager \<Rightarrow> stats \<Rightarrow> event_data option \<Rightarrow> event_data option option" where
  "other_data eventType m s data =
    (case eventType of
      GnssStateChange \<Rightarrow> gnss_data m s data
    | SynceStateChange \<Rightarrow> Some (case syncE s of None \<Rightarrow> data | Some ss \<Rightarrow> synce_state_data m ss data)
    | SynceClockQualityChange \<Rightarrow> Some (case syncE s of None \<Rightarrow> data | Some ss \<Rightarrow> synce_quality_data m ss data)
    | _ \<Rightarrow> Some data)"

text \<open>One clock of a configuration.\<close>

definition clock_data ::
  "event_type \<Rightarrow> bool \<Rightarrow> manager \<Rightarrow> string \<Rightarrow> string \<times> stats \<Rightarrow> query_acc \<Rightarrow> query_acc option" where
  "clock_data eventType chronydIsE3 m mainClockName = (\<lambda>(iface, s) acc.
    if iface = mainClockName then Some (main_clock_data eventType m iface s acc)
    else if iface = ClockRealTime then Some (realtime_data eventType chronydIsE3 m s acc)
    else map_option (\<lambda>data. (data, snd acc)) (other_data eventType m s (fst acc)))"

fun clocks_data ::
  "event_type \<Rightarrow> bool \<Rightarrow> manager \<Rightarrow> string \<Rightarrow> (string \<times> stats) list \<Rightarrow> query_acc \<Rightarrow> query_acc option" where
  "clocks_data t ch m main [] acc = Some acc"
| "clocks_data t ch m main (c # cs) acc =
    (case clock_data t ch m main c acc of None \<Rightarrow> None | Some acc \<Rightarrow> clocks_data t ch m main cs acc)"

fun configs_data :: "event_type \<Rightarrow> bool \<Rightarrow> manager \<Rightarrow> (string \<times> PTPStats) list \<Rightarrow> query_acc \<Rightarrow> query_acc option" where
  "configs_data t ch m [] acc = Some acc"
| "configs_data t ch m ((cfg, ps) # cs) acc =
    (case clocks_data t ch m (GetMainClockName ps) ps acc of
      None \<Rightarrow> None | Some acc \<Rightarrow> configs_data t ch m cs acc)"

text \<open>The cloud event of the data, or an error.\<close>

definition GetPTPCloudEvents :: "event_data \<Rightarrow> event_type \<Rightarrow> manager \<Rightarrow> ce_event option m_res" where
  "GetPTPCloudEvents data eventType m =
    (case map_of (publisherTypes m) eventType of
      None \<Rightarrow> Ok None m
    | Some pub \<Rightarrow>
        (case CreateEvent (PubID pub) (event_type_name eventType)
            (path_join [resourcePrefix m, nodeName m, pub_Resource pub]) data of
          Inl _ \<Rightarrow> Ok None m
        | Inr e \<Rightarrow>
            (case scConfig m of
              None \<Rightarrow> Panic m
            | Some sc \<Rightarrow>
                (let (r, sc) = GetPublishingCloudEvent e sc
                 in Ok (case r of Inl _ \<Rightarrow> None | Inr ce \<Rightarrow> Some ce) (m\<lparr>scConfig := Some sc\<rparr>)))))"

record status_reply =
  sr_Data :: "ce_event option"
  sr_ReturnAddress :: "string option"
  sr_error :: bool

definition reply_with :: "event_data \<Rightarrow> event_type \<Rightarrow> string \<Rightarrow> string option \<Rightarrow> manager \<Rightarrow> status_reply m_res" where
  "reply_with data eventType eventSource ret m =
    res_bind (GetPTPCloudEvents data eventType m) (\<lambda>r m. Ok
      (case r of
        None \<Rightarrow> \<lparr>sr_Data = None, sr_ReturnAddress = ret, sr_error = True\<rparr>
      | Some ce \<Rightarrow> \<lparr>sr_Data = Some (ce\<lparr>ev_Source := eventSource\<rparr>), sr_ReturnAddress = ret, sr_error = False\<rparr>) m)"

definition currentState :: "string \<Rightarrow> manager \<Rightarrow> status_reply m_res" where
  "currentState src m =
    (let ret = (if src \<noteq> '''' then Some src else None) in
     case classify_source src of
       None \<Rightarrow> Ok \<lparr>sr_Data = None, sr_ReturnAddress = ret, sr_error = True\<rparr> m
     | Some (eventType, eventSource) \<Rightarrow>
         if Stats m = [] then
           reply_with (GetPTPEventsData FREERUN 0 ''ptp-not-set'' eventType m) eventType eventSource ret m
         else case configs_data eventType (ChronydActiveAsE3 m) m (Stats m) (None, NoState) of
           None \<Rightarrow> Panic m
         | Some (data, overallSyncState) \<Rightarrow>
             (let data = (if eventType = SyncStateChange \<and> overallSyncState \<noteq> NoState
                then processDataFn data (GetPTPEventsData overallSyncState 0 eventSource eventType m) else data)
              in reply_with (case data of Some d \<Rightarrow> d
                   | None \<Rightarrow> GetPTPEventsData FREERUN 0 ''event-not-found'' eventType m) eventType eventSource ret m))"

end
