(* ===== verification/Holdover.thy ===== *)
theory Holdover
  imports Ptp4lParse
begin

text \<open>
  HOLDOVER from entry to end: what a port line of ptp4l does to the clocks, when the timer acts, what
  it reports, and which ways out of HOLDOVER cancel it.
\<close>

section \<open>Frames\<close>

lemma stat_at_world [simp]:
  "stat_at c i (on_registry f m) = stat_at c i m"
  "stat_at c i (m\<lparr>m_world := w\<rparr>) = stat_at c i m"
  "stat_at c i (m\<lparr>m_timers := ts\<rparr>) = stat_at c i m"
  "stat_at c i (m\<lparr>Ptp4lConfigInterfaces := cs\<rparr>) = stat_at c i m"
  by (simp_all add: stat_at_def on_registry_def)

lemma out_of_world [simp]:
  "out_of (on_registry f m) = out_of m"
  "out_of (m\<lparr>m_timers := ts\<rparr>) = out_of m"
  "out_of (m\<lparr>Stats := s\<rparr>) = out_of m"
  by (simp_all add: out_of_def on_registry_def)

lemma stat_at_GetStats [simp]: "stat_at c i (snd (GetStats n m)) = stat_at c i m"
  by (auto simp: GetStats_def stat_at_def gomap_simps split: option.split)

lemma out_of_GetStats [simp]: "out_of (snd (GetStats n m)) = out_of m"
  by (simp add: GetStats_def split: option.split)

lemma GetStats_stat_at: "map_of (fst (GetStats n m)) i = stat_at n i m"
  by (simp add: GetStats_def stat_at_def split: option.split)

lemma GetStats_some: "stat_at n i m = Some st \<Longrightarrow> snd (GetStats n m) = m"
  by (auto simp: GetStats_def stat_at_def split: option.splits)

lemma coherent_world [simp]: "coherent s (on_registry f m) = coherent s m"
  by (simp add: coherent_def on_registry_def GetNodeSyncState_def ChronydActiveAsE3_def)

section \<open>The timer\<close>

lemma holdover_expired_idle:
  assumes "case stat_at (ht_config t) MasterClockType m of None \<Rightarrow> True
    | Some st \<Rightarrow> lastSyncState st \<noteq> HOLDOVER \<or> aliasName st = ''''"
  shows "holdover_expired t m = snd (GetStats (ht_config t) m)"
  using assms GetStats_stat_at [of "ht_config t" m MasterClockType]
  by (auto simp: holdover_expired_def Let_def split: prod.split option.splits)


lemma holdover_expired_active:
  assumes st: "stat_at (ht_config t) MasterClockType m = Some st" and "lastSyncState st = HOLDOVER"
    and "aliasName st \<noteq> ''''" and pub: "can_publish PtpStateChange m"
  shows "clock_now (ht_config t, MasterClockType) FREERUN m (holdover_expired t m) \<and>
    coherent FREERUN (holdover_expired t m) \<and>
    m_world (holdover_expired t m) = on_reg (UpdateSyncStateMetrics (processName st) (aliasName st) FREERUN) (m_world m)"
proof -
  let ?c = "ht_config t"
  let ?m1 = "on_stat ?c MasterClockType (SetLastSyncState FREERUN) m"
  obtain m2 where m2: "PublishEvent FREERUN (lastOffset st) (master_resource (aliasName st)) PtpStateChange ?m1 = Ok () m2"
    "coherent FREERUN m2"
    using coherent_announce [of PtpStateChange ?m1 FREERUN] pub by (auto simp: is_node_event_def)
  have fr: "pub_frame ?m1 m2"
    using PublishEvent_frame [of ?m1 FREERUN "lastOffset st" "master_resource (aliasName st)" PtpStateChange] m2(1)
    by simp
  have w: "m_world m2 = m_world m" using fr by (simp add: pub_frame_def on_stat_def)
  obtain ps where gs: "GetStats ?c m = (ps, m)" "map_of ps MasterClockType = Some st"
    using GetStats_some [OF st] GetStats_stat_at [of ?c m MasterClockType] st by (metis prod.collapse)
  have ex: "holdover_expired t m = on_registry (UpdateSyncStateMetrics (processName st) (aliasName st) FREERUN) m2"
    using st assms(2,3) gs m2(1) by (simp add: holdover_expired_def do_all_def upd_def need_def pure_def)
  have "clock_now (?c, MasterClockType) FREERUN m m2"
    using clock_now_announce [of ?c MasterClockType m FREERUN "lastOffset st" "master_resource (aliasName st)" PtpStateChange]
      st m2(1) by simp
  then have "clock_now (?c, MasterClockType) FREERUN m (holdover_expired t m)"
    unfolding ex by (simp add: clock_now_def)
  moreover have "coherent FREERUN (holdover_expired t m)" unfolding ex using m2(2) by simp
  moreover have "m_world (holdover_expired t m) =
      on_reg (UpdateSyncStateMetrics (processName st) (aliasName st) FREERUN) (m_world m)"
    unfolding ex using w by (simp add: on_registry_def)
  ultimately show ?thesis by blast
qed

text \<open>An expired holdover is reported: the master clock becomes FREERUN, no other clock changes,
  the node's reported state agrees with the clocks, and the gauge of the master's process shows it.\<close>
theorem holdover_expiry_reports:
  assumes "stat_at (ht_config t) MasterClockType m = Some st" and "lastSyncState st = HOLDOVER"
    and "aliasName st \<noteq> ''''" and "can_publish PtpStateChange m"
  shows "clock_now (ht_config t, MasterClockType) FREERUN m (holdover_expired t m) \<and>
    coherent FREERUN (holdover_expired t m) \<and>
    m_world (holdover_expired t m) = on_reg (UpdateSyncStateMetrics (processName st) (aliasName st) FREERUN) (m_world m)"
  using holdover_expired_active [OF assms] .

definition holdover_manager :: manager where
  "holdover_manager = on_stat ''ptp4l.0.config'' MasterClockType
     (\<lambda>s. StSetAlias ''ens1fx'' (SetLastSyncState HOLDOVER s)) demo_manager"

definition demo_timer :: holdover_timer where
  "demo_timer = \<lparr>ht_config = ''ptp4l.0.config'', ht_profile = ''bc'', ht_timeout = 5, ht_alias = ''ens1fx'', ht_chan = None\<rparr>"

lemma holdover_manager_master:
  "stat_at ''ptp4l.0.config'' MasterClockType holdover_manager
    = Some (StSetAlias ''ens1fx'' (SetLastSyncState HOLDOVER (clk ''ptp4l'' LOCKED)))"
proof -
  have "stat_at ''ptp4l.0.config'' MasterClockType demo_manager = Some (clk ''ptp4l'' LOCKED)"
    by (simp add: demo_manager_def stat_at_def)
  then show ?thesis unfolding holdover_manager_def stat_at_on_stat by simp
qed

lemma holdover_manager_publishes [simp]: "can_publish PtpStateChange holdover_manager"
  by (simp add: holdover_manager_def can_publish_def demo_manager_def NewPTPEventManager_def on_stat_def)

theorem holdover_expiry_reports_witness:
  "clock_now (''ptp4l.0.config'', MasterClockType) FREERUN holdover_manager (holdover_expired demo_timer holdover_manager)"
  using holdover_expiry_reports [of demo_timer holdover_manager] holdover_manager_master
  by (simp add: demo_timer_def StSetAlias_def SetLastSyncState_def)


section \<open>Ways out of HOLDOVER\<close>

lemma lookup_after_reset:
  assumes "LookupEventThreshold p l = Some (k, t)"
  shows "LookupEventThreshold p (l'\<lparr>EventThreshold := AList.update k t' (EventThreshold l)\<rparr>) = Some (k, t')"
proof (cases "map_of (EventThreshold l) p")
  case None
  then obtain es where "EventThreshold l = (k, t) # es"
    using assms by (auto simp: LookupEventThreshold_def split: list.splits option.splits)
  then show ?thesis using None by (auto simp: LookupEventThreshold_def split: if_splits)
next
  case (Some x)
  then show ?thesis using assms by (auto simp: LookupEventThreshold_def gomap_simps)
qed

lemma SafeClose_EventThreshold [simp]: "EventThreshold (snd (SafeClose t l)) = EventThreshold l"
  by (simp add: SafeClose_def split: option.split)

lemma length_chans_SafeClose [simp]: "length (chans (snd (SafeClose t l))) = length (chans l)"
  by (simp add: SafeClose_def split: option.split)

lemma chan_closed_SafeClose:
  "chan_closed c (snd (SafeClose t l)) \<longleftrightarrow> chan_closed c l \<or> (Close t = Some c \<and> c < length (chans l))"
  by (cases "Close t"; cases "Close t = Some c") (auto simp: SafeClose_def chan_closed_def nth_list_update)

text \<open>Starting a timer: its channel is new and open, and the profile's threshold holds it.\<close>

lemma startHoldoverTimer_known:
  fixes opts cfg a
  assumes "\<not> mock m" and look: "LookupEventThreshold profile (PtpConfigMapUpdates m) = Some (k, th)"
  defines "c \<equiv> length (chans (PtpConfigMapUpdates m))" and "m1 \<equiv> startHoldoverTimer opts cfg profile a m"
  shows "m_timers m1 = m_timers m @ [\<lparr>ht_config = cfg, ht_profile = profile, ht_timeout = HoldOverTimeout th,
      ht_alias = a, ht_chan = Some c\<rparr>]"
    and "LookupEventThreshold profile (PtpConfigMapUpdates m1) = Some (k, th\<lparr>Close := Some c\<rparr>)"
    and "c < length (chans (PtpConfigMapUpdates m1))" and "\<not> chan_closed c (PtpConfigMapUpdates m1)"
    and "Close th = Some c' \<Longrightarrow> c' < c \<Longrightarrow> chan_closed c' (PtpConfigMapUpdates m1)"
proof -
  let ?l = "snd (SafeClose th (PtpConfigMapUpdates m))"
  let ?t = "th\<lparr>Close := Some c\<rparr>"
  let ?L = "?l\<lparr>chans := chans ?l @ [False], EventThreshold := AList.update k ?t (EventThreshold (PtpConfigMapUpdates m))\<rparr>"
  have eq: "m1 = m\<lparr>PtpConfigMapUpdates := ?L, m_timers := m_timers m @
      [\<lparr>ht_config = cfg, ht_profile = profile, ht_timeout = HoldOverTimeout th, ht_alias = a, ht_chan = Some c\<rparr>]\<rparr>"
    using assms by (simp add: startHoldoverTimer_def PtpThreshold_def make_chan_def Let_def)
  show "m_timers m1 = m_timers m @ [\<lparr>ht_config = cfg, ht_profile = profile, ht_timeout = HoldOverTimeout th,
      ht_alias = a, ht_chan = Some c\<rparr>]"
    by (simp add: eq)
  show "LookupEventThreshold profile (PtpConfigMapUpdates m1) = Some (k, ?t)"
    using lookup_after_reset [OF look, where l' = "?l\<lparr>chans := chans ?l @ [False]\<rparr>" and t' = ?t] by (simp add: eq)
  show "c < length (chans (PtpConfigMapUpdates m1))" "\<not> chan_closed c (PtpConfigMapUpdates m1)"
    by (simp_all add: eq c_def chan_closed_def nth_append)
  assume "Close th = Some c'" "c' < c"
  then show "chan_closed c' (PtpConfigMapUpdates m1)"
    using chan_closed_SafeClose [of c' th "PtpConfigMapUpdates m"]
    by (simp add: eq c_def chan_closed_def nth_append)
qed

lemma GenPTPEvent_recovery:
  assumes st: "stat_at c i m = Some st" "lastSyncState st = HOLDOVER"
    and rng: "range_of profile off m" and th: "PtpThreshold profile False m = (t, m1)"
  shows "PtpConfigMapUpdates (res_state (GenPTPEvent profile (c, i) src off LOCKED ty m))
    = snd (SafeClose t (PtpConfigMapUpdates m1))"
proof -
  let ?l = "snd (SafeClose t (PtpConfigMapUpdates m1))"
  let ?r = "PublishEvent LOCKED off src ty (on_stat c i (SetLastSyncState LOCKED) (m1\<lparr>PtpConfigMapUpdates := ?l\<rparr>))"
  have "PtpConfigMapUpdates (res_state ?r) = ?l"
    using PublishEvent_frame [of "on_stat c i (SetLastSyncState LOCKED) (m1\<lparr>PtpConfigMapUpdates := ?l\<rparr>)" LOCKED off src ty]
    by (simp add: pub_frame_def on_stat_def)
  moreover have "isOffsetInRange off (MaxOffsetThreshold t)" using rng th by (simp add: range_of_def)
  ultimately show ?thesis
    using st th by (cases ?r) (simp_all add: GenPTPEvent_def recovered_def Let_def on_stat_def)
qed

text \<open>C24: recovery cancels the timer: when the profile has a threshold, the timer that was started on
  entering HOLDOVER waits on an open channel, and the line that takes the clock back to LOCKED within
  range closes it. Starting it also closes the channel of the timer before it.\<close>
theorem recovery_cancels_timer:
  assumes "\<not> mock m" and "LookupEventThreshold profile (PtpConfigMapUpdates m) = Some (k, th)"
    and later: "PtpConfigMapUpdates m2 = PtpConfigMapUpdates (startHoldoverTimer opts cfg profile a m)"
    and "stat_at c i m2 = Some st" "lastSyncState st = HOLDOVER" and "range_of profile off m2"
  shows "\<exists>t. m_timers (startHoldoverTimer opts cfg profile a m) = m_timers m @ [t] \<and>
    \<not> timer_cancelled t m2 \<and> timer_cancelled t (res_state (GenPTPEvent profile (c, i) src off LOCKED ty m2))"
proof -
  note start = startHoldoverTimer_known [OF assms(1,2), where opts = opts and cfg = cfg and a = a]
  have th: "PtpThreshold profile False m2 = (th\<lparr>Close := Some (length (chans (PtpConfigMapUpdates m)))\<rparr>, m2)"
    using start(2) by (simp add: PtpThreshold_def later)
  show ?thesis
    using start GenPTPEvent_recovery [OF assms(4-6) th, of src ty]
    by (simp add: timer_cancelled_def chan_closed_SafeClose later)
qed

text \<open>Without any threshold nothing cancels the timer: the default threshold has a new channel at
  every call, so the line that takes the clock back to LOCKED closes another channel than the timer's.
  The timer stays armed and ends the next HOLDOVER early.\<close>
theorem default_threshold_timer_survives:
  assumes "\<not> mock m" and "EventThreshold (PtpConfigMapUpdates m) = []"
    and later: "PtpConfigMapUpdates m2 = PtpConfigMapUpdates (startHoldoverTimer opts cfg profile a m)"
    and "stat_at c i m2 = Some st" "lastSyncState st = HOLDOVER" and "range_of profile off m2"
  shows "\<exists>t. m_timers (startHoldoverTimer opts cfg profile a m) = m_timers m @ [t] \<and>
    \<not> timer_cancelled t (res_state (GenPTPEvent profile (c, i) src off LOCKED ty m2))"
proof -
  let ?l = "PtpConfigMapUpdates m"
  have none: "LookupEventThreshold profile ?l = None" using assms(2) by (simp add: LookupEventThreshold_def)
  have l2: "EventThreshold (PtpConfigMapUpdates m2) = []" "chans (PtpConfigMapUpdates m2) = chans ?l @ [False]"
    using assms(1,2) none
    by (simp_all add: later startHoldoverTimer_def PtpThreshold_def GetDefaultThreshold_def make_chan_def Let_def)
  obtain t m1 where th: "PtpThreshold profile False m2 = (t, m1)" "Close t = Some (Suc (length (chans ?l)))"
    "chans (PtpConfigMapUpdates m1) = chans ?l @ [False, False]"
    using l2 by (simp add: PtpThreshold_def LookupEventThreshold_def GetDefaultThreshold_def make_chan_def Let_def)
  have "\<not> chan_closed (length (chans ?l))
      (PtpConfigMapUpdates (res_state (GenPTPEvent profile (c, i) src off LOCKED ty m2)))"
    using GenPTPEvent_recovery [OF assms(4-6) th(1), of src ty] th(2,3)
    by (simp add: chan_closed_SafeClose) (simp add: chan_closed_def)
  then show ?thesis
    using assms(1) none
    by (simp add: startHoldoverTimer_def PtpThreshold_def GetDefaultThreshold_def make_chan_def Let_def timer_cancelled_def)
qed

definition threshold_manager :: "(string, ptp_clock_threshold) gomap \<Rightarrow> manager" where
  "threshold_manager ths = holdover_manager\<lparr>mock := False,
     PtpConfigMapUpdates := (new_ptp_conf_map '''')\<lparr>EventThreshold := ths\<rparr>\<rparr>"

definition bc_threshold :: ptp_clock_threshold where
  "bc_threshold = \<lparr>HoldOverTimeout = 5, MaxOffsetThreshold = 100, MinOffsetThreshold = 0, Close = None\<rparr>"

lemma threshold_manager_clock:
  "stat_at c i (startHoldoverTimer opts cfg p a (threshold_manager ths)) = stat_at c i holdover_manager"
  by (auto simp: startHoldoverTimer_def threshold_manager_def PtpThreshold_def GetDefaultThreshold_def
      Let_def stat_at_def split: option.split prod.split)

theorem recovery_cancels_timer_witness:
  "let m = threshold_manager [(''bc'', bc_threshold)]; m2 = startHoldoverTimer None ''ptp4l.0.config'' ''bc'' ''ens1fx'' m in
    \<exists>t. m_timers m2 = m_timers m @ [t] \<and>
      timer_cancelled t (res_state (GenPTPEvent ''bc'' (''ptp4l.0.config'', MasterClockType) ''ens1fx/master'' 12 LOCKED PtpStateChange m2))"
proof -
  let ?m = "threshold_manager [(''bc'', bc_threshold)]"
  let ?m2 = "startHoldoverTimer None ''ptp4l.0.config'' ''bc'' ''ens1fx'' ?m"
  have rng: "range_of ''bc'' 12 ?m2" by code_simp
  have "\<not> mock ?m" "LookupEventThreshold ''bc'' (PtpConfigMapUpdates ?m) = Some (''bc'', bc_threshold)"
    by (simp_all add: threshold_manager_def LookupEventThreshold_def)
  from recovery_cancels_timer [OF this HOL.refl, where c = "''ptp4l.0.config''" and i = MasterClockType]
  show ?thesis
    using holdover_manager_master rng by (fastforce simp: threshold_manager_clock StSetAlias_def SetLastSyncState_def)
qed

theorem default_threshold_timer_survives_witness:
  "let m = threshold_manager []; m2 = startHoldoverTimer None ''ptp4l.0.config'' ''bc'' ''ens1fx'' m in
    \<exists>t. m_timers m2 = m_timers m @ [t] \<and>
      \<not> timer_cancelled t (res_state (GenPTPEvent ''bc'' (''ptp4l.0.config'', MasterClockType) ''ens1fx/master'' 12 LOCKED PtpStateChange m2))"
proof -
  let ?m = "threshold_manager []"
  let ?m2 = "startHoldoverTimer None ''ptp4l.0.config'' ''bc'' ''ens1fx'' ?m"
  have rng: "range_of ''bc'' 12 ?m2" by code_simp
  have "\<not> mock ?m" "EventThreshold (PtpConfigMapUpdates ?m) = []"
    by (simp_all add: threshold_manager_def)
  from default_threshold_timer_survives [OF this HOL.refl, where c = "''ptp4l.0.config''" and i = MasterClockType]
  show ?thesis
    using holdover_manager_master rng by (fastforce simp: threshold_manager_clock StSetAlias_def SetLastSyncState_def)
qed

section \<open>An end of HOLDOVER that nobody reports\<close>

lemma GenPTPEvent_freerun_in_holdover:
  assumes "stat_at c i m = Some st" and "lastSyncState st = HOLDOVER" and "t \<noteq> OsClockSyncStateChange"
  shows "res_state (GenPTPEvent profile (c, i) src off FREERUN t m)
    = on_stat c i (SetLastSyncState FREERUN) (snd (PtpThreshold profile False m))"
  using assms by (simp add: GenPTPEvent_def recovered_def Let_def split: prod.split)

text \<open>C30: the end of a HOLDOVER can go unreported. When a line brings FREERUN while the master clock is
  in HOLDOVER, the clock becomes FREERUN without an event, which is left to the timer; but the timer
  finds the clock out of HOLDOVER and does nothing, so neither the event nor the node's state is ever
  published.\<close>
theorem holdover_freerun_unreported:
  assumes st: "stat_at (ht_config t) MasterClockType m = Some st" and hold: "lastSyncState st = HOLDOVER"
  shows "let m1 = res_state (GenPTPEvent profile (ht_config t, MasterClockType) src off FREERUN PtpStateChange m);
             m2 = holdover_expired t m1
         in map_option lastSyncState (stat_at (ht_config t) MasterClockType m2) = Some FREERUN \<and> out_of m2 = out_of m"
proof -
  define m1 where "m1 = on_stat (ht_config t) MasterClockType (SetLastSyncState FREERUN) (snd (PtpThreshold profile False m))"
  have now: "stat_at (ht_config t) MasterClockType m1 = Some (st\<lparr>lastSyncState := FREERUN\<rparr>)"
    using st by (simp add: m1_def stat_at_on_stat stat_at_threshold SetLastSyncState_def)
  have "out_of m1 = out_of m" by (simp add: m1_def out_of_threshold)
  moreover have "holdover_expired t m1 = snd (GetStats (ht_config t) m1)"
    by (rule holdover_expired_idle) (simp add: now)
  ultimately show ?thesis
    using now by (simp add: GenPTPEvent_freerun_in_holdover [OF st hold] m1_def [symmetric] Let_def)
qed

theorem holdover_freerun_unreported_witness:
  "out_of (holdover_expired demo_timer (res_state (GenPTPEvent ''bc'' (''ptp4l.0.config'', MasterClockType)
     ''ens1fx/master'' 250 FREERUN PtpStateChange holdover_manager))) = out_of holdover_manager"
  using holdover_freerun_unreported [of demo_timer holdover_manager _ "''bc''" "''ens1fx/master''" 250]
    holdover_manager_master by (auto simp: demo_timer_def StSetAlias_def SetLastSyncState_def Let_def)

end
