(* ===== verification/LineFrame.thy ===== *)
theory LineFrame
  imports Extract Holdover
begin

text \<open>
  What a log line can do to the manager, stated once for every relation that the handlers' primitive
  steps respect: clocks of the line's configuration are created and updated, events are published,
  and the rest of the manager changes. The relations are then instances.
\<close>

section \<open>Relations kept along a computation\<close>

locale frame =
  fixes R :: "'s \<Rightarrow> 's \<Rightarrow> bool"
  assumes refl: "R m m"
    and trans: "R m m' \<Longrightarrow> R m' m'' \<Longrightarrow> R m m''"
begin

lemma bind:
  assumes "R m (res_state r)" and "\<And>x s. R s (res_state (f x s))"
  shows "R m (res_state (res_bind r f))"
  using assms by (cases r) (auto intro: trans)

lemma loop:
  assumes "\<And>x s. x \<in> set xs \<Longrightarrow> R s (res_state (f x s))"
  shows "R m (res_state (res_fold f xs m))"
  using assms
proof (induction xs arbitrary: m)
  case Nil
  then show ?case by (simp add: refl)
next
  case (Cons x xs)
  then show ?case by (auto intro!: bind)
qed

end

section \<open>Updates of a clock that are not about its state\<close>

definition same_clock :: "stats \<Rightarrow> stats \<Rightarrow> bool" where
  "same_clock st st' \<longleftrightarrow> lastSyncState st' = lastSyncState st \<and> s_OsClock st' = s_OsClock st"

lemma same_clock_setters [simp]:
  "same_clock st (StSetAlias a st)" "same_clock st (SetLastOffset off st)" "same_clock st (SetRole r st)"
  "same_clock st (SetProcessName p st)" "same_clock st (SetOffsetSource s st)" "same_clock st (SetDelay d st)"
  "same_clock st (SetFrequencyAdjustment v st)" "same_clock st (SetClockClass c st)"
  "same_clock st (SetSyncE ss st)" "same_clock st (AddValue v st)"
  by (simp_all add: same_clock_def stats_setters frame_simps)

lemma same_clock_comp [simp]:
  "same_clock st (SetOffsetSource s (SetProcessName p st))"
  "same_clock st (SetDelay d (SetFrequencyAdjustment v (SetProcessName p (SetOffsetSource s st))))"
  by (simp_all add: same_clock_def stats_setters)

lemma SetPtpDependentEventState_same:
  "same_clock st (fst (res_state (SetPtpDependentEventState e ms hs (st, w))))"
  by (auto simp: SetPtpDependentEventState_def same_clock_def Let_def split: res.split)

text \<open>The operations of the OS clock machine that lines perform.\<close>

inductive os_op :: "(os_clock \<Rightarrow> os_clock) \<Rightarrow> bool" where
  "os_op Begin" | "os_op Abort" | "os_op SourceClockSelected" | "os_op SinkClockSelected" | "os_op ReArmSettle"
| "os_op ClearOnRealtimeOffset" | "os_op (\<lambda>d. snd (Finalise d))" | "os_op (\<lambda>d. snd (FinaliseIfGeneration g d))"

definition plain_state :: "sync_state \<Rightarrow> bool" where
  "plain_state s \<longleftrightarrow> s = NoState \<or> s = FREERUN \<or> s = HOLDOVER \<or> s = LOCKED"

lemma plain_states [simp]:
  "plain_state FREERUN" "plain_state HOLDOVER" "plain_state LOCKED" "plain_state NoState"
  "plain_state (GetSyncState s)"
  by (auto simp: plain_state_def GetSyncState_def)

lemma madjust_madjust: "madjust k f (madjust k g m) = madjust k (\<lambda>v. f (g v)) m"
  by (induction m) (auto simp: madjust_def)

lemma offset_line_plain: "offset_line_state t = Some s \<Longrightarrow> plain_state s"
  by (auto simp: offset_line_state_def split: if_splits)

lemma regular_values_plain: "regular_values proc i fs = Some l \<Longrightarrow> plain_state (lm_state l)"
  unfolding regular_values_def zero_metrics_def
  by (auto simp: Let_def offset_line_plain simp del: nth_Cons_numeral split: option.splits prod.splits if_split_asm)

lemma regular_state_plain:
  assumes "extractRegularMetrics proc output = Some l"
  shows "plain_state (lm_state l)"
proof -
  have "plain_state (lm_state zero_metrics)" by (simp add: zero_metrics_def)
  moreover obtain fs where "l = zero_metrics \<or> regular_fields proc fs = Some l"
    using assms by (auto simp: extractRegularMetrics_def Let_def split: option.splits if_split_asm)
  moreover have "regular_fields proc fs = Some l \<Longrightarrow> plain_state (lm_state l)" for fs
    by (auto simp: regular_fields_def Let_def zero_metrics_def split: if_split_asm dest: regular_values_plain)
  ultimately show ?thesis by blast
qed

definition line_config :: "string \<Rightarrow> string" where
  "line_config msg = replace_first (str_fields (replacer bracket_pairs msg) ! 2) ts2phcProcessName ptp4lProcessName"

lemma config_no_nil: "no_nil m \<Longrightarrow> None \<notin> set (Interfaces (config_of n m))"
  using map_of_SomeD [of "Ptp4lConfigInterfaces m" n]
  by (cases "map_of (Ptp4lConfigInterfaces m) n") (auto simp: config_of_def mget_or_def empty_config_def no_nil_def)

section \<open>Primitive steps\<close>

text \<open>
  \<open>R\<close> does not see the fields besides the clocks, the queue, the configurations and what is saved. It accepts
  a save, a new state of the node with its save, and a configuration without a nil interface. For the clocks of
  configuration \<open>cfg\<close> it accepts: their creation, an update that keeps state and OS clock, a new plain state,
  and an operation of the OS clock machine.
\<close>

locale line_frame = frame R for R :: "manager \<Rightarrow> manager \<Rightarrow> bool" +
  fixes cfg :: string
  assumes other: "Stats m' = Stats m \<Longrightarrow> scConfig m' = scConfig m \<Longrightarrow>
      Ptp4lConfigInterfaces m' = Ptp4lConfigInterfaces m \<Longrightarrow> m_store m' = m_store m \<Longrightarrow>
      lastOverallSyncState m' = lastOverallSyncState m \<Longrightarrow> R m m'"
    and saves: "R m (res_state (saveToStore m))"
    and node_saved: "R m (res_state (UpdateSyncState s m))"
    and configured: "(no_nil m \<Longrightarrow> None \<notin> set (Interfaces c)) \<Longrightarrow> R m (AddPTPConfig n c m)"
    and publishes: "R m (res_state (publish data addr t m))"
    and new_table: "R m (snd (GetStats cfg m))"
    and source: "R m (check_source cfg k p m)"
    and blind: "(\<And>st. stat_at cfg k m = Some st \<Longrightarrow> same_clock st (f st)) \<Longrightarrow> R m (on_stat cfg k f m)"
    and set_state: "plain_state s \<Longrightarrow> R m (on_stat cfg k (SetLastSyncState s) m)"
    and os: "os_op g \<Longrightarrow>
      (\<And>st. stat_at cfg ClockRealTime m = Some st \<Longrightarrow> f st = st\<lparr>s_OsClock := g (s_OsClock st)\<rparr>) \<Longrightarrow>
      R m (on_stat cfg ClockRealTime f m)"
begin

lemma panic: "R m (res_state (Panic m))"
  by (simp add: refl)

lemma do_all_frame:
  assumes "list_all (\<lambda>f. \<forall>m. R m (res_state (f m))) fs"
  shows "R m (res_state (do_all fs m))"
  unfolding do_all_def using assms by (intro loop) (auto simp: list_all_iff)

lemma need_frame:
  assumes "\<And>st. R m (res_state (f st m))"
  shows "R m (res_state (need cfg k f m))"
  using assms by (simp add: need_def refl split: option.split)

lemma field_frame:
  assumes "\<And>x. R m (res_state (f x m))"
  shows "R m (res_state (field fs i f m))"
  using assms by (simp add: field_def fld_def refl)

lemma upd_frame:
  assumes "\<And>st. same_clock st (f st)"
  shows "R m (res_state (upd cfg k f m))"
  unfolding upd_def by (rule need_frame) (simp add: blind assms)

lemma upd_state: "plain_state s \<Longrightarrow> R m (res_state (upd cfg k (SetLastSyncState s) m))"
  unfolding upd_def by (rule need_frame) (simp add: set_state)

lemma registry_frame: "R m (on_registry f m)"
  by (rule other) (simp_all add: on_registry_def)

lemma pure_registry: "R m (res_state (pure (on_registry f) m))"
  by (simp add: pure_def registry_frame)

lemma pure_source: "R m (res_state (pure (check_source cfg k p) m))"
  by (simp add: pure_def source)

lemma set_sync_gauge_frame: "R m (set_sync_gauge p i v m)"
  by (simp add: set_sync_gauge_def registry_frame)

lemma pure_gauge: "R m (res_state (pure (set_sync_gauge p i v) m))"
  by (simp add: pure_def set_sync_gauge_frame)

lemma alias_frame: "alias_of n m = (a, m') \<Longrightarrow> R m m'"
  by (rule other) (auto simp: alias_of_def split: prod.splits)

lemma refresh_frame: "R m (res_state (refresh_alias cfg k a m))"
  unfolding refresh_alias_def by (rule need_frame) (simp add: blind refl)

lemma threshold_frame: "PtpThreshold p b m = (t, m') \<Longrightarrow> R m m'"
  by (rule other)
    (auto simp: PtpThreshold_def GetDefaultThreshold_def Let_def split: option.splits prod.splits if_splits)

lemma with_resource_line:
  assumes "\<And>r. R m (res_state (f r m))"
  shows "R m (res_state (with_resource t f m))"
  using assms by (simp add: with_resource_def refl split: option.split)

lemma mock_frame: "R m (m\<lparr>mockEvent := es\<rparr>)"
  by (rule other) simp_all

lemma send_event_line: "R m (res_state (send_event s off src t m))"
  unfolding send_event_def by (auto intro!: with_resource_line publishes mock_frame)

lemma node_change_line: "R m (res_state (node_change s off m))"
proof -
  have "R m (res_state (send_node_event s' off m))" for s' m
    unfolding send_node_event_def by (auto simp: refl intro!: with_resource_line publishes)
  then show ?thesis
    unfolding node_change_def by (auto simp: Let_def refl intro!: bind node_saved)
qed

lemma PublishEvent_line: "R m (res_state (PublishEvent s off src t m))"
  unfolding PublishEvent_def by (auto simp: refl intro!: bind send_event_line node_change_line)

lemma GNSS_event_line: "R m (res_state (publishGNSSEvent st off s src t m))"
  unfolding publishGNSSEvent_def
  by (auto simp: Let_def refl intro!: with_resource_line publishes mock_frame split: list.split)

lemma SyncE_event_line: "R m (res_state (publishSyncEEvent s src ql ext e t m))"
  unfolding publishSyncEEvent_def
  by (auto simp: Let_def refl intro!: with_resource_line publishes mock_frame)

lemma ClockClass_event_line: "R m (res_state (PublishClockClassEvent c src t m))"
  unfolding PublishClockClassEvent_def
  by (auto simp: Let_def refl intro!: with_resource_line publishes mock_frame)

lemmas steps = panic do_all_frame need_frame field_frame upd_frame upd_state pure_registry pure_source pure_gauge
  refresh_frame saves PublishEvent_line GNSS_event_line SyncE_event_line ClockClass_event_line

section \<open>Handlers\<close>

lemma offset_only: "R m (on_stat cfg k (SetLastOffset off) m)"
  by (rule blind) simp

lemma offset_value: "R m (on_stat cfg k (AddValue off) (on_stat cfg k (SetLastOffset off) m))"
  by (rule trans; rule blind) simp_all

lemma gen_body:
  assumes "R m (res_state r)"
  shows "R m (res_state (res_bind r (\<lambda>_ m. Ok () (on_stat cfg k (SetLastOffset off) m))))"
    and "R m (res_state (res_bind r
          (\<lambda>_ m. Ok () (on_stat cfg k (AddValue off) (on_stat cfg k (SetLastOffset off) m)))))"
  by (rule bind [OF assms], simp add: offset_only offset_value)+

lemma announce_line:
  "plain_state s \<Longrightarrow> R m (res_state (PublishEvent s off src t (on_stat cfg k (SetLastSyncState s) m)))"
  by (rule trans [OF set_state PublishEvent_line])

lemma conf_frame: "R m (m\<lparr>PtpConfigMapUpdates := l\<rparr>)"
  by (rule other) simp_all

lemma announce_conf:
  "plain_state s \<Longrightarrow> R m (res_state (PublishEvent s off src t
    (on_stat cfg k (SetLastSyncState s) (m\<lparr>PtpConfigMapUpdates := l\<rparr>))))"
  by (rule trans [OF conf_frame announce_line])

lemma GenPTPEvent_line: "R m (res_state (GenPTPEvent profile (cfg, k) src off s t m))"
proof (cases "s = NoState \<or> stat_at cfg k m = None")
  case True
  then show ?thesis by (auto simp: GenPTPEvent_def refl)
next
  case False
  then obtain st where st: "stat_at cfg k m = Some st" and s: "s \<noteq> NoState" by auto
  obtain th m1 where th: "PtpThreshold profile False m = (th, m1)" by fastforce
  note rules = gen_body offset_value announce_line announce_conf set_state
  have "R m1 (res_state (GenPTPEvent profile (cfg, k) src off s t m))"
  proof (cases s)
    case LOCKED
    then show ?thesis using st th
      by (cases "lastSyncState st")
        (auto simp: GenPTPEvent_def recovered_def Let_def refl intro!: rules simp del: res_bind.simps)
  qed (use st th s in \<open>auto simp: GenPTPEvent_def recovered_def Let_def refl intro!: rules simp del: res_bind.simps\<close>)
  then show ?thesis using threshold_frame [OF th] trans by blast
qed

lemma set_dependent_line: "R m (res_state (set_dependent cfg k proc c m))"
proof -
  { fix st w st' m0
    assume "same_clock st st'" and "stat_at cfg k m0 = Some st"
    then have "R m0 (on_stat cfg k (\<lambda>_. st') m0)" by (intro blind) simp
    moreover have "R (on_stat cfg k (\<lambda>_. st') m0) ((on_stat cfg k (\<lambda>_. st') m0)\<lparr>m_world := w\<rparr>)"
      by (rule other) simp_all
    ultimately have "R m0 ((on_stat cfg k (\<lambda>_. st') m0)\<lparr>m_world := w\<rparr>)" using trans by blast }
  note put = this
  show ?thesis
  proof (cases "stat_at cfg k m")
    case None
    then show ?thesis by (simp add: set_dependent_def need_def refl)
  next
    case (Some st)
    then show ?thesis
      using put SetPtpDependentEventState_same [of st c "HasMetrics proc (table_of cfg m)"
          "HasMetricHelp proc (table_of cfg m)" "m_world m"]
      by (auto simp: set_dependent_def need_def Let_def split: res.split prod.splits)
  qed
qed

text \<open>One rule for each shape of statement, in the order in which they are tried.\<close>

lemma do_all_Nil: "R m (res_state (do_all [] m))"
  by (simp add: do_all_def refl)

lemma do_all_Cons:
  assumes "\<And>m. R m (res_state (f m))" and "\<And>m. R m (res_state (do_all fs m))"
  shows "R m (res_state (do_all (f # fs) m))"
  using assms by (auto simp: do_all_def intro!: bind)

lemma via_source:
  assumes "\<And>m. R m (res_state (f m))"
  shows "R m (res_state (Let (check_source cfg k p m) f))"
  using trans [OF source assms] by simp

lemma via_alias:
  assumes "\<And>a m. R m (res_state (f a m))"
  shows "R m (res_state (case_prod f (alias_of n m)))"
  using trans [OF alias_frame assms] by (simp split: prod.split)

lemma via_threshold:
  assumes "\<And>t m. R m (res_state (f t m))"
  shows "R m (res_state (case_prod f (PtpThreshold p b m)))"
  using trans [OF threshold_frame assms] by (simp split: prod.split)

lemma let_rule: "R m (res_state (f c)) \<Longrightarrow> R m (res_state (Let c f))"
  by simp

lemma if_rule:
  "(c \<Longrightarrow> R m (res_state a)) \<Longrightarrow> (\<not> c \<Longrightarrow> R m (res_state b)) \<Longrightarrow> R m (res_state (if c then a else b))"
  by simp

lemma option_rule:
  "R m (res_state a) \<Longrightarrow> (\<And>x. R m (res_state (f x))) \<Longrightarrow>
    R m (res_state (case o' of None \<Rightarrow> a | Some x \<Rightarrow> f x))"
  by (simp split: option.split)

lemma prod_rule: "(\<And>x y. R m (res_state (f x y))) \<Longrightarrow> R m (res_state (case_prod f p))"
  by (simp split: prod.split)

lemma ok_rule: "R m m' \<Longrightarrow> R m (res_state (Ok x m'))"
  by simp

lemma pure_rule: "R m (f m) \<Longrightarrow> R m (res_state (pure f m))"
  by (simp add: pure_def)

lemma if_state: "R m a \<Longrightarrow> R m b \<Longrightarrow> R m (if c then a else b)"
  by simp

lemma gm_state: "R m (lastOverallGMState_update f m)"
  by (rule other) simp_all

lemma upd_rule: "(\<And>st. same_clock st (f st)) \<Longrightarrow> R m (res_state (upd cfg k f m))"
  by (rule upd_frame)

lemmas line_rules = do_all_Nil do_all_Cons upd_state upd_rule refresh_frame saves GenPTPEvent_line
  set_dependent_line PublishEvent_line GNSS_event_line SyncE_event_line ClockClass_event_line panic
  via_source via_alias via_threshold let_rule if_rule prod_rule option_rule need_frame field_frame bind ok_rule pure_rule
  refl registry_frame set_sync_gauge_frame source gm_state if_state

lemma gm_announce_line: "plain_state s \<Longrightarrow> R m (res_state (gm_announce proc cfg s a old m))"
  unfolding gm_announce_def by (rule line_rules | assumption | simp)+

lemma ParseGMLogs_line: "R m (res_state (ParseGMLogs proc cfg output fs m))"
  unfolding ParseGMLogs_def line_clock_def
  by (rule gm_announce_line line_rules | simp)+

lemma ParseTBCLogs_line: "R m (res_state (ParseTBCLogs proc cfg output fs m))"
  unfolding ParseTBCLogs_def by (rule line_rules | simp)+

lemma ParseDPLLLogs_line: "R m (res_state (ParseDPLLLogs proc cfg output fs m))"
  unfolding ParseDPLLLogs_def by (rule line_rules | simp)+

lemma ParseGNSSLogs_line: "R m (res_state (ParseGNSSLogs proc cfg output fs m))"
  unfolding ParseGNSSLogs_def by (rule line_rules | simp)+

lemma synce_report_line: "R m (res_state (synce_report proc cfg l m))"
  unfolding synce_report_def by (rule line_rules | simp | intro conjI impI)+

lemma ParseSyncELogs_line: "R m (res_state (ParseSyncELogs proc cfg output fs m))"
  unfolding ParseSyncELogs_def by (rule line_rules synce_report_line | simp)+

lemma stale_frame: "R m (clearStaleClockRealTimeMetric p a m)"
  by (simp add: clearStaleClockRealTimeMetric_def refl registry_frame split: option.split)

lemma chronyd_line_frame: "R m (res_state (chronyd_line proc cfg profile output m))"
  unfolding chronyd_line_def by (rule line_rules stale_frame | simp)+

lemma summary_line_frame: "R m (res_state (summary_line proc cfg output m))"
  unfolding summary_line_def by (rule line_rules | simp)+

lemma nmea_line_frame: "R m (res_state (nmea_line proc output m))"
  unfolding nmea_line_def by (rule line_rules | simp)+

lemma ha_line_frame: "R m (res_state (ha_line output m))"
  unfolding ha_line_def by (rule line_rules | simp)+

lemma realtime_offset_frame: "R m (res_state (realtime_offset proc cfg profile src l s m))"
  unfolding realtime_offset_def by (rule line_rules stale_frame | simp)+

lemma master_offset_frame:
  "plain_state s \<Longrightarrow> R m (res_state (master_offset proc cfg profile src port l s m))"
  unfolding master_offset_def by (rule line_rules | assumption | simp)+

lemma iface_values:
  assumes "plain_state s"
  shows "R m (on_stat cfg k (\<lambda>st. AddValue off (SetLastOffset off (SetLastSyncState s st))) m)"
proof -
  have "on_stat cfg k (\<lambda>st. AddValue off (SetLastOffset off (SetLastSyncState s st))) m =
      on_stat cfg k (AddValue off) (on_stat cfg k (SetLastOffset off) (on_stat cfg k (SetLastSyncState s) m))"
    by (simp add: on_stat_def madjust_madjust)
  then show ?thesis using trans [OF set_state [OF assms] offset_value] by simp
qed

lemma iface_upd:
  "plain_state s \<Longrightarrow> R m (res_state (upd cfg k (\<lambda>st. AddValue off (SetLastOffset off (SetLastSyncState s st))) m))"
  by (simp add: upd_def need_def refl iface_values split: option.split)

lemma iface_offset_frame:
  "plain_state s \<Longrightarrow> R m (res_state (iface_offset proc cfg profile src l s m))"
  unfolding iface_offset_def
  by ((rule iface_upd line_rules)+, simp, (rule iface_upd line_rules)+)

lemma note_offset_frame: "R m (res_state (note_offset proc cfg src l m))"
proof -
  have claim: "R m (res_state (upd cfg MasterClockType (\<lambda>st. SetOffsetSource src (SetProcessName p st))
      (check_source cfg MasterClockType p m)))" for m p
    by (rule trans [OF source upd_frame]) simp
  show ?thesis unfolding note_offset_def by (rule claim line_rules | simp)+
qed

section \<open>The OS clock's handlers\<close>

lemma on_os_frame: "os_op g \<Longrightarrow> R m (on_os cfg g m)"
  unfolding on_os_def by (rule os) simp_all

lemmas on_os_rules = os_op.intros(1-6) [THEN on_os_frame]

lemma on_os_result:
  "os_op g \<Longrightarrow> R m (on_os cfg (\<lambda>_. g (os_of cfg m)) m)"
  unfolding on_os_def by (rule os) (simp_all add: os_of_def)

lemma undisciplined_frame: "R m (publishOsClockFreerunUndisciplined profile cfg m)"
  unfolding publishOsClockFreerunUndisciplined_def
  using trans [OF GenPTPEvent_line registry_frame] by (simp add: Let_def refl)

lemma on_settle_frame: "R m (on_settle profile cfg g m)"
proof -
  have fin: "R m (on_os cfg (\<lambda>_. snd (FinaliseIfGeneration g (os_of cfg m))) m)"
    by (rule on_os_result) (rule os_op.intros)
  show ?thesis
    using fin trans [OF fin undisciplined_frame]
    by (auto simp: on_settle_def Let_def split: prod.splits)
qed

lemma selecting_frame: "R m (snd (selecting_line cfg fs m))"
  unfolding selecting_line_def
  by (auto simp: refl intro!: on_os_rules split: option.split)

lemma sync_direction_frame: "R m (snd (handlePhc2sysSyncDirection profile cfg output fs m))"
proof -
  let ?m = "check_source cfg ClockRealTime phc2sysProcessName m"
  have fin: "R m' (on_os cfg (\<lambda>_. snd (Finalise (os_of cfg m'))) m')" for m'
    by (rule on_os_result) (rule os_op.intros)
  have "R ?m (snd (handlePhc2sysSyncDirection profile cfg output fs m))"
    using fin [of ?m] trans [OF fin [of ?m] undisciplined_frame] selecting_frame
    by (auto simp: handlePhc2sysSyncDirection_def Let_def refl intro!: on_os_rules
        split: os_line.split prod.splits)
  then show ?thesis by (rule trans [OF source])
qed

lemma offset_direction_frame: "R m (handlePhc2sysOffsetSyncDirection cfg i m)"
  unfolding handlePhc2sysOffsetSyncDirection_def
  using trans [OF source on_os_frame] os_op.intros(6) by (auto simp: refl)

section \<open>Whole lines\<close>

lemma offset_line_frame: "R m (res_state (offset_line proc cfg profile output m))"
proof (cases "extractRegularMetrics proc output")
  case None
  then show ?thesis by (simp add: offset_line_def refl)
next
  case (Some l)
  have body: "R m (res_state (do_all
      [note_offset proc cfg src l,
       (if i = ClockRealTime then realtime_offset proc cfg profile src l s
        else if i = MasterClockType then master_offset proc cfg profile src port l s
        else iface_offset proc cfg profile src l s)] m))" if "plain_state s" for i src port s m
    using that
    by (intro do_all_Cons do_all_Nil)
      (simp_all add: note_offset_frame realtime_offset_frame master_offset_frame iface_offset_frame)
  have st: "plain_state (if b then FREERUN else lm_state l)" for b
    using regular_state_plain [OF Some] by simp
  have dir: "R m (if b then handlePhc2sysOffsetSyncDirection cfg i m else m)" for b i
    by (simp add: refl offset_direction_frame)
  show ?thesis
    unfolding offset_line_def Some option.simps Let_def
    by (rule if_rule, simp add: refl, rule if_rule, simp only: res_state.simps, rule dir,
        rule trans [OF dir], rule option_rule, rule panic, rule bind, rule body, rule st, simp add: refl)
qed

lemma continue_frame: "(\<And>m. R m (res_state (f m))) \<Longrightarrow> R m (res_state (continue f m))"
  unfolding continue_def by (rule bind) (simp_all add: refl)

lemma via_pair:
  assumes "R m (snd p)" and "\<And>x y. R y (res_state (f x y))"
  shows "R m (res_state (case_prod f p))"
  using assms trans by (cases p) auto

lemma direction_frame:
  "R m (snd (if b then handlePhc2sysSyncDirection profile cfg output fs m else (False, m)))"
  by (simp add: refl sync_direction_frame)

lemma sync_line_frame: "R m (res_state (sync_line proc cfg profile output fs m))"
  unfolding sync_line_def
  by (rule if_rule, rule continue_frame, rule summary_line_frame,
      rule if_rule, rule continue_frame, rule nmea_line_frame,
      rule if_rule, rule ok_rule, rule refl,
      rule let_rule, rule via_pair, rule direction_frame,
      (rule if_rule ok_rule refl offset_line_frame continue_frame ha_line_frame)+)

lemma process_line_frame: "R m (res_state (process_line proc cfg profile output fs m))"
  unfolding process_line_def
  by (rule if_rule continue_frame ParseGNSSLogs_line ParseDPLLLogs_line ParseGMLogs_line ParseTBCLogs_line
      ParseSyncELogs_line chronyd_line_frame sync_line_frame)+

lemma status_frame: "parsePTPStatus fs m = (r, m') \<Longrightarrow> R m m'"
  by (rule other)
    (auto simp: parsePTPStatus_def on_registry_def updateProcessStatus_def split: if_splits prod.splits option.splits)

lemma iface_down_frame: "R m (res_state (iface_down proc cfg iface m))"
proof -
  let ?m = "on_stat cfg iface (\<lambda>s. SetLastSyncState FREERUN (SetLastOffset FreeRunOffsetValue s)) m"
  have "?m = on_stat cfg iface (SetLastSyncState FREERUN) (on_stat cfg iface (SetLastOffset FreeRunOffsetValue) m)"
    by (simp add: on_stat_def madjust_madjust)
  then have "R m ?m" using trans [OF offset_only set_state [OF plain_states(1)]] by simp
  then show ?thesis
    unfolding iface_down_def
    by (intro if_rule ok_rule refl, unfold Let_def, intro via_alias [THEN trans [rotated]])
      (auto intro!: line_rules)
qed

lemma process_down_frame: "R m (res_state (processDownEvent profile proc cfg ptype m))"
proof -
  have "R m (res_state (tbc_down profile proc cfg ptype m))" for m
    unfolding tbc_down_def by (rule line_rules)+
  moreover have "R m (res_state (master_down profile proc cfg m))" for m
    unfolding master_down_def by (rule line_rules)+
  moreover have "R m (res_state (realtime_down profile cfg m))" for m
    unfolding realtime_down_def by (rule line_rules)+
  moreover have "R m (res_state (do_all (map (\<lambda>(iface, st). iface_down proc cfg iface) xs) m))" for xs
    by (rule do_all_frame) (auto simp: list_all_iff iface_down_frame)
  ultimately show ?thesis
    unfolding processDownEvent_def by (auto intro!: if_rule do_all_Cons do_all_Nil)
qed

lemma GetPTPConfig_frame: "GetPTPConfig n m = (c, m') \<Longrightarrow> R m m'"
  by (auto simp: GetPTPConfig_def empty_config_def refl intro: configured split: option.splits)

lemma set_port_role_frame: "R m (res_state (set_port_role c i r m))"
proof -
  have "None \<notin> set ((Interfaces (config_of c m))[k := Some p])" if "no_nil m" for k p
    using config_no_nil [OF that, of c] set_update_subset_insert [of "Interfaces (config_of c m)" k "Some p"] by auto
  then show ?thesis
    by (auto simp: set_port_role_def Let_def refl intro!: configured split: option.split)
qed

lemma unknown_alias_frame: "R m (res_state (unknown_alias c m))"
  by (auto simp: unknown_alias_def intro!: other split: res.split)

lemma clock_class_frame: "R m (res_state (clock_class_line proc cfg fs m))"
  unfolding clock_class_line_def by (rule line_rules unknown_alias_frame | simp)+

lemma timer_frame: "R m (startHoldoverTimer o' c p a m)"
proof -
  obtain th m' where th: "PtpThreshold p True m = (th, m')" by fastforce
  have "R m' (m'\<lparr>m_timers := ts\<rparr>)" for ts by (rule other) simp_all
  then show ?thesis
    using trans [OF threshold_frame [OF th]] th by (simp add: startHoldoverTimer_def refl)
qed

lemma ensure_frame: "R m (res_state (lookup_or_ensure p m))"
  by (auto simp: lookup_or_ensure_def intro!: other split: res.split)

lemma process_opts_frame: "R m (res_state (GetPtpProcessOpts p c m))"
proof -
  have "R m (snd (resolveProfileName p c m))" for m
    using GetPTPConfig_frame by (auto simp: resolveProfileName_def refl split: prod.split)
  moreover have "R m (snd (GetPTPConfig c m))" for m
    using GetPTPConfig_frame [of c m "fst (GetPTPConfig c m)" "snd (GetPTPConfig c m)"] by simp
  ultimately show ?thesis
    unfolding GetPtpProcessOpts_def
    by (intro let_rule via_pair bind if_rule ok_rule ensure_frame refl) simp_all
qed

lemma upd_after: "(\<And>st. same_clock st (f st)) \<Longrightarrow> R m m' \<Longrightarrow> R m (res_state (upd cfg k f m'))"
  by (rule trans [OF _ upd_frame])

lemma role_change_frame: "R m (res_state (role_change proc cfg i p r m))"
  unfolding role_change_def by (rule line_rules set_port_role_frame | simp)+

lemma enter_holdover_frame: "R m (res_state (enter_holdover cfg profile s m))"
proof -
  have opts: "R m (res_state (res_bind (GetPtpProcessOpts profile cfg m) (\<lambda>opts m. Ok () (startHoldoverTimer opts cfg profile a m))))"
    for a m by (rule bind [OF process_opts_frame]) (simp add: timer_frame)
  have body: "R m (res_state (do_all
      [upd cfg MasterClockType (SetLastSyncState HOLDOVER),
       PublishEvent HOLDOVER off src PtpStateChange,
       pure (on_registry f),
       (\<lambda>m. res_bind (GetPtpProcessOpts profile cfg m) (\<lambda>opts m.
          Ok () (startHoldoverTimer opts cfg profile a m)))] m))" for off src f a m
    by (rule opts line_rules | simp)+
  show ?thesis
    unfolding enter_holdover_def
    by (rule need_frame, rule if_rule, rule ok_rule, rule refl, rule bind, rule upd_rule, simp, rule if_rule,
        rule ok_rule, rule refl) (simp add: body)
qed

lemma tbc_fault_frame: "R m (res_state (tbc_fault proc cfg l r m))"
  unfolding tbc_fault_def by (rule line_rules | simp)+

lemma port_line_frame: "R m (res_state (port_line proc cfg profile output m))"
proof -
  have claim: "R m (res_state (upd cfg MasterClockType (SetRole r)
      (check_source cfg k p (check_source cfg k' p' m))))" for k p k' p' r m
    by (rule upd_after, simp, rule trans [OF source source])
  show ?thesis
    unfolding port_line_def
    by (rule claim role_change_frame enter_holdover_frame tbc_fault_frame line_rules)+
qed

lemma ParsePTP4l_line: "R m (res_state (ParsePTP4l proc cfg profile output fs m))"
  unfolding ParsePTP4l_def by (rule if_rule clock_class_frame port_line_frame ok_rule refl)+

lemma status_line_frame: "R m (res_state (status_line proc cfg profile fs m))"
proof -
  obtain st err m' where p: "parsePTPStatus fs m = ((st, err), m')" by (metis prod.exhaust)
  show ?thesis
    using trans [OF status_frame [OF p] process_down_frame] status_frame [OF p] by (simp add: status_line_def p)
qed

lemma source_frame: "R m (source_of_master cfg m)"
  unfolding source_of_master_def by (auto simp: refl intro!: other split: option.split)

theorem extract_line_frame:
  assumes "line_config msg = cfg"
  shows "R m (res_state (extract_line msg m))"
proof -
  have table: "R m (snd (GetStats cfg m))" for m by (rule new_table)
  have conf: "R m (snd (GetPTPConfig cfg m))" for m
    using GetPTPConfig_frame [of cfg m "fst (GetPTPConfig cfg m)" "snd (GetPTPConfig cfg m)"] by simp
  have line: "R m (res_state (res_bind (process_line proc cfg profile out' fs (source_of_master cfg m))
      (\<lambda>on m. if on then ParsePTP4l proc cfg profile out' fs m else Ok () m)))" for proc profile out' fs m
    by (rule bind, rule trans [OF source_frame process_line_frame]) (auto simp: refl ParsePTP4l_line)
  have name: "replace_first (str_fields (replacer bracket_pairs msg) ! 2) ts2phcProcessName ptp4lProcessName = cfg"
    using assms by (simp add: line_config_def)
  show ?thesis
    unfolding extract_line_def Let_def name
    by (rule if_rule ok_rule refl via_pair conf table status_line_frame line)+
qed

lemma ExtractMetrics_frame: "line_config msg = cfg \<Longrightarrow> R m (ExtractMetrics msg m)"
  using extract_line_frame by (simp add: ExtractMetrics_def)

lemma holdover_frame: "ht_config t = cfg \<Longrightarrow> R m (holdover_expired t m)"
proof -
  assume t: "ht_config t = cfg"
  have "R m (snd (GetStats cfg m))" by (rule new_table)
  moreover have "R m (res_state (do_all
      [upd cfg MasterClockType (SetLastSyncState FREERUN), PublishEvent FREERUN off src PtpStateChange,
       pure (on_registry f)] m))" for off src f m
    by (rule line_rules | simp)+
  ultimately show ?thesis
    using trans by (auto simp: holdover_expired_def t split: prod.split option.split)
qed

end

end
