(* ===== verification/Lines.thy ===== *)
theory Lines
  imports LineFrame
begin

text \<open>
  The manager as a system: log lines, holdover timers and settle callbacks in any order. What holds of
  every step, as instances of the line frame, and of every run.
\<close>

section \<open>Steps of the system\<close>

inductive sys_step :: "string \<Rightarrow> manager \<Rightarrow> manager \<Rightarrow> bool" where
  line: "sys_step (line_config msg) m (ExtractMetrics msg m)"
| timer: "handleHoldOverState t m m' \<Longrightarrow> sys_step (ht_config t) m m'"
| settle: "sys_step cfg m (on_settle profile cfg g m)"

inductive_cases sys_stepE: "sys_step cfg m m'"

inductive sys_run :: "manager \<Rightarrow> manager \<Rightarrow> bool" where
  stop: "sys_run m m"
| step: "sys_run m m' \<Longrightarrow> sys_step cfg m' m'' \<Longrightarrow> sys_run m m''"

context line_frame begin

lemma remove_timer_frame: "R m (remove_timer t m)"
  by (rule other) (simp_all add: remove_timer_def)

lemma step_frame: "sys_step cfg m m' \<Longrightarrow> R m m'"
proof (erule sys_stepE)
  fix t assume t: "handleHoldOverState t m m'" "cfg = ht_config t"
  then have "R (remove_timer t m) (holdover_expired t (remove_timer t m))" by (intro holdover_frame) simp
  then show "R m m'"
    using t(1) remove_timer_frame [of m t] trans by (auto simp: handleHoldOverState_iff)
qed (auto simp: ExtractMetrics_frame on_settle_frame)

end

text \<open>A boundary clock with one slave port, and a line of its ptp4l.\<close>

definition bc_manager :: manager where
  "bc_manager = (NewPTPEventManager ''/cluster/node'' [] ''n1'' None)\<lparr>mock := True,
     Ptp4lConfigInterfaces := [(''ptp4l.0.config'',
       \<lparr>pc_Name = ''ptp4l.0.config'', pc_Profile = ''bc'',
        Interfaces = [Some \<lparr>pi_Name = ''ens5f0'', PortID = 1, PortName = '''', Role = SLAVE\<rparr>],
        Sections = [], ProfileType = NONE_profile\<rparr>)]\<rparr>"

definition master_line :: string where
  "master_line = ''ptp4l[519.1]: [ptp4l.0.config] master offset   -62 s2 freq +224 path delay    374''"

lemma master_line_config: "line_config master_line = ''ptp4l.0.config''"
  by code_simp

lemma master_line_locks:
  "map_option lastSyncState (stat_at ''ptp4l.0.config'' MasterClockType (ExtractMetrics master_line bc_manager))
    = Some LOCKED"
  by code_simp

lemma master_line_step: "sys_step ''ptp4l.0.config'' m (ExtractMetrics master_line m)"
  using line [of master_line m] by (simp add: master_line_config)

section \<open>Relations of the table of clocks\<close>

type_synonym clock_table = "string \<times> string \<Rightarrow> stats option"

definition clocks :: "manager \<Rightarrow> clock_table" where
  "clocks m = (\<lambda>(c, i). stat_at c i m)"

lemma clocks_on_stat:
  "clocks (on_stat c k f m) = (case clocks m (c, k) of None \<Rightarrow> clocks m | Some st \<Rightarrow> (clocks m)((c, k) \<mapsto> f st))"
  by (auto simp: clocks_def stat_at_on_stat fun_eq_iff split: option.split)

lemma clocks_check_source:
  "clocks (check_source c k p m) = clocks m \<or>
    clocks m (c, k) = None \<and> clocks (check_source c k p m) = (clocks m)((c, k) \<mapsto> SetProcessName p (NewStats c))"
  by (cases "map_of (Stats m) c")
    (auto simp: clocks_def check_source_def on_table_def CheckSource_def stat_at_def gomap_simps fun_eq_iff)

locale table_frame =
  fixes S :: "clock_table \<Rightarrow> clock_table \<Rightarrow> bool" and cfg :: string
  assumes S_refl: "S T T"
    and S_trans: "S T T' \<Longrightarrow> S T' T'' \<Longrightarrow> S T T''"
    and S_create: "T (cfg, k) = None \<Longrightarrow> S T (T((cfg, k) \<mapsto> SetProcessName p (NewStats cfg)))"
    and S_blind: "T (cfg, k) = Some st \<Longrightarrow> same_clock st st' \<Longrightarrow> S T (T((cfg, k) \<mapsto> st'))"
    and S_state: "T (cfg, k) = Some st \<Longrightarrow> plain_state s \<Longrightarrow> S T (T((cfg, k) \<mapsto> SetLastSyncState s st))"
    and S_os: "T (cfg, ClockRealTime) = Some st \<Longrightarrow> os_op g \<Longrightarrow>
      S T (T((cfg, ClockRealTime) \<mapsto> st\<lparr>s_OsClock := g (s_OsClock st)\<rparr>))"

lemma clocks_stats: "Stats m' = Stats m \<Longrightarrow> clocks m' = clocks m"
  by (simp add: clocks_def stat_at_def)

lemma clocks_publish: "clocks (res_state (publish data addr t m)) = clocks m"
  using publish_frame [of m data addr t] by (intro clocks_stats) (simp add: pub_frame_def)

lemma clocks_saveToStore: "clocks (res_state (saveToStore m)) = clocks m"
  using saveToStore_frame [of m] by (intro clocks_stats) (simp add: pub_frame_def)

lemma clocks_UpdateSyncState: "clocks (res_state (UpdateSyncState s m)) = clocks m"
  using UpdateSyncState_frame [of m s] by (intro clocks_stats) (simp add: pub_frame_def)

lemma clocks_AddPTPConfig: "clocks (AddPTPConfig n c m) = clocks m"
  by (rule clocks_stats) (simp add: AddPTPConfig_def)

lemma clocks_GetStats: "clocks (snd (GetStats n m)) = clocks m"
  by (simp add: clocks_def)

sublocale table_frame \<subseteq> line: line_frame "\<lambda>m m'. S (clocks m) (clocks m')" cfg
proof unfold_locales
  fix m m' :: manager
  assume "Stats m' = Stats m"
  from clocks_stats [OF this] show "S (clocks m) (clocks m')" by (simp add: S_refl)
next
  fix m k p
  show "S (clocks m) (clocks (check_source cfg k p m))"
    using clocks_check_source [of cfg k p m] S_create S_refl by auto
next
  fix m k f
  assume f: "\<And>st. stat_at cfg k m = Some st \<Longrightarrow> same_clock st (f st)"
  have "same_clock st (f st)" if "clocks m (cfg, k) = Some st" for st
    using f that by (simp add: clocks_def)
  then show "S (clocks m) (clocks (on_stat cfg k f m))"
    by (auto simp: clocks_on_stat S_refl intro: S_blind split: option.split)
next
  fix m k s
  assume "plain_state s"
  then show "S (clocks m) (clocks (on_stat cfg k (SetLastSyncState s) m))"
    by (auto simp: clocks_on_stat S_refl intro: S_state split: option.split)
next
  fix m f and g :: "os_clock \<Rightarrow> os_clock"
  assume g: "os_op g" and f: "\<And>st. stat_at cfg ClockRealTime m = Some st \<Longrightarrow> f st = st\<lparr>s_OsClock := g (s_OsClock st)\<rparr>"
  show "S (clocks m) (clocks (on_stat cfg ClockRealTime f m))"
  proof (cases "clocks m (cfg, ClockRealTime)")
    case None
    then show ?thesis by (simp add: clocks_on_stat S_refl)
  next
    case (Some st)
    then have "f st = st\<lparr>s_OsClock := g (s_OsClock st)\<rparr>" using f by (simp add: clocks_def)
    then show ?thesis using S_os [of "clocks m" st g] Some g by (simp add: clocks_on_stat)
  qed
qed (auto simp: S_refl clocks_publish clocks_GetStats clocks_saveToStore clocks_UpdateSyncState clocks_AddPTPConfig
    intro: S_trans)

section \<open>Only the clocks of the line's configuration change\<close>

definition others_kept :: "string \<Rightarrow> clock_table \<Rightarrow> clock_table \<Rightarrow> bool" where
  "others_kept cfg T T' \<longleftrightarrow> (\<forall>c i. c \<noteq> cfg \<longrightarrow> T' (c, i) = T (c, i))"

interpretation others: table_frame "others_kept cfg" cfg for cfg
  by unfold_locales (simp_all add: others_kept_def)

text \<open>C17: a log line, a holdover timer and a settle callback touch only the clocks of their own
  configuration: every other configuration's clocks keep their whole record.\<close>
theorem step_is_local:
  assumes "sys_step cfg m m'" and "c \<noteq> cfg"
  shows "stat_at c i m' = stat_at c i m"
  using others.line.step_frame [OF assms(1)] assms(2) by (simp add: others_kept_def clocks_def)

theorem step_is_local_witness:
  "stat_at ''ptp4l.1.config'' MasterClockType (ExtractMetrics master_line bc_manager)
    = stat_at ''ptp4l.1.config'' MasterClockType bc_manager"
  by (rule step_is_local [OF master_line_step]) simp

section \<open>Clock states\<close>

definition plain_clocks :: "clock_table \<Rightarrow> bool" where
  "plain_clocks T \<longleftrightarrow> (\<forall>ci st. T ci = Some st \<longrightarrow> plain_state (lastSyncState st))"

lemma NewStats_plain [simp]: "lastSyncState (SetProcessName p (NewStats c)) = NoState"
  by (simp add: SetProcessName_def NewStats_def)

lemma plain_clocks_upd: "plain_clocks T \<Longrightarrow> plain_state (lastSyncState st) \<Longrightarrow> plain_clocks (T(ci \<mapsto> st))"
  by (simp add: plain_clocks_def)

lemma plain_clocks_at: "plain_clocks T \<Longrightarrow> T ci = Some st \<Longrightarrow> plain_state (lastSyncState st)"
  unfolding plain_clocks_def by blast

interpretation plain: table_frame "\<lambda>T T'. plain_clocks T \<longrightarrow> plain_clocks T'" cfg for cfg
proof unfold_locales
  fix T :: clock_table and k st st'
  assume "T (cfg, k) = Some st" and "same_clock st st'"
  then show "plain_clocks T \<longrightarrow> plain_clocks (T((cfg, k) \<mapsto> st'))"
    using plain_clocks_at [of T "(cfg, k)" st] by (auto simp: same_clock_def intro!: plain_clocks_upd)
next
  fix T :: clock_table and st and g :: "os_clock \<Rightarrow> os_clock"
  assume "T (cfg, ClockRealTime) = Some st"
  then show "plain_clocks T \<longrightarrow> plain_clocks (T((cfg, ClockRealTime) \<mapsto> st\<lparr>s_OsClock := g (s_OsClock st)\<rparr>))"
    using plain_clocks_at [of T _ st] by (auto intro!: plain_clocks_upd)
qed (simp_all add: plain_clocks_upd SetLastSyncState_def)

lemma plain_run: "sys_run m m' \<Longrightarrow> plain_clocks (clocks m) \<Longrightarrow> plain_clocks (clocks m')"
  by (induction rule: sys_run.induct) (use plain.line.step_frame in blast)+

text \<open>C2: in every run from a manager without clocks, whatever the lines say and in whatever order
  timers fire, every clock is unset, FREERUN, HOLDOVER or LOCKED: no log line brings a clock into
  another state.\<close>
theorem clock_states_plain:
  assumes "Stats m0 = []" and "sys_run m0 m" and "stat_at c i m = Some st"
  shows "lastSyncState st \<in> {NoState, FREERUN, HOLDOVER, LOCKED}"
proof -
  have "plain_clocks (clocks m0)"
    using assms(1) by (simp add: plain_clocks_def clocks_def stat_at_def)
  then have "plain_clocks (clocks m)" by (rule plain_run [OF assms(2)])
  then have "plain_state (lastSyncState st)"
    using assms(3) unfolding plain_clocks_def clocks_def by (metis case_prod_conv)
  then show ?thesis by (auto simp: plain_state_def)
qed

theorem clock_states_plain_witness:
  "\<exists>st. stat_at ''ptp4l.0.config'' MasterClockType (ExtractMetrics master_line bc_manager) = Some st \<and>
    lastSyncState st \<in> {NoState, FREERUN, HOLDOVER, LOCKED}"
proof -
  obtain st where "stat_at ''ptp4l.0.config'' MasterClockType (ExtractMetrics master_line bc_manager) = Some st"
    using master_line_locks by blast
  moreover have "Stats bc_manager = []" by (simp add: bc_manager_def NewPTPEventManager_def)
  ultimately show ?thesis
    using clock_states_plain [OF _ step [OF stop master_line_step]] by blast
qed

section \<open>The OS clock machine\<close>

definition os_moves :: "os_clock \<Rightarrow> os_clock \<Rightarrow> bool" where
  "os_moves = (\<lambda>d d'. \<exists>g. os_op g \<and> d' = g d)\<^sup>*\<^sup>*"

lemma os_moves_refl [simp]: "os_moves d d"
  by (simp add: os_moves_def)

lemma os_moves_op: "os_op g \<Longrightarrow> os_moves d (g d)"
  unfolding os_moves_def by (rule r_into_rtranclp) blast

definition table_os :: "string \<Rightarrow> clock_table \<Rightarrow> os_clock" where
  "table_os c T = (case T (c, ClockRealTime) of None \<Rightarrow> os_clock_zero | Some s \<Rightarrow> s_OsClock s)"

lemma os_of_table: "table_os c (clocks m) = os_of c m"
  by (simp add: table_os_def clocks_def os_of_def)

interpretation os_machine: table_frame "\<lambda>T T'. os_moves (table_os c T) (table_os c T')" cfg for c cfg
proof unfold_locales
  fix T :: clock_table and st and g :: "os_clock \<Rightarrow> os_clock"
  assume "T (cfg, ClockRealTime) = Some st" and op: "os_op g"
  then show "os_moves (table_os c T) (table_os c (T((cfg, ClockRealTime) \<mapsto> st\<lparr>s_OsClock := g (s_OsClock st)\<rparr>)))"
    using os_moves_op [OF op, of "s_OsClock st"] by (auto simp: table_os_def)
next
  fix T T' T'' :: clock_table
  assume "os_moves (table_os c T) (table_os c T')" and "os_moves (table_os c T') (table_os c T'')"
  then show "os_moves (table_os c T) (table_os c T'')" by (simp add: os_moves_def)
qed (auto simp: table_os_def same_clock_def SetProcessName_def NewStats_def SetLastSyncState_def)



section \<open>The queue\<close>

text \<open>What a computation adds to the queue and to the counters.\<close>

definition adds :: "sc_config option \<Rightarrow> sc_config option \<Rightarrow> bool" where
  "adds c c' \<longleftrightarrow> c = None \<and> c' = None \<or>
    (\<exists>sc sc' ds ps. c = Some sc \<and> c' = Some sc' \<and> sc_clientID sc' = sc_clientID sc \<and>
      oc_queue (EventOutCh sc') = oc_queue (EventOutCh sc) @ ds \<and> sc_published sc' = sc_published sc @ ps \<and>
      length (filter snd ps) = length ds \<and>
      (\<forall>d\<in>set ds. dc_Type d = EVENT_kind \<and> dc_Status d = NEW_status \<and> dc_Data d \<noteq> None \<and> dc_ClientID d = sc_clientID sc))"

lemma adds_refl: "adds c c"
  by (cases c) (auto simp: adds_def)

lemma adds_trans:
  assumes "adds a b" and "adds b c"
  shows "adds a c"
proof (cases a)
  case None
  then show ?thesis using assms by (auto simp: adds_def)
next
  case (Some sc)
  obtain sb ds ps where b: "b = Some sb" "sc_clientID sb = sc_clientID sc"
    "oc_queue (EventOutCh sb) = oc_queue (EventOutCh sc) @ ds" "sc_published sb = sc_published sc @ ps"
    "length (filter snd ps) = length ds"
    "\<forall>d\<in>set ds. dc_Type d = EVENT_kind \<and> dc_Status d = NEW_status \<and> dc_Data d \<noteq> None \<and> dc_ClientID d = sc_clientID sc"
    using assms(1) Some by (auto simp: adds_def)
  obtain sc' ds' ps' where c: "c = Some sc'" "sc_clientID sc' = sc_clientID sc"
    "oc_queue (EventOutCh sc') = oc_queue (EventOutCh sb) @ ds'" "sc_published sc' = sc_published sb @ ps'"
    "length (filter snd ps') = length ds'"
    "\<forall>d\<in>set ds'. dc_Type d = EVENT_kind \<and> dc_Status d = NEW_status \<and> dc_Data d \<noteq> None \<and> dc_ClientID d = sc_clientID sc"
    using assms(2) b by (auto simp: adds_def)
  show ?thesis
    unfolding adds_def
    using Some b c by (intro disjI2 exI [of _ sc] exI [of _ sc'] exI [of _ "ds @ ds'"] exI [of _ "ps @ ps'"]) auto
qed

lemma adds_api: "adds (Some sc) (Some (PublishEventViaAPI e addr sc))"
  by (auto simp: adds_def PublishEventViaAPI_def GetPublishingCloudEvent_def count_published_def
      SendToChannel_def Let_def split: option.split prod.split)

lemma adds_publish: "adds (scConfig m) (scConfig (res_state (publish data addr t m)))"
  by (auto simp: publish_def adds_refl adds_api split: option.split sum.split)

lemma adds_saved: "scConfig m = c \<Longrightarrow> adds c (scConfig (res_state (saveToStore m)))"
  by (auto simp: saveToStore_def adds_refl split: option.split)

interpretation queue: line_frame "\<lambda>m m'. adds (scConfig m) (scConfig m')" cfg for cfg
  by unfold_locales
    (auto simp: adds_refl adds_publish adds_saved GetStats_def check_source_def on_table_def on_stat_def
      AddPTPConfig_def UpdateSyncState_def intro: adds_trans split: option.split)

lemma run_adds: "sys_run m m' \<Longrightarrow> adds (scConfig m) (scConfig m')"
  by (induction rule: sys_run.induct) (use queue.step_frame adds_refl adds_trans in blast)+

text \<open>C18: in every run, the queue of outgoing events is only added to, at its end: what was queued keeps
  its place and its content. What is added are new events with data under the manager's client id, and the
  successes counted in the run are as many as the events it queued.\<close>
theorem queue_only_grows:
  assumes "sys_run m m'" and "scConfig m = Some sc"
  shows "\<exists>sc' ds ps. scConfig m' = Some sc' \<and>
    oc_queue (EventOutCh sc') = oc_queue (EventOutCh sc) @ ds \<and> sc_published sc' = sc_published sc @ ps \<and>
    length (filter snd ps) = length ds \<and>
    (\<forall>d\<in>set ds. dc_Type d = EVENT_kind \<and> dc_Status d = NEW_status \<and> dc_Data d \<noteq> None \<and> dc_ClientID d = sc_clientID sc)"
  using run_adds [OF assms(1)] assms(2) unfolding adds_def by auto

theorem queue_only_grows_witness:
  "\<exists>sc' ds. scConfig (ExtractMetrics master_line (bc_manager\<lparr>scConfig := Some sc0\<rparr>)) = Some sc' \<and>
    oc_queue (EventOutCh sc') = [] @ ds"
  using queue_only_grows [OF step [OF stop master_line_step], of "bc_manager\<lparr>scConfig := Some sc0\<rparr>" sc0]
  by (auto simp: sc0_def)

end
