(* ===== verification/Offsets.thy ===== *)
theory Offsets
  imports Lines
begin

text \<open>
  What lines do to the clocks: the state of CLOCK_REALTIME against its source's, a sample that is
  counted twice, a process that goes down, and a fault of the slave port.
\<close>

section \<open>Thresholds, process options and the source stay\<close>

definition settings :: "manager \<Rightarrow> (string, ptp_clock_threshold) gomap \<times> (string, ptp_process_opts) gomap \<times> string" where
  "settings m = (EventThreshold (PtpConfigMapUpdates m), PtpProcessOpts (PtpConfigMapUpdates m), masterOffsetSource m)"

lemma SafeClose_PtpProcessOpts [simp]: "PtpProcessOpts (snd (SafeClose t l)) = PtpProcessOpts l"
  by (simp add: SafeClose_def split: option.split)

lemma settings_simps [simp]:
  "settings (on_stat c i f m) = settings m"
  "settings (on_registry g m) = settings m"
  "settings (m\<lparr>PtpConfigMapUpdates := snd (SafeClose t (PtpConfigMapUpdates m))\<rparr>) = settings m"
  by (simp_all add: settings_def on_stat_def on_registry_def)

lemma settings_publish [simp]: "settings (res_state (PublishEvent s off src t m)) = settings m"
  using PublishEvent_frame [of m s off src t] by (simp add: pub_frame_def settings_def)

lemma settings_then:
  "settings (res_state r) = th \<Longrightarrow> (\<And>m. settings (f m) = settings m) \<Longrightarrow>
    settings (res_state (res_bind r (\<lambda>_ m. Ok () (f m)))) = th"
  by (cases r) simp_all

lemma settings_PtpThreshold: "PtpThreshold p False m = (t, m') \<Longrightarrow> settings m' = settings m"
  by (auto simp: PtpThreshold_def GetDefaultThreshold_def make_chan_def Let_def settings_def
      split: option.splits)

lemma settings_GenPTPEvent [simp]:
  "settings (res_state (GenPTPEvent profile (c, i) src off s t m)) = settings m"
proof (cases "s = NoState \<or> stat_at c i m = None")
  case True
  then show ?thesis by (auto simp: GenPTPEvent_def)
next
  case False
  then obtain st where st: "stat_at c i m = Some st" and s: "s \<noteq> NoState" by auto
  obtain th m1 where th: "PtpThreshold profile False m = (th, m1)" by fastforce
  have "settings (res_state (GenPTPEvent profile (c, i) src off s t m)) = settings m1"
  proof (cases s)
    case LOCKED
    then show ?thesis using st th
      by (cases "lastSyncState st")
        (auto simp: GenPTPEvent_def recovered_def Let_def intro!: settings_then simp del: res_bind.simps)
  qed (use st th s in \<open>auto simp: GenPTPEvent_def recovered_def Let_def intro!: settings_then simp del: res_bind.simps\<close>)
  then show ?thesis using settings_PtpThreshold [OF th] by simp
qed

lemma range_of_settings: "settings m' = settings m \<Longrightarrow> range_of p off m' = range_of p off m"
  by (auto simp: range_of_def PtpThreshold_def LookupEventThreshold_def GetDefaultThreshold_def make_chan_def
      settings_def Let_def split: option.split list.split)

section \<open>CLOCK_REALTIME follows its source\<close>

definition state_at :: "string \<Rightarrow> string \<Rightarrow> manager \<Rightarrow> sync_state" where
  "state_at c i m = (case stat_at c i m of None \<Rightarrow> NoState | Some st \<Rightarrow> lastSyncState st)"

lemma GenPTPEvent_Ok: "\<exists>m'. GenPTPEvent profile ci src off s t m = Ok () m'"
  by (auto simp: GenPTPEvent_def recovered_def Let_def split: option.split prod.split)

lemma state_at_GenPTPEvent:
  assumes "stat_at c i m \<noteq> None" and "s \<noteq> NoState"
  shows "state_at c i (res_state (GenPTPEvent profile (c, i) src off s t m))
      = next_state s (state_at c i m) (range_of profile off m)"
    and "stat_at c i (res_state (GenPTPEvent profile (c, i) src off s t m)) \<noteq> None"
proof -
  obtain st where st: "stat_at c i m = Some st" using assms(1) by auto
  show "state_at c i (res_state (GenPTPEvent profile (c, i) src off s t m))
      = next_state s (state_at c i m) (range_of profile off m)"
    and "stat_at c i (res_state (GenPTPEvent profile (c, i) src off s t m)) \<noteq> None"
    using GenPTPEvent_moves [OF st assms(2), where profile = profile and off = off and src = src and t = t] st
    by (auto simp: clock_now_def state_at_def)
qed

lemma next_state_twice: "next_state s (next_state s p r) r = next_state s p r"
  by (cases s; cases p) (auto simp: next_state_def)

lemma e3_plain: "s \<in> {FREERUN, HOLDOVER, LOCKED} \<Longrightarrow> plain_state (e1_state cfg m) \<Longrightarrow>
    e3_state cfg s m \<in> {FREERUN, HOLDOVER, LOCKED} \<and>
    severity (e3_state cfg s m) = max (severity s) (severity (e1_state cfg m))"
  by (auto simp: e3_state_def plain_state_def OverallState.simps severity_def)

lemma next_state_severity:
  "s \<in> {FREERUN, HOLDOVER, LOCKED} \<Longrightarrow> severity (next_state s p r) \<ge> severity s"
  by (auto simp: next_state_def severity_def)

lemma stat_at_stale [simp]: "stat_at c i (clearStaleClockRealTimeMetric p a m) = stat_at c i m"
  by (simp add: clearStaleClockRealTimeMetric_def split: option.split)

text \<open>The line's event on CLOCK_REALTIME, and whether it is generated once before the alias is set.\<close>

definition gen_realtime :: "string \<Rightarrow> string \<Rightarrow> line_metrics \<Rightarrow> sync_state \<Rightarrow> manager \<Rightarrow> manager" where
  "gen_realtime cfg profile l s m = res_state (GenPTPEvent profile (cfg, ClockRealTime) ClockRealTime
     (int_of_float (lm_offset l)) s OsClockSyncStateChange m)"

definition counted_twice :: "string \<Rightarrow> manager \<Rightarrow> bool" where
  "counted_twice cfg m \<longleftrightarrow> (case stat_at cfg MasterClockType m of None \<Rightarrow> False | Some r \<Rightarrow> s_role r = SLAVE) \<or>
     masterOffsetSource m = ts2phcProcessName"

lemma gen_realtime_ok:
  "GenPTPEvent profile (cfg, ClockRealTime) ClockRealTime (int_of_float (lm_offset l)) s OsClockSyncStateChange m
    = Ok () (gen_realtime cfg profile l s m)"
  using GenPTPEvent_Ok [of profile "(cfg, ClockRealTime)" ClockRealTime "int_of_float (lm_offset l)" s
      OsClockSyncStateChange m] by (auto simp: gen_realtime_def)

lemma gen_realtime_some:
  "stat_at cfg ClockRealTime m \<noteq> None \<Longrightarrow> stat_at cfg ClockRealTime (gen_realtime cfg profile l s m) \<noteq> None"
  using state_at_GenPTPEvent(2) by (cases "s = NoState") (auto simp: gen_realtime_def GenPTPEvent_def)

lemma gen_realtime_state:
  "stat_at cfg ClockRealTime m \<noteq> None \<Longrightarrow> s \<noteq> NoState \<Longrightarrow>
    state_at cfg ClockRealTime (gen_realtime cfg profile l s m) =
      next_state s (state_at cfg ClockRealTime m) (range_of profile (int_of_float (lm_offset l)) m)"
  unfolding gen_realtime_def by (rule state_at_GenPTPEvent(1))

lemma settings_gen_realtime [simp]: "settings (gen_realtime cfg profile l s m) = settings m"
  by (simp add: gen_realtime_def)

text \<open>The line's last three steps write gauges only.\<close>

lemma realtime_offset_unfold:
  assumes st: "stat_at cfg ClockRealTime m \<noteq> None"
  shows "\<exists>a. stat_at c i (res_state (realtime_offset proc cfg profile src l s m))
    = stat_at c i (gen_realtime cfg profile l (e3_state cfg s m) (on_stat cfg ClockRealTime (StSetAlias a)
        (if counted_twice cfg m then gen_realtime cfg profile l (e3_state cfg s m) m else m)))"
proof -
  let ?gen = "gen_realtime cfg profile l (e3_state cfg s m)"
  define m1 where "m1 = (if counted_twice cfg m then ?gen m else m)"
  define a where "a = (case stat_at cfg MasterClockType m1 of None \<Rightarrow> ''ptp-ha-enabled'' | Some r \<Rightarrow> aliasName r)"
  define m2 where "m2 = on_stat cfg ClockRealTime (StSetAlias a) m1"
  have m1: "stat_at cfg ClockRealTime m1 \<noteq> None"
    unfolding m1_def using st gen_realtime_some [OF st] by simp
  then obtain st2 where st2: "stat_at cfg ClockRealTime m1 = Some st2" by blast
  have "stat_at cfg ClockRealTime m2 \<noteq> None" using m1 by (simp add: m2_def stat_at_on_stat)
  from gen_realtime_some [OF this] obtain st3 where st3: "stat_at cfg ClockRealTime (?gen m2) = Some st3" by blast
  have first: "(if (case stat_at cfg MasterClockType m of None \<Rightarrow> False | Some r \<Rightarrow> s_role r = SLAVE) \<or>
      masterOffsetSource m = ts2phcProcessName then Ok () (?gen m) else Ok () m) = Ok () m1"
    unfolding m1_def by (cases "counted_twice cfg m") (simp_all only: counted_twice_def if_True if_False)
  have "stat_at c i (res_state (realtime_offset proc cfg profile src l s m)) = stat_at c i (?gen m2)"
    unfolding realtime_offset_def Let_def do_all_def pure_def upd_def need_def gen_realtime_ok res_fold.simps
      first res_bind.simps st2 option.case a_def [symmetric] m2_def [symmetric] st3
    by (simp add: st3)
  then show ?thesis unfolding m2_def m1_def by blast
qed

lemma realtime_state:
  assumes st: "stat_at cfg ClockRealTime m \<noteq> None" and ne: "e3_state cfg s m \<noteq> NoState"
  shows "state_at cfg ClockRealTime (res_state (realtime_offset proc cfg profile src l s m))
    = next_state (e3_state cfg s m) (state_at cfg ClockRealTime m) (range_of profile (int_of_float (lm_offset l)) m)"
proof -
  let ?gen = "gen_realtime cfg profile l (e3_state cfg s m)"
  let ?m1 = "if counted_twice cfg m then ?gen m else m"
  let ?r = "range_of profile (int_of_float (lm_offset l)) m"
  obtain a where a: "stat_at cfg ClockRealTime (res_state (realtime_offset proc cfg profile src l s m))
      = stat_at cfg ClockRealTime (?gen (on_stat cfg ClockRealTime (StSetAlias a) ?m1))"
    using realtime_offset_unfold [OF st] by blast
  let ?m2 = "on_stat cfg ClockRealTime (StSetAlias a) ?m1"
  have m1: "stat_at cfg ClockRealTime ?m1 \<noteq> None" using st gen_realtime_some [OF st] by (cases "counted_twice cfg m") simp_all
  have th: "settings ?m1 = settings m" by simp
  have again: "next_state (e3_state cfg s m) (state_at cfg ClockRealTime ?m1) ?r
      = next_state (e3_state cfg s m) (state_at cfg ClockRealTime m) ?r"
    using gen_realtime_state [OF st ne, of profile l]
    by (cases "counted_twice cfg m") (simp_all add: next_state_twice)
  have m2: "stat_at cfg ClockRealTime ?m2 \<noteq> None" "state_at cfg ClockRealTime ?m2 = state_at cfg ClockRealTime ?m1"
    using m1 by (auto simp: stat_at_on_stat state_at_def StSetAlias_def split: option.split)
  have rng: "range_of profile off ?m2 = range_of profile off m" for off
    using th by (intro range_of_settings) simp
  have "state_at cfg ClockRealTime (?gen ?m2) = next_state (e3_state cfg s m) (state_at cfg ClockRealTime ?m1) ?r"
    using gen_realtime_state [OF m2(1) ne] m2(2) rng by simp
  then show ?thesis using a again by (simp add: state_at_def)
qed

text \<open>C15: CLOCK_REALTIME is never reported better than the clock it follows. When the main clock's state
  is known (or the profile is T-BC or T-GM, where unknown counts as FREERUN), the new state of
  CLOCK_REALTIME is at least as bad as both the line's state and the main clock's state, and it is
  LOCKED only if the line says so, the main clock is LOCKED (or unset, for other profiles), and the
  offset is within the profile's threshold.\<close>
theorem realtime_worst_of:
  assumes "stat_at cfg ClockRealTime m \<noteq> None" and "s \<in> {FREERUN, HOLDOVER, LOCKED}"
    and "plain_state (e1_state cfg m)"
  shows "let s' = state_at cfg ClockRealTime (res_state (realtime_offset proc cfg profile src l s m))
    in severity s' \<ge> max (severity s) (severity (e1_state cfg m)) \<and>
       (GetProfileTypeByConfigName cfg m \<in> {TBC_profile, TGM_profile} \<longrightarrow> e1_state cfg m \<noteq> NoState) \<and>
       (s' = LOCKED \<longrightarrow> s = LOCKED \<and> e1_state cfg m \<in> {LOCKED, NoState} \<and>
          range_of profile (int_of_float (lm_offset l)) m)"
proof -
  let ?e3 = "e3_state cfg s m" and ?r = "range_of profile (int_of_float (lm_offset l)) m"
  have e3: "?e3 \<in> {FREERUN, HOLDOVER, LOCKED}" "severity ?e3 = max (severity s) (severity (e1_state cfg m))"
    using e3_plain [OF assms(2,3)] by auto
  have st: "state_at cfg ClockRealTime (res_state (realtime_offset proc cfg profile src l s m))
      = next_state ?e3 (state_at cfg ClockRealTime m) ?r"
    using assms(1) e3(1) by (intro realtime_state) auto
  have "next_state ?e3 p ?r = LOCKED \<Longrightarrow> ?e3 = LOCKED \<and> ?r" for p
    using e3(1) by (auto simp: next_state_def split: if_splits)
  moreover have "?e3 = LOCKED \<Longrightarrow> s = LOCKED \<and> e1_state cfg m \<in> {LOCKED, NoState}"
    using assms(2,3) by (auto simp: e3_state_def plain_state_def OverallState.simps split: if_splits)
  moreover have "GetProfileTypeByConfigName cfg m \<in> {TBC_profile, TGM_profile} \<Longrightarrow> e1_state cfg m \<noteq> NoState"
    by (auto simp: e1_state_def Let_def split: option.split if_splits)
  ultimately show ?thesis
    using next_state_severity [OF e3(1), of "state_at cfg ClockRealTime m" ?r] e3(2) unfolding st Let_def by auto
qed

text \<open>One sample counts twice: while CLOCK_REALTIME is LOCKED within range, and the master clock is
  a slave or ts2phc is the source, a line hands the same offset to \<open>GenPTPEvent\<close> twice, so two samples
  are added to the clock's window.\<close>
theorem realtime_sample_twice:
  assumes st: "stat_at cfg ClockRealTime m = Some st" and "lastSyncState st = LOCKED" and "e3_state cfg s m = LOCKED"
    and rng: "range_of profile (int_of_float (lm_offset l)) m" and "counted_twice cfg m"
  shows "\<exists>st'. stat_at cfg ClockRealTime (res_state (realtime_offset proc cfg profile src l s m)) = Some st' \<and>
    s_num st' = wrap64 (wrap64 (s_num st + 1) + 1)"
proof -
  let ?off = "int_of_float (lm_offset l)"
  let ?gen = "gen_realtime cfg profile l LOCKED"
  let ?add = "\<lambda>st. AddValue ?off (SetLastOffset ?off st)"
  have gen: "stat_at cfg ClockRealTime (?gen m') = Some (?add st')"
    if "stat_at cfg ClockRealTime m' = Some st'" "lastSyncState st' = LOCKED" "range_of profile ?off m'" for m' st'
  proof -
    obtain th m1 where th: "PtpThreshold profile False m' = (th, m1)" by fastforce
    then have "?gen m' = on_stat cfg ClockRealTime (AddValue ?off) (on_stat cfg ClockRealTime (SetLastOffset ?off) m1)"
      using that by (simp add: gen_realtime_def GenPTPEvent_def recovered_def Let_def range_of_def)
    moreover have "stat_at cfg ClockRealTime m1 = Some st'"
      using stat_at_threshold [of cfg ClockRealTime profile False m'] th that(1) by simp
    ultimately show ?thesis by (simp add: stat_at_on_stat)
  qed
  have "stat_at cfg ClockRealTime m \<noteq> None" using st by simp
  from realtime_offset_unfold [OF this, where c = cfg and i = ClockRealTime and proc = proc and profile = profile
      and src = src and l = l and s = s] obtain a
    where a: "stat_at cfg ClockRealTime (res_state (realtime_offset proc cfg profile src l s m))
      = stat_at cfg ClockRealTime (?gen (on_stat cfg ClockRealTime (StSetAlias a) (?gen m)))"
    unfolding assms(3) if_P [OF assms(5)] by blast
  have "stat_at cfg ClockRealTime (on_stat cfg ClockRealTime (StSetAlias a) (?gen m)) = Some (StSetAlias a (?add st))"
    using gen [OF st assms(2) rng] by (simp add: stat_at_on_stat)
  moreover have "lastSyncState (StSetAlias a (?add st)) = LOCKED"
    using assms(2) by (simp add: StSetAlias_def frame_simps SetLastOffset_def)
  moreover have "range_of profile ?off (on_stat cfg ClockRealTime (StSetAlias a) (?gen m))"
    using rng range_of_settings [of "on_stat cfg ClockRealTime (StSetAlias a) (?gen m)" m] by simp
  ultimately have "stat_at cfg ClockRealTime (?gen (on_stat cfg ClockRealTime (StSetAlias a) (?gen m)))
      = Some (?add (StSetAlias a (?add st)))"
    by (rule gen)
  then show ?thesis
    using a by (simp add: AddValue_fields StSetAlias_def SetLastOffset_def)
qed

definition slave_manager :: manager where
  "slave_manager = on_stat ''ptp4l.0.config'' ClockRealTime (SetLastSyncState LOCKED)
     (on_stat ''ptp4l.0.config'' MasterClockType (\<lambda>st. StSetAlias ''ens5fx'' (SetRole SLAVE st)) demo_manager)"

lemma slave_manager_clocks:
  "stat_at ''ptp4l.0.config'' ClockRealTime slave_manager = Some (clk ''phc2sys'' LOCKED)"
  "stat_at ''ptp4l.0.config'' MasterClockType slave_manager
    = Some (StSetAlias ''ens5fx'' (SetRole SLAVE (clk ''ptp4l'' LOCKED)))"
  by code_simp+

definition near_line :: line_metrics where
  "near_line = zero_metrics\<lparr>lm_iface := ClockRealTime, lm_offset := float_of_int 12\<rparr>"

theorem realtime_worst_of_witness:
  "severity (state_at ''ptp4l.0.config'' ClockRealTime
     (res_state (realtime_offset ''phc2sys'' ''ptp4l.0.config'' ''bc'' ''phc'' near_line FREERUN slave_manager))) \<ge> 3"
proof -
  have "e1_state ''ptp4l.0.config'' slave_manager = LOCKED" by code_simp
  then show ?thesis
    using realtime_worst_of [of "''ptp4l.0.config''" slave_manager FREERUN "''phc2sys''" "''bc''" "''phc''" near_line]
      slave_manager_clocks(1) by (simp add: Let_def severity_def)
qed

theorem realtime_sample_twice_witness:
  "\<exists>st'. stat_at ''ptp4l.0.config'' ClockRealTime (res_state (realtime_offset ''phc2sys'' ''ptp4l.0.config'' ''bc''
     ''phc'' near_line LOCKED slave_manager)) = Some st' \<and> s_num st' = 2"
proof -
  have "e3_state ''ptp4l.0.config'' LOCKED slave_manager = LOCKED" by code_simp
  moreover have "range_of ''bc'' (int_of_float (lm_offset near_line)) slave_manager" by code_simp
  moreover have "counted_twice ''ptp4l.0.config'' slave_manager" by code_simp
  moreover have "lastSyncState (clk ''phc2sys'' LOCKED) = LOCKED" "s_num (clk ''phc2sys'' LOCKED) = 0"
    "wrap64 (wrap64 (0 + 1) + 1) = 2" by code_simp+
  ultimately show ?thesis
    using realtime_sample_twice [OF slave_manager_clocks(1)] by metis
qed

section \<open>A process that goes down\<close>

lemma state_at_refresh:
  assumes "stat_at c i m \<noteq> None"
  shows "\<exists>m'. refresh_alias c i a m = Ok () m' \<and> stat_at c i m' \<noteq> None \<and>
    (\<forall>c' i'. state_at c' i' m' = state_at c' i' m \<and> ((c', i') \<noteq> (c, i) \<longrightarrow> stat_at c' i' m' = stat_at c' i' m))"
proof -
  obtain st where "stat_at c i m = Some st" using assms by blast
  then show ?thesis
    by (auto simp: refresh_alias_def need_def stat_at_on_stat state_at_def StSetAlias_def split: option.split)
qed

lemma alias_of_stat: "alias_of n m = (a, m') \<Longrightarrow> stat_at c i m' = stat_at c i m"
  by (auto simp: alias_of_def stat_at_def split: prod.splits)

lemma iface_down_ok:
  assumes st: "stat_at cfg i m \<noteq> None" and i: "i \<noteq> ClockRealTime" "i \<noteq> MasterClockType"
  shows "\<exists>m'. iface_down proc cfg i m = Ok () m' \<and> state_at cfg i m' = FREERUN \<and> stat_at cfg i m' \<noteq> None \<and>
    (\<forall>c' i'. (c', i') \<noteq> (cfg, i) \<longrightarrow> stat_at c' i' m' = stat_at c' i' m)"
proof -
  let ?m1 = "on_stat cfg i (\<lambda>s. SetLastSyncState FREERUN (SetLastOffset FreeRunOffsetValue s)) m"
  obtain a m2 where a: "alias_of i ?m1 = (a, m2)" by fastforce
  note m2 = alias_of_stat [OF a]
  have m2s: "stat_at cfg i m2 \<noteq> None" "state_at cfg i m2 = FREERUN"
    using st by (auto simp: m2 stat_at_on_stat state_at_def SetLastSyncState_def)
  obtain m3 where m3: "refresh_alias cfg i a m2 = Ok () m3" "stat_at cfg i m3 \<noteq> None"
    "\<forall>c' i'. state_at c' i' m3 = state_at c' i' m2 \<and> ((c', i') \<noteq> (cfg, i) \<longrightarrow> stat_at c' i' m3 = stat_at c' i' m2)"
    using state_at_refresh [OF m2s(1)] by blast
  have s3: "state_at cfg i m3 = FREERUN" using m3(3) m2s(2) by simp
  have o3: "(c', i') \<noteq> (cfg, i) \<Longrightarrow> stat_at c' i' m3 = stat_at c' i' m" for c' i'
    using m3(3) by (auto simp: m2 stat_at_on_stat)
  obtain st3 where st3: "stat_at cfg i m3 = Some st3" using m3(2) by blast
  have run: "\<exists>f. iface_down proc cfg i m = Ok () (on_registry f m3)"
    using i a m3(1) st3 by (auto simp: iface_down_def do_all_def need_def pure_def)
  show ?thesis
    using run s3 o3 m3(2) by (auto simp: state_at_def)
qed

lemma ifaces_down:
  assumes "\<forall>i\<in>fst ` set xs. stat_at cfg i m \<noteq> None"
  shows "\<exists>m'. do_all (map (\<lambda>(i, st). iface_down proc cfg i) xs) m = Ok () m' \<and>
    (\<forall>i. state_at cfg i m' =
      (if i \<in> fst ` set xs - {ClockRealTime, MasterClockType} then FREERUN else state_at cfg i m))"
  using assms
proof (induction xs arbitrary: m)
  case Nil
  then show ?case by (simp add: do_all_def)
next
  case (Cons x xs)
  obtain i st where x: "x = (i, st)" by (cases x)
  have here: "stat_at cfg i m \<noteq> None" using Cons.prems x by simp
  have "\<exists>m1. iface_down proc cfg i m = Ok () m1 \<and> stat_at cfg i m1 \<noteq> None \<and>
    state_at cfg i m1 = (if i \<in> {ClockRealTime, MasterClockType} then state_at cfg i m else FREERUN) \<and>
    (\<forall>i'. i' \<noteq> i \<longrightarrow> stat_at cfg i' m1 = stat_at cfg i' m)"
  proof (cases "i \<in> {ClockRealTime, MasterClockType}")
    case True
    then show ?thesis using here by (auto simp: iface_down_def)
  next
    case False
    then show ?thesis using iface_down_ok [OF here, of proc] by auto
  qed
  then obtain m1 where m1: "iface_down proc cfg i m = Ok () m1" "stat_at cfg i m1 \<noteq> None"
    "state_at cfg i m1 = (if i \<in> {ClockRealTime, MasterClockType} then state_at cfg i m else FREERUN)"
    "\<And>i'. i' \<noteq> i \<Longrightarrow> stat_at cfg i' m1 = stat_at cfg i' m"
    by blast
  have "stat_at cfg i' m1 \<noteq> None" if "i' \<in> fst ` set xs" for i'
    using m1(2) m1(4) [of i'] Cons.prems that by (cases "i' = i") auto
  then obtain m' where m': "do_all (map (\<lambda>(i, st). iface_down proc cfg i) xs) m1 = Ok () m'"
    "\<And>i. state_at cfg i m' = (if i \<in> fst ` set xs - {ClockRealTime, MasterClockType} then FREERUN else state_at cfg i m1)"
    using Cons.IH [of m1] by blast
  have step: "do_all (map (\<lambda>(i, st). iface_down proc cfg i) (x # xs)) m = Ok () m'"
    using m1(1) m'(1) by (simp add: x do_all_def)
  have "state_at cfg i' m' = (if i' \<in> fst ` set (x # xs) - {ClockRealTime, MasterClockType} then FREERUN else state_at cfg i' m)"
    for i'
  proof (cases "i' = i")
    case True
    then show ?thesis
      using m'(2) [of i'] m1(3) by (cases "i \<in> {ClockRealTime, MasterClockType}") (auto simp: x)
  next
    case False
    then have "state_at cfg i' m1 = state_at cfg i' m" using m1(4) [of i'] by (simp add: state_at_def)
    then show ?thesis using m'(2) [of i'] False by (simp add: x)
  qed
  then show ?case using step by blast
qed

text \<open>When ts2phc goes down, exactly the configuration's interface clocks become FREERUN: the master
  clock and CLOCK_REALTIME keep their states, and the handler returns without a panic.\<close>
theorem ts2phc_down:
  "\<exists>m'. processDownEvent profile ts2phcProcessName cfg ptype m = Ok () m' \<and>
    (\<forall>i. state_at cfg i m' =
      (if stat_at cfg i m \<noteq> None \<and> i \<noteq> ClockRealTime \<and> i \<noteq> MasterClockType then FREERUN else state_at cfg i m))"
proof -
  have dom: "i \<in> fst ` set (table_of cfg m) \<longleftrightarrow> stat_at cfg i m \<noteq> None" for i
  proof (cases "map_of (Stats m) cfg")
    case None
    then show ?thesis by (simp add: table_of_def stat_at_def mget_or_def)
  next
    case (Some ps)
    then show ?thesis by (simp add: table_of_def stat_at_def mget_or_def map_of_eq_None_iff flip: not_None_eq)
  qed
  have "\<forall>i\<in>fst ` set (table_of cfg m). stat_at cfg i m \<noteq> None" using dom by blast
  from ifaces_down [OF this, of ts2phcProcessName] obtain m' where
    m': "do_all (map (\<lambda>(i, st). iface_down ts2phcProcessName cfg i) (table_of cfg m)) m = Ok () m'"
    "\<And>i. state_at cfg i m' =
      (if i \<in> fst ` set (table_of cfg m) - {ClockRealTime, MasterClockType} then FREERUN else state_at cfg i m)"
    by blast
  have "i \<in> fst ` set (table_of cfg m) - {ClockRealTime, MasterClockType} \<longleftrightarrow>
      stat_at cfg i m \<noteq> None \<and> i \<noteq> ClockRealTime \<and> i \<noteq> MasterClockType" for i
    unfolding Diff_iff dom by blast
  then show ?thesis
    using m' unfolding processDownEvent_def by auto
qed

end
