(* ===== verification/PortEvents.thy ===== *)
theory PortEvents
  imports Offsets
begin

text \<open>
  Port lines of ptp4l and the end of its process: which clocks change state, and how.
\<close>

section \<open>The end of the process that drives the master clock\<close>

lemma GenPTPEvent_other:
  assumes "(c', i') \<noteq> (c, i)"
  shows "stat_at c' i' (res_state (GenPTPEvent profile (c, i) src off s t m)) = stat_at c' i' m"
proof (cases "s = NoState \<or> stat_at c i m = None")
  case True
  then show ?thesis by (auto simp: GenPTPEvent_def)
next
  case False
  then obtain st where st: "stat_at c i m = Some st" and s: "s \<noteq> NoState" by auto
  show ?thesis
    using GenPTPEvent_moves [OF st s, where profile = profile and off = off and src = src and t = t] assms
    by (auto simp: clock_now_def)
qed

lemma tbc_down_ok:
  "\<exists>m'. tbc_down profile proc cfg ptype m = Ok () m' \<and> settings m' = settings m \<and>
    (\<forall>i. i \<noteq> TBCMainClockName \<longrightarrow> stat_at cfg i m' = stat_at cfg i m)"
proof -
  have "\<exists>m'. GenPTPEvent profile (cfg, TBCMainClockName) src off FREERUN PtpStateChange m = Ok () m' \<and>
      settings m' = settings m \<and> (\<forall>i. i \<noteq> TBCMainClockName \<longrightarrow> stat_at cfg i m' = stat_at cfg i m)" for src off
  proof -
    obtain m' where m': "GenPTPEvent profile (cfg, TBCMainClockName) src off FREERUN PtpStateChange m = Ok () m'"
      using GenPTPEvent_Ok by blast
    then show ?thesis
      using GenPTPEvent_other [of cfg _ cfg TBCMainClockName profile src off FREERUN PtpStateChange m]
        settings_GenPTPEvent [of profile cfg TBCMainClockName src off FREERUN PtpStateChange m] by simp
  qed
  then show ?thesis by (simp add: tbc_down_def split: option.split)
qed

lemma master_down_freerun:
  assumes "stat_at cfg MasterClockType m = Some st" and "aliasName st \<noteq> ''''" and "masterOffsetSource m = proc"
  shows "\<exists>m'. master_down profile proc cfg m = Ok () m' \<and> settings m' = settings m \<and>
    state_at cfg MasterClockType m' = FREERUN \<and> (\<forall>i. i \<noteq> MasterClockType \<longrightarrow> stat_at cfg i m' = stat_at cfg i m)"
proof -
  let ?g = "GenPTPEvent profile (cfg, MasterClockType) (master_resource (aliasName st)) FreeRunOffsetValue FREERUN PtpStateChange m"
  have "?g = Ok () (res_state ?g)" using GenPTPEvent_Ok [of profile] by (metis res_state.simps(1))
  moreover have "state_at cfg MasterClockType (res_state ?g) = FREERUN"
    using state_at_GenPTPEvent(1) [of cfg MasterClockType m FREERUN profile] assms(1) by (simp add: next_state_def)
  ultimately show ?thesis
    using assms GenPTPEvent_other [of cfg _ cfg MasterClockType] by (auto simp: master_down_def need_def)
qed



section \<open>Port lines\<close>

text \<open>The interface a port id names is at the place the code updates.\<close>

definition numbered :: "string \<Rightarrow> int \<Rightarrow> manager \<Rightarrow> bool" where
  "numbered cfg i m \<longleftrightarrow> 1 \<le> i \<and> nat (i - 1) < length (Interfaces (config_of cfg m)) \<and>
     Interfaces (config_of cfg m) ! nat (i - 1) \<noteq> None"

text \<open>
  No clock's state changes; a clock that was there keeps its alias and process. The last step reads
  the profile type and the source besides.
\<close>

definition same_face :: "string \<Rightarrow> manager \<Rightarrow> manager \<Rightarrow> bool" where
  "same_face cfg m m' \<longleftrightarrow>
    (\<forall>c i. state_at c i m' = state_at c i m) \<and>
    (\<forall>c i st. stat_at c i m = Some st \<longrightarrow>
       (\<exists>st'. stat_at c i m' = Some st' \<and> aliasName st' = aliasName st \<and> processName st' = processName st)) \<and>
    ProfileType (config_of cfg m') = ProfileType (config_of cfg m) \<and> masterOffsetSource m' = masterOffsetSource m"

lemma same_face_refl [simp]: "same_face cfg m m"
  by (simp add: same_face_def)

lemma same_face_trans: "same_face cfg m m' \<Longrightarrow> same_face cfg m' m'' \<Longrightarrow> same_face cfg m m''"
  unfolding same_face_def by metis

lemma same_face_stats:
  assumes "\<And>c i. stat_at c i m' = stat_at c i m" and "ProfileType (config_of cfg m') = ProfileType (config_of cfg m)"
    and "masterOffsetSource m' = masterOffsetSource m"
  shows "same_face cfg m m'"
  using assms by (simp add: same_face_def state_at_def)

lemma same_face_role: "same_face cfg m (on_stat c k (SetRole r) m)"
  by (auto simp: same_face_def stat_at_on_stat state_at_def SetRole_def config_of_def split: option.split)
    (simp_all add: on_stat_def)

lemma same_face_source: "same_face cfg m (check_source c k p m)"
proof -
  let ?m = "check_source c k p m"
  have cases: "stat_at a b ?m = stat_at a b m \<or>
      stat_at a b m = None \<and> stat_at a b ?m = Some (SetProcessName p (NewStats c))" for a b
    using clocks_check_source [of c k p m] fun_cong [of "clocks ?m" _ "(a, b)"]
    by (cases "(a, b) = (c, k)") (auto simp: clocks_def fun_eq_iff)
  have "state_at a b ?m = state_at a b m" for a b
    using cases [of a b] by (auto simp: state_at_def)
  moreover have "stat_at a b m = Some st \<Longrightarrow> stat_at a b ?m = Some st" for a b st
    using cases [of a b] by auto
  moreover have "Ptp4lConfigInterfaces ?m = Ptp4lConfigInterfaces m" "masterOffsetSource ?m = masterOffsetSource m"
    by (simp_all add: check_source_def on_table_def)
  ultimately show ?thesis by (simp add: same_face_def config_of_def)
qed

lemma same_face_upd_role:
  "stat_at cfg MasterClockType m \<noteq> None \<Longrightarrow>
    \<exists>m'. upd cfg MasterClockType (SetRole r) m = Ok () m' \<and> same_face cfg m m'"
  by (auto simp: upd_def need_def same_face_role)

lemma set_port_role_ok:
  assumes "numbered cfg i m" and "no_nil m"
  shows "\<exists>m'. set_port_role cfg i r m = Ok () m' \<and> same_face cfg m m' \<and> no_nil m'"
proof -
  let ?c = "config_of cfg m"
  obtain p where p: "Interfaces ?c ! nat (i - 1) = Some p" using assms(1) by (auto simp: numbered_def)
  let ?c' = "?c\<lparr>Interfaces := (Interfaces ?c)[nat (i - 1) := Some (UpdateRole r p)]\<rparr>"
  have "set_port_role cfg i r m = Ok () (AddPTPConfig cfg ?c' m)"
    using assms(1) p by (simp add: set_port_role_def numbered_def Let_def)
  moreover have "same_face cfg m (AddPTPConfig cfg ?c' m)"
    by (rule same_face_stats) (simp_all add: AddPTPConfig_def config_of_def mget_or_def gomap_simps)
  moreover have "None \<notin> set (Interfaces ?c)" by (rule config_no_nil [OF assms(2)])
  then have "None \<notin> set (Interfaces ?c')"
    using set_update_subset_insert [of "Interfaces ?c" "nat (i - 1)" "Some (UpdateRole r p)"] by auto
  then have "no_nil (AddPTPConfig cfg ?c' m)"
    using assms(2) set_AList_update [of cfg ?c' "Ptp4lConfigInterfaces m"]
    by (fastforce simp: no_nil_def AddPTPConfig_def)
  ultimately show ?thesis by blast
qed

lemma source_keeps_configs: "Ptp4lConfigInterfaces (check_source c k p m) = Ptp4lConfigInterfaces m"
  by (simp add: check_source_def on_table_def)

lemma port_claim:
  assumes "stat_at cfg MasterClockType m \<noteq> None"
  shows "\<exists>m'. upd cfg MasterClockType (SetRole r) (check_source cfg MasterClockType p (check_source cfg ClockRealTime p' m))
      = Ok () m' \<and> same_face cfg m m' \<and> Ptp4lConfigInterfaces m' = Ptp4lConfigInterfaces m"
proof -
  let ?m = "check_source cfg MasterClockType p (check_source cfg ClockRealTime p' m)"
  have face: "same_face cfg m ?m" using same_face_source same_face_trans by blast
  then have "stat_at cfg MasterClockType ?m \<noteq> None" using assms by (fastforce simp: same_face_def)
  then have "upd cfg MasterClockType (SetRole r) ?m = Ok () (on_stat cfg MasterClockType (SetRole r) ?m)"
    by (auto simp: upd_def need_def)
  moreover have "Ptp4lConfigInterfaces (on_stat cfg MasterClockType (SetRole r) ?m) = Ptp4lConfigInterfaces m"
    by (simp add: on_stat_def source_keeps_configs)
  ultimately show ?thesis using same_face_trans [OF face same_face_role] by blast
qed

lemma role_change_ok:
  assumes "numbered cfg i m" and "no_nil m" and "stat_at cfg MasterClockType m \<noteq> None"
  shows "\<exists>m'. role_change proc cfg i port r m = Ok () m' \<and> same_face cfg m m'"
proof -
  have "Ptp4lConfigInterfaces (on_stat cfg MasterClockType (SetRole r) m) = Ptp4lConfigInterfaces m"
    by (simp add: on_stat_def)
  moreover have "upd cfg MasterClockType (SetRole r) m = Ok () (on_stat cfg MasterClockType (SetRole r) m)"
    using assms(3) by (auto simp: upd_def need_def)
  ultimately obtain m1 where m1: "(if Role port = FAULTY \<and> r = SLAVE then upd cfg MasterClockType (SetRole r) m else Ok () m) = Ok () m1"
    "same_face cfg m m1" "Ptp4lConfigInterfaces m1 = Ptp4lConfigInterfaces m"
    using same_face_role [of cfg m cfg MasterClockType r] same_face_refl [of cfg m]
    by (cases "Role port = FAULTY \<and> r = SLAVE") simp_all
  then have "numbered cfg i m1" "no_nil m1" using assms(1,2) by (simp_all add: numbered_def no_nil_def config_of_def)
  then obtain m2 where m2: "set_port_role cfg i r m1 = Ok () m2" "same_face cfg m1 m2" "no_nil m2"
    using set_port_role_ok by blast
  obtain f where f: "saveToStore m2 = Ok () (m2\<lparr>m_store := f\<rparr>)" using save_ok [OF m2(3)] by blast
  let ?m3 = "on_registry (UpdateInterfaceRoleMetrics proc (pi_Name port) r) (m2\<lparr>m_store := f\<rparr>)"
  have "same_face cfg m2 ?m3"
    by (rule same_face_stats) (simp_all add: on_registry_def config_of_def stat_at_def)
  moreover have "role_change proc cfg i port r m = Ok () ?m3"
    unfolding role_change_def do_all_def res_fold.simps m1(1) res_bind.simps m2(1) f pure_def by simp
  ultimately show ?thesis using m1(2) m2(2) same_face_trans by blast
qed

text \<open>What follows the new state in \<open>enter_holdover\<close> touches no clock.\<close>

lemma holdover_rest_keeps:
  "stat_at c i (res_state (do_all
     [PublishEvent s off src PtpStateChange, pure (on_registry f),
      (\<lambda>m. res_bind (GetPtpProcessOpts profile cfg m) (\<lambda>opts m. Ok () (startHoldoverTimer opts cfg profile a m)))] m))
    = stat_at c i m"
proof -
  let ?fresh = "CHR ''x'' # c"
  have "others_kept ?fresh (clocks m') (clocks (res_state (res_bind (GetPtpProcessOpts profile cfg m')
      (\<lambda>opts m. Ok () (startHoldoverTimer opts cfg profile a m)))))" for m'
    by (rule others.line.bind [OF others.line.process_opts_frame]) (simp add: others.line.timer_frame)
  then have "others_kept ?fresh (clocks m) (clocks (res_state (do_all
     [PublishEvent s off src PtpStateChange, pure (on_registry f),
      (\<lambda>m. res_bind (GetPtpProcessOpts profile cfg m) (\<lambda>opts m. Ok () (startHoldoverTimer opts cfg profile a m)))] m)))"
    by (intro others.line.do_all_Cons others.line.do_all_Nil others.line.PublishEvent_line others.line.pure_registry)
  then show ?thesis by (simp add: others_kept_def clocks_def)
qed

lemma enter_holdover_state:
  assumes st: "stat_at cfg MasterClockType m = Some st"
  shows "state_at c i (res_state (enter_holdover cfg profile ev m)) =
    (if (c, i) = (cfg, MasterClockType) \<and> ev = HOLDOVER \<and> processName st = masterOffsetSource m
     then HOLDOVER else state_at c i m)"
proof (cases "ev \<noteq> HOLDOVER \<or> lastSyncState st = HOLDOVER")
  case True
  then show ?thesis using st by (auto simp: enter_holdover_def need_def state_at_def)
next
  case False
  let ?m1 = "on_stat cfg MasterClockType (SetRole FAULTY) m"
  let ?m2 = "on_stat cfg MasterClockType (SetLastSyncState HOLDOVER) ?m1"
  have u1: "upd cfg MasterClockType (SetRole FAULTY) m = Ok () ?m1" using st by (simp add: upd_def need_def)
  have u2: "upd cfg MasterClockType (SetLastSyncState HOLDOVER) ?m1 = Ok () ?m2"
    using st by (simp add: upd_def need_def stat_at_on_stat)
  have src: "masterOffsetSource ?m1 = masterOffsetSource m" by (simp add: on_stat_def)
  have role: "state_at c i ?m1 = state_at c i m"
    by (auto simp: state_at_def stat_at_on_stat SetRole_def split: option.split)
  have held: "state_at c i ?m2 = (if (c, i) = (cfg, MasterClockType) then HOLDOVER else state_at c i m)"
    using st role by (auto simp: state_at_def stat_at_on_stat SetLastSyncState_def SetRole_def)
  show ?thesis
  proof (cases "processName st = masterOffsetSource m")
    case True
    then have "state_at c i (res_state (enter_holdover cfg profile ev m)) = state_at c i ?m2"
      using False not_sym [of "lastSyncState st" HOLDOVER] st u1 u2 src holdover_rest_keeps [of c i HOLDOVER "lastOffset st" "master_resource (aliasName st)"
          "UpdateSyncStateMetrics (processName st) (aliasName st) HOLDOVER" profile cfg "aliasName st" ?m2]
      by (simp add: enter_holdover_def need_def do_all_def state_at_def)
    then show ?thesis using held True False by simp
  next
    case neq: False
    then show ?thesis using False st u1 src role by (simp add: enter_holdover_def need_def state_at_def)
  qed
qed

lemma tbc_fault_state:
  assumes "stat_at cfg MasterClockType m = Some st"
  shows "state_at c i (res_state (tbc_fault proc cfg l r m)) =
    (if (c, i) = (cfg, MasterClockType) \<and> r = FAULTY \<and> l = SLAVE \<and> aliasName st \<noteq> ''''
     then FREERUN else state_at c i m)"
proof (cases "r = FAULTY \<and> l = SLAVE \<and> aliasName st \<noteq> ''''")
  case True
  then have "\<exists>f. tbc_fault proc cfg l r m = Ok () (on_registry f (on_stat cfg MasterClockType (SetLastSyncState FREERUN) m))"
    using assms by (auto simp: tbc_fault_def do_all_def upd_def need_def pure_def)
  then show ?thesis
    using True assms by (auto simp: state_at_def stat_at_on_stat SetLastSyncState_def)
next
  case False
  then show ?thesis using assms by (auto simp: tbc_fault_def)
qed

text \<open>The state a port line gives the master clock.\<close>

definition port_line_after :: "bool \<Rightarrow> port_role \<Rightarrow> port_role \<Rightarrow> sync_state \<Rightarrow> string \<Rightarrow> stats \<Rightarrow> sync_state" where
  "port_line_after tbc old new ev src st =
    (if tbc then (if new = FAULTY \<and> old = SLAVE \<and> aliasName st \<noteq> '''' then FREERUN else lastSyncState st)
     else if old = SLAVE \<and> ev = HOLDOVER \<and> processName st = src then HOLDOVER else lastSyncState st)"

text \<open>C19: a port line of ptp4l changes the state of the master clock only, and only when the slave port
  is lost: the clock enters HOLDOVER if its own process is the master source, or, for a T-BC profile,
  becomes FREERUN when the port is faulty. Recovery of the port changes no state: the clock stays in
  HOLDOVER until an offset line or the timer ends it. (Interfaces numbered as in the configuration, none
  of them nil.)\<close>
theorem port_line_state:
  assumes ev: "extractPTP4lEventState output = (pid, role, ev)" and "pid \<noteq> 0" and "role \<noteq> UNKNOWN"
    and port: "ByPortID pid (config_of cfg m) = Some port" and num: "numbered cfg pid m" and nn: "no_nil m"
    and st: "stat_at cfg MasterClockType m = Some st"
  shows "state_at c i (res_state (port_line proc cfg profile output m)) =
    (if (c, i) = (cfg, MasterClockType)
     then port_line_after (ProfileType (config_of cfg m) = TBC_profile) (Role port) role ev (masterOffsetSource m) st
     else state_at c i m)"
proof -
  have ex: "stat_at cfg MasterClockType m \<noteq> None" using st by simp
  define s1 where "s1 = (\<lambda>m. if role = SLAVE \<or> masterOffsetSource m = ts2phcProcessName then
      upd cfg MasterClockType (SetRole role) (check_source cfg MasterClockType (masterOffsetSource m)
        (check_source cfg ClockRealTime phc2sysProcessName m)) else Ok () m)"
  define s2 where "s2 = (\<lambda>m. if Role port \<noteq> role then role_change proc cfg pid port role m else Ok () m)"
  define s3 where "s3 = (\<lambda>m. if ProfileType (config_of cfg m) = TBC_profile then tbc_fault proc cfg (Role port) role m
      else if Role port \<noteq> SLAVE \<or> stat_at cfg MasterClockType m = None then Ok () m
      else enter_holdover cfg profile ev m)"
  obtain m1 where m1: "s1 m = Ok () m1" "same_face cfg m m1" "Ptp4lConfigInterfaces m1 = Ptp4lConfigInterfaces m"
    using port_claim [OF ex, of role "masterOffsetSource m" phc2sysProcessName] same_face_refl [of cfg m]
    unfolding s1_def by (cases "role = SLAVE \<or> masterOffsetSource m = ts2phcProcessName") (simp_all, blast+)
  have "numbered cfg pid m1" "no_nil m1"
    using num nn m1(3) by (simp_all add: numbered_def no_nil_def config_of_def)
  moreover have "stat_at cfg MasterClockType m1 \<noteq> None"
    using m1(2) st unfolding same_face_def by blast
  ultimately have "\<exists>m2. role_change proc cfg pid port role m1 = Ok () m2 \<and> same_face cfg m1 m2"
    by (rule role_change_ok)
  then obtain m2 where m2: "s2 m1 = Ok () m2" "same_face cfg m1 m2"
    using same_face_refl [of cfg m1] unfolding s2_def by (cases "Role port = role") (simp_all, blast)
  have face: "same_face cfg m m2" using m1(2) m2(2) same_face_trans by blast
  then obtain st2 where st2: "stat_at cfg MasterClockType m2 = Some st2" "aliasName st2 = aliasName st"
    "processName st2 = processName st"
    using st unfolding same_face_def by blast
  have same: "state_at c i m2 = state_at c i m" "ProfileType (config_of cfg m2) = ProfileType (config_of cfg m)"
    "masterOffsetSource m2 = masterOffsetSource m" for c i
    using face by (simp_all add: same_face_def)
  have run: "port_line proc cfg profile output m = do_all [s1, s2, s3] m"
    using assms(1-4) by (simp add: port_line_def s1_def s2_def s3_def)
  have last: "res_state (do_all [s1, s2, s3] m) = res_state (s3 m2)"
    by (cases "s3 m2") (simp_all add: do_all_def m1(1) m2(1))
  have whole: "res_state (port_line proc cfg profile output m) = res_state (s3 m2)" using run last by simp
  have old: "state_at cfg MasterClockType m2 = lastSyncState st" using st same(1) by (simp add: state_at_def)
  show ?thesis
  proof (cases "ProfileType (config_of cfg m) = TBC_profile")
    case True
    then show ?thesis
      using tbc_fault_state [OF st2(1), of c i proc "Role port" role] old st2(2) same
      unfolding whole by (auto simp: s3_def port_line_after_def)
  next
    case False
    then show ?thesis
      using enter_holdover_state [OF st2(1), of c i profile ev] old st2(1,3) same
      unfolding whole by (auto simp: s3_def port_line_after_def)
  qed
qed

definition fault_line :: string where
  "fault_line = ''ptp4l 74737.942 ptp4l.0.config port 1  SLAVE to FAULTY on FAULT_DETECTED (FT_UNSPECIFIED)''"

definition port_manager :: manager where
  "port_manager = slave_manager\<lparr>masterOffsetSource := ptp4lProcessName,
     Ptp4lConfigInterfaces := Ptp4lConfigInterfaces bc_manager\<rparr>"

theorem port_line_state_witness:
  "state_at ''ptp4l.0.config'' MasterClockType
     (res_state (port_line ptp4lProcessName ''ptp4l.0.config'' ''bc'' fault_line port_manager)) = HOLDOVER"
proof -
  have ev: "extractPTP4lEventState fault_line = (1, FAULTY, HOLDOVER)" by code_simp
  have port: "ByPortID 1 (config_of ''ptp4l.0.config'' port_manager)
      = Some \<lparr>pi_Name = ''ens5f0'', PortID = 1, PortName = '''', Role = SLAVE\<rparr>" by code_simp
  have rest: "numbered ''ptp4l.0.config'' 1 port_manager" "no_nil port_manager"
    "ProfileType (config_of ''ptp4l.0.config'' port_manager) \<noteq> TBC_profile"
    "masterOffsetSource port_manager = ptp4lProcessName"
    by (simp_all add: numbered_def no_nil_def port_manager_def bc_manager_def config_of_def mget_or_def)
  have st: "stat_at ''ptp4l.0.config'' MasterClockType port_manager
      = Some (StSetAlias ''ens5fx'' (SetRole SLAVE (clk ''ptp4l'' LOCKED)))"
    using slave_manager_clocks(2) by (simp add: port_manager_def stat_at_def)
  have "processName (StSetAlias ''ens5fx'' (SetRole SLAVE (clk ''ptp4l'' LOCKED))) = ptp4lProcessName" by code_simp
  then show ?thesis
    using port_line_state [OF ev _ _ port rest(1,2) st, of "''ptp4l.0.config''" MasterClockType ptp4lProcessName "''bc''"]
      rest(3,4) by (simp add: port_line_after_def)
qed

end
