(* ===== verification/StatusQuery.thy ===== *)
theory StatusQuery
  imports PluginEntry PortEvents
begin

text \<open>
  What a request for the current state answers, and what the start of the plug-in establishes: the
  answer exists, the overall state asked for is the overall state last published, the configurations
  loaded at the start number their interfaces the way the port lines of ptp4l do, and a connection
  is a run of the system.
\<close>

section \<open>The overall state\<close>

text \<open>The states the request collects of one configuration, and of all.\<close>

definition asked_state :: "bool \<Rightarrow> string \<Rightarrow> string \<times> stats \<Rightarrow> sync_state list" where
  "asked_state ch main = (\<lambda>(i, s).
    if i = main \<or> (i = ClockRealTime \<and> \<not> (processName s \<noteq> chronydProcessName \<and> ch)) then [lastSyncState s] else [])"

definition asked_states :: "bool \<Rightarrow> (string \<times> PTPStats) list \<Rightarrow> sync_state list" where
  "asked_states ch S = concat (map (\<lambda>(c, ps). concat (map (asked_state ch (GetMainClockName ps)) ps)) S)"

lemma clock_data_sync:
  "clock_data SyncStateChange ch m main c acc = Some (fst acc, overall.collect (asked_state ch main c) (snd acc))"
  by (cases c; cases acc)
    (simp add: clock_data_def main_clock_data_def realtime_data_def other_data_def asked_state_def overall.collect_def)

lemma clocks_data_sync:
  "clocks_data SyncStateChange ch m main cs acc =
    Some (fst acc, overall.collect (concat (map (asked_state ch main) cs)) (snd acc))"
proof (induction cs arbitrary: acc)
  case Nil
  then show ?case by (simp add: overall.collect_def)
next
  case (Cons c cs)
  then show ?case by (simp add: clock_data_sync collect_append)
qed

lemma configs_data_sync:
  "configs_data SyncStateChange ch m S acc = Some (fst acc, overall.collect (asked_states ch S) (snd acc))"
proof (induction S arbitrary: acc)
  case Nil
  then show ?case by (simp add: asked_states_def overall.collect_def)
next
  case (Cons kps S)
  obtain k ps where "kps = (k, ps)" by (rule prod.exhaust)
  then show ?case using Cons.IH by (simp add: clocks_data_sync asked_states_def collect_append)
qed

text \<open>
  Clocks whose states the two computations see alike: every state is one of a node, and beside a T-GM
  clock there is no state of the generic master clock.
\<close>

definition alike :: "manager \<Rightarrow> bool" where
  "alike m \<longleftrightarrow> (\<forall>(c, ps) \<in> set (Stats m). \<forall>(i, s) \<in> set ps. is_node_state (lastSyncState s) \<and>
     (i = MasterClockType \<and> GetMainClockName ps = GMMainClockName \<longrightarrow> lastSyncState s = NoState))"

lemma main_clock_names: "GetMainClockName ps \<in> {GMMainClockName, TBCMainClockName, MasterClockType}"
  by (simp add: GetMainClockName_def)

lemma node_state_of_asked:
  assumes "is_node_state (lastSyncState s)"
    and "i = MasterClockType \<and> GetMainClockName ps = GMMainClockName \<longrightarrow> lastSyncState s = NoState"
  shows "(case node_state_of ch (GetMainClockName ps) i s of None \<Rightarrow> [] | Some x \<Rightarrow> [x]) =
    filter (\<lambda>x. x \<noteq> NoState) (asked_state ch (GetMainClockName ps) (i, s))"
proof -
  obtain main where main: "GetMainClockName ps = main" by blast
  have st: "lastSyncState s \<in> {FREERUN, HOLDOVER, LOCKED} \<or> lastSyncState s = NoState"
    using assms(1) by (auto simp: is_node_state_def)
  have crt: "main \<noteq> ClockRealTime" using main_clock_names [of ps] by (auto simp: main)
  consider (own) "i = main" | (real) "i = ClockRealTime" "i \<noteq> main"
    | (master) "i = MasterClockType" "i \<noteq> main" "i \<noteq> ClockRealTime" "main = GMMainClockName"
    | (no) "i \<noteq> main" "i \<noteq> ClockRealTime" "i \<noteq> MasterClockType \<or> main = TBCMainClockName"
    using main_clock_names [of ps] by (auto simp: main)
  then show ?thesis
  proof cases
    case own
    then show ?thesis using st crt by (auto simp: main node_state_of_def asked_state_def Let_def)
  next
    case real
    then show ?thesis using st by (auto simp: main node_state_of_def asked_state_def Let_def)
  next
    case master
    then have "lastSyncState s = NoState" using assms(2) main by simp
    then show ?thesis using master by (simp add: main node_state_of_def asked_state_def Let_def)
  next
    case no
    then show ?thesis by (simp add: main node_state_of_def asked_state_def)
  qed
qed

lemma filter_concat_map: "filter P (concat (map f xs)) = concat (map (\<lambda>x. filter P (f x)) xs)"
  by (induction xs) simp_all

lemma node_states_asked:
  assumes "alike m"
  shows "node_states m = filter (\<lambda>x. x \<noteq> NoState) (asked_states (ChronydActiveAsE3 m) (Stats m))"
proof -
  have c: "config_states ch ps = filter (\<lambda>x. x \<noteq> NoState) (concat (map (asked_state ch (GetMainClockName ps)) ps))"
    if "(k, ps) \<in> set (Stats m)" for k ps ch
  proof -
    have "\<forall>(i, s) \<in> set ps. (case node_state_of ch (GetMainClockName ps) i s of None \<Rightarrow> [] | Some x \<Rightarrow> [x]) =
        filter (\<lambda>x. x \<noteq> NoState) (asked_state ch (GetMainClockName ps) (i, s))"
      using assms that node_state_of_asked [of _ _ ps ch] by (fastforce simp: alike_def)
    then show ?thesis unfolding config_states_def filter_concat_map
      by (intro arg_cong [where f = concat] map_cong refl) auto
  qed
  show ?thesis unfolding node_states_def asked_states_def filter_concat_map
    by (intro arg_cong [where f = concat] map_cong refl) (use c in \<open>auto simp: filter_concat_map\<close>)
qed

lemma collect_no_state: "overall.collect (filter (\<lambda>x. x \<noteq> NoState) xs) a = overall.collect xs a"
  by (induction xs arbitrary: a) (simp_all add: overall.collect_def OverallState.simps)

lemma asked_overall:
  assumes "alike m" and "state \<in> set (node_states m)"
  shows "overall.collect (asked_states (ChronydActiveAsE3 m) (Stats m)) NoState = GetNodeSyncState state m"
proof -
  let ?w = "overall.collect (node_states m) NoState"
  have w: "overall.collect (asked_states (ChronydActiveAsE3 m) (Stats m)) NoState = ?w"
    by (simp add: node_states_asked [OF assms(1)] collect_no_state)
  have st: "is_node_state state" "state \<noteq> NoState" using node_states_ok [OF assms(2)] by auto
  have all: "\<forall>x \<in> set (node_states m). is_node_state x" using node_states_ok by blast
  have ok: "is_node_state ?w" using all by (rule overall.collect_ok) (simp add: is_node_state_def)
  have "severity state \<le> severity ?w"
    using collect_severity [OF all, of NoState] assms(2) by (simp add: is_node_state_def)
  then have "severity (OverallState state ?w) = severity ?w" using OverallState_severity [OF st(1) ok] by simp
  then have "OverallState state ?w = ?w"
    using severity_inject [OF OverallState_node_state [OF st(1) ok] ok] by simp
  then show ?thesis using w assms(2) st(2) by (auto simp: GetNodeSyncState_collect)
qed

section \<open>An answer for every request\<close>

text \<open>The publisher of the kind of event is registered, and the cloud events can be built.\<close>

definition can_answer :: "event_type \<Rightarrow> manager \<Rightarrow> bool" where
  "can_answer t m \<longleftrightarrow> (\<exists>pub sc. map_of (publisherTypes m) t = Some pub \<and> PubID pub \<noteq> '''' \<and>
     scConfig m = Some sc \<and> map_of (sc_publishers sc) (PubID pub) \<noteq> None \<and> sc_converts sc)"

definition collected :: "event_data option \<Rightarrow> bool" where
  "collected data \<longleftrightarrow> data \<noteq> Some []"

lemma event_type_name_ne: "event_type_name t \<noteq> ''''"
  by (cases t) (simp_all add: event_type_name_def)

lemma reply_with_ok:
  assumes "can_answer t m"
  shows "\<exists>e. reply_with data t r ret m = Ok \<lparr>sr_Data = Some e, sr_ReturnAddress = ret, sr_error = False\<rparr> m \<and>
    ev_Source e = r \<and> ev_Data e = data"
  using assms
  by (auto simp: can_answer_def reply_with_def GetPTPCloudEvents_def CreateEvent_def event_type_name_ne
      GetPublishingCloudEvent_def)

lemma GetPTPEventsData_ne:
  "GetPTPEventsData s off src t m \<noteq> []" if "s \<noteq> NoState \<or> (t \<noteq> SyncStateChange \<and> t \<noteq> SynceStateChange)"
  using that by (cases t) (auto simp: GetPTPEventsData_def Let_def)

lemma collected_process: "collected data \<Longrightarrow> d \<noteq> [] \<Longrightarrow> collected (processDataFn data d)"
  by (cases data) (simp_all add: collected_def processDataFn_def)

lemma synce_data_collected:
  assumes "collected data"
  shows "collected (synce_state_data m ss data)" and "collected (synce_quality_data m ss data)"
  unfolding synce_state_data_def synce_quality_data_def
  by (rule fold_invariant [where Q = "\<lambda>_. True"];
      auto simp: assms Let_def collected_process GetPTPEventsData_ne split: prod.split)+

lemma clock_data_collected:
  assumes "t \<noteq> GnssStateChange" and "collected (fst acc)"
  shows "\<exists>acc'. clock_data t ch m main c acc = Some acc' \<and> collected (fst acc')"
proof -
  obtain i s where c: "c = (i, s)" by (rule prod.exhaust)
  obtain data ov where acc: "acc = (data, ov)" by (rule prod.exhaust)
  show ?thesis using assms
    by (cases t) (auto simp: c acc clock_data_def main_clock_data_def realtime_data_def other_data_def Let_def
        collected_process GetPTPEventsData_ne synce_data_collected split: option.split)
qed

lemma clocks_data_collected:
  assumes "t \<noteq> GnssStateChange" and "collected (fst acc)"
  shows "\<exists>acc'. clocks_data t ch m main cs acc = Some acc' \<and> collected (fst acc')"
  using assms(2)
proof (induction cs arbitrary: acc)
  case Nil
  then show ?case by simp
next
  case (Cons c cs)
  obtain acc1 where "clock_data t ch m main c acc = Some acc1" "collected (fst acc1)"
    using clock_data_collected [OF assms(1) Cons.prems] by blast
  then show ?case using Cons.IH by simp
qed

lemma configs_data_collected:
  assumes "t \<noteq> GnssStateChange" and "collected (fst acc)"
  shows "\<exists>acc'. configs_data t ch m S acc = Some acc' \<and> collected (fst acc')"
  using assms(2)
proof (induction S arbitrary: acc)
  case Nil
  then show ?case by simp
next
  case (Cons kps S)
  obtain k ps where kps: "kps = (k, ps)" by (rule prod.exhaust)
  obtain acc1 where "clocks_data t ch m (GetMainClockName ps) ps acc = Some acc1" "collected (fst acc1)"
    using clocks_data_collected [OF assms(1) Cons.prems] by blast
  then show ?case using Cons.IH by (simp add: kps)
qed

text \<open>A request for the current state of any resource but the GNSS status is answered: without a
  panic, with an event of the resource's kind under the resource's own source that holds at least one
  value, sent back to the address that asked, and nothing in the manager changes.\<close>
theorem current_state_answers:
  assumes "classify_source src = Some (t, r)" and "t \<noteq> GnssStateChange" and "can_answer t m"
  shows "\<exists>e. currentState src m = Ok \<lparr>sr_Data = Some e, sr_ReturnAddress = Some src, sr_error = False\<rparr> m \<and>
    ev_Source e = r \<and> ev_Data e \<noteq> []"
proof -
  have src: "src \<noteq> ''''" using assms(1) by (auto simp: classify_source_def event_resource_def contains_def)
  have ne: "GetPTPEventsData FREERUN 0 p t m \<noteq> []" for p by (simp add: GetPTPEventsData_ne)
  show ?thesis
  proof (cases "Stats m = []")
    case True
    then show ?thesis
      using reply_with_ok [OF assms(3), of "GetPTPEventsData FREERUN 0 ''ptp-not-set'' t m" r "Some src"] ne
      by (auto simp: currentState_def assms(1) src)
  next
    case False
    obtain data ov where d: "configs_data t (ChronydActiveAsE3 m) m (Stats m) (None, NoState) = Some (data, ov)"
        and c: "collected data"
      using configs_data_collected [OF assms(2), of "(None, NoState)"] by (fastforce simp: collected_def)
    let ?data = "if t = SyncStateChange \<and> ov \<noteq> NoState then processDataFn data (GetPTPEventsData ov 0 r t m) else data"
    have c': "collected ?data" using c by (auto simp: collected_process GetPTPEventsData_ne)
    let ?d = "case ?data of Some d \<Rightarrow> d | None \<Rightarrow> GetPTPEventsData FREERUN 0 ''event-not-found'' t m"
    have "?d \<noteq> []" using c' ne by (auto simp: collected_def split: option.split)
    moreover have "currentState src m = reply_with ?d t r (Some src) m"
      using False by (simp add: currentState_def assms(1) src d)
    ultimately show ?thesis using reply_with_ok [OF assms(3), of ?d r "Some src"] by auto
  qed
qed

lemma current_state_sync:
  assumes "alike m" and "state \<in> set (node_states m)" and "can_answer SyncStateChange m"
    and "classify_source src = Some (SyncStateChange, r)"
  shows "\<exists>e. currentState src m = Ok \<lparr>sr_Data = Some e, sr_ReturnAddress = Some src, sr_error = False\<rparr> m \<and>
    ev_Data e = [\<lparr>dv_Resource = path_join [resourcePrefix m, nodeName m, r], dv_DataType = NOTIFICATION,
      dv_ValueType = ENUMERATION, dv_Value = VState (GetNodeSyncState state m)\<rparr>]"
proof -
  have src: "src \<noteq> ''''" using assms(4) by (auto simp: classify_source_def event_resource_def contains_def)
  have ne: "Stats m \<noteq> []" using assms(2) by (auto simp: node_states_def)
  let ?w = "GetNodeSyncState state m"
  have "severity ?w \<ge> severity state"
    using node_state_severity [of state m] node_states_ok [OF assms(2)] by auto
  then have w: "?w \<noteq> NoState" using node_states_ok [OF assms(2)] by (auto simp: severity_def is_node_state_def)
  have c: "configs_data SyncStateChange (ChronydActiveAsE3 m) m (Stats m) (None, NoState) = Some (None, ?w)"
    by (simp add: configs_data_sync asked_overall [OF assms(1,2)])
  have "currentState src m = reply_with (GetPTPEventsData ?w 0 r SyncStateChange m) SyncStateChange r (Some src) m"
    using ne w by (simp add: currentState_def assms(4) src c processDataFn_def)
  then show ?thesis
    using reply_with_ok [OF assms(3), of "GetPTPEventsData ?w 0 r SyncStateChange m" r "Some src"] w
    by (auto simp: GetPTPEventsData_def Let_def)
qed

text \<open>C7: asking gives what was told: when no T-GM configuration has a second master clock with a state,
  a request for the overall synchronization state is answered with exactly the state that an event
  about one of the clocks that count makes the node report.\<close>
theorem current_state_agrees:
  assumes "alike m" and "state \<in> set (node_states m)" and "can_answer SyncStateChange m"
    and "classify_source src = Some (SyncStateChange, r)"
  shows "\<exists>e v. currentState src m = Ok \<lparr>sr_Data = Some e, sr_ReturnAddress = Some src, sr_error = False\<rparr> m \<and>
    ev_Data e = [v] \<and> dv_Value v = VState (GetNodeSyncState state m)"
  using current_state_sync [OF assms] by fastforce

text \<open>A node with a boundary clock, both clocks reported, whose publishers are registered.\<close>

definition told_manager :: manager where
  "told_manager = demo_manager\<lparr>publisherTypes := map (\<lambda>(t, p). (t, p\<lparr>PubID := ''id''\<rparr>)) InitPubSubTypes,
     scConfig := Some (sc0\<lparr>sc_publishers := [(''id'', ''r'')]\<rparr>)\<rparr>"

lemma told_can_answer: "can_answer t told_manager"
  by (cases t) (simp_all add: can_answer_def told_manager_def InitPubSubTypes_def sc0_def)

lemma told_sync: "classify_source ''/cluster/node/n1/sync/sync-status/sync-state'' =
    Some (SyncStateChange, ''/sync/sync-status/sync-state'')"
  by code_simp

theorem current_state_answers_witness:
  "\<exists>e. currentState ''/cluster/node/n1/sync/sync-status/sync-state'' told_manager =
      Ok \<lparr>sr_Data = Some e, sr_ReturnAddress = Some ''/cluster/node/n1/sync/sync-status/sync-state'', sr_error = False\<rparr>
        told_manager \<and> ev_Data e \<noteq> []"
  using current_state_answers [OF told_sync _ told_can_answer] by auto

lemma told_states: "node_states told_manager = [LOCKED, HOLDOVER]" "GetNodeSyncState LOCKED told_manager = HOLDOVER"
  by code_simp+

theorem current_state_agrees_witness:
  "\<exists>e v. currentState ''/cluster/node/n1/sync/sync-status/sync-state'' told_manager =
      Ok \<lparr>sr_Data = Some e, sr_ReturnAddress = Some ''/cluster/node/n1/sync/sync-status/sync-state'', sr_error = False\<rparr>
        told_manager \<and> ev_Data e = [v] \<and> dv_Value v = VState HOLDOVER"
proof -
  have a: "alike told_manager"
    by (simp add: alike_def told_manager_def demo_manager_def NewPTPEventManager_def clk_def is_node_state_def
        GetMainClockName_def)
  have "LOCKED \<in> set (node_states told_manager)" by (simp add: told_states)
  from current_state_agrees [OF a this told_can_answer told_sync] show ?thesis by (simp add: told_states)
qed

text \<open>
  With a T-GM clock and a generic master clock the two differ: the node is told to be in FREERUN, but the
  answer to a request is LOCKED.
\<close>

definition gm_manager :: manager where
  "gm_manager = told_manager\<lparr>Stats := [(''ts2phc.0.config'',
     [(GMMainClockName, clk ''GM'' LOCKED), (MasterClockType, clk ''ts2phc'' FREERUN)])]\<rparr>"

lemma gm_query_differs:
  "GetNodeSyncState LOCKED gm_manager = FREERUN \<and>
    snd (the (configs_data SyncStateChange (ChronydActiveAsE3 gm_manager) gm_manager (Stats gm_manager) (None, NoState))) = LOCKED"
  by (rule conjI; code_simp)

section \<open>The start\<close>

lemma make_interfaces_simps [simp]:
  "length (make_interfaces secs ns) = length ns"
  "k < length ns \<Longrightarrow> make_interfaces secs ns ! k = make_interface secs k (ns ! k)"
  by (simp_all add: make_interfaces_def nth_enumerate_eq)

lemma find_first:
  "k < length xs \<Longrightarrow> P (xs ! k) \<Longrightarrow> (\<And>j. j < k \<Longrightarrow> \<not> P (xs ! j)) \<Longrightarrow> find P xs = Some (xs ! k)"
proof (induction xs arbitrary: k)
  case Nil
  then show ?case by simp
next
  case (Cons x xs)
  show ?case
  proof (cases k)
    case 0
    then show ?thesis using Cons.prems(2) by simp
  next
    case (Suc k')
    have "\<not> P x" using Cons.prems(3) [of 0] Suc by simp
    moreover have "find P xs = Some (xs ! k')"
      using Cons.IH [of k'] Cons.prems Suc by (metis Suc_less_eq length_Cons nth_Cons_Suc)
    ultimately show ?thesis using Suc by simp
  qed
qed

lemma ByPortID_made:
  assumes "Interfaces c = map Some (make_interfaces secs ns)" and "k < length ns"
  shows "ByPortID (int k + 1) c = Some (make_interface secs k (ns ! k))"
proof -
  let ?xs = "map Some (make_interfaces secs ns)"
  have "find (\<lambda>p. p \<noteq> None \<and> PortID (the p) = int k + 1) ?xs = Some (?xs ! k)"
    using assms(2) by (intro find_first) (simp_all add: make_interface_def)
  then show ?thesis using assms by (simp add: ByPortID_def find_interface_def)
qed

text \<open>The configuration a file gives, whatever was there before under its name.\<close>

lemma processConfigCreate_config:
  assumes "u_Profile u = Some profile" and "GetAllSections u = Some secs"
  shows "\<exists>m'. processConfigCreate (Some u) m = Ok () m' \<and> Stats m' = Stats m \<and>
    Ptp4lConfigInterfaces m' = AList.update (u_Name u)
      \<lparr>pc_Name = u_Name u, pc_Profile = profile, Interfaces = map Some (make_interfaces secs (GetAllInterface u)),
       Sections = secs, ProfileType = GetProfileType profile m\<rparr> (Ptp4lConfigInterfaces m)"
proof -
  have f: "Stats (fold (\<lambda>i. on_registry (g i)) is m) = Stats m \<and>
      Ptp4lConfigInterfaces (fold (\<lambda>i. on_registry (g i)) is m) = Ptp4lConfigInterfaces m \<and>
      PtpConfigMapUpdates (fold (\<lambda>i. on_registry (g i)) is m) = PtpConfigMapUpdates m" for g "is"
    by (induction "is" arbitrary: m) (simp_all add: on_registry_def)
  have t: "GetProfileType profile (fold (\<lambda>i. on_registry (g i)) is m) = GetProfileType profile m" for g "is"
    using f [of g "is"] by (simp add: GetProfileType_def)
  let ?g = "\<lambda>i. UpdateInterfaceRoleMetrics ptp4lProcessName (pi_Name i) (Role i)"
  let ?is = "make_interfaces secs (GetAllInterface u)"
  show ?thesis using f [of ?g ?is] t [of ?g ?is] by (simp add: processConfigCreate_def assms AddPTPConfig_def Let_def)
qed

text \<open>What the start establishes for the port lines: registering a configuration file with a profile
  always succeeds, touches no clock, and gives every interface of the file, in order, the port number
  by which ptp4l names it, found at the place where a port line updates its role; no interface is nil;
  and the type of its profile is that of the profiles read before.\<close>
theorem initial_config_numbered:
  assumes "u_Profile u = Some profile" and "Ptp4lConf u \<noteq> None" and "no_nil m"
  shows "\<exists>m'. processConfigCreate (Some u) m = Ok () m' \<and> Stats m' = Stats m \<and> no_nil m' \<and>
    ProfileType (config_of (u_Name u) m') = GetProfileType profile m \<and>
    (\<forall>k < length (GetAllInterface u). numbered (u_Name u) (int k + 1) m' \<and>
      map_option pi_Name (ByPortID (int k + 1) (config_of (u_Name u) m')) = Some (GetAllInterface u ! k))"
proof -
  obtain secs where secs: "GetAllSections u = Some secs" using assms(2) by (auto simp: GetAllSections_def)
  obtain m' where m': "processConfigCreate (Some u) m = Ok () m'" "Stats m' = Stats m"
    and c: "Ptp4lConfigInterfaces m' = AList.update (u_Name u)
      \<lparr>pc_Name = u_Name u, pc_Profile = profile, Interfaces = map Some (make_interfaces secs (GetAllInterface u)),
       Sections = secs, ProfileType = GetProfileType profile m\<rparr> (Ptp4lConfigInterfaces m)"
    using processConfigCreate_config [OF assms(1) secs] by blast
  have "no_nil m'"
    using assms(3) set_AList_update by (fastforce simp: no_nil_def c)
  moreover have i: "Interfaces (config_of (u_Name u) m') = map Some (make_interfaces secs (GetAllInterface u))"
      and "ProfileType (config_of (u_Name u) m') = GetProfileType profile m"
    by (simp_all add: config_of_def mget_or_def c gomap_simps)
  ultimately show ?thesis
    using m' ByPortID_made [OF i] by (auto simp: numbered_def i make_interface_def)
qed

definition start_update :: ptp_config_update where
  "start_update = \<lparr>u_Name = ''ptp4l.0.config'', Ptp4lConf = Some ''[ens1] [ens2]'', u_Profile = Some ''bc'', Removed = False\<rparr>"

theorem initial_config_numbered_witness:
  "\<exists>m'. processConfigCreate (Some start_update) bc_manager = Ok () m' \<and> numbered ''ptp4l.0.config'' 2 m' \<and>
    map_option pi_Name (ByPortID 2 (config_of ''ptp4l.0.config'' m')) = Some ''ens2''"
proof -
  have i: "GetAllInterface start_update = [''ens1'', ''ens2'']" by code_simp
  have "no_nil bc_manager" by (simp add: no_nil_def bc_manager_def NewPTPEventManager_def)
  then obtain m' where m': "processConfigCreate (Some start_update) bc_manager = Ok () m'"
      and all: "\<forall>k < length (GetAllInterface start_update). numbered (u_Name start_update) (int k + 1) m' \<and>
        map_option pi_Name (ByPortID (int k + 1) (config_of (u_Name start_update) m')) = Some (GetAllInterface start_update ! k)"
    using initial_config_numbered [of start_update "''bc''" bc_manager] by (auto simp: start_update_def)
  have "numbered ''ptp4l.0.config'' 2 m' \<and>
    map_option pi_Name (ByPortID 2 (config_of ''ptp4l.0.config'' m')) = Some ''ens2''"
    using all [rule_format, of 1] by (simp add: i) (simp add: start_update_def)
  then show ?thesis using m' by blast
qed

section \<open>A connection\<close>

text \<open>The lines of a connection are steps of the system, so what holds in every run holds after them.\<close>

lemma sys_run_prepend: "sys_run m1 m2 \<Longrightarrow> sys_step cfg m m1 \<Longrightarrow> sys_run m m2"
  by (induction rule: sys_run.induct) (blast intro: sys_run.intros)+

lemma processMessages_run: "sys_run m (snd (processMessages msgs m))"
  by (induction msgs arbitrary: m) (auto intro: sys_run.stop sys_run_prepend [OF _ sys_step.line])

end
