(* ===== verification/Subscribers.thy ===== *)
theory Subscribers
  imports RestClient
begin

text \<open>
  The store of the subscribers that the dispatcher works on: the operations of the vendored
  \<open>sdk-go/v1/subscriber\<close> and \<open>sdk-go/pkg/subscriber\<close> that it calls. The store maps a client id to its
  subscriber; \<open>Get\<close> copies the subscriber out and \<open>Set\<close> writes it back.
\<close>

section \<open>Store and operations\<close>

record subscriber =
  sub_ClientID :: nat
  sub_Store :: "(string, pub_sub) gomap"     \<comment> \<open>under the subscription's id\<close>
  sub_EndPointURI :: "string option"
  sub_Status :: int                         \<comment> \<open>\<open>InActive\<close> 0, \<open>Active\<close> 1\<close>
  sub_Action :: data_status
  failedCount :: nat

type_synonym sub_store = "(nat, subscriber) gomap"

definition SetConnectionToFailAfter :: nat where "SetConnectionToFailAfter = 10"

definition IncFailCount :: "subscriber \<Rightarrow> subscriber" where
  "IncFailCount s =
    (let s = s\<lparr>failedCount := failedCount s + 1\<rparr> in
     if failedCount s \<ge> SetConnectionToFailAfter then s\<lparr>sub_Action := DELETE_status, sub_Status := 0\<rparr> else s)"

definition IncFailCountToFail :: "nat \<Rightarrow> sub_store \<Rightarrow> bool \<times> sub_store" where
  "IncFailCountToFail client st =
    (case map_of st client of
      None \<Rightarrow> (False, st)
    | Some s \<Rightarrow> (let s = IncFailCount s in (sub_Action s = DELETE_status, AList.update client s st)))"

text \<open>The action a subscriber was marked with stays.\<close>

definition ResetFailCount :: "nat \<Rightarrow> sub_store \<Rightarrow> sub_store" where
  "ResetFailCount client st =
    (case map_of st client of None \<Rightarrow> st | Some s \<Rightarrow> AList.update client (s\<lparr>failedCount := 0\<rparr>) st)"

text \<open>\<open>removed\<close> says whether the client's file could be removed; a failure leaves the client in.\<close>

definition DeleteClient :: "bool \<Rightarrow> nat \<Rightarrow> sub_store \<Rightarrow> bool \<times> sub_store" where
  "DeleteClient removed client st =
    (case map_of st client of
      None \<Rightarrow> (False, st)
    | Some _ \<Rightarrow> if removed then (False, AList.delete client st) else (True, st))"

text \<open>The number deleted, and the error.\<close>

definition DeleteAllSubscriptionsForClient :: "bool \<Rightarrow> nat \<Rightarrow> sub_store \<Rightarrow> (nat \<times> bool) \<times> sub_store" where
  "DeleteAllSubscriptionsForClient removed client st =
    (case map_of st client of
      None \<Rightarrow> ((0, False), st)
    | Some s \<Rightarrow>
        (let (err, st) = DeleteClient removed client st in
         if err then ((0, True), st) else ((length (sub_Store s), False), st)))"

text \<open>The clients with a subscription to the resource, in the order of the visit.\<close>

definition GetClientIDAddressByResource :: "string \<Rightarrow> sub_store \<Rightarrow> (nat \<times> string option) list" where
  "GetClientIDAddressByResource resource st =
    map (\<lambda>(c, s). (sub_ClientID s, sub_EndPointURI s))
      (filter (\<lambda>(c, s). list_ex (\<lambda>(k, r). psub_Resource r = resource) (sub_Store s)) st)"

text \<open>Every subscriber is stored under its own client id.\<close>

definition keyed :: "sub_store \<Rightarrow> bool" where
  "keyed st \<longleftrightarrow> distinct (map fst st) \<and> (\<forall>(c, s) \<in> set st. sub_ClientID s = c)"

section \<open>The interface the dispatcher uses\<close>

text \<open>
  What the dispatcher relies on: one unreachable post counts one up, an answer counts back to zero,
  and only the tenth in a row asks for the removal; each touches one client.
\<close>

locale failure_counter =
  fixes fails :: "'s \<Rightarrow> nat \<Rightarrow> nat option"
    and inc :: "nat \<Rightarrow> 's \<Rightarrow> bool \<times> 's"
    and reset :: "nat \<Rightarrow> 's \<Rightarrow> 's"
    and good :: "'s \<Rightarrow> bool"     \<comment> \<open>no client is marked\<close>
    and limit :: nat
  assumes inc_fails: "fails (snd (inc c s)) d = (if d = c then map_option Suc (fails s c) else fails s d)"
    and reset_fails: "fails (reset c s) d = (if d = c then map_option (\<lambda>_. 0) (fails s c) else fails s d)"
    and inc_asks: "good s \<Longrightarrow> fst (inc c s) \<longleftrightarrow> (\<exists>n. fails s c = Some n \<and> limit \<le> Suc n)"
    and inc_good: "good s \<Longrightarrow> \<not> fst (inc c s) \<Longrightarrow> good (snd (inc c s))"
    and reset_good: "good s \<Longrightarrow> good (reset c s)"
begin

text \<open>\<open>k\<close> unreachable posts to a client.\<close>

fun incs :: "nat \<Rightarrow> nat \<Rightarrow> 's \<Rightarrow> 's" where
  "incs 0 c s = s"
| "incs (Suc k) c s = incs k c (snd (inc c s))"

lemma fails_incs: "fails (incs k c s) c = map_option (\<lambda>n. n + k) (fails s c)"
  by (induction k arbitrary: s) (simp_all add: inc_fails option.map_comp o_def option.map_ident)

lemma good_incs:
  "good s \<Longrightarrow> fails s c = Some n \<Longrightarrow> n + k < limit \<Longrightarrow> good (incs k c s)"
proof (induction k arbitrary: s n)
  case 0
  then show ?case by simp
next
  case (Suc k)
  have "\<not> fst (inc c s)" using Suc.prems by (simp add: inc_asks)
  then have "good (snd (inc c s))" using Suc.prems(1) by (rule inc_good [rotated])
  then show ?case using Suc.IH [of "snd (inc c s)" "Suc n"] Suc.prems(2,3) by (simp add: inc_fails)
qed

text \<open>After an answer, the removal is asked for by exactly the \<open>limit\<close>-th unreachable post.\<close>

lemma asks_at_limit:
  assumes "good s" and "fails s c \<noteq> None" and "k < limit"
  shows "fst (inc c (incs k c (reset c s))) \<longleftrightarrow> Suc k = limit"
proof -
  have z: "fails (reset c s) c = Some 0" using assms(2) by (auto simp: reset_fails)
  have g: "good (incs k c (reset c s))" using good_incs [OF reset_good [OF assms(1)] z] assms(3) by simp
  have "fails (incs k c (reset c s)) c = Some k" by (simp add: fails_incs z)
  then show ?thesis using assms(3) by (auto simp: inc_asks [OF g])
qed

end

definition fails_of :: "sub_store \<Rightarrow> nat \<Rightarrow> nat option" where
  "fails_of st c = map_option failedCount (map_of st c)"

definition none_marked :: "sub_store \<Rightarrow> bool" where
  "none_marked st = (\<forall>c s. map_of st c = Some s \<longrightarrow> sub_Action s \<noteq> DELETE_status)"

interpretation counter: failure_counter fails_of IncFailCountToFail ResetFailCount none_marked SetConnectionToFailAfter
proof unfold_locales
  fix c d st
  show "fails_of (snd (IncFailCountToFail c st)) d =
      (if d = c then map_option Suc (fails_of st c) else fails_of st d)"
    by (simp add: fails_of_def IncFailCountToFail_def IncFailCount_def Let_def update_conv' split: option.split)
  show "fails_of (ResetFailCount c st) d = (if d = c then map_option (\<lambda>_. 0) (fails_of st c) else fails_of st d)"
    by (simp add: fails_of_def ResetFailCount_def update_conv' split: option.split)
next
  fix c st assume "none_marked st"
  then show "fst (IncFailCountToFail c st) \<longleftrightarrow> (\<exists>n. fails_of st c = Some n \<and> SetConnectionToFailAfter \<le> Suc n)"
    by (auto simp: fails_of_def IncFailCountToFail_def IncFailCount_def Let_def none_marked_def split: option.split)
next
  fix c st assume "none_marked st" and "\<not> fst (IncFailCountToFail c st)"
  then show "none_marked (snd (IncFailCountToFail c st))"
    by (auto simp: none_marked_def IncFailCountToFail_def Let_def update_conv' split: option.splits if_splits)
next
  fix c st assume "none_marked st"
  then show "none_marked (ResetFailCount c st)"
    by (auto simp: none_marked_def ResetFailCount_def update_conv' split: option.splits if_splits)
qed

end
