(* ===== verification/ConfigMapStore.thy ===== *)
theory ConfigMapStore
  imports Subscribers
begin

text \<open>
  \<open>pkg/storage/kubernetes/client.go\<close>: subscribers kept in a ConfigMap of the cluster. The API server
  holds at most one ConfigMap of the node's name; \<open>kc_answers\<close> says which requests it answers
  (the others fail: connection, permission, conflict). A request on an absent ConfigMap fails, and so
  does the creation of one that exists. The key of a subscriber is its client id, and \<open>json\<close> is the
  text of a subscriber (\<open>None\<close>: it cannot be marshalled).
\<close>

section \<open>The server\<close>

type_synonym cm_data = "(nat, string) gomap"

record kube =
  kc_map :: "cm_data option"
  kc_requests :: nat
  kc_answers :: "nat \<Rightarrow> bool"

definition next_request :: "kube \<Rightarrow> bool \<times> kube" where
  "next_request k = (kc_answers k (kc_requests k), k\<lparr>kc_requests := kc_requests k + 1\<rparr>)"

definition server_create :: "kube \<Rightarrow> cm_data option \<times> kube" where
  "server_create k =
    (let (ok, k) = next_request k in
     if ok \<and> kc_map k = None then (Some [], k\<lparr>kc_map := Some []\<rparr>) else (None, k))"

definition server_update :: "cm_data \<Rightarrow> kube \<Rightarrow> bool \<times> kube" where
  "server_update d k =
    (let (ok, k) = next_request k in
     if ok \<and> kc_map k \<noteq> None then (True, k\<lparr>kc_map := Some d\<rparr>) else (False, k))"

section \<open>Operations\<close>

definition GetConfigMap :: "kube \<Rightarrow> cm_data option \<times> kube" where
  "GetConfigMap k = (let (ok, k) = next_request k in (if ok then kc_map k else None, k))"

definition CreateConfigMap :: "kube \<Rightarrow> cm_data option \<times> kube" where
  "CreateConfigMap k =
    (case GetConfigMap k of (Some d, k) \<Rightarrow> (Some d, k) | (None, k) \<Rightarrow> server_create k)"

text \<open>One subscriber of the update: removed, written, or skipped when it cannot be marshalled.\<close>

definition put_subscriber :: "(subscriber \<Rightarrow> string option) \<Rightarrow> subscriber \<Rightarrow> cm_data \<Rightarrow> cm_data" where
  "put_subscriber json s d =
    (if sub_Action s = DELETE_status then AList.delete (sub_ClientID s) d
     else (case json s of None \<Rightarrow> d | Some t \<Rightarrow> AList.update (sub_ClientID s) t d))"

text \<open>The flag is the error.\<close>

definition UpdateConfigMap :: "(subscriber \<Rightarrow> string option) \<Rightarrow> subscriber list \<Rightarrow> kube \<Rightarrow> bool \<times> kube" where
  "UpdateConfigMap json subs k =
    (let (cm, k) = (case GetConfigMap k of (Some d, k) \<Rightarrow> (Some d, k) | (None, k) \<Rightarrow> CreateConfigMap k)
     in case cm of
          None \<Rightarrow> (True, k)
        | Some d \<Rightarrow> (let (ok, k) = server_update (fold (put_subscriber json) subs d) k in (\<not> ok, k)))"

text \<open>The attempts of \<open>InitConfigMap\<close>: \<open>retry + 1\<close> at most.\<close>

fun create_retrying :: "nat \<Rightarrow> kube \<Rightarrow> cm_data option \<times> kube" where
  "create_retrying 0 k = (None, k)"
| "create_retrying (Suc n) k =
    (case CreateConfigMap k of (Some d, k) \<Rightarrow> (Some d, k) | (None, k) \<Rightarrow> create_retrying n k)"

text \<open>
  Every entry is decoded, encoded again and written to the client's file; \<open>writes\<close> says which files
  can be written. The first entry that does not decode ends the loop with an error.
\<close>

fun persist_entries ::
  "(string \<Rightarrow> subscriber option) \<Rightarrow> (subscriber \<Rightarrow> string option) \<Rightarrow> (nat \<Rightarrow> bool) \<Rightarrow> cm_data \<Rightarrow>
    (nat, string) gomap \<Rightarrow> bool \<times> (nat, string) gomap" where
  "persist_entries decode json writes [] files = (False, files)"
| "persist_entries decode json writes ((c, t) # d) files =
    (case decode t of
      None \<Rightarrow> (True, files)
    | Some s \<Rightarrow> persist_entries decode json writes d
        (case json s of None \<Rightarrow> files | Some t \<Rightarrow> if writes c then AList.update c t files else files))"

definition InitConfigMap ::
  "(string \<Rightarrow> subscriber option) \<Rightarrow> (subscriber \<Rightarrow> string option) \<Rightarrow> (nat \<Rightarrow> bool) \<Rightarrow> nat \<Rightarrow>
    (nat, string) gomap \<Rightarrow> kube \<Rightarrow> bool \<times> (nat, string) gomap \<times> kube" where
  "InitConfigMap decode json writes retry files k =
    (case create_retrying (retry + 1) k of
      (None, k) \<Rightarrow> (True, files, k)
    | (Some d, k) \<Rightarrow> (let (err, files) = persist_entries decode json writes d files in (err, files, k)))"

section \<open>What the server holds afterwards\<close>

lemmas kube_defs = next_request_def server_create_def server_update_def GetConfigMap_def CreateConfigMap_def

text \<open>The map the server holds; an absent ConfigMap holds nothing.\<close>

definition held :: "kube \<Rightarrow> nat \<Rightarrow> string option" where
  "held k = (case kc_map k of None \<Rightarrow> Map.empty | Some d \<Rightarrow> map_of d)"

text \<open>The abstract update.\<close>

definition put_map :: "(subscriber \<Rightarrow> string option) \<Rightarrow> subscriber \<Rightarrow> (nat \<Rightarrow> string option) \<Rightarrow> nat \<Rightarrow> string option" where
  "put_map json s h c =
    (if c \<noteq> sub_ClientID s then h c
     else if sub_Action s = DELETE_status then None
     else (case json s of None \<Rightarrow> h c | Some t \<Rightarrow> Some t))"

lemma put_subscriber_map: "map_of (put_subscriber json s d) = put_map json s (map_of d)"
  by (rule ext) (simp add: put_subscriber_def put_map_def update_conv' delete_conv' split: option.split)

lemma fold_put_map: "map_of (fold (put_subscriber json) subs d) = fold (put_map json) subs (map_of d)"
  by (induction subs arbitrary: d) (simp_all add: put_subscriber_map)

lemma GetConfigMap_held:
  "GetConfigMap k = (cm, k') \<Longrightarrow> kc_map k' = kc_map k \<and> (cm = None \<or> cm = kc_map k) \<and> kc_answers k' = kc_answers k"
  by (auto simp: kube_defs Let_def split: if_splits)

lemma CreateConfigMap_held:
  assumes "CreateConfigMap k = (cm, k')"
  shows "held k' = held k \<and> (\<forall>d. cm = Some d \<longrightarrow> map_of d = held k \<and> kc_map k' = Some d) \<and> kc_answers k' = kc_answers k"
  using assms
  by (auto simp: kube_defs Let_def held_def split: if_splits option.splits prod.splits)

text \<open>
  Nothing but the update's own write changes what the server holds: fetching and creating leave it.
\<close>

lemma fetched_held:
  assumes "(case GetConfigMap k of (Some d, k) \<Rightarrow> (Some d, k) | (None, k) \<Rightarrow> CreateConfigMap k) = (cm, k')"
  shows "held k' = held k \<and> (\<forall>d. cm = Some d \<longrightarrow> map_of d = held k \<and> kc_map k' = Some d)"
proof (cases "GetConfigMap k")
  case (Pair a k1)
  note g = GetConfigMap_held [OF Pair]
  show ?thesis
  proof (cases a)
    case None
    then have c: "CreateConfigMap k1 = (cm, k')" using assms Pair by simp
    have "held k1 = held k" using g by (simp add: held_def)
    then show ?thesis using CreateConfigMap_held [OF c] by simp
  next
    case (Some d)
    then show ?thesis using assms Pair g by (auto simp: held_def split: option.splits)
  qed
qed

lemma UpdateConfigMap_held:
  "held (snd (UpdateConfigMap json subs k)) =
    (if fst (UpdateConfigMap json subs k) then held k else fold (put_map json) subs (held k))"
proof -
  obtain cm k1 where f: "(case GetConfigMap k of (Some d, k) \<Rightarrow> (Some d, k) | (None, k) \<Rightarrow> CreateConfigMap k) = (cm, k1)"
    by (rule prod.exhaust)
  note h = fetched_held [OF f]
  show ?thesis
  proof (cases cm)
    case None
    then show ?thesis using h by (simp add: UpdateConfigMap_def f)
  next
    case (Some d)
    then show ?thesis using h
      by (simp add: UpdateConfigMap_def f server_update_def next_request_def Let_def held_def fold_put_map)
  qed
qed


text \<open>The number of requests the retries make, and when they succeed.\<close>

lemma create_retrying_requests:
  "kc_requests k \<le> kc_requests (snd (create_retrying n k)) \<and>
    kc_requests (snd (create_retrying n k)) \<le> kc_requests k + 2 * n"
proof (induction n arbitrary: k)
  case 0
  then show ?case by simp
next
  case (Suc n)
  have "kc_requests k \<le> kc_requests (snd (CreateConfigMap k))"
    and "kc_requests (snd (CreateConfigMap k)) \<le> kc_requests k + 2"
    by (simp_all add: kube_defs Let_def split: option.split)
  then show ?case using Suc.IH [of "snd (CreateConfigMap k)"]
    by (simp split: prod.split option.split) fastforce
qed

lemma create_retrying_held:
  "create_retrying n k = (cm, k') \<Longrightarrow> held k' = held k \<and> (\<forall>d. cm = Some d \<longrightarrow> map_of d = held k)"
proof (induction n arbitrary: k)
  case 0
  then show ?case by simp
next
  case (Suc n)
  obtain a k1 where c: "CreateConfigMap k = (a, k1)" by (rule prod.exhaust)
  show ?case using Suc.IH [of k1] Suc.prems CreateConfigMap_held [OF c] by (auto simp: c split: option.splits)
qed

section \<open>Saving and restoring\<close>

text \<open>
  What the client's library promises of its JSON: a subscriber that was marshalled is read back. (The
  count of failures and other private fields are not part of the text.)
\<close>

definition json_roundtrip :: "(string \<Rightarrow> subscriber option) \<Rightarrow> (subscriber \<Rightarrow> string option) \<Rightarrow> bool" where
  "json_roundtrip decode json =
    (\<forall>s t. json s = Some t \<longrightarrow> (\<exists>s'. decode t = Some s' \<and> json s' = Some t))"

definition all_decode :: "(string \<Rightarrow> subscriber option) \<Rightarrow> (subscriber \<Rightarrow> string option) \<Rightarrow> cm_data \<Rightarrow> bool" where
  "all_decode decode json d = (\<forall>(c, t) \<in> set d. \<exists>s. decode t = Some s \<and> json s = Some t)"

lemma persist_entries_files:
  assumes "all_decode decode json d" and "distinct (map fst d)"
  shows "persist_entries decode json (\<lambda>_. True) d files =
    (False, fold (\<lambda>(c, t). AList.update c t) d files)"
  using assms
  by (induction d arbitrary: files) (auto simp: all_decode_def split: option.splits)

lemma fold_update_map:
  "distinct (map fst d) \<Longrightarrow>
    map_of (fold (\<lambda>(c, t). AList.update c t) d files) = map_of files ++ map_of d"
proof (induction d arbitrary: files)
  case Nil
  then show ?case by simp
next
  case (Cons ct d)
  obtain c t where ct: "ct = (c, t)" by (rule prod.exhaust)
  have "map_of d c = None" using Cons.prems by (simp add: ct map_of_eq_None_iff)
  then show ?case using Cons.IH [of "AList.update c t files"] Cons.prems
    by (auto simp: ct update_conv' map_add_def fun_eq_iff split: option.split)
qed

text \<open>What every update keeps of the ConfigMap's texts, so that a restart can read them.\<close>

definition wf_kube :: "(string \<Rightarrow> subscriber option) \<Rightarrow> (subscriber \<Rightarrow> string option) \<Rightarrow> kube \<Rightarrow> bool" where
  "wf_kube decode json k =
    (case kc_map k of None \<Rightarrow> True | Some d \<Rightarrow> distinct (map fst d) \<and> all_decode decode json d)"

lemma all_decode_update:
  assumes "all_decode decode json d" and "decode t = Some s" and "json s = Some t"
  shows "all_decode decode json (AList.update c t d)"
  using assms unfolding all_decode_def by (induction d) auto

lemma put_subscriber_wf:
  assumes "json_roundtrip decode json" and "distinct (map fst d)" and "all_decode decode json d"
  shows "distinct (map fst (put_subscriber json s d)) \<and> all_decode decode json (put_subscriber json s d)"
proof (cases "sub_Action s = DELETE_status \<or> json s = None")
  case True
  have "set (AList.delete (sub_ClientID s) d) \<subseteq> set d" by (auto simp: AList.delete_eq)
  then have "all_decode decode json (AList.delete (sub_ClientID s) d)" using assms(3) by (auto simp: all_decode_def)
  then show ?thesis using True assms by (auto simp: put_subscriber_def distinct_delete)
next
  case False
  then obtain t where t: "json s = Some t" by auto
  then obtain s' where "decode t = Some s'" "json s' = Some t" using assms(1) by (auto simp: json_roundtrip_def)
  then show ?thesis using False t assms(2,3)
    by (simp add: put_subscriber_def distinct_update all_decode_update)
qed

lemma fold_put_wf:
  assumes "json_roundtrip decode json" and "distinct (map fst d)" and "all_decode decode json d"
  shows "distinct (map fst (fold (put_subscriber json) subs d)) \<and>
    all_decode decode json (fold (put_subscriber json) subs d)"
  using assms(2,3) by (induction subs arbitrary: d) (simp_all add: put_subscriber_wf [OF assms(1)])

lemma UpdateConfigMap_wf:
  assumes "json_roundtrip decode json" and "wf_kube decode json k"
  shows "wf_kube decode json (snd (UpdateConfigMap json subs k))"
proof -
  obtain cm k1 where f: "(case GetConfigMap k of (Some d, k) \<Rightarrow> (Some d, k) | (None, k) \<Rightarrow> CreateConfigMap k) = (cm, k1)"
    by (rule prod.exhaust)
  have k1: "wf_kube decode json k1 \<and> (\<forall>d. cm = Some d \<longrightarrow> distinct (map fst d) \<and> all_decode decode json d)"
    using assms(2) f
    by (auto simp: wf_kube_def kube_defs Let_def all_decode_def split: option.splits if_splits prod.splits)
  show ?thesis
  proof (cases cm)
    case None
    then show ?thesis using k1 by (simp add: UpdateConfigMap_def f)
  next
    case (Some d)
    then show ?thesis using k1 fold_put_wf [OF assms(1), of d subs]
      by (auto simp: UpdateConfigMap_def f server_update_def next_request_def Let_def wf_kube_def)
  qed
qed

lemma create_retrying_wf:
  "wf_kube decode json k \<Longrightarrow> create_retrying n k = (Some d, k') \<Longrightarrow> distinct (map fst d) \<and> all_decode decode json d"
proof (induction n arbitrary: k)
  case 0
  then show ?case by simp
next
  case (Suc n)
  obtain a k1 where c: "CreateConfigMap k = (a, k1)" by (rule prod.exhaust)
  have "wf_kube decode json k1 \<and> (\<forall>d. a = Some d \<longrightarrow> distinct (map fst d) \<and> all_decode decode json d)"
    using Suc.prems(1) c
    by (auto simp: wf_kube_def kube_defs Let_def all_decode_def split: option.splits if_splits)
  then show ?case using Suc.IH [of k1] Suc.prems(2) by (auto simp: c split: option.splits)
qed

lemma InitConfigMap_files:
  assumes "wf_kube decode json k" and "InitConfigMap decode json (\<lambda>_. True) retry [] k = (err, files, k2)"
  shows "(err \<longleftrightarrow> fst (create_retrying (retry + 1) k) = None) \<and> (\<not> err \<longrightarrow> map_of files = held k)"
proof -
  obtain cm k' where c: "create_retrying (Suc retry) k = (cm, k')" by (rule prod.exhaust)
  show ?thesis
  proof (cases cm)
    case None
    then show ?thesis using assms(2) c by (simp add: InitConfigMap_def del: create_retrying.simps)
  next
    case (Some d)
    have d: "distinct (map fst d)" "all_decode decode json d"
      using create_retrying_wf [OF assms(1)] c Some by (auto simp del: create_retrying.simps)
    have "map_of d = held k" using create_retrying_held [OF c] Some by simp
    then show ?thesis using assms(2) c Some persist_entries_files [OF d(2,1), of "[]"] fold_update_map [OF d(1), of "[]"]
      by (simp add: InitConfigMap_def del: create_retrying.simps)
  qed
qed

text \<open>Subscriptions survive a restart: after an update that reported success, the initialisation of
  the next process fails only if the server answers none of its \<open>retry + 1\<close> attempts; otherwise the
  files it writes into an empty store are exactly what the updates before left in the ConfigMap. (The
  JSON of a subscriber reads back, and the files can be written.)\<close>
theorem InitConfigMap_restores:
  assumes "json_roundtrip decode json" and "wf_kube decode json k"
    and "UpdateConfigMap json subs k = (False, k1)"
    and "InitConfigMap decode json (\<lambda>_. True) retry [] k1 = (err, files, k2)"
  shows "(err \<longleftrightarrow> fst (create_retrying (retry + 1) k1) = None) \<and>
    (\<not> err \<longrightarrow> map_of files = fold (put_map json) subs (held k))"
  using InitConfigMap_files [OF UpdateConfigMap_wf [OF assms(1,2), of subs], of retry err files k2]
    UpdateConfigMap_held [of json subs k] assms(3,4) by simp

text \<open>A server without the ConfigMap, and a subscriber.\<close>

definition demo_json :: "subscriber \<Rightarrow> string option" where
  "demo_json s = Some (replicate (sub_ClientID s) CHR ''x'')"

definition demo_sub :: "string \<Rightarrow> string \<Rightarrow> pub_sub" where
  "demo_sub i r = \<lparr>psub_ID = i, psub_Resource = r, psub_EndPoint = None, psub_URILocation = None\<rparr>"

definition demo_client :: "nat \<Rightarrow> subscriber" where
  "demo_client c = \<lparr>sub_ClientID = c, sub_Store = [(''s1'', demo_sub ''s1'' ''/sync'')], sub_EndPointURI = Some ''http://c'',
     sub_Status = 1, sub_Action = NEW_status, failedCount = 0\<rparr>"

definition demo_decode :: "string \<Rightarrow> subscriber option" where
  "demo_decode t = Some (demo_client (length t))"

definition demo_kube :: kube where
  "demo_kube = \<lparr>kc_map = None, kc_requests = 0, kc_answers = (\<lambda>_. True)\<rparr>"

lemmas demo_kube_defs = demo_json_def demo_sub_def demo_client_def demo_decode_def demo_kube_def

theorem InitConfigMap_restores_witness:
  "\<exists>k2. InitConfigMap demo_decode demo_json (\<lambda>_. True) 5 [] (snd (UpdateConfigMap demo_json [demo_client 1] demo_kube)) =
      (False, [(1, ''x'')], k2) \<and>
    map_of [(1, ''x'')] = fold (put_map demo_json) [demo_client 1] (held demo_kube)"
proof -
  let ?k1 = "snd (UpdateConfigMap demo_json [demo_client 1] demo_kube)"
  have u: "UpdateConfigMap demo_json [demo_client 1] demo_kube = (False, ?k1)"
    by (simp add: UpdateConfigMap_def kube_defs demo_kube_defs put_subscriber_def)
  obtain k2 where i: "InitConfigMap demo_decode demo_json (\<lambda>_. True) 5 [] ?k1 = (False, [(1, ''x'')], k2)"
    by (simp add: InitConfigMap_def UpdateConfigMap_def kube_defs demo_kube_defs put_subscriber_def numeral_eq_Suc)
  have "json_roundtrip demo_decode demo_json"
    by (auto simp: json_roundtrip_def demo_decode_def demo_json_def demo_client_def)
  moreover have "wf_kube demo_decode demo_json demo_kube" by (simp add: wf_kube_def demo_kube_def)
  ultimately show ?thesis using InitConfigMap_restores [OF _ _ u i] i by auto
qed

end
