(* ===== verification/Dispatch.thy ===== *)
theory Dispatch
  imports ConfigMapStore
begin

text \<open>
  \<open>cmd/main.go\<close> with the counters of \<open>pkg/localmetrics\<close>: what the process does with the elements of
  its two channels, and how it chooses its storage. A POST goes to the network once per attempt;
  \<open>de_net\<close> answers the n-th one. Conversions to and from JSON are parameters.
\<close>

section \<open>Versions and defaults\<close>

text \<open>The major version, and whether it did not parse.\<close>

definition getMajorVersion :: "string \<Rightarrow> int \<times> bool" where
  "getMajorVersion version =
    (if version = '''' then (1, False)
     else (case Atoi (hd (str_split CHR ''.'' (trim_prefix (trim_prefix version ''v'') ''V''))) of
         (n, None) \<Rightarrow> (n, False)
       | (_, Some _) \<Rightarrow> (1, True)))"

definition isV1Api :: "string \<Rightarrow> bool" where
  "isV1Api version = (let (major, err) = getMajorVersion version in \<not> (\<not> err \<and> major \<ge> 2))"

definition defaultTransportHost :: "string \<Rightarrow> string" where
  "defaultTransportHost ns =
    ''http://ptp-event-publisher-service-NODE_NAME.'' @ (if ns = '''' then ''openshift-ptp'' else ns) @
    ''.svc.cluster.local:9043''"

text \<open>
  The choice of the storage: \<open>client\<close> is the Kubernetes client (\<open>None\<close>: it could not be made). The
  result is whether the ConfigMap is used, the files, and the client; \<open>None\<close> is the panic of a method
  called on the nil client.
\<close>

definition init_storage ::
  "(string \<Rightarrow> subscriber option) \<Rightarrow> (subscriber \<Rightarrow> string option) \<Rightarrow> (nat \<Rightarrow> bool) \<Rightarrow> kube option \<Rightarrow>
    string \<Rightarrow> string \<Rightarrow> bool \<Rightarrow> (nat, string) gomap \<Rightarrow> (bool \<times> (nat, string) gomap \<times> kube option) option" where
  "init_storage decode json writes client ns nodeName is_http files =
    (if ns \<noteq> '''' \<and> nodeName \<noteq> '''' \<and> is_http then
       (case client of
         None \<Rightarrow> None
       | Some k \<Rightarrow> (let (err, files, k) = InitConfigMap decode json writes 5 files k in Some (\<not> err, files, Some k)))
     else Some (False, files, client))"

section \<open>State\<close>

type_synonym counters = "(string \<times> bool, nat) gomap"

record dispatch_env =
  de_net :: "nat \<Rightarrow> http_outcome"
  de_marshals :: "ce_event \<Rightarrow> bool"
  de_converts :: "ce_event \<Rightarrow> bool"                 \<comment> \<open>\<open>GetCloudNativeEvents\<close> gives no error\<close>
  de_subscriber :: "ce_event \<Rightarrow> subscriber option"   \<comment> \<open>the event's data as a subscriber\<close>
  de_json :: "subscriber \<Rightarrow> string option"
  de_removes :: "nat \<Rightarrow> bool"                        \<comment> \<open>the n-th removal of a file works\<close>

record hub =
  h_publishers :: "(string, string \<times> string option) gomap"      \<comment> \<open>address to id and endpoint\<close>
  h_subscriptions :: "(string, string \<times> string option) gomap"
  h_clients :: sub_store
  h_kube :: "kube option"                           \<comment> \<open>the Kubernetes client\<close>
  h_uses_cm :: bool
  cneEventAckCount :: counters
  cneEventReceivedCount :: counters
  cneStatusCheckReceivedCount :: counters
  h_active :: int
  h_posts :: "(string \<times> ce_event option) list"       \<comment> \<open>attempts: endpoint, and event or acknowledgement\<close>
  h_removals :: nat

text \<open>An element of the channel with its handler, which gives whether it failed.\<close>

record channel_item = data_chan +
  ProcessEventFn :: "(ce_event \<Rightarrow> bool) option"

type_synonym hub_res = "(unit, hub) res"

section \<open>Counters\<close>

definition bump :: "string \<Rightarrow> bool \<Rightarrow> counters \<Rightarrow> counters" where
  "bump a okay c = AList.update (a, okay) (mget_or 0 c (a, okay) + 1) c"

definition UpdateEventReceivedCount :: "string \<Rightarrow> bool \<Rightarrow> hub \<Rightarrow> hub" where
  "UpdateEventReceivedCount a okay h = h\<lparr>cneEventReceivedCount := bump a okay (cneEventReceivedCount h)\<rparr>"

definition UpdateEventAckCount :: "string \<Rightarrow> bool \<Rightarrow> hub \<Rightarrow> hub" where
  "UpdateEventAckCount a okay h = h\<lparr>cneEventAckCount := bump a okay (cneEventAckCount h)\<rparr>"

definition UpdateStatusAckCount :: "string \<Rightarrow> bool \<Rightarrow> hub \<Rightarrow> hub" where
  "UpdateStatusAckCount a okay h = h\<lparr>cneStatusCheckReceivedCount := bump a okay (cneStatusCheckReceivedCount h)\<rparr>"

section \<open>Posting\<close>

text \<open>One attempt: the network's answer, and the attempt noted.\<close>

definition attempt :: "dispatch_env \<Rightarrow> string \<Rightarrow> ce_event option \<Rightarrow> hub \<Rightarrow> http_outcome \<times> hub" where
  "attempt env uri e h = (de_net env (length (h_posts h)), h\<lparr>h_posts := h_posts h @ [(uri, e)]\<rparr>)"

definition post_event :: "dispatch_env \<Rightarrow> string \<Rightarrow> ce_event \<Rightarrow> hub \<Rightarrow> rest_error option \<times> hub" where
  "post_event env uri e h =
    (if \<not> de_marshals env e then (PostEvent False RequestRefused, h)
     else (let (r, h) = attempt env uri (Some e) h in (PostEvent True r, h)))"

definition post_cloud_event :: "dispatch_env \<Rightarrow> string \<Rightarrow> ce_event \<Rightarrow> hub \<Rightarrow> (int \<times> rest_error option) \<times> hub" where
  "post_cloud_event env uri e h =
    (if \<not> de_marshals env e then (PostCloudEvent False RequestRefused, h)
     else (let (r, h) = attempt env uri (Some e) h in (PostCloudEvent True r, h)))"

section \<open>The ConfigMap\<close>

definition delete_request :: "nat \<Rightarrow> subscriber" where
  "delete_request client = \<lparr>sub_ClientID = client, sub_Store = [], sub_EndPointURI = None,
     sub_Status = 0, sub_Action = DELETE_status, failedCount = 0\<rparr>"

text \<open>A client that is nil is dereferenced. Errors are only logged.\<close>

definition update_config_map :: "dispatch_env \<Rightarrow> subscriber \<Rightarrow> hub \<Rightarrow> hub_res" where
  "update_config_map env s h =
    (case h_kube h of
      None \<Rightarrow> Panic h
    | Some k \<Rightarrow> Ok () (h\<lparr>h_kube := Some (snd (UpdateConfigMap (de_json env) [s] k))\<rparr>))"

definition cleanupConfigMap :: "dispatch_env \<Rightarrow> nat \<Rightarrow> hub \<Rightarrow> hub_res" where
  "cleanupConfigMap env client h = update_config_map env (delete_request client) h"

section \<open>An event for the subscribers\<close>

text \<open>After an unreachable post: the tenth in a row removes the client.\<close>

definition note_unreachable :: "dispatch_env \<Rightarrow> data_chan \<Rightarrow> nat \<Rightarrow> hub \<Rightarrow> hub_res" where
  "note_unreachable env d client h =
    (let (fail, cs) = IncFailCountToFail client (h_clients h); h = h\<lparr>h_clients := cs\<rparr> in
     if \<not> fail then Ok () h
     else
       (let ((n, err), cs) = DeleteAllSubscriptionsForClient (de_removes env (h_removals h)) client (h_clients h);
            h = h\<lparr>h_clients := cs, h_removals := h_removals h + 1\<rparr>
        in res_bind (if err then Ok () h else cleanupConfigMap env (dc_ClientID d) h)
             (\<lambda>_ h. Ok () (h\<lparr>h_active := h_active h - int n\<rparr>))))"

definition deliver_one :: "dispatch_env \<Rightarrow> data_chan \<Rightarrow> ce_event \<Rightarrow> nat \<times> string option \<Rightarrow> hub \<Rightarrow> hub_res" where
  "deliver_one env d e to h =
    (case to of
      (client, None) \<Rightarrow> Ok () h
    | (client, Some uri) \<Rightarrow>
        (case post_cloud_event env uri e h of
          ((status, Some err), h) \<Rightarrow>
            (let h = UpdateEventReceivedCount (dc_Address d) False h in
             if unreachable err then note_unreachable env d client h else Ok () h)
        | ((status, None), h) \<Rightarrow>
            (let h = h\<lparr>h_clients := ResetFailCount client (h_clients h)\<rparr> in
             Ok () (UpdateEventReceivedCount (dc_Address d) (status = 204) h))))"

definition deliver_all :: "dispatch_env \<Rightarrow> data_chan \<Rightarrow> ce_event \<Rightarrow> hub \<Rightarrow> hub_res" where
  "deliver_all env d e h =
    (let eventSubscribers = GetClientIDAddressByResource (dc_Address d) (h_clients h) in
     if eventSubscribers \<noteq> [] then res_fold (deliver_one env d e) eventSubscribers h
     else Ok () (UpdateEventReceivedCount (dc_Address d) False h))"

text \<open>A new event: its own handler, a local subscription, or the subscribers of its address.\<close>

definition new_event :: "dispatch_env \<Rightarrow> channel_item \<Rightarrow> ce_event \<Rightarrow> hub \<Rightarrow> hub_res" where
  "new_event env d e h =
    (case ProcessEventFn d of
      Some f \<Rightarrow> Ok () (if f e then UpdateEventReceivedCount (dc_Address d) False h else h)
    | None \<Rightarrow>
        (case map_of (h_subscriptions h) (dc_Address d) of
          Some (subID, Some uri) \<Rightarrow>
            (let (err, h) = post_event env uri (e\<lparr>ev_ID := subID\<rparr>) h
             in Ok () (UpdateEventReceivedCount (dc_Address d) (err = None) h))
        | Some (_, None) \<Rightarrow> Ok () (UpdateEventReceivedCount (dc_Address d) True h)
        | None \<Rightarrow> deliver_all env (data_chan.truncate d) e h))"

text \<open>The acknowledgement to the publisher, whose answer is only logged.\<close>

definition post_process :: "dispatch_env \<Rightarrow> string \<Rightarrow> data_status \<Rightarrow> hub \<Rightarrow> hub" where
  "post_process env address status h =
    (case map_of (h_publishers h) address of
      None \<Rightarrow> h
    | Some (_, uri) \<Rightarrow>
        (let h = UpdateEventAckCount address (status = SUCCESS_status) h in
         case uri of None \<Rightarrow> h | Some u \<Rightarrow> snd (attempt env u None h)))"

section \<open>The channels\<close>

text \<open>One element of \<open>EventOutCh\<close>.\<close>

definition out_item :: "dispatch_env \<Rightarrow> channel_item \<Rightarrow> hub \<Rightarrow> hub_res" where
  "out_item env d h =
    (case dc_Type d of
      EVENT_kind \<Rightarrow>
        (case dc_Data d of
          None \<Rightarrow> Ok () h
        | Some e \<Rightarrow>
            if \<not> de_converts env e then Ok () h
            else if dc_Status d = NEW_status then new_event env d e h
            else if dc_Status d = SUCCESS_status \<or> dc_Status d = FAILED_status
            then Ok () (post_process env (dc_Address d) (dc_Status d) h)
            else Ok () h)
    | STATUS_kind \<Rightarrow> Ok () (UpdateStatusAckCount (dc_Address d) (dc_Status d = SUCCESS_status) h)
    | SUBSCRIBER_kind \<Rightarrow>
        if \<not> h_uses_cm h then Ok () h
        else if dc_Status d = SUCCESS_status \<and> dc_Data d \<noteq> None then
          (case de_subscriber env (the (dc_Data d)) of
            None \<Rightarrow> Ok () h
          | Some s \<Rightarrow> update_config_map env s h)
        else if dc_Status d = DELETE_status then cleanupConfigMap env (dc_ClientID d) h
        else Ok () h
    | PUBLISHER_kind \<Rightarrow> Ok () h)"

text \<open>The elements taken until the close channel is closed; nothing recovers a panic.\<close>

definition ProcessOutChannel :: "dispatch_env \<Rightarrow> channel_item list \<Rightarrow> hub \<Rightarrow> hub_res" where
  "ProcessOutChannel env items h = res_fold (out_item env) items h"

text \<open>
  One element of \<open>EventInCh\<close> with the override function of its sender: the element to send, changed,
  and whether it failed. The acknowledgement of a status check is built and dropped.
\<close>

definition ack_item :: "data_chan \<Rightarrow> (ce_event \<Rightarrow> data_chan \<Rightarrow> bool \<times> data_chan) option \<Rightarrow> data_chan option" where
  "ack_item d override =
    (let out = \<lparr>dc_Type = EVENT_kind, dc_Status = SUCCESS_status, dc_Data = dc_Data d, dc_Address = dc_Address d,
               dc_ClientID = 0\<rparr> in
     case override of
       None \<Rightarrow> Some out
     | Some f \<Rightarrow>
         (case dc_Data d of
           None \<Rightarrow> None
         | Some e \<Rightarrow> (let (err, out) = f e out in
             Some (out\<lparr>dc_Status := if err then FAILED_status else SUCCESS_status\<rparr>))))"

definition in_item ::
  "data_chan \<Rightarrow> (ce_event \<Rightarrow> data_chan \<Rightarrow> bool \<times> data_chan) option \<Rightarrow> out_channel \<Rightarrow> (unit, out_channel) res" where
  "in_item d override ch =
    (if dc_Type d = EVENT_kind \<and> dc_Status d = NEW_status then
       (if dc_Data d = None then Panic ch
        else case ack_item d override of
          None \<Rightarrow> Panic ch
        | Some out \<Rightarrow> Ok () (snd (SendToChannel out ch)))
     else if dc_Type d = STATUS_kind \<and> dc_Status d = NEW_status then
       (case ack_item d override of None \<Rightarrow> Panic ch | Some _ \<Rightarrow> Ok () ch)
     else Ok () ch)"

definition ProcessInChannel ::
  "(data_chan \<times> (ce_event \<Rightarrow> data_chan \<Rightarrow> bool \<times> data_chan) option) list \<Rightarrow> out_channel \<Rightarrow> (unit, out_channel) res" where
  "ProcessInChannel items ch = res_fold (\<lambda>(d, f). in_item d f) items ch"

end
