(* ===== verification/Delivery.thy ===== *)
theory Delivery
  imports Dispatch
begin

text \<open>
  What the dispatcher promises: every subscriber of an address gets one post per event, whatever the
  others answer; a client is dropped by its tenth unreachable post in a row only; and what happens to
  the ConfigMap when one is dropped.
\<close>

section \<open>A loop over distinct keys\<close>

text \<open>If the turn of another key leaves what \<open>g\<close> sees, then the loop changes it in the turn of the key only.\<close>

lemma res_fold_turn:
  assumes "distinct (map fst xs)"
    and other: "\<And>x s. fst x \<noteq> c \<Longrightarrow> g (res_state (f x s)) = g s"
  shows "g (res_state (res_fold f xs s)) = g s \<or>
    (\<exists>x \<in> set xs. \<exists>s1. fst x = c \<and> g s1 = g s \<and> g (res_state (res_fold f xs s)) = g (res_state (f x s1)))"
  using assms(1)
proof (induction xs arbitrary: s)
  case Nil
  then show ?case by simp
next
  case (Cons x xs)
  have rest: "g (res_state (res_fold f xs s1)) = g s1" if "fst x = c" for s1
  proof -
    have "\<forall>y \<in> set xs. fst y \<noteq> c" using Cons.prems that by (auto simp: image_iff)
    then show ?thesis using Cons.IH [of s1] Cons.prems by auto
  qed
  show ?case
  proof (cases "f x s")
    case (Panic s1)
    then show ?thesis using other [of x s] by (cases "fst x = c") auto
  next
    case (Ok u s1)
    show ?thesis
    proof (cases "fst x = c")
      case True
      then show ?thesis using Ok rest [of s1] by auto
    next
      case False
      then have "g s1 = g s" using other [of x s] Ok by simp
      then show ?thesis using Ok Cons.IH [of s1] Cons.prems by auto
    qed
  qed
qed

section \<open>One subscriber's turn\<close>

text \<open>How often events for an address were counted as received.\<close>

definition received :: "string \<Rightarrow> hub \<Rightarrow> nat" where
  "received a h = mget_or 0 (cneEventReceivedCount h) (a, True) + mget_or 0 (cneEventReceivedCount h) (a, False)"

definition posts_for :: "ce_event \<Rightarrow> (nat \<times> string option) list \<Rightarrow> (string \<times> ce_event option) list" where
  "posts_for e subs = concat (map (\<lambda>(c, u). case u of None \<Rightarrow> [] | Some uri \<Rightarrow> [(uri, Some e)]) subs)"

lemma received_bump [simp]: "received a (UpdateEventReceivedCount a okay h) = received a h + 1"
  by (cases okay) (simp_all add: received_def UpdateEventReceivedCount_def bump_def mget_or_def update_conv')

lemma UpdateEventReceivedCount_frame [simp]:
  "h_posts (UpdateEventReceivedCount a okay h) = h_posts h" "h_kube (UpdateEventReceivedCount a okay h) = h_kube h"
  "h_clients (UpdateEventReceivedCount a okay h) = h_clients h" "h_removals (UpdateEventReceivedCount a okay h) = h_removals h"
  by (simp_all add: UpdateEventReceivedCount_def)

lemma received_cong: "cneEventReceivedCount h' = cneEventReceivedCount h \<Longrightarrow> received a h' = received a h"
  by (simp add: received_def)

lemma note_unreachable_returns:
  assumes "h_kube h \<noteq> None"
  shows "\<exists>h'. note_unreachable env d c h = Ok () h' \<and> h_posts h' = h_posts h \<and> h_kube h' \<noteq> None \<and>
    cneEventReceivedCount h' = cneEventReceivedCount h"
  using assms
  by (auto simp: note_unreachable_def Let_def cleanupConfigMap_def update_config_map_def split: prod.split)

lemma deliver_one_posts:
  assumes "h_kube h \<noteq> None" and "de_marshals env e"
  shows "\<exists>h'. deliver_one env d e (c, u) h = Ok () h' \<and> h_posts h' = h_posts h @ posts_for e [(c, u)] \<and>
    h_kube h' \<noteq> None \<and> received (dc_Address d) h' = received (dc_Address d) h + length (posts_for e [(c, u)])"
proof (cases u)
  case None
  then show ?thesis using assms by (simp add: deliver_one_def posts_for_def)
next
  case (Some uri)
  let ?r = "de_net env (length (h_posts h))"
  let ?h = "h\<lparr>h_posts := h_posts h @ [(uri, Some e)]\<rparr>"
  have p: "post_cloud_event env uri e h = (PostCloudEvent True ?r, ?h)"
    by (simp add: post_cloud_event_def attempt_def assms(2))
  have rc: "received a (h\<lparr>h_posts := ps\<rparr>) = received a h" "received a (h\<lparr>h_clients := cs\<rparr>) = received a h" for a ps cs h
    by (simp_all add: received_def)
  obtain status err where s: "PostCloudEvent True ?r = (status, err)" by (rule prod.exhaust)
  show ?thesis
  proof (cases err)
    case None
    then show ?thesis using assms(1)
      by (simp add: deliver_one_def Some p s posts_for_def rc Let_def)
  next
    case e: (Some er)
    let ?h1 = "UpdateEventReceivedCount (dc_Address d) False ?h"
    show ?thesis
    proof (cases "unreachable er")
      case True
      obtain h' where "note_unreachable env d c ?h1 = Ok () h' \<and> h_posts h' = h_posts ?h1 \<and> h_kube h' \<noteq> None \<and>
          cneEventReceivedCount h' = cneEventReceivedCount ?h1"
        using note_unreachable_returns [of ?h1 env d c] assms(1) by auto
      then show ?thesis using True received_cong [of h' ?h1]
        by (simp add: deliver_one_def Some p s e posts_for_def rc Let_def)
    next
      case False
      then show ?thesis using assms(1) by (simp add: deliver_one_def Some p s e posts_for_def rc Let_def)
    qed
  qed
qed

lemma deliver_fold_posts:
  assumes "h_kube h \<noteq> None" and "de_marshals env e"
  shows "\<exists>h'. res_fold (deliver_one env d e) subs h = Ok () h' \<and> h_posts h' = h_posts h @ posts_for e subs \<and>
    received (dc_Address d) h' = received (dc_Address d) h + length (posts_for e subs)"
  using assms(1)
proof (induction subs arbitrary: h)
  case Nil
  then show ?case by (simp add: posts_for_def)
next
  case (Cons cu subs)
  obtain c u where cu: "cu = (c, u)" by (rule prod.exhaust)
  obtain h1 where h1: "deliver_one env d e (c, u) h = Ok () h1" "h_posts h1 = h_posts h @ posts_for e [(c, u)]"
      "h_kube h1 \<noteq> None" "received (dc_Address d) h1 = received (dc_Address d) h + length (posts_for e [(c, u)])"
    using deliver_one_posts [OF Cons.prems assms(2)] by blast
  have app: "posts_for e (cu # subs) = posts_for e [(c, u)] @ posts_for e subs" by (simp add: posts_for_def cu)
  show ?case using Cons.IH [OF h1(3)] h1 by (auto simp: cu [symmetric] app)
qed

text \<open>An element that goes to the subscribers of its address.\<close>

definition for_subscribers :: "dispatch_env \<Rightarrow> channel_item \<Rightarrow> ce_event \<Rightarrow> hub \<Rightarrow> bool" where
  "for_subscribers env d e h \<longleftrightarrow> dc_Type d = EVENT_kind \<and> dc_Status d = NEW_status \<and> dc_Data d = Some e \<and>
     de_converts env e \<and> ProcessEventFn d = None \<and> map_of (h_subscriptions h) (dc_Address d) = None"

lemma truncate_address [simp]:
  "dc_Address (data_chan.truncate d) = dc_Address d" "dc_ClientID (data_chan.truncate d) = dc_ClientID d"
  by (simp_all add: data_chan.defs)

lemma out_item_subscribers:
  "for_subscribers env d e h \<Longrightarrow> out_item env d h = deliver_all env (data_chan.truncate d) e h"
  by (simp add: for_subscribers_def out_item_def new_event_def)

text \<open>C14: every subscriber is served: for a new event without a handler of its own, the dispatcher posts
  it once to every subscriber of its address that has an endpoint, in turn, whatever the posts before
  were answered, and counts every post (an event that nobody has subscribed to is counted once).\<close>
theorem every_subscriber_posted:
  assumes "for_subscribers env d e h" and "h_kube h \<noteq> None" and "de_marshals env e"
  shows "\<exists>h'. out_item env d h = Ok () h' \<and>
    h_posts h' = h_posts h @ posts_for e (GetClientIDAddressByResource (dc_Address d) (h_clients h)) \<and>
    received (dc_Address d) h' = received (dc_Address d) h +
      (if GetClientIDAddressByResource (dc_Address d) (h_clients h) = [] then 1
       else length (posts_for e (GetClientIDAddressByResource (dc_Address d) (h_clients h))))"
proof -
  let ?subs = "GetClientIDAddressByResource (dc_Address d) (h_clients h)"
  note o = out_item_subscribers [OF assms(1)]
  show ?thesis
  proof (cases "?subs = []")
    case True
    then show ?thesis by (simp add: o deliver_all_def posts_for_def)
  next
    case False
    then show ?thesis using deliver_fold_posts [OF assms(2,3), of "data_chan.truncate d" ?subs]
      by (simp add: o deliver_all_def)
  qed
qed

section \<open>Who is dropped\<close>

lemma subscribers_distinct:
  assumes "keyed st"
  shows "distinct (map fst (GetClientIDAddressByResource a st))"
proof -
  have "map fst (GetClientIDAddressByResource a st) =
      map fst (filter (\<lambda>(c, s). list_ex (\<lambda>(k, r). psub_Resource r = a) (sub_Store s)) st)"
    using assms by (auto simp: GetClientIDAddressByResource_def keyed_def)
  then show ?thesis using assms by (simp add: keyed_def distinct_map_filter)
qed

lemma inc_other: "c' \<noteq> c \<Longrightarrow> map_of (snd (IncFailCountToFail c' st)) c = map_of st c"
  by (simp add: IncFailCountToFail_def Let_def update_conv' split: option.split)

lemma del_other: "c' \<noteq> c \<Longrightarrow> map_of (snd (DeleteAllSubscriptionsForClient ok c' st)) c = map_of st c"
  by (simp add: DeleteAllSubscriptionsForClient_def DeleteClient_def delete_conv' split: option.split)

lemma cleanup_clients [simp]: "h_clients (res_state (cleanupConfigMap env c h)) = h_clients h"
  by (simp add: cleanupConfigMap_def update_config_map_def split: option.split)

lemma cleanup_bind [simp]:
  "h_clients (res_state (res_bind (cleanupConfigMap env c h) (\<lambda>_ h. Ok () (h\<lparr>h_active := f h\<rparr>)))) = h_clients h"
  by (simp add: cleanupConfigMap_def update_config_map_def split: option.split)

lemma note_unreachable_clients:
  "h_clients (res_state (note_unreachable env d c h)) =
    (let (fail, cs) = IncFailCountToFail c (h_clients h)
     in if fail then snd (DeleteAllSubscriptionsForClient (de_removes env (h_removals h)) c cs) else cs)"
  by (simp add: note_unreachable_def Let_def split: prod.split)

lemma note_unreachable_other:
  "c' \<noteq> c \<Longrightarrow> map_of (h_clients (res_state (note_unreachable env d c' h))) c = map_of (h_clients h) c"
  using inc_other [of c' c "h_clients h"] del_other [of c' c "de_removes env (h_removals h)"]
  by (cases "IncFailCountToFail c' (h_clients h)") (simp add: note_unreachable_clients)

lemma deliver_one_other:
  assumes "c' \<noteq> c"
  shows "map_of (h_clients (res_state (deliver_one env d e (c', u) h))) c = map_of (h_clients h) c"
proof -
  have r: "map_of (ResetFailCount c' st) c = map_of st c" for st
    using assms by (simp add: ResetFailCount_def update_conv' split: option.split)
  show ?thesis using assms
    by (simp add: deliver_one_def post_cloud_event_def attempt_def Let_def r note_unreachable_other
        split: option.split prod.split)
qed

lemma note_unreachable_drops:
  assumes "map_of (h_clients h) c = Some s" and "sub_Action s \<noteq> DELETE_status"
    and "map_of (h_clients (res_state (note_unreachable env d c h))) c = None"
  shows "SetConnectionToFailAfter \<le> Suc (failedCount s)"
proof (rule ccontr)
  assume "\<not> ?thesis"
  then have "IncFailCountToFail c (h_clients h) = (False, AList.update c (s\<lparr>failedCount := failedCount s + 1\<rparr>) (h_clients h))"
    using assms(1,2) by (simp add: IncFailCountToFail_def IncFailCount_def)
  then show False using assms(3) by (simp add: note_unreachable_clients update_conv')
qed

lemma deliver_one_drops:
  assumes "map_of (h_clients h) c = Some s" and "sub_Action s \<noteq> DELETE_status"
    and "map_of (h_clients (res_state (deliver_one env d e (c, u) h))) c = None"
  shows "SetConnectionToFailAfter \<le> Suc (failedCount s) \<and>
    (\<exists>err. u \<noteq> None \<and> de_net env (length (h_posts h)) = ConnectionFailed err \<and> err \<noteq> OtherFailure)"
proof -
  obtain uri where u: "u = Some uri" using assms(1,3) by (cases u) (simp_all add: deliver_one_def)
  obtain status er h1 where p: "post_cloud_event env uri e h = ((status, er), h1)" by (metis prod.exhaust)
  have h1: "h_clients h1 = h_clients h"
    using p by (auto simp: post_cloud_event_def attempt_def split: if_splits)
  have r: "map_of (ResetFailCount c (h_clients h)) c \<noteq> None"
    using assms(1) by (simp add: ResetFailCount_def update_conv')
  obtain err where er: "er = Some err" using assms(3) r
    by (cases er) (simp_all add: deliver_one_def u p h1 Let_def)
  have un: "unreachable err" using assms(1,3) by (rule_tac ccontr) (simp add: deliver_one_def u p er h1 Let_def)
  have "de_marshals env e" using p er un
    by (auto simp: post_cloud_event_def PostCloudEvent_def unreachable_def split: if_splits)
  then have "snd (PostCloudEvent True (de_net env (length (h_posts h)))) = Some err"
    using p er by (simp add: post_cloud_event_def attempt_def)
  then have "\<exists>e. de_net env (length (h_posts h)) = ConnectionFailed e \<and> e \<noteq> OtherFailure"
    using unreachable_iff [of True "de_net env (length (h_posts h))"] un by simp
  moreover have "SetConnectionToFailAfter \<le> Suc (failedCount s)"
    using note_unreachable_drops [of "UpdateEventReceivedCount (dc_Address d) False h1" c s env d] assms un
    by (simp add: deliver_one_def u p er h1 Let_def)
  ultimately show ?thesis using u by simp
qed

text \<open>The elements that are not for the subscribers leave them alone.\<close>

lemma out_item_clients:
  assumes "h_clients (res_state (out_item env d h)) \<noteq> h_clients h"
  shows "\<exists>e. for_subscribers env d e h"
proof (rule ccontr)
  assume no: "\<not> ?thesis"
  have u: "h_clients (res_state (update_config_map env s h)) = h_clients h" for s
    by (simp add: update_config_map_def split: option.split)
  have pe: "h_clients (snd (post_event env uri e h)) = h_clients h" for uri e
    by (simp add: post_event_def attempt_def split: prod.split)
  have n: "h_clients (res_state (new_event env d e h)) = h_clients h" if "\<not> for_subscribers env d e h"
      and "dc_Type d = EVENT_kind" "dc_Status d = NEW_status" "dc_Data d = Some e" "de_converts env e" for e
    using that pe by (auto simp: new_event_def for_subscribers_def split: option.split prod.split) (metis snd_conv)
  have p: "h_clients (post_process env a st h) = h_clients h" for a st
    by (simp add: post_process_def attempt_def UpdateEventAckCount_def Let_def split: option.split prod.split)
  show False using assms no n
    by (cases "dc_Type d")
      (auto simp: out_item_def u p cleanupConfigMap_def UpdateStatusAckCount_def split: option.splits if_splits)
qed

lemma deliver_all_drops:
  assumes "keyed (h_clients h)" and "map_of (h_clients h) c = Some s" and "sub_Action s \<noteq> DELETE_status"
    and gone: "map_of (h_clients (res_state (deliver_all env d e h))) c = None"
  shows "SetConnectionToFailAfter \<le> Suc (failedCount s) \<and>
    (\<exists>n err. de_net env n = ConnectionFailed err \<and> err \<noteq> OtherFailure) \<and>
    c \<in> fst ` set (GetClientIDAddressByResource (dc_Address d) (h_clients h))"
proof -
  let ?subs = "GetClientIDAddressByResource (dc_Address d) (h_clients h)"
  have ne: "?subs \<noteq> []" using gone assms(2) by (auto simp: deliver_all_def Let_def split: if_splits)
  let ?g = "\<lambda>h. map_of (h_clients h) c"
  have turn: "?g (res_state (res_fold (deliver_one env d e) ?subs h)) = ?g h \<or>
    (\<exists>x \<in> set ?subs. \<exists>s1. fst x = c \<and> ?g s1 = ?g h \<and>
      ?g (res_state (res_fold (deliver_one env d e) ?subs h)) = ?g (res_state (deliver_one env d e x s1)))"
    by (rule res_fold_turn [OF subscribers_distinct [OF assms(1)]])
      (use deliver_one_other in \<open>metis prod.collapse\<close>)
  then obtain u s1 where u: "(c, u) \<in> set ?subs" and s1: "?g s1 = Some s"
      and g: "?g (res_state (deliver_one env d e (c, u) s1)) = None"
    using gone assms(2) ne by (auto simp: deliver_all_def)
  show ?thesis using deliver_one_drops [OF s1 assms(3) g] u by (force simp: image_iff)
qed


section \<open>The ConfigMap when a client is dropped\<close>

text \<open>The client's entry in the ConfigMap, and that the texts in it can be read.\<close>

definition cm_entry :: "nat \<Rightarrow> hub \<Rightarrow> string option" where
  "cm_entry c h = (case h_kube h of None \<Rightarrow> None | Some k \<Rightarrow> held k c)"

definition cm_wf :: "(string \<Rightarrow> subscriber option) \<Rightarrow> (subscriber \<Rightarrow> string option) \<Rightarrow> hub \<Rightarrow> bool" where
  "cm_wf decode json h = (case h_kube h of None \<Rightarrow> True | Some k \<Rightarrow> wf_kube decode json k)"

definition cm_kept :: "(string \<Rightarrow> subscriber option) \<Rightarrow> (subscriber \<Rightarrow> string option) \<Rightarrow> nat \<Rightarrow> hub \<Rightarrow> hub \<Rightarrow> bool" where
  "cm_kept decode json c h h' \<longleftrightarrow> cm_entry c h' = cm_entry c h \<and> (cm_wf decode json h \<longrightarrow> cm_wf decode json h')"

lemma cm_kept_same: "h_kube h' = h_kube h \<Longrightarrow> cm_kept decode json c h h'"
  by (simp add: cm_kept_def cm_entry_def cm_wf_def)

lemma cm_kept_trans: "cm_kept decode json c h h1 \<Longrightarrow> cm_kept decode json c h1 h2 \<Longrightarrow> cm_kept decode json c h h2"
  by (simp add: cm_kept_def)

lemma cleanup_kept:
  assumes "json_roundtrip decode (de_json env)" and "c \<noteq> x"
  shows "cm_kept decode (de_json env) c h (res_state (cleanupConfigMap env x h))"
proof (cases "h_kube h")
  case None
  then show ?thesis by (simp add: cleanupConfigMap_def update_config_map_def cm_kept_same)
next
  case (Some k)
  have "held (snd (UpdateConfigMap (de_json env) [delete_request x] k)) c = held k c"
    using assms(2) by (simp add: UpdateConfigMap_held put_map_def delete_request_def)
  then show ?thesis using Some UpdateConfigMap_wf [OF assms(1), of k "[delete_request x]"]
    by (simp add: cleanupConfigMap_def update_config_map_def cm_kept_def cm_entry_def cm_wf_def)
qed

lemma note_unreachable_kept:
  assumes "json_roundtrip decode (de_json env)" and "c \<noteq> dc_ClientID d"
  shows "cm_kept decode (de_json env) c h (res_state (note_unreachable env d client h))"
proof -
  obtain fail cs where f: "IncFailCountToFail client (h_clients h) = (fail, cs)" by (rule prod.exhaust)
  obtain n err cs2 where r: "DeleteAllSubscriptionsForClient (de_removes env (h_removals h)) client cs = ((n, err), cs2)"
    by (metis prod.exhaust)
  let ?h = "h\<lparr>h_clients := cs2, h_removals := h_removals h + 1\<rparr>"
  have h: "cm_kept decode (de_json env) c h ?h" by (rule cm_kept_same) simp
  have c: "cm_kept decode (de_json env) c ?h (res_state (cleanupConfigMap env (dc_ClientID d) ?h))"
    by (rule cleanup_kept [OF assms])
  show ?thesis using cm_kept_trans [OF h c]
    by (cases fail; cases err; cases "cleanupConfigMap env (dc_ClientID d) ?h";
        simp add: note_unreachable_def f r Let_def cm_kept_def cm_entry_def cm_wf_def)
qed

lemma deliver_one_kept:
  assumes "json_roundtrip decode (de_json env)" and "c \<noteq> dc_ClientID d"
  shows "cm_kept decode (de_json env) c h (res_state (deliver_one env d e x h))"
proof -
  obtain client u where x: "x = (client, u)" by (rule prod.exhaust)
  show ?thesis
  proof (cases u)
    case None
    then show ?thesis by (simp add: deliver_one_def x cm_kept_same)
  next
    case (Some uri)
    obtain status er h1 where p: "post_cloud_event env uri e h = ((status, er), h1)" by (metis prod.exhaust)
    have "h_kube h1 = h_kube h" using p by (auto simp: post_cloud_event_def attempt_def split: if_splits)
    then have k: "cm_kept decode (de_json env) c h (UpdateEventReceivedCount (dc_Address d) okay (f h1))"
      if "\<And>h. h_kube (f h) = h_kube h" for okay f using that by (intro cm_kept_same) simp
    show ?thesis
    proof (cases er)
      case None
      then show ?thesis using k [of "\<lambda>h. h\<lparr>h_clients := ResetFailCount client (h_clients h)\<rparr>" "status = 204"]
        by (simp add: deliver_one_def x Some p Let_def)
    next
      case er: (Some err)
      then show ?thesis
        using k [of "\<lambda>h. h" False] cm_kept_trans [OF k [of "\<lambda>h. h" False]
            note_unreachable_kept [OF assms, of "UpdateEventReceivedCount (dc_Address d) False h1" client]]
        by (simp add: deliver_one_def x Some p Let_def)
    qed
  qed
qed

lemma deliver_all_kept:
  assumes "json_roundtrip decode (de_json env)" and "c \<noteq> dc_ClientID d"
  shows "cm_kept decode (de_json env) c h (res_state (deliver_all env d e h))"
proof -
  have "cm_kept decode (de_json env) c h (res_state (res_fold (deliver_one env d e) xs h))" for xs
  proof (induction xs arbitrary: h)
    case Nil
    then show ?case by (simp add: cm_kept_same)
  next
    case (Cons x xs)
    have "cm_kept decode (de_json env) c h (res_state (deliver_one env d e x h))" by (rule deliver_one_kept [OF assms])
    then show ?case using Cons.IH cm_kept_trans by (cases "deliver_one env d e x h") auto
  qed
  then show ?thesis by (simp add: deliver_all_def Let_def cm_kept_same)
qed

text \<open>C31: a dropped client comes back: the clean-up of the ConfigMap after a client was dropped is asked
  for the sender of the event, not for that client. So the client's entry stays in the ConfigMap, and
  the next start of the process writes its file again.\<close>
theorem dropped_client_comes_back:
  assumes "json_roundtrip decode (de_json env)" and "for_subscribers env d e h" and "c \<noteq> dc_ClientID d"
    and "h_kube h = Some k" and "wf_kube decode (de_json env) k" and "held k c = Some t"
    and "out_item env d h = Ok () h'" and "h_kube h' = Some k'"
    and "InitConfigMap decode (de_json env) (\<lambda>_. True) retry [] k' = (False, files, k2)"
  shows "map_of files c = Some t"
proof -
  have "cm_kept decode (de_json env) c h (res_state (deliver_all env (data_chan.truncate d) e h))"
    using deliver_all_kept [OF assms(1)] assms(3) by simp
  moreover have "deliver_all env (data_chan.truncate d) e h = Ok () h'"
    using out_item_subscribers [OF assms(2)] assms(7) by simp
  ultimately have "cm_kept decode (de_json env) c h h'" by simp
  then have "held k' c = Some t" and "wf_kube decode (de_json env) k'"
    using assms(4,5,6,8) by (simp_all add: cm_kept_def cm_entry_def cm_wf_def)
  then show ?thesis using InitConfigMap_files [OF _ assms(9)] by simp
qed

text \<open>Without a Kubernetes client the dispatcher does not survive the dropping of a client: when the
  tenth post in a row to a client is unreachable, the clean-up calls a method on the nil client.\<close>
theorem drop_without_kube_panics:
  assumes "for_subscribers env d e h" and "h_kube h = None" and "de_marshals env e"
    and "GetClientIDAddressByResource (dc_Address d) (h_clients h) = (c, Some uri) # rest"
    and "map_of (h_clients h) c = Some s" and "failedCount s = 9" and "de_removes env (h_removals h)"
    and "de_net env (length (h_posts h)) = ConnectionFailed err" and "err \<noteq> OtherFailure"
  shows "\<exists>h'. out_item env d h = Panic h'"
proof -
  have "unreachable (DoFailed err)" using assms(9) by (cases err) (simp_all add: unreachable_def)
  then show ?thesis using assms(2-8)
    by (simp add: out_item_subscribers [OF assms(1)] deliver_all_def deliver_one_def post_cloud_event_def attempt_def
        PostCloudEvent_def Post_def note_unreachable_def IncFailCountToFail_def IncFailCount_def
        SetConnectionToFailAfter_def DeleteAllSubscriptionsForClient_def DeleteClient_def update_conv'
        cleanupConfigMap_def update_config_map_def UpdateEventReceivedCount_def Let_def)
qed

section \<open>A client that is dropped\<close>

definition drop_env :: dispatch_env where
  "drop_env = \<lparr>de_net = (\<lambda>n. if n = 0 then ConnectionFailed ConnRefused else Answered 204 []),
     de_marshals = (\<lambda>_. True), de_converts = (\<lambda>_. True), de_subscriber = (\<lambda>_. None), de_json = demo_json,
     de_removes = (\<lambda>_. True)\<rparr>"

definition drop_hub :: "kube option \<Rightarrow> hub" where
  "drop_hub k = \<lparr>h_publishers = [], h_subscriptions = [],
     h_clients = [(2, (demo_client 2)\<lparr>failedCount := 9\<rparr>), (3, demo_client 3)], h_kube = k, h_uses_cm = (k \<noteq> None),
     cneEventAckCount = [], cneEventReceivedCount = [], cneStatusCheckReceivedCount = [], h_active = 2,
     h_posts = [], h_removals = 0\<rparr>"

definition drop_kube :: kube where
  "drop_kube = demo_kube\<lparr>kc_map := Some [(2, ''xx''), (3, ''xxx'')]\<rparr>"

definition drop_event :: ce_event where
  "drop_event = \<lparr>ev_ID = ''p'', ev_Type = ''t'', ev_Source = ''/sync'', ev_Data = []\<rparr>"

definition drop_item :: channel_item where
  "drop_item = \<lparr>dc_Type = EVENT_kind, dc_Status = NEW_status, dc_Data = Some drop_event, dc_Address = ''/sync'',
     dc_ClientID = 0, ProcessEventFn = None\<rparr>"

lemmas drop_defs = drop_env_def drop_hub_def drop_kube_def drop_event_def drop_item_def demo_kube_defs

lemma drop_for: "for_subscribers drop_env drop_item drop_event (drop_hub k)"
  by (simp add: for_subscribers_def drop_defs)

lemma drop_subs: "GetClientIDAddressByResource ''/sync'' (h_clients (drop_hub k)) = [(2, Some ''http://c''), (3, Some ''http://c'')]"
  by (simp add: GetClientIDAddressByResource_def drop_defs)

lemma drop_at: "dc_Address drop_item = ''/sync''"
  by (simp add: drop_item_def)

theorem every_subscriber_posted_witness:
  "\<exists>h'. out_item drop_env drop_item (drop_hub (Some drop_kube)) = Ok () h' \<and> length (h_posts h') = 2 \<and>
    received ''/sync'' h' = received ''/sync'' (drop_hub (Some drop_kube)) + 2"
proof -
  have a: "h_posts (drop_hub k) = []" "h_kube (drop_hub k) = k" "de_marshals drop_env e"
    for k e by (simp_all add: drop_defs)
  show ?thesis
    using every_subscriber_posted [OF drop_for, of "Some drop_kube"] by (auto simp: a drop_at drop_subs posts_for_def)
qed

lemma drop_run:
  "\<exists>h' k'. out_item drop_env drop_item (drop_hub (Some drop_kube)) = Ok () h' \<and> map_of (h_clients h') 2 = None \<and>
    h_kube h' = Some k' \<and> kc_map k' = Some [(2, ''xx''), (3, ''xxx'')] \<and> kc_answers k' = (\<lambda>_. True)"
  by (simp add: out_item_subscribers [OF drop_for] deliver_all_def)
    (simp add: drop_defs GetClientIDAddressByResource_def deliver_one_def post_cloud_event_def attempt_def
      PostCloudEvent_def Post_def note_unreachable_def IncFailCountToFail_def IncFailCount_def unreachable_def
      SetConnectionToFailAfter_def DeleteAllSubscriptionsForClient_def DeleteClient_def ResetFailCount_def
      cleanupConfigMap_def update_config_map_def UpdateEventReceivedCount_def Let_def UpdateConfigMap_def kube_defs
      put_subscriber_def delete_request_def data_chan.defs)


theorem dropped_client_comes_back_witness:
  "\<exists>h' k' files k2. out_item drop_env drop_item (drop_hub (Some drop_kube)) = Ok () h' \<and> map_of (h_clients h') 2 = None \<and>
    h_kube h' = Some k' \<and> InitConfigMap demo_decode demo_json (\<lambda>_. True) 5 [] k' = (False, files, k2) \<and>
    map_of files 2 = Some ''xx''"
proof -
  obtain h' k' where r: "out_item drop_env drop_item (drop_hub (Some drop_kube)) = Ok () h'" "map_of (h_clients h') 2 = None"
      "h_kube h' = Some k'" and k': "kc_map k' = Some [(2, ''xx''), (3, ''xxx'')]" "kc_answers k' = (\<lambda>_. True)"
    using drop_run by blast
  obtain files k2 where i: "InitConfigMap demo_decode demo_json (\<lambda>_. True) 5 [] k' = (False, files, k2)"
    by (simp add: InitConfigMap_def kube_defs k' numeral_eq_Suc demo_kube_defs)
  have j: "json_roundtrip demo_decode (de_json drop_env)"
    by (auto simp: json_roundtrip_def drop_defs)
  have w: "wf_kube demo_decode (de_json drop_env) drop_kube"
    by (simp add: wf_kube_def drop_defs all_decode_def numeral_eq_Suc)
  have i': "InitConfigMap demo_decode (de_json drop_env) (\<lambda>_. True) 5 [] k' = (False, files, k2)"
    using i by (simp add: drop_env_def)
  have "map_of files 2 = Some ''xx''"
    by (rule dropped_client_comes_back [OF j drop_for _ _ w _ r(1,3) i']) (simp_all add: drop_defs held_def)
  then show ?thesis using r i by blast
qed

theorem drop_without_kube_panics_witness:
  "\<exists>h'. out_item drop_env drop_item (drop_hub None) = Panic h'"
  by (rule drop_without_kube_panics [OF drop_for _ _ drop_subs [folded drop_at],
        where s = "(demo_client 2)\<lparr>failedCount := 9\<rparr>" and err = ConnRefused]) (simp_all add: drop_defs)

end
