(* ===== verification/EndToEnd.thy ===== *)
theory EndToEnd
  imports StatusQuery Delivery
begin

text \<open>
  The plug-in and the dispatcher together: what the log lines put into the queue (\<open>metrics/manager.go\<close>)
  is what the dispatcher (\<open>cmd/main.go\<close>) posts to the subscribers.
\<close>

section \<open>Elements of the queue\<close>

text \<open>An element as the dispatcher takes it: \<open>PublishEventViaAPI\<close> sets no handler.\<close>

definition as_item :: "data_chan \<Rightarrow> channel_item" where
  "as_item d = data_chan.extend d (channel_item.fields None)"

lemma as_item_simps [simp]:
  "dc_Type (as_item d) = dc_Type d" "dc_Status (as_item d) = dc_Status d" "dc_Data (as_item d) = dc_Data d"
  "dc_Address (as_item d) = dc_Address d" "dc_ClientID (as_item d) = dc_ClientID d" "ProcessEventFn (as_item d) = None"
  by (simp_all add: as_item_def data_chan.defs channel_item.defs)

section \<open>Subscribers that answer\<close>

definition all_answer :: "dispatch_env \<Rightarrow> bool" where
  "all_answer env \<longleftrightarrow> (\<forall>n. \<exists>s b. de_net env n = Answered s b) \<and> (\<forall>e. de_marshals env e \<and> de_converts env e)"

definition same_subscribers :: "hub \<Rightarrow> hub \<Rightarrow> bool" where
  "same_subscribers h h' \<longleftrightarrow> h_subscriptions h' = h_subscriptions h \<and>
     (\<forall>r. GetClientIDAddressByResource r (h_clients h') = GetClientIDAddressByResource r (h_clients h))"

lemma resource_clients_update:
  "map_of st c = Some s \<Longrightarrow> sub_ClientID s' = sub_ClientID s \<Longrightarrow> sub_EndPointURI s' = sub_EndPointURI s \<Longrightarrow>
    sub_Store s' = sub_Store s \<Longrightarrow>
    GetClientIDAddressByResource r (AList.update c s' st) = GetClientIDAddressByResource r st"
  by (induction st) (auto simp: GetClientIDAddressByResource_def)

lemma resource_clients_reset [simp]:
  "GetClientIDAddressByResource r (ResetFailCount c st) = GetClientIDAddressByResource r st"
  by (simp add: ResetFailCount_def resource_clients_update split: option.split)

lemma same_subscribers_refl [simp]: "same_subscribers h h"
  by (simp add: same_subscribers_def)

lemma same_subscribers_count [simp]:
  "same_subscribers h (UpdateEventReceivedCount a okay h') = same_subscribers h h'"
  by (simp add: same_subscribers_def UpdateEventReceivedCount_def)

lemma deliver_one_reached:
  assumes "all_answer env"
  shows "\<exists>h'. deliver_one env d e (c, u) h = Ok () h' \<and> h_posts h' = h_posts h @ posts_for e [(c, u)] \<and>
    same_subscribers h h'"
proof (cases u)
  case None
  then show ?thesis by (simp add: deliver_one_def posts_for_def)
next
  case (Some uri)
  obtain s b where "de_net env (length (h_posts h)) = Answered s b" and "de_marshals env e"
    using assms unfolding all_answer_def by blast
  then show ?thesis
    by (simp add: deliver_one_def Some post_cloud_event_def attempt_def PostCloudEvent_def Post_def posts_for_def Let_def)
      (simp add: same_subscribers_def)
qed

lemma deliver_fold_reached:
  assumes "all_answer env"
  shows "\<exists>h'. res_fold (deliver_one env d e) subs h = Ok () h' \<and> h_posts h' = h_posts h @ posts_for e subs \<and>
    same_subscribers h h'"
proof (induction subs arbitrary: h)
  case Nil
  then show ?case by (simp add: posts_for_def)
next
  case (Cons cu subs)
  obtain c u where cu: "cu = (c, u)" by (rule prod.exhaust)
  obtain h1 where h1: "deliver_one env d e (c, u) h = Ok () h1" "h_posts h1 = h_posts h @ posts_for e [(c, u)]"
      "same_subscribers h h1"
    using deliver_one_reached [OF assms] by blast
  have app: "posts_for e (cu # subs) = posts_for e [(c, u)] @ posts_for e subs" by (simp add: posts_for_def cu)
  obtain h2 where "res_fold (deliver_one env d e) subs h1 = Ok () h2" "h_posts h2 = h_posts h1 @ posts_for e subs"
      "same_subscribers h1 h2"
    using Cons.IH by blast
  then show ?case using h1 by (simp add: cu [symmetric] app) (simp add: same_subscribers_def)
qed

section \<open>The queue, dispatched\<close>

text \<open>The posts of a queue: for every event the subscribers of its address, in turn.\<close>

definition posts_of :: "sub_store \<Rightarrow> data_chan list \<Rightarrow> (string \<times> ce_event option) list" where
  "posts_of st ds = concat (map (\<lambda>d. posts_for (the (dc_Data d)) (GetClientIDAddressByResource (dc_Address d) st)) ds)"

lemma posts_of_cong: "same_subscribers h h' \<Longrightarrow> posts_of (h_clients h') ds = posts_of (h_clients h) ds"
  by (simp add: posts_of_def same_subscribers_def)

lemma out_item_reached:
  assumes "all_answer env" and "h_subscriptions h = []"
    and "dc_Type d = EVENT_kind \<and> dc_Status d = NEW_status \<and> dc_Data d \<noteq> None"
  shows "\<exists>h'. out_item env (as_item d) h = Ok () h' \<and> h_posts h' = h_posts h @ posts_of (h_clients h) [d] \<and>
    same_subscribers h h'"
proof -
  obtain e where e: "dc_Data d = Some e" using assms(3) by blast
  have "for_subscribers env (as_item d) e h"
    using assms by (simp add: for_subscribers_def all_answer_def e)
  then have o: "out_item env (as_item d) h = deliver_all env (data_chan.truncate (as_item d)) e h"
    by (rule out_item_subscribers)
  let ?subs = "GetClientIDAddressByResource (dc_Address d) (h_clients h)"
  show ?thesis
  proof (cases "?subs = []")
    case True
    then show ?thesis by (simp add: o deliver_all_def posts_of_def posts_for_def)
  next
    case False
    then show ?thesis
      using deliver_fold_reached [OF assms(1), of "data_chan.truncate (as_item d)" e ?subs h]
      by (simp add: o deliver_all_def posts_of_def e)
  qed
qed

lemma dispatch_reached:
  assumes "all_answer env" and "h_subscriptions h = []"
    and "\<forall>d\<in>set ds. dc_Type d = EVENT_kind \<and> dc_Status d = NEW_status \<and> dc_Data d \<noteq> None"
  shows "\<exists>h'. ProcessOutChannel env (map as_item ds) h = Ok () h' \<and> h_posts h' = h_posts h @ posts_of (h_clients h) ds \<and>
    same_subscribers h h'"
  using assms(2,3)
proof (induction ds arbitrary: h)
  case Nil
  then show ?case by (simp add: ProcessOutChannel_def posts_of_def)
next
  case (Cons d ds)
  obtain h1 where h1: "out_item env (as_item d) h = Ok () h1" "h_posts h1 = h_posts h @ posts_of (h_clients h) [d]"
      "same_subscribers h h1"
    using out_item_reached [OF assms(1) Cons.prems(1), of d] Cons.prems(2) by auto
  then have "h_subscriptions h1 = []" using Cons.prems(1) by (simp add: same_subscribers_def)
  moreover have "\<forall>d\<in>set ds. dc_Type d = EVENT_kind \<and> dc_Status d = NEW_status \<and> dc_Data d \<noteq> None"
    using Cons.prems(2) by simp
  ultimately obtain h2 where h2: "ProcessOutChannel env (map as_item ds) h1 = Ok () h2"
      "h_posts h2 = h_posts h1 @ posts_of (h_clients h1) ds" "same_subscribers h1 h2"
    using Cons.IH by blast
  have run: "ProcessOutChannel env (map as_item (d # ds)) h = Ok () h2"
    using h1(1) h2(1) by (simp add: ProcessOutChannel_def)
  have posts: "h_posts h2 = h_posts h @ posts_of (h_clients h) (d # ds)"
    using h1(2) h2(2) by (simp add: posts_of_cong [OF h1(3)]) (simp add: posts_of_def)
  have "same_subscribers h h2" using h1(3) h2(3) by (simp add: same_subscribers_def)
  then show ?case using run posts by blast
qed

text \<open>C3: from the log to the subscribers: whatever log lines, holdover timers and settle callbacks a run
  consists of, what it puts into the queue is dispatched without a panic, and when the subscribers
  answer, every event of the run is posted exactly once to every subscriber of its address, in the
  order in which the events were published.\<close>
theorem events_reach_subscribers:
  assumes "sys_run m m'" and "scConfig m = Some sc" and "all_answer env" and "h_subscriptions h = []"
  shows "\<exists>sc' ds h'. scConfig m' = Some sc' \<and> oc_queue (EventOutCh sc') = oc_queue (EventOutCh sc) @ ds \<and>
    ProcessOutChannel env (map as_item ds) h = Ok () h' \<and> h_posts h' = h_posts h @ posts_of (h_clients h) ds"
proof -
  obtain sc' ds ps where sc': "scConfig m' = Some sc'" "oc_queue (EventOutCh sc') = oc_queue (EventOutCh sc) @ ds"
      and ds: "\<forall>d\<in>set ds. dc_Type d = EVENT_kind \<and> dc_Status d = NEW_status \<and> dc_Data d \<noteq> None"
    using run_adds [OF assms(1)] assms(2) unfolding adds_def by auto
  then show ?thesis using dispatch_reached [OF assms(3,4) ds] by blast
qed

text \<open>A boundary clock that becomes LOCKED: the state of the clock and the state of the node are posted.\<close>

definition live_manager :: manager where
  "live_manager = bc_manager\<lparr>mock := False,
     publisherTypes := map (\<lambda>(t, p). (t, p\<lparr>PubID := ''id''\<rparr>)) InitPubSubTypes,
     scConfig := Some (sc0\<lparr>sc_publishers := [(''id'', ''r'')]\<rparr>)\<rparr>"

definition live_env :: dispatch_env where
  "live_env = drop_env\<lparr>de_net := (\<lambda>_. Answered 204 [])\<rparr>"

definition live_hub :: hub where
  "live_hub = (drop_hub None)\<lparr>h_clients := [(2, (demo_client 2)\<lparr>sub_Store :=
     [(''s'', demo_sub ''s'' ''/cluster/node/n1/sync/ptp-status/lock-state''),
      (''t'', demo_sub ''t'' ''/cluster/node/n1/sync/sync-status/sync-state'')]\<rparr>)]\<rparr>"

lemma live_queue:
  "map dc_Address (oc_queue (EventOutCh (the (scConfig (ExtractMetrics master_line live_manager))))) =
    [''/cluster/node/n1/sync/ptp-status/lock-state'', ''/cluster/node/n1/sync/sync-status/sync-state'']"
  by code_simp

theorem events_reach_subscribers_witness:
  "\<exists>ds h'. map dc_Address ds =
      [''/cluster/node/n1/sync/ptp-status/lock-state'', ''/cluster/node/n1/sync/sync-status/sync-state''] \<and>
    ProcessOutChannel live_env (map as_item ds) live_hub = Ok () h' \<and> length (h_posts h') = 2"
proof -
  have sc: "scConfig live_manager = Some (sc0\<lparr>sc_publishers := [(''id'', ''r'')]\<rparr>)" by (simp add: live_manager_def)
  have a: "all_answer live_env" by (simp add: all_answer_def live_env_def drop_env_def)
  have hs: "h_subscriptions live_hub = []" and hp: "h_posts live_hub = []" by (simp_all add: live_hub_def drop_hub_def)
  obtain sc' ds h' where sc': "scConfig (ExtractMetrics master_line live_manager) = Some sc'"
      and q: "oc_queue (EventOutCh sc') = oc_queue (EventOutCh (sc0\<lparr>sc_publishers := [(''id'', ''r'')]\<rparr>)) @ ds"
      and r: "ProcessOutChannel live_env (map as_item ds) live_hub = Ok () h'"
      and p: "h_posts h' = h_posts live_hub @ posts_of (h_clients live_hub) ds"
    using events_reach_subscribers [OF step [OF stop master_line_step] sc a hs] by blast
  have ds: "map dc_Address ds =
      [''/cluster/node/n1/sync/ptp-status/lock-state'', ''/cluster/node/n1/sync/sync-status/sync-state'']"
    using live_queue sc' q by (simp add: sc0_def)
  have c: "GetClientIDAddressByResource ''/cluster/node/n1/sync/ptp-status/lock-state'' (h_clients live_hub) = [(2, Some ''http://c'')]"
    "GetClientIDAddressByResource ''/cluster/node/n1/sync/sync-status/sync-state'' (h_clients live_hub) = [(2, Some ''http://c'')]"
    by (simp_all add: GetClientIDAddressByResource_def live_hub_def demo_client_def demo_sub_def)
  obtain d1 d2 where "ds = [d1, d2]" and "dc_Address d1 = ''/cluster/node/n1/sync/ptp-status/lock-state''"
      and "dc_Address d2 = ''/cluster/node/n1/sync/sync-status/sync-state''"
    using ds by (auto simp: map_eq_Cons_conv)
  then have "length (h_posts h') = 2" by (simp add: p hp posts_of_def c posts_for_def del: list.inject)
  then show ?thesis using ds r by (intro exI conjI)
qed

end
