(* ===== verification/StatusLines.thy ===== *)
theory StatusLines
  imports PortEvents
begin

text \<open>
  The status lines of ts2phc (\<open>ParseTBCLogs\<close>, \<open>ParseGMLogs\<close> of \<open>metrics/logparser.go\<close>): the clock of the
  profile takes the state of the line, and a change is announced.
\<close>

section \<open>Steps that announce nothing\<close>

text \<open>The states a clock depends on are well formed, for the clocks of one configuration.\<close>

definition fine_clock :: "stats \<Rightarrow> bool" where
  "fine_clock st \<longleftrightarrow> (case ptpDependentEventState st of None \<Rightarrow> True | Some e \<Rightarrow> event_wf e)"

definition deps_fine :: "string \<Rightarrow> manager \<Rightarrow> bool" where
  "deps_fine cfg m \<longleftrightarrow> (\<forall>(i, st) \<in> set (table_of cfg m). fine_clock st)"

definition calm :: "string \<Rightarrow> manager \<Rightarrow> manager \<Rightarrow> bool" where
  "calm cfg m m' \<longleftrightarrow> out_of m' = out_of m \<and> (\<forall>t. can_publish t m' = can_publish t m) \<and>
     (\<forall>c i. state_at c i m' = state_at c i m) \<and> (\<forall>c i. stat_at c i m \<noteq> None \<longrightarrow> stat_at c i m' \<noteq> None) \<and>
     (deps_fine cfg m \<longrightarrow> deps_fine cfg m')"

lemma calm_refl [simp]: "calm cfg m m"
  by (simp add: calm_def)

lemma calm_trans: "calm cfg m m' \<Longrightarrow> calm cfg m' m'' \<Longrightarrow> calm cfg m m''"
  by (simp add: calm_def)

lemma calm_world [simp]: "calm cfg m (m\<lparr>m_world := w\<rparr>)"
  by (simp add: calm_def out_of_def can_publish_def state_at_def deps_fine_def table_of_def)

lemma calm_registry [simp]: "calm cfg m (on_registry f m)" "calm cfg m (set_sync_gauge p i v m)"
  by (simp_all add: on_registry_def set_sync_gauge_def)

lemma calm_alias: "alias_of n m = (a, m') \<Longrightarrow> calm cfg m m'"
  by (auto simp: alias_of_def split: prod.splits)

text \<open>A change of one clock that keeps its state.\<close>

lemma set_madjust: "(k, v) \<in> set (madjust i f ps) \<Longrightarrow> \<exists>v'. (k, v') \<in> set ps \<and> v = (if k = i then f v' else v')"
  by (induction ps) (auto simp: madjust_def split: if_splits)

lemma table_of_on_stat: "table_of cfg (on_stat cfg k f m) = madjust k f (table_of cfg m)"
  by (simp add: table_of_def on_stat_def mget_or_def madjust_def [of k] split: option.split)

lemma calm_on_stat:
  assumes "\<And>st. stat_at cfg k m = Some st \<Longrightarrow> lastSyncState (f st) = lastSyncState st"
    and "\<And>st. fine_clock st \<Longrightarrow> fine_clock (f st)"
  shows "calm cfg m (on_stat cfg k f m)"
proof -
  have "state_at c i (on_stat cfg k f m) = state_at c i m" for c i
    using assms(1) by (auto simp: state_at_def stat_at_on_stat split: option.split)
  moreover have "deps_fine cfg (on_stat cfg k f m)" if "deps_fine cfg m"
    using that assms(2) set_madjust [of _ _ k f "table_of cfg m"]
    by (fastforce simp: deps_fine_def table_of_on_stat split: if_splits)
  ultimately show ?thesis by (simp add: calm_def stat_at_on_stat)
qed

lemma fine_clock_setters [simp]:
  "fine_clock (StSetAlias a st) = fine_clock st" "fine_clock (SetLastOffset off st) = fine_clock st"
  "fine_clock (SetLastSyncState s st) = fine_clock st" "fine_clock (SetProcessName p (NewStats c))"
  by (simp_all add: fine_clock_def stats_setters NewStats_def)

lemma calm_check_source: "calm cfg m (check_source cfg k p m)"
proof -
  have "state_at c i (check_source cfg k p m) = state_at c i m" for c i
    by (auto simp: state_at_def check_source_def on_table_def stat_at_def CheckSource_def gomap_simps split: option.split)
  moreover have "stat_at c i m \<noteq> None \<Longrightarrow> stat_at c i (check_source cfg k p m) \<noteq> None" for c i
    by (auto simp: check_source_def on_table_def stat_at_def CheckSource_def gomap_simps split: option.splits)
  moreover have "deps_fine cfg (check_source cfg k p m)" if "deps_fine cfg m"
  proof -
    have "table_of cfg (check_source cfg k p m) = CheckSource k cfg p (table_of cfg m) \<or>
        table_of cfg (check_source cfg k p m) = table_of cfg m"
      by (simp add: table_of_def check_source_def on_table_def mget_or_def split: option.split)
    then show ?thesis
      using that set_AList_update [of k _ "table_of cfg m"]
      by (fastforce simp: deps_fine_def CheckSource_def split: if_splits)
  qed
  ultimately show ?thesis
    by (simp add: calm_def) (simp add: check_source_def on_table_def out_of_def can_publish_def)
qed

lemma refresh_calm:
  assumes "stat_at cfg k m \<noteq> None"
  shows "\<exists>m'. refresh_alias cfg k a m = Ok () m' \<and> calm cfg m m'"
proof -
  have "calm cfg m (on_stat cfg k (StSetAlias a) m)" by (rule calm_on_stat) (simp add: StSetAlias_def, simp)
  then show ?thesis using assms by (auto simp: refresh_alias_def need_def split: option.split)
qed

text \<open>Filing a line's state without values: with well-formed states it returns.\<close>

lemma first_dep_fine:
  "\<forall>(i, st) \<in> set ps. fine_clock st \<Longrightarrow> first_dep proc ps = Some c \<Longrightarrow> cs_HelpText c = None"
proof (induction ps)
  case (Cons kv ps)
  obtain k st where kv: "kv = (k, st)" by (cases kv)
  have "cs_HelpText d = None" if "dep_lookup proc st = Some (d # ds)" for d ds
    using that Cons.prems(1) kv
    by (auto simp: dep_lookup_def fine_clock_def event_wf_def split: option.splits)
  then show ?case using Cons kv by (auto split: option.splits list.splits)
qed simp

lemma no_help: "deps_fine cfg m \<Longrightarrow> HasMetricHelp proc (table_of cfg m) = None"
  using first_dep_fine [of "table_of cfg m" proc] by (auto simp: HasMetricHelp_def deps_fine_def split: option.split)

lemma stat_at_table: "stat_at cfg k m = Some st \<Longrightarrow> (k, st) \<in> set (table_of cfg m)"
  by (auto simp: stat_at_def table_of_def mget_or_def dest: map_of_SomeD split: option.splits)

lemma SetPtpDependentEventState_fine:
  assumes "fine_clock st" and "cs_IFace c \<noteq> None" and "cs_Value c = []"
  shows "\<exists>st' w'. SetPtpDependentEventState c ms None (st, w) = Ok () (st', w') \<and> fine_clock st' \<and>
    lastSyncState st' = lastSyncState st"
proof -
  let ?es = "case ptpDependentEventState st of None \<Rightarrow> new_event_state | Some x \<Rightarrow> x"
  have es: "event_wf ?es" using assms(1) event_wf_new by (auto simp: fine_clock_def split: option.splits)
  have v: "values_known c ?es w" using assms(3) by (auto simp: values_known_def split: option.split)
  obtain iface where "cs_IFace c = Some iface" using assms(2) by blast
  then obtain p' w' where "update_deps c ms None (?es, w) = Ok () (p', w')" and "event_wf p'"
    using update_deps_files [OF es _ v] unfolding filed_def by blast
  then show ?thesis using es
    by (auto simp: SetPtpDependentEventState_def UpdateCurrentEventState_def fine_clock_def event_wf_def Let_def)
qed

lemma set_dependent_calm:
  assumes "stat_at cfg k m \<noteq> None" and "deps_fine cfg m" and "cs_IFace c \<noteq> None" and "cs_Value c = []"
  shows "\<exists>m'. set_dependent cfg k proc c m = Ok () m' \<and> calm cfg m m'"
proof -
  obtain st where st: "stat_at cfg k m = Some st" using assms(1) by blast
  then have "fine_clock st" using assms(2) stat_at_table by (fastforce simp: deps_fine_def)
  then obtain st' w' where s: "SetPtpDependentEventState c (HasMetrics proc (table_of cfg m)) None (st, m_world m) = Ok () (st', w')"
      "fine_clock st'" "lastSyncState st' = lastSyncState st"
    using SetPtpDependentEventState_fine assms(3,4) by blast
  have "calm cfg m (on_stat cfg k (\<lambda>_. st') m)" by (rule calm_on_stat) (simp_all add: st s)
  then have "calm cfg m ((on_stat cfg k (\<lambda>_. st') m)\<lparr>m_world := w'\<rparr>)" using calm_trans calm_world by blast
  then show ?thesis using s(1) by (simp add: set_dependent_def need_def st no_help [OF assms(2)] Let_def)
qed

section \<open>T-BC status\<close>

definition tbc_state :: "string list \<Rightarrow> sync_state" where
  "tbc_state fs = (if length fs \<ge> 9 \<and> fs ! 8 = ''holdover'' then HOLDOVER else GetSyncState (fs ! 7))"

lemma tbc_state_ne [simp]: "tbc_state fs \<noteq> NoState"
  by (auto simp: tbc_state_def GetSyncState_def)

lemma res_fold_done: "res_fold f [] = Ok ()"
  by (rule ext) simp

lemma res_bind_done: "res_bind (r :: (unit, 's) res) Ok = r" "res_bind r (\<lambda>_. Ok ()) = r"
  by (cases r; simp)+

text \<open>The end of the line: the offset is stored, and a new state is set and announced.\<close>

definition tbc_end :: "string \<Rightarrow> string \<Rightarrow> sync_state \<Rightarrow> int \<Rightarrow> string \<Rightarrow> manager \<Rightarrow> unit m_res" where
  "tbc_end proc cfg state offs a = need cfg TBCMainClockName (\<lambda>st.
     do_all
       [upd cfg TBCMainClockName (SetLastOffset offs),
        pure (on_registry (UpdatePTPOffsetMetrics proc proc a (float_of_int offs))),
        (\<lambda>m. if state \<noteq> lastSyncState st \<and> state \<noteq> NoState then
           do_all [upd cfg TBCMainClockName (SetLastSyncState state),
                   PublishEvent state offs (master_resource a) PtpStateChange] m
         else Ok () m)])"

lemma state_at_registry [simp]: "state_at c i (on_registry f m) = state_at c i m"
  by (simp add: state_at_def)

lemma out_of_registry [simp]: "out_of (on_registry f m) = out_of m"
  by (simp add: out_of_def on_registry_def)

lemma can_publish_registry [simp]: "can_publish t (on_registry f m) = can_publish t m"
  by (simp add: can_publish_def on_registry_def)

text \<open>What a line leaves: the clock's state is \<open>s\<close>, the others are kept, and only news is announced.\<close>

definition told :: "string \<Rightarrow> string \<Rightarrow> sync_state \<Rightarrow> manager \<Rightarrow> manager \<Rightarrow> bool" where
  "told cfg k s m m' \<longleftrightarrow> (\<forall>c i. state_at c i m' = (if (c, i) = (cfg, k) then s else state_at c i m)) \<and>
     (if s = state_at cfg k m then out_of m' = out_of m else coherent s m')"

lemma told_calm: "calm cfg m m1 \<Longrightarrow> told cfg k s m1 m' \<Longrightarrow> told cfg k s m m'"
  by (simp add: told_def calm_def)

lemma told_registry [simp]: "told cfg k s m (on_registry f m') = told cfg k s m m'"
  by (simp add: told_def)

lemma told_new:
  assumes "stat_at cfg k m \<noteq> None" and "s \<noteq> state_at cfg k m" and "s \<noteq> NoState" and "can_publish PtpStateChange m"
  shows "\<exists>m'. PublishEvent s off src PtpStateChange (on_stat cfg k (SetLastSyncState s) m) = Ok () m' \<and> told cfg k s m m'"
proof -
  let ?m = "on_stat cfg k (SetLastSyncState s) m"
  obtain m' where m': "PublishEvent s off src PtpStateChange ?m = Ok () m'" "coherent s m'"
    using coherent_announce [of PtpStateChange ?m s off src] assms(3,4) by (auto simp: is_node_event_def)
  then have "pub_frame ?m m'" using PublishEvent_frame [of ?m s off src PtpStateChange] by simp
  then have "state_at c i m' = (if (c, i) = (cfg, k) then s else state_at c i m)" for c i
    using stat_at_frame assms(1) by (auto simp: state_at_def stat_at_on_stat SetLastSyncState_def split: option.splits)
  then show ?thesis using m' assms(2) by (auto simp: told_def)
qed

lemma tbc_end_tells:
  assumes "stat_at cfg TBCMainClockName m \<noteq> None" and "can_publish PtpStateChange m" and "s \<noteq> NoState"
  shows "\<exists>m'. tbc_end proc cfg s offs a m = Ok () m' \<and> told cfg TBCMainClockName s m m'"
proof -
  obtain st where st: "stat_at cfg TBCMainClockName m = Some st" using assms(1) by blast
  let ?m = "on_registry (UpdatePTPOffsetMetrics proc proc a (float_of_int offs))
      (on_stat cfg TBCMainClockName (SetLastOffset offs) m)"
  have c: "calm cfg m (on_stat cfg TBCMainClockName (SetLastOffset offs) m)"
    by (rule calm_on_stat) (simp add: SetLastOffset_def, simp)
  then have c: "calm cfg m ?m" using calm_trans calm_registry(1) by blast
  then have at: "stat_at cfg TBCMainClockName ?m \<noteq> None" and old: "state_at cfg TBCMainClockName ?m = lastSyncState st"
    and pub: "can_publish PtpStateChange ?m"
    using st assms(2) by (simp_all add: calm_def) (simp add: state_at_def)
  have run: "tbc_end proc cfg s offs a m =
      (if s \<noteq> lastSyncState st then PublishEvent s offs (master_resource a) PtpStateChange
         (on_stat cfg TBCMainClockName (SetLastSyncState s) ?m) else Ok () ?m)"
    using st at assms(3)
    by (auto simp: tbc_end_def need_def do_all_def upd_def pure_def stat_at_on_stat res_fold_done res_bind_done)
  show ?thesis
  proof (cases "s = lastSyncState st")
    case True
    then have "told cfg TBCMainClockName s ?m ?m" using old by (auto simp: told_def)
    then show ?thesis using run True told_calm [OF c] by simp
  next
    case False
    then have "s \<noteq> state_at cfg TBCMainClockName ?m" using old by simp
    then obtain m' where "PublishEvent s offs (master_resource a) PtpStateChange
        (on_stat cfg TBCMainClockName (SetLastSyncState s) ?m) = Ok () m'" and "told cfg TBCMainClockName s ?m m'"
      using told_new [OF at _ assms(3) pub] by blast
    then show ?thesis using run False told_calm [OF c] by auto
  qed
qed

text \<open>C20: a T-BC status line. When the configuration's states are well formed and the publishers are there, a
  line with a parsable offset is processed to its end: the T-BC clock takes the state of the line (HOLDOVER
  exactly when the line ends with the word, which overrides its s-token), no other clock changes, the
  line announces nothing if the state is the one the clock had, and otherwise the node's reported
  state agrees with the clocks afterwards.\<close>
theorem tbc_line_state:
  assumes "contains output ''T-BC-STATUS''" and "length fs \<ge> 8" and "ParseInt64 10 (fs ! 5) = (offs, None)"
    and "map_of (Stats m) cfg \<noteq> None" and "deps_fine cfg m" and "can_publish PtpStateChange m"
  shows "\<exists>m'. ParseTBCLogs proc cfg output fs m = Ok () m' \<and> told cfg TBCMainClockName (tbc_state fs) m m'"
proof -
  let ?T = TBCMainClockName
  let ?m1 = "check_source cfg ?T ts2phcProcessName m"
  obtain a m2 where a: "alias_of (fs ! 3) ?m1 = (a, m2)" by fastforce
  have "stat_at cfg ?T ?m1 \<noteq> None"
    using assms(4) by (auto simp: check_source_def on_table_def stat_at_def CheckSource_def gomap_simps)
  moreover have c2: "calm cfg m m2" using calm_check_source calm_alias [OF a] calm_trans by blast
  ultimately have s2: "stat_at cfg ?T m2 \<noteq> None" using alias_of_stat [OF a] by simp
  obtain m3 where m3: "refresh_alias cfg ?T a m2 = Ok () m3" "calm cfg m2 m3" using refresh_calm [OF s2] by blast
  let ?m4 = "set_sync_gauge proc a (GetSyncStateID (fs ! 7)) m3"
  have c4: "calm cfg m ?m4" using calm_trans [OF c2] calm_trans [OF m3(2)] calm_registry(2) by blast
  have s4: "stat_at cfg ?T ?m4 \<noteq> None"
    using m3(2) s2 calm_registry(2) [of cfg m3] unfolding calm_def by blast
  have f4: "deps_fine cfg ?m4" using c4 assms(5) by (simp add: calm_def)
  let ?c = "\<lambda>m. line_clock (tbc_state fs) None (fs ! 3) proc TBC [] m"
  obtain m5 where m5: "set_dependent cfg ?T proc (?c ?m4) ?m4 = Ok () m5" "calm cfg ?m4 m5"
    using set_dependent_calm [OF s4 f4, of "?c ?m4" proc] by (auto simp: line_clock_def)
  have c5: "calm cfg m m5" by (rule calm_trans [OF c4 m5(2)])
  have "stat_at cfg ?T m5 \<noteq> None" and "can_publish PtpStateChange m5"
    using m5(2) s4 c5 assms(6) unfolding calm_def by blast+
  then obtain m6 where m6: "tbc_end proc cfg (tbc_state fs) offs a m5 = Ok () m6" "told cfg ?T (tbc_state fs) m5 m6"
    using tbc_end_tells by (metis tbc_state_ne)
  have "ParseTBCLogs proc cfg output fs m = Ok () (on_registry (UpdateSyncStateMetrics ts2phcProcessName a (tbc_state fs))
      (on_registry (UpdateSyncStateMetrics proc a (tbc_state fs)) m6))"
    using assms(1-3) a m3(1) m5(1) m6(1) unfolding ParseTBCLogs_def Let_def tbc_state_def [symmetric] tbc_end_def
    by (simp add: do_all_def [of "_ # _ # _ # _ # _ # _"] pure_def)
  then show ?thesis using told_calm [OF c5 m6(2)] by simp
qed

definition tbc_fields :: "string list" where
  "tbc_fields = [''T-BC'', ''1689014436'', ''ts2phc.1.config'', ''ens7f0'', ''offset'', ''123'', ''T-BC-STATUS'', ''s3'', ''holdover'']"

theorem tbc_line_state_witness:
  "\<exists>m'. ParseTBCLogs ''ts2phc'' ''ptp4l.0.config'' ''T-BC-STATUS'' tbc_fields
      (bc_manager\<lparr>Stats := [(''ptp4l.0.config'', [])]\<rparr>) = Ok () m' \<and>
    state_at ''ptp4l.0.config'' TBCMainClockName m' = HOLDOVER"
proof -
  let ?m = "bc_manager\<lparr>Stats := [(''ptp4l.0.config'', [])]\<rparr>"
  have "ParseInt64 10 (tbc_fields ! 5) = (123, None)" by code_simp
  then obtain m' where "ParseTBCLogs ''ts2phc'' ''ptp4l.0.config'' ''T-BC-STATUS'' tbc_fields ?m = Ok () m'"
      and t: "told ''ptp4l.0.config'' TBCMainClockName (tbc_state tbc_fields) ?m m'"
    using tbc_line_state [of "''T-BC-STATUS''" tbc_fields 123 ?m "''ptp4l.0.config''" "''ts2phc''"]
    by (auto simp: tbc_fields_def contains_def deps_fine_def table_of_def mget_or_def can_publish_def bc_manager_def
        NewPTPEventManager_def)
  moreover have "tbc_state tbc_fields = HOLDOVER" by (simp add: tbc_state_def tbc_fields_def)
  ultimately show ?thesis by (auto simp: told_def)
qed

section \<open>T-GM status\<close>

text \<open>
  The line reads the phase offset of its interface's clock. Without such a clock (no line of the DPLL or
  of ts2phc named the interface before) the nil clock is dereferenced: the line is given up after the
  state was filed, and neither the T-GM clock nor an event says what the line said.
\<close>

lemma gm_line_lost:
  assumes "contains output ''T-GM-STATUS''" and "length fs \<ge> 6" and "fs ! 3 \<noteq> GMMainClockName"
    and "map_of (Stats m) cfg \<noteq> None" and "deps_fine cfg m" and "stat_at cfg (fs ! 3) m = None"
  shows "\<exists>m'. ParseGMLogs proc cfg output fs m = Panic m' \<and> out_of m' = out_of m \<and>
    (\<forall>c i. state_at c i m' = state_at c i m)"
proof -
  let ?G = GMMainClockName
  let ?m1 = "check_source cfg ?G ts2phcProcessName m"
  let ?c = "line_clock (GetSyncState (fs ! 5)) None (fs ! 3) proc GM [] ?m1"
  obtain a m2 where a: "alias_of (fs ! 3) ?m1 = (a, m2)" by fastforce
  have c2: "calm cfg m m2" using calm_check_source calm_alias [OF a] calm_trans by blast
  have s2: "stat_at cfg ?G m2 \<noteq> None" and n2: "stat_at cfg (fs ! 3) m2 = None"
    using assms(3,4,6) alias_of_stat [OF a]
    by (auto simp: check_source_def on_table_def stat_at_def CheckSource_def gomap_simps split: option.splits)
  obtain m3 where m3: "refresh_alias cfg ?G a m2 = Ok () m3" "calm cfg m2 m3" using refresh_calm [OF s2] by blast
  let ?m4 = "set_sync_gauge proc a (GetSyncStateID (fs ! 5)) m3"
  have c4: "calm cfg m ?m4" using calm_trans [OF c2] calm_trans [OF m3(2)] calm_registry(2) by blast
  have s4: "stat_at cfg ?G ?m4 \<noteq> None"
    using m3(2) s2 calm_registry(2) [of cfg m3] unfolding calm_def by blast
  have f4: "deps_fine cfg ?m4" using c4 assms(5) by (simp add: calm_def)
  obtain m5 where m5: "set_dependent cfg ?G proc ?c ?m4 = Ok () m5" "calm cfg ?m4 m5"
    using set_dependent_calm [OF s4 f4, of ?c proc] by (auto simp: line_clock_def)
  have "stat_at cfg (fs ! 3) m3 = None"
    using m3(1) n2 assms(3) by (auto simp: refresh_alias_def need_def stat_at_on_stat split: option.splits if_splits)
  then have "stat_at cfg (fs ! 3) ?m4 = None" by (simp add: set_sync_gauge_def)
  then have n5: "stat_at cfg (fs ! 3) m5 = None"
    using m5(1) assms(3)
    by (auto simp: set_dependent_def need_def stat_at_on_stat Let_def split: option.splits res.splits prod.splits)
  obtain gm where "stat_at cfg ?G m5 = Some gm" using m5(2) s4 unfolding calm_def by blast
  then have "ParseGMLogs proc cfg output fs m = Panic m5"
    using assms(1,2) a m3(1) m5(1) n5
    by (simp add: ParseGMLogs_def field_def fld_def do_all_def pure_def Let_def need_def)
  moreover have "calm cfg m m5" by (rule calm_trans [OF c4 m5(2)])
  ultimately show ?thesis by (auto simp: calm_def)
qed

text \<open>Steps on the T-GM clock leave the clock of the interface as it is.\<close>

lemma stat_at_check_source: "stat_at c i m \<noteq> None \<Longrightarrow> i \<noteq> k \<Longrightarrow> stat_at c i (check_source cfg k p m) = stat_at c i m"
  by (auto simp: check_source_def on_table_def stat_at_def CheckSource_def gomap_simps split: option.splits)

lemma stat_at_refresh: "refresh_alias cfg k a m = Ok () m' \<Longrightarrow> i \<noteq> k \<Longrightarrow> stat_at cfg i m' = stat_at cfg i m"
  by (auto simp: refresh_alias_def need_def stat_at_on_stat split: option.splits if_splits)

lemma stat_at_set_dependent: "set_dependent cfg k p c m = Ok () m' \<Longrightarrow> i \<noteq> k \<Longrightarrow> stat_at cfg i m' = stat_at cfg i m"
  by (auto simp: set_dependent_def need_def stat_at_on_stat Let_def split: option.splits res.splits prod.splits)

lemma stat_at_sync_gauge [simp]: "stat_at c i (set_sync_gauge p a v m) = stat_at c i m"
  by (simp add: set_sync_gauge_def)

text \<open>The end of the line, for a state \<open>old\<close> the clock had before.\<close>

lemma stat_at_overall [simp]: "stat_at c i (lastOverallGMState_update f m) = stat_at c i m"
  by (simp add: stat_at_def)

lemma coherent_overall [simp]: "coherent s (lastOverallGMState_update f m) = coherent s m"
  by (simp add: coherent_def GetNodeSyncState_def ChronydActiveAsE3_def)

lemma told_overall [simp]: "told cfg k s m (lastOverallGMState_update f m') = told cfg k s m m'"
  by (simp add: told_def state_at_def out_of_def)

lemma overall_registry [simp]: "lastOverallGMState (on_registry f m) = lastOverallGMState m"
  by (simp add: on_registry_def)

lemma gm_announce_tells:
  assumes "stat_at cfg GMMainClockName m \<noteq> None" and "can_publish PtpStateChange m" and "s \<noteq> NoState"
  shows "\<exists>m'. gm_announce proc cfg s a (state_at cfg GMMainClockName m) m = Ok () m' \<and> told cfg GMMainClockName s m m' \<and>
    (s \<noteq> state_at cfg GMMainClockName m \<longrightarrow> lastOverallGMState m' = s)"
proof -
  obtain st where st: "stat_at cfg GMMainClockName m = Some st" using assms(1) by blast
  show ?thesis
  proof (cases "s = state_at cfg GMMainClockName m")
    case True
    then show ?thesis using st by (auto simp: gm_announce_def need_def told_def Let_def)
  next
    case False
    obtain m' where p: "PublishEvent s (lastOffset st) (master_resource a) PtpStateChange
        (on_stat cfg GMMainClockName (SetLastSyncState s) m) = Ok () m'" and t: "told cfg GMMainClockName s m m'"
      using told_new [OF assms(1) False assms(3,2)] by blast
    have "state_at cfg GMMainClockName m' = s" using t by (simp add: told_def)
    then obtain st' where "stat_at cfg GMMainClockName m' = Some st'"
      using assms(3) by (cases "stat_at cfg GMMainClockName m'") (auto simp: state_at_def)
    then show ?thesis using st p t False assms(3)
      by (simp add: gm_announce_def need_def upd_def do_all_def pure_def Let_def del: fun_upd_apply)
  qed
qed

text \<open>A T-GM status line. When the configuration's states are well formed, the publishers are there and the
  interface of the line has a clock whose phase status can be read, the line is processed to its end: the
  T-GM clock takes the state of the line, no other clock changes, the line announces nothing if the
  state is the one the clock had, and otherwise the node's reported state agrees with the clocks
  afterwards and the state is kept as the overall T-GM state.\<close>
theorem gm_line_state:
  assumes "contains output ''T-GM-STATUS''" and "length fs \<ge> 6" and "fs ! 3 \<noteq> GMMainClockName"
    and "stat_at cfg (fs ! 3) m = Some st"
    and "GetDependsOnValueState dpllProcessName (Some (fs ! 3)) ''phase_status'' st \<noteq> None"
    and "deps_fine cfg m" and "can_publish PtpStateChange m"
  shows "\<exists>m'. ParseGMLogs proc cfg output fs m = Ok () m' \<and> told cfg GMMainClockName (GetSyncState (fs ! 5)) m m' \<and>
    (GetSyncState (fs ! 5) \<noteq> state_at cfg GMMainClockName m \<longrightarrow> lastOverallGMState m' = GetSyncState (fs ! 5))"
proof -
  let ?G = GMMainClockName and ?s = "GetSyncState (fs ! 5)"
  let ?m1 = "check_source cfg ?G ts2phcProcessName m"
  let ?c = "line_clock ?s None (fs ! 3) proc GM [] ?m1"
  have cfg: "map_of (Stats m) cfg \<noteq> None" using assms(4) by (auto simp: stat_at_def split: option.splits)
  obtain a m2 where a: "alias_of (fs ! 3) ?m1 = (a, m2)" by fastforce
  have c2: "calm cfg m m2" using calm_check_source calm_alias [OF a] calm_trans by blast
  have s2: "stat_at cfg ?G m2 \<noteq> None" and i2: "stat_at cfg (fs ! 3) m2 = Some st"
    using cfg assms(3,4) alias_of_stat [OF a] stat_at_check_source [of cfg "fs ! 3" m ?G cfg ts2phcProcessName]
    by (auto simp: check_source_def on_table_def stat_at_def CheckSource_def gomap_simps split: option.splits)
  obtain m3 where m3: "refresh_alias cfg ?G a m2 = Ok () m3" "calm cfg m2 m3" using refresh_calm [OF s2] by blast
  let ?m4 = "set_sync_gauge proc a (GetSyncStateID (fs ! 5)) m3"
  have c4: "calm cfg m ?m4" using calm_trans [OF c2] calm_trans [OF m3(2)] calm_registry(2) by blast
  have s4: "stat_at cfg ?G ?m4 \<noteq> None" using m3(2) s2 by (simp add: calm_def)
  have f4: "deps_fine cfg ?m4" using c4 assms(6) by (simp add: calm_def)
  obtain m5 where m5: "set_dependent cfg ?G proc ?c ?m4 = Ok () m5" "calm cfg ?m4 m5"
    using set_dependent_calm [OF s4 f4, of ?c proc] by (auto simp: line_clock_def)
  have i5: "stat_at cfg (fs ! 3) m5 = Some st"
    using stat_at_set_dependent [OF m5(1) assms(3)] stat_at_refresh [OF m3(1) assms(3)] i2 by simp
  obtain gm where gm: "stat_at cfg ?G m5 = Some gm" using m5(2) s4 unfolding calm_def by blast
  obtain r where r: "GetDependsOnValueState dpllProcessName (Some (fs ! 3)) ''phase_status'' st = Some r" using assms(5) by blast
  have ns: "?s \<noteq> NoState" by (simp add: GetSyncState_def)
  obtain q offs z where v: "value_or_default r = (q, offs, z)" by (metis prod.exhaust)
  let ?m6 = "on_stat cfg ?G (SetLastOffset (int_of_float offs)) m5"
  have "calm cfg m5 ?m6" by (rule calm_on_stat) (simp add: SetLastOffset_def, simp)
  then have c6: "calm cfg m ?m6" using calm_trans [OF c4 calm_trans [OF m5(2)]] by blast
  have "stat_at cfg ?G ?m6 \<noteq> None" and "can_publish PtpStateChange ?m6"
    using gm c6 assms(7) by (auto simp: stat_at_on_stat calm_def)
  then obtain m7 where m7: "gm_announce proc cfg ?s a (state_at cfg ?G ?m6) ?m6 = Ok () m7" "told cfg ?G ?s ?m6 m7"
      "?s \<noteq> state_at cfg ?G ?m6 \<longrightarrow> lastOverallGMState m7 = ?s"
    using gm_announce_tells [OF _ _ ns] by meson
  have "state_at cfg ?G ?m6 = lastSyncState gm" by (simp add: state_at_def stat_at_on_stat gm SetLastOffset_def)
  moreover have "state_at cfg ?G ?m6 = state_at cfg ?G m" using c6 by (simp add: calm_def)
  moreover have "cs_State ?c = ?s" by (simp add: line_clock_def)
  ultimately have "ParseGMLogs proc cfg output fs m = Ok () m7"
    using assms(1,2) a m3(1) m5(1) gm i5 r v m7(1)
    by (simp add: ParseGMLogs_def field_def fld_def do_all_def pure_def Let_def need_def upd_def)
  then show ?thesis using told_calm [OF c6 m7(2)] m7(3) \<open>state_at cfg ?G ?m6 = state_at cfg ?G m\<close> by simp
qed

definition gm_fields :: "string list" where
  "gm_fields = [''T-GM'', ''1689014436'', ''ts2phc.1.config'', ''ens7f0'', ''T-GM-STATUS'', ''s1'']"

theorem gm_line_state_witness:
  "\<exists>m'. ParseGMLogs ''ts2phc'' ''ptp4l.0.config'' ''T-GM-STATUS'' gm_fields
      (bc_manager\<lparr>Stats := [(''ptp4l.0.config'', [(''ens7f0'', NewStats ''ptp4l.0.config'')])]\<rparr>) = Ok () m' \<and>
    state_at ''ptp4l.0.config'' GMMainClockName m' = HOLDOVER \<and> lastOverallGMState m' = HOLDOVER"
proof -
  let ?m = "bc_manager\<lparr>Stats := [(''ptp4l.0.config'', [(''ens7f0'', NewStats ''ptp4l.0.config'')])]\<rparr>"
  have s: "stat_at ''ptp4l.0.config'' ''ens7f0'' ?m = Some (NewStats ''ptp4l.0.config'')" by (simp add: stat_at_def)
  have n: "state_at ''ptp4l.0.config'' GMMainClockName ?m = NoState"
    by (simp add: state_at_def stat_at_def)
  have d: "deps_fine ''ptp4l.0.config'' ?m"
    by (simp add: deps_fine_def table_of_def mget_or_def fine_clock_def NewStats_def)
  have p: "can_publish PtpStateChange ?m"
    by (simp add: can_publish_def bc_manager_def NewPTPEventManager_def)
  obtain m' where "ParseGMLogs ''ts2phc'' ''ptp4l.0.config'' ''T-GM-STATUS'' gm_fields ?m = Ok () m'"
      "told ''ptp4l.0.config'' GMMainClockName HOLDOVER ?m m'" "lastOverallGMState m' = HOLDOVER"
    using gm_line_state [of "''T-GM-STATUS''" gm_fields "''ptp4l.0.config''" ?m "NewStats ''ptp4l.0.config''" "''ts2phc''"] s d p n
    by (auto simp: gm_fields_def contains_def GetSyncState_def GetDependsOnValueState_def dep_lookup_def
        NewStats_def)
  then show ?thesis by (auto simp: told_def)
qed

end
