(* ===== verification/ProfileWatch.thy ===== *)
theory ProfileWatch
  imports PtpConfig
begin

text \<open>
  The watcher of the node's profile file (\<open>WatchConfigMapUpdate\<close> of \<open>config/config.go\<close>): which content of the
  file it takes, and when it ends.
\<close>

section \<open>The watcher\<close>

text \<open>
  \<open>ticks\<close> are the states of the file at the ticks until the close channel is closed. The flag is whether
  the watcher ended by itself.
\<close>

fun watch_ticks :: "string \<Rightarrow> bool \<Rightarrow> conf_env list \<Rightarrow> ptp_conf_map \<Rightarrow> bool \<times> ptp_conf_map" where
  "watch_ticks nodeName keepAlive [] l = (False, l)"
| "watch_ticks nodeName keepAlive (env # ticks) l =
    (let (updated, l) = updatePtpConfig env nodeName l in
     if updated \<and> \<not> keepAlive then (True, l) else watch_ticks nodeName keepAlive ticks l)"

definition WatchConfigMapUpdate ::
  "string \<Rightarrow> bool \<Rightarrow> conf_env \<Rightarrow> conf_env list \<Rightarrow> ptp_conf_map \<Rightarrow> bool \<times> ptp_conf_map" where
  "WatchConfigMapUpdate nodeName keepAlive env ticks l =
    (let (updated, l) = updatePtpConfig env nodeName l in
     if updated \<and> \<not> keepAlive then (True, l) else watch_ticks nodeName keepAlive ticks l)"

lemma WatchConfigMapUpdate_ticks:
  "WatchConfigMapUpdate nodeName keepAlive env ticks l = watch_ticks nodeName keepAlive (env # ticks) l"
  by (simp add: WatchConfigMapUpdate_def)

section \<open>What a content stands for\<close>

text \<open>The profiles of a content: a list of them, or a single one with a name and an interface.\<close>

definition profiles_of ::
  "(string \<Rightarrow> ptp_profile list option) \<Rightarrow> (string \<Rightarrow> ptp_profile option) \<Rightarrow> string \<Rightarrow> ptp_profile list option" where
  "profiles_of decode decode_old json =
    (case decode json of
      Some ps \<Rightarrow> Some (map (\<lambda>np. np\<lparr>pp_Interfaces := GetInterface np\<rparr>) ps)
    | None \<Rightarrow>
        (case decode_old json of
          Some p \<Rightarrow> if pp_Name p = None \<or> pp_Interface p = None then None else Some [p]
        | None \<Rightarrow> None))"

definition profile_file :: "string \<Rightarrow> ptp_conf_map \<Rightarrow> string" where
  "profile_file nodeName l = path_join [profilePath l, nodeName]"

definition content :: "string \<Rightarrow> conf_env \<Rightarrow> string option" where
  "content f env = (case ce_file env f of Content json \<Rightarrow> Some json | _ \<Rightarrow> None)"

text \<open>A state of the file that the watcher takes for an update: the content it has applied, or profiles.\<close>

definition taken ::
  "(string \<Rightarrow> ptp_profile list option) \<Rightarrow> (string \<Rightarrow> ptp_profile option) \<Rightarrow> string \<Rightarrow> string \<Rightarrow> conf_env \<Rightarrow> bool" where
  "taken decode decode_old f applied env =
    (case content f env of None \<Rightarrow> False
     | Some json \<Rightarrow> json = applied \<or> profiles_of decode decode_old json \<noteq> None)"

lemma updatePtpConfig_step:
  assumes "has_prefix (path_clean (profile_file nodeName l)) (profilePath l)"
  shows "updatePtpConfig env nodeName l =
    (case content (profile_file nodeName l) env of
      None \<Rightarrow> (False, if ce_file env (profile_file nodeName l) = NotExist then notifyUpdate l else l)
    | Some json \<Rightarrow>
        if json = appliedNodeProfileJSON l then (True, l)
        else (case profiles_of (ce_decode env) (ce_decode_old env) json of
            None \<Rightarrow> (False, l)
          | Some ps \<Rightarrow> (True, l\<lparr>appliedNodeProfileJSON := json, NodeProfiles := ps, UpdateCh := True\<rparr>)))"
  using assms
  by (auto simp: updatePtpConfig_def profile_file_def [symmetric] content_def UpdateConfig_def profiles_of_def
      notifyUpdate_def Let_def split: file_status.split option.split)

lemma notifyUpdate_simps [simp]:
  "profilePath (notifyUpdate l) = profilePath l" "appliedNodeProfileJSON (notifyUpdate l) = appliedNodeProfileJSON l"
  "NodeProfiles (notifyUpdate l) = NodeProfiles l" "profile_file n (notifyUpdate l) = profile_file n l"
  by (simp_all add: notifyUpdate_def profile_file_def)

lemma watch_ticks_first:
  assumes "has_prefix (path_clean (profile_file nodeName l)) (profilePath l)"
    and "\<forall>e\<in>set envs. ce_decode e = decode \<and> ce_decode_old e = decode_old"
  shows "case find (taken decode decode_old (profile_file nodeName l) (appliedNodeProfileJSON l)) envs of
      None \<Rightarrow> \<not> fst (watch_ticks nodeName False envs l) \<and>
        NodeProfiles (snd (watch_ticks nodeName False envs l)) = NodeProfiles l
    | Some e \<Rightarrow> fst (watch_ticks nodeName False envs l) \<and>
        (let l' = snd (watch_ticks nodeName False envs l); json = the (content (profile_file nodeName l) e) in
         appliedNodeProfileJSON l' = json \<and>
         (if json = appliedNodeProfileJSON l then NodeProfiles l' = NodeProfiles l
          else Some (NodeProfiles l') = profiles_of decode decode_old json \<and> UpdateCh l'))"
  using assms
proof (induction envs arbitrary: l)
  case Nil
  then show ?case by simp
next
  case (Cons e envs)
  let ?f = "profile_file nodeName l"
  have d: "ce_decode e = decode" "ce_decode_old e = decode_old" using Cons.prems(2) by simp_all
  note step = updatePtpConfig_step [OF Cons.prems(1), of e, unfolded d]
  show ?case
  proof (cases "taken decode decode_old ?f (appliedNodeProfileJSON l) e")
    case True
    then show ?thesis by (auto simp: step taken_def Let_def split: option.splits)
  next
    case False
    then obtain l1 where l1: "updatePtpConfig e nodeName l = (False, l1)" "l1 = l \<or> l1 = notifyUpdate l"
      by (auto simp: step taken_def split: option.splits if_splits)
    from l1(2) have k: "profilePath l1 = profilePath l" "appliedNodeProfileJSON l1 = appliedNodeProfileJSON l"
        "NodeProfiles l1 = NodeProfiles l" "profile_file nodeName l1 = profile_file nodeName l"
      by auto
    have w: "watch_ticks nodeName False (e # envs) l = watch_ticks nodeName False envs l1" using l1(1) by simp
    have f: "find (taken decode decode_old ?f (appliedNodeProfileJSON l)) (e # envs) =
        find (taken decode decode_old ?f (appliedNodeProfileJSON l)) envs"
      using False by simp
    have "\<forall>e\<in>set envs. ce_decode e = decode \<and> ce_decode_old e = decode_old" using Cons.prems(2) by simp
    then show ?thesis using Cons.IH [of l1] Cons.prems(1) unfolding k f w by blast
  qed
qed

text \<open>C27: what the one-shot watcher waits for. However often the file is missing, unreadable or does not
  decode, the watcher goes on, and the profiles stay; it ends exactly at the first state of the file
  that holds what was applied before or that decodes (as a list of profiles, or as a single profile with a
  name and an interface), and then the profiles are those of that content, and the receiver is
  notified unless the content is the one applied before.\<close>
theorem watcher_takes_first:
  assumes "has_prefix (path_clean (profile_file nodeName l)) (profilePath l)"
    and "\<forall>e\<in>set (env # ticks). ce_decode e = decode \<and> ce_decode_old e = decode_old"
    and "WatchConfigMapUpdate nodeName False env ticks l = (ended, l')"
  shows "case find (taken decode decode_old (profile_file nodeName l) (appliedNodeProfileJSON l)) (env # ticks) of
      None \<Rightarrow> \<not> ended \<and> NodeProfiles l' = NodeProfiles l
    | Some e \<Rightarrow> ended \<and> (let json = the (content (profile_file nodeName l) e) in
         appliedNodeProfileJSON l' = json \<and>
         (if json = appliedNodeProfileJSON l then NodeProfiles l' = NodeProfiles l
          else Some (NodeProfiles l') = profiles_of decode decode_old json \<and> UpdateCh l'))"
proof -
  have w: "watch_ticks nodeName False (env # ticks) l = (ended, l')"
    using assms(3) unfolding WatchConfigMapUpdate_ticks .
  show ?thesis using watch_ticks_first [OF assms(1,2)] unfolding w Let_def fst_conv snd_conv .
qed

definition poll :: "file_status \<Rightarrow> conf_env" where
  "poll s = \<lparr>ce_file = (\<lambda>_. s), ce_decode = (\<lambda>j. if j = ''[]'' then Some [] else None), ce_decode_old = (\<lambda>_. None),
     ce_gnss = (\<lambda>_. None)\<rparr>"

theorem watcher_takes_first_witness:
  "\<exists>l'. WatchConfigMapUpdate ''n1'' False (poll NotExist) [poll (Content ''x''), poll (Content ''[]'')]
      (new_ptp_conf_map ''/etc/linuxptp'') = (True, l') \<and> appliedNodeProfileJSON l' = ''[]''"
proof -
  let ?l = "new_ptp_conf_map ''/etc/linuxptp''" and ?p = "poll NotExist"
  have c: "has_prefix (path_clean (profile_file ''n1'' ?l)) (profilePath ?l)" by code_simp
  have d: "ce_decode (poll s) = ce_decode ?p \<and> ce_decode_old (poll s) = ce_decode_old ?p" for s by (simp add: poll_def)
  obtain b l' where w: "WatchConfigMapUpdate ''n1'' False ?p [poll (Content ''x''), poll (Content ''[]'')] ?l = (b, l')"
    by fastforce
  have "find (taken (ce_decode ?p) (ce_decode_old ?p) (profile_file ''n1'' ?l) (appliedNodeProfileJSON ?l))
      (?p # [poll (Content ''x''), poll (Content ''[]'')]) = Some (poll (Content ''[]''))"
    by (simp add: taken_def content_def poll_def profiles_of_def new_ptp_conf_map_def)
  with watcher_takes_first [OF c _ w, of "ce_decode ?p" "ce_decode_old ?p"] d
  have "b \<and> appliedNodeProfileJSON l' = ''[]''" by (auto simp: Let_def content_def poll_def)
  then show ?thesis using w by (intro exI [of _ l']) simp
qed

text \<open>
  An empty file is the content applied before the first update (none): the watcher ends at once without
  profiles and without notifying anybody, and no later content is ever read by it.
\<close>

lemma empty_file_ends_watch:
  assumes "has_prefix (path_clean (profile_file nodeName l)) (profilePath l)" and "appliedNodeProfileJSON l = ''''"
    and "ce_file env (profile_file nodeName l) = Content ''''"
  shows "WatchConfigMapUpdate nodeName False env ticks l = (True, l)"
  by (simp add: WatchConfigMapUpdate_def updatePtpConfig_step [OF assms(1)] content_def assms(2,3))

end
