(* ===== verification/MockPlugin.thy ===== *)
theory MockPlugin
  imports RestClient
begin

text \<open>\<open>plugins/mock/mock_plugin.go\<close>: the events of the mock plug-in.\<close>

section \<open>Operations\<close>

text \<open>
  The arguments of \<open>CreateEvent\<close> are the publisher's id, then its resource where the type is expected,
  then the type where the source is.
\<close>

definition createMockEvent :: "pub_sub \<Rightarrow> api_error + ce_event" where
  "createMockEvent pub =
    CreateEvent (psub_ID pub) (psub_Resource pub) ''mock''
      [\<lparr>dv_Resource = ''/mock'', dv_DataType = NOTIFICATION, dv_ValueType = ENUMERATION, dv_Value = VState ACQUIRING_SYNC\<rparr>,
       \<lparr>dv_Resource = ''/mock'', dv_DataType = METRIC, dv_ValueType = DECIMAL, dv_Value = VString ''99.6''\<rparr>]"

definition with_values :: "ev_value list \<Rightarrow> ce_event \<Rightarrow> ce_event" where
  "with_values vs e = e\<lparr>ev_Data := map (\<lambda>(d, v). d\<lparr>dv_Value := v\<rparr>) (zip (ev_Data e) vs)\<rparr>"

definition sendEvent :: "pub_sub \<Rightarrow> string \<Rightarrow> sc_config \<Rightarrow> sc_config" where
  "sendEvent pub resourceAddress sc =
    (case createMockEvent pub of
      Inl _ \<Rightarrow> sc
    | Inr mEvent \<Rightarrow>
        PublishEventViaAPI
          (with_values [VString ''LOCKED'', VFloat (float_of_int (- 200))] (mEvent\<lparr>ev_Type := ''mock''\<rparr>))
          resourceAddress sc)"

text \<open>
  The answer to a status request: the event, if one could be made and its publisher is known, and the
  return address; without a source the return address is nil and is dereferenced (\<open>None\<close>).
\<close>

definition onCurrentState :: "pub_sub \<Rightarrow> string \<Rightarrow> sc_config \<Rightarrow> (ce_event option \<times> sc_config) option" where
  "onCurrentState pub src sc =
    (if src = '''' then None
     else case createMockEvent pub of
       Inl _ \<Rightarrow> Some (None, sc)
     | Inr re \<Rightarrow>
         (case GetPublishingCloudEvent re sc of
           (Inl _, sc) \<Rightarrow> Some (None, sc)
         | (Inr ce, sc) \<Rightarrow> Some (Some ce, sc)))"

text \<open>
  \<open>Start\<close>: without the node's name or without a publisher it fails; otherwise the publisher and the
  address its events are sent to. \<open>r\<close> is the outcome of the request that creates the publisher.
\<close>

datatype mock_error = NoNodeName | NoPublisher rest_api_error

definition MockStart ::
  "string \<Rightarrow> (string \<Rightarrow> pub_sub option) \<Rightarrow> http_outcome \<Rightarrow> mock_error + (pub_sub \<times> string)" where
  "MockStart nodeName decode r =
    (if nodeName = [] then Inl NoNodeName
     else case CreatePublisher decode r of
       Inl e \<Rightarrow> Inl (NoPublisher e)
     | Inr pub \<Rightarrow> Inr (pub, ''/cluster/node/'' @ nodeName @ ''/mock''))"

text \<open>\<open>n\<close> ticks of the periodic sender.\<close>

definition mock_ticks :: "nat \<Rightarrow> pub_sub \<Rightarrow> string \<Rightarrow> sc_config \<Rightarrow> sc_config" where
  "mock_ticks n pub resource = sendEvent pub resource ^^ n"

section \<open>What the events say\<close>

text \<open>
  A status request is answered with an event whose type is the publisher's resource and whose source is
  the word mock; a periodic event has its type corrected, but the source stays.
\<close>

lemma mock_event_swapped:
  assumes "psub_ID pub \<noteq> ''''" and "psub_Resource pub \<noteq> ''''"
  shows "\<exists>e. createMockEvent pub = Inr e \<and> ev_Type e = psub_Resource pub \<and> ev_Source e = ''mock''"
  using assms by (simp add: createMockEvent_def CreateEvent_def)

text \<open>A periodic event of a known publisher carries the state LOCKED and the value -200.\<close>

lemma sendEvent_queued:
  assumes "psub_ID pub \<noteq> ''''" and "psub_Resource pub \<noteq> ''''" and "map_of (sc_publishers sc) (psub_ID pub) \<noteq> None"
    and "sc_converts sc" and "oc_accepts (EventOutCh sc) (oc_attempts (EventOutCh sc))"
  shows "\<exists>d e. oc_queue (EventOutCh (sendEvent pub a sc)) = oc_queue (EventOutCh sc) @ [d] \<and> dc_Data d = Some e \<and>
    dc_Address d = a \<and> ev_Type e = ''mock'' \<and>
    map dv_Value (ev_Data e) = [VString ''LOCKED'', VFloat (float_of_int (- 200))]"
  using assms
  by (auto simp: sendEvent_def createMockEvent_def CreateEvent_def with_values_def PublishEventViaAPI_def
      GetPublishingCloudEvent_def SendToChannel_def count_published_def Let_def)

text \<open>While the channel has room every tick queues one event at the mock address, and a failed start queues none.\<close>

definition mock_ready :: "pub_sub \<Rightarrow> sc_config \<Rightarrow> bool" where
  "mock_ready pub sc \<longleftrightarrow> psub_ID pub \<noteq> [] \<and> psub_Resource pub \<noteq> [] \<and> map_of (sc_publishers sc) (psub_ID pub) \<noteq> None \<and>
    sc_converts sc \<and> (\<forall>n. oc_accepts (EventOutCh sc) n)"

lemma sendEvent_ready: "mock_ready pub sc \<Longrightarrow> mock_ready pub (sendEvent pub a sc)"
  by (auto simp: mock_ready_def sendEvent_def createMockEvent_def CreateEvent_def with_values_def PublishEventViaAPI_def
      GetPublishingCloudEvent_def SendToChannel_def count_published_def Let_def)

lemma mock_ticks_queued:
  assumes "MockStart nodeName decode r = Inr (pub, a)" and "mock_ready pub sc"
  shows "\<exists>ds. oc_queue (EventOutCh (mock_ticks n pub a sc)) = oc_queue (EventOutCh sc) @ ds \<and> length ds = n \<and>
    (\<forall>d \<in> set ds. dc_Address d = ''/cluster/node/'' @ nodeName @ ''/mock'')"
proof -
  have a: "a = ''/cluster/node/'' @ nodeName @ ''/mock''"
    using assms(1) by (simp add: MockStart_def split: if_splits sum.splits)
  have "\<exists>ds. oc_queue (EventOutCh (mock_ticks n pub a sc)) = oc_queue (EventOutCh sc) @ ds \<and> length ds = n \<and>
      (\<forall>d \<in> set ds. dc_Address d = a) \<and> mock_ready pub (mock_ticks n pub a sc)"
  proof (induction n)
    case 0
    then show ?case using assms(2) by (simp add: mock_ticks_def)
  next
    case (Suc n)
    let ?sc = "mock_ticks n pub a sc"
    obtain ds where ds: "oc_queue (EventOutCh ?sc) = oc_queue (EventOutCh sc) @ ds" "length ds = n"
        "\<forall>d \<in> set ds. dc_Address d = a" "mock_ready pub ?sc" using Suc.IH by blast
    obtain d where "oc_queue (EventOutCh (sendEvent pub a ?sc)) = oc_queue (EventOutCh ?sc) @ [d]" "dc_Address d = a"
      using sendEvent_queued [of pub ?sc a] ds(4) by (auto simp: mock_ready_def)
    then show ?case using ds sendEvent_ready [OF ds(4), of a]
      by (intro exI [of _ "ds @ [d]"]) (auto simp: mock_ticks_def)
  qed
  then show ?thesis using a by blast
qed

end
