(* ===== verification/Hosting.thy ===== *)
theory Hosting
  imports GoStd
begin

text \<open>
  How the process finds its plug-ins (\<open>pkg/plugins/handler.go\<close>) and how the plug-in gets the socket
  that the daemon's log lines arrive on (\<open>socket/socket.go\<close>). The dynamic linker and the file system
  are parameters.
\<close>

section \<open>Loading a plug-in\<close>

text \<open>What looking up \<open>Start\<close> gives: its type may be another one; a function of the right type is called
  and returns an error or not.\<close>

datatype plug_symbol = NoStart | WrongStart | StartFn bool
datatype plug_file = OpenFails | Opened plug_symbol

datatype load_error = PluginMissing | OpenError | LookupError | TypeError | StartError

datatype load_result = Loaded | LoadFailed load_error | LoadPanics

text \<open>\<open>files\<close> are the matches of the plug-in's path, \<open>open_file\<close> opens one.\<close>

definition LoadPTPPlugin :: "string list \<Rightarrow> (string \<Rightarrow> plug_file) \<Rightarrow> load_result" where
  "LoadPTPPlugin files open_file =
    (case files of
      [] \<Rightarrow> LoadFailed PluginMissing
    | f # _ \<Rightarrow>
        (case open_file f of
          OpenFails \<Rightarrow> LoadFailed OpenError
        | Opened NoStart \<Rightarrow> LoadFailed LookupError
        | Opened WrongStart \<Rightarrow> LoadFailed TypeError
        | Opened (StartFn err) \<Rightarrow> if err then LoadFailed StartError else Loaded))"

text \<open>The wrong type is only logged here; the nil function is then called.\<close>

definition LoadMockPlugin :: "string list \<Rightarrow> (string \<Rightarrow> plug_file) \<Rightarrow> load_result" where
  "LoadMockPlugin files open_file =
    (case files of
      [] \<Rightarrow> LoadFailed PluginMissing
    | f # _ \<Rightarrow>
        (case open_file f of
          OpenFails \<Rightarrow> LoadFailed OpenError
        | Opened NoStart \<Rightarrow> LoadFailed LookupError
        | Opened WrongStart \<Rightarrow> LoadPanics
        | Opened (StartFn err) \<Rightarrow> if err then LoadFailed StartError else Loaded))"

lemma LoadPTPPlugin_no_panic: "LoadPTPPlugin files f \<noteq> LoadPanics"
  by (simp add: LoadPTPPlugin_def split: list.split plug_file.split plug_symbol.split)

text \<open>The two loaders differ in exactly one case.\<close>

lemma loaders_differ_iff:
  "LoadPTPPlugin files f \<noteq> LoadMockPlugin files f \<longleftrightarrow> files \<noteq> [] \<and> f (hd files) = Opened WrongStart"
  by (auto simp: LoadPTPPlugin_def LoadMockPlugin_def split: list.split plug_file.split plug_symbol.split)

section \<open>The socket\<close>

text \<open>
  What is at the socket's path: nothing, a socket that somebody answers on or not, or another file. A
  listener binds only to a free path.
\<close>

datatype path_state = Free | Socket bool | OtherFile

definition ListenUnix :: "path_state \<Rightarrow> bool \<times> path_state" where
  "ListenUnix p = (if p = Free then (True, Socket True) else (False, p))"

text \<open>\<open>removes\<close>: the file can be removed. The flag is the error; closing the connection gives none.\<close>

definition removeIfStaleUnixSocket :: "bool \<Rightarrow> path_state \<Rightarrow> bool \<times> path_state" where
  "removeIfStaleUnixSocket removes p =
    (case p of
      Socket answers \<Rightarrow>
        if answers then (False, p) else if removes then (False, Free) else (True, p)
    | _ \<Rightarrow> (False, p))"

text \<open>\<open>resolves\<close>: the address is one. The first result says whether there is a listener.\<close>

definition Listen :: "bool \<Rightarrow> bool \<Rightarrow> path_state \<Rightarrow> bool \<times> path_state" where
  "Listen resolves removes p =
    (if \<not> resolves then (False, p)
     else case ListenUnix p of
       (True, p) \<Rightarrow> (True, p)
     | (False, p) \<Rightarrow>
         (case removeIfStaleUnixSocket removes p of
           (True, p) \<Rightarrow> (False, p)
         | (False, p) \<Rightarrow> ListenUnix p))"

text \<open>
  The listener is there exactly when the path was free or held a socket nobody answers on that could
  be removed; without it the path is what it was. So a socket in use and other files survive.
\<close>

lemma Listen_spec:
  "Listen resolves removes p =
    (if resolves \<and> (p = Free \<or> (p = Socket False \<and> removes)) then (True, Socket True) else (False, p))"
  by (cases p) (simp_all add: Listen_def ListenUnix_def removeIfStaleUnixSocket_def)

text \<open>Starting again after the process died finds its own socket, which nobody answers on.\<close>

lemma Listen_after_crash:
  assumes "fst (Listen True True p)"
  shows "Listen True True (Socket False) = (True, Socket True) \<and> \<not> fst (Listen True True (Socket True))"
  using assms by (simp add: Listen_spec)

end
