(* ===== verification/Startup.thy ===== *)
theory Startup
  imports Delivery Hosting
begin

text \<open>
  How the process starts: the address it serves on (\<open>TransportHost\<close> of \<open>pkg/common/common.go\<close>), the
  subscribers it restores (\<open>ReloadStore\<close> of the vendored store), and \<open>main\<close> of \<open>cmd/main.go\<close> up to the loop
  over the channel. What \<open>url.Parse\<close> finds in a text (scheme and host) is a parameter.
\<close>

section \<open>The transport host\<close>

datatype transport_type = HTTP_transport | UNKNOWN_transport

record transport_host =
  th_Type :: transport_type
  th_URL :: string
  th_Host :: string
  th_Port :: int
  th_Scheme :: string
  th_Err :: bool

definition new_transport_host :: "string \<Rightarrow> transport_host" where
  "new_transport_host url =
    \<lparr>th_Type = HTTP_transport, th_URL = url, th_Host = '''', th_Port = 0, th_Scheme = '''', th_Err = False\<rparr>"

text \<open>
  \<open>net.SplitHostPort\<close>: the port starts after the last colon; the host may be in square brackets, and then
  only may it hold colons.
\<close>

definition last_colon :: "string \<Rightarrow> nat option" where
  "last_colon s = (if CHR '':'' \<in> set s then Some (length s - 1 - length (takeWhile (\<lambda>c. c \<noteq> CHR '':'') (rev s))) else None)"

definition SplitHostPort :: "string \<Rightarrow> (string \<times> string) option" where
  "SplitHostPort hp =
    (case last_colon hp of
      None \<Rightarrow> None
    | Some i \<Rightarrow>
        if hd hp = CHR ''['' then
          (case str_index hp '']'' of
            None \<Rightarrow> None
          | Some e \<Rightarrow>
              if e + 1 \<noteq> i \<or> CHR ''['' \<in> set (drop 1 hp) \<or> CHR '']'' \<in> set (drop (e + 1) hp) then None
              else Some (take (e - 1) (drop 1 hp), drop (i + 1) hp))
        else if CHR '':'' \<in> set (take i hp) \<or> CHR ''['' \<in> set hp \<or> CHR '']'' \<in> set hp then None
        else Some (take i hp, drop (i + 1) hp))"

definition ParseTransportHost :: "(string \<Rightarrow> (string \<times> string) option) \<Rightarrow> transport_host \<Rightarrow> transport_host" where
  "ParseTransportHost url_Parse t =
    (let t = t\<lparr>th_Type := UNKNOWN_transport\<rparr>;
         uri = (if \<not> contains (th_URL t) ''http'' then ''http://'' @ th_URL t else th_URL t)
     in case url_Parse uri of
          None \<Rightarrow> t\<lparr>th_Err := True\<rparr>
        | Some (scheme, host) \<Rightarrow>
            (let t = t\<lparr>th_Scheme := scheme\<rparr>;
                 t = (if scheme = ''http'' \<or> scheme = ''https'' then t\<lparr>th_Type := HTTP_transport\<rparr> else t)
             in case SplitHostPort host of
                  None \<Rightarrow> t\<lparr>th_Err := True\<rparr>
                | Some (h, p) \<Rightarrow> (case Atoi p of (n, err) \<Rightarrow> t\<lparr>th_Host := h, th_Port := n, th_Err := err \<noteq> None\<rparr>)))"

text \<open>A host and a port that are put together are taken apart again.\<close>

definition plain_host :: "string \<Rightarrow> bool" where
  "plain_host h \<longleftrightarrow> CHR '':'' \<notin> set h \<and> CHR ''['' \<notin> set h \<and> CHR '']'' \<notin> set h"

lemma last_colon_at: "CHR '':'' \<notin> set p \<Longrightarrow> last_colon (h @ CHR '':'' # p) = Some (length h)"
  by (simp add: last_colon_def takeWhile_append)

lemma SplitHostPort_joined:
  assumes "plain_host h" and "plain_host p" and "h \<noteq> []"
  shows "SplitHostPort (h @ CHR '':'' # p) = Some (h, p)"
proof -
  have "hd (h @ CHR '':'' # p) \<noteq> CHR ''[''" using assms(1,3) by (cases h) (auto simp: plain_host_def)
  then show ?thesis using assms last_colon_at [of p h] by (simp add: SplitHostPort_def plain_host_def)
qed

section \<open>The subscribers of the store\<close>

text \<open>
  \<open>files\<close> are the contents of the files named after a client id; an empty file, a text that does not decode
  and a subscriber without an id are skipped.
\<close>

definition reload_file :: "(string \<Rightarrow> subscriber option) \<Rightarrow> nat \<times> string \<Rightarrow> sub_store \<Rightarrow> sub_store" where
  "reload_file decode f st =
    (if snd f = '''' then st
     else case decode (snd f) of
       None \<Rightarrow> st
     | Some s \<Rightarrow> if sub_ClientID s \<noteq> 0 then AList.update (sub_ClientID s) s st else st)"

definition ReloadStore :: "(string \<Rightarrow> subscriber option) \<Rightarrow> (nat, string) gomap \<Rightarrow> sub_store \<Rightarrow> sub_store" where
  "ReloadStore decode files st = fold (reload_file decode) files st"

text \<open>Every text is filed under the id of the subscriber it stands for.\<close>

definition by_id :: "(string \<Rightarrow> subscriber option) \<Rightarrow> cm_data \<Rightarrow> bool" where
  "by_id decode d \<longleftrightarrow> distinct (map fst d) \<and>
     (\<forall>(c, t) \<in> set d. t \<noteq> '''' \<and> c \<noteq> 0 \<and> (\<exists>s. decode t = Some s \<and> sub_ClientID s = c))"

lemma ReloadStore_by_id:
  "by_id decode files \<Longrightarrow>
    map_of (ReloadStore decode files st) = map_of st ++ (\<lambda>c. Option.bind (map_of files c) decode)"
proof (induction files arbitrary: st)
  case Nil
  then show ?case by (simp add: ReloadStore_def map_add_def)
next
  case (Cons ct files)
  obtain c t where ct: "ct = (c, t)" by (rule prod.exhaust)
  obtain s where s: "t \<noteq> ''''" "c \<noteq> 0" "decode t = Some s" "sub_ClientID s = c"
    using Cons.prems by (auto simp: by_id_def ct)
  have "map_of files c = None" using Cons.prems by (simp add: by_id_def ct map_of_eq_None_iff)
  moreover have "by_id decode files" using Cons.prems by (simp add: by_id_def)
  ultimately show ?case using Cons.IH [of "AList.update c s st"] s
    by (auto simp: ReloadStore_def reload_file_def ct update_conv' map_add_def fun_eq_iff split: option.split)
qed

section \<open>A restart\<close>

text \<open>A property of the ConfigMap's content that writing one subscriber keeps is kept by every update.\<close>

definition kube_all :: "(cm_data \<Rightarrow> bool) \<Rightarrow> kube \<Rightarrow> bool" where
  "kube_all Q k \<longleftrightarrow> (case kc_map k of None \<Rightarrow> True | Some d \<Rightarrow> Q d)"

lemma kube_all_update:
  assumes "kube_all Q k" and "Q []" and "\<And>s d. s \<in> set subs \<Longrightarrow> Q d \<Longrightarrow> Q (put_subscriber json s d)"
  shows "kube_all Q (snd (UpdateConfigMap json subs k))"
proof -
  obtain cm k1 where f: "(case GetConfigMap k of (Some d, k) \<Rightarrow> (Some d, k) | (None, k) \<Rightarrow> CreateConfigMap k) = (cm, k1)"
    by (rule prod.exhaust)
  have k1: "kube_all Q k1 \<and> (\<forall>d. cm = Some d \<longrightarrow> Q d)"
    using assms(1,2) f by (auto simp: kube_all_def kube_defs Let_def split: option.splits if_splits prod.splits)
  have puts: "Q (fold (put_subscriber json) subs d)" if "Q d" for d
    using that assms(3) by (induction subs arbitrary: d) auto
  show ?thesis
  proof (cases cm)
    case None
    then show ?thesis using k1 by (simp add: UpdateConfigMap_def f)
  next
    case (Some d)
    then show ?thesis using k1 puts [of d]
      by (auto simp: UpdateConfigMap_def f server_update_def next_request_def Let_def kube_all_def)
  qed
qed

text \<open>What the JSON of a subscriber keeps: its id; and no subscriber has an empty text.\<close>

definition json_keeps :: "(string \<Rightarrow> subscriber option) \<Rightarrow> (subscriber \<Rightarrow> string option) \<Rightarrow> bool" where
  "json_keeps decode json \<longleftrightarrow>
    (\<forall>s t. json s = Some t \<longrightarrow> t \<noteq> '''' \<and> (\<exists>s'. decode t = Some s' \<and> json s' = Some t \<and> sub_ClientID s' = sub_ClientID s))"

definition kept_texts :: "(string \<Rightarrow> subscriber option) \<Rightarrow> (subscriber \<Rightarrow> string option) \<Rightarrow> cm_data \<Rightarrow> bool" where
  "kept_texts decode json d \<longleftrightarrow> by_id decode d \<and> all_decode decode json d"

lemma set_AList_delete: "set (AList.delete k d) \<subseteq> set d"
  by (auto simp: AList.delete_eq)

lemma by_id_delete: "by_id decode d \<Longrightarrow> by_id decode (AList.delete k d)"
  using set_AList_delete [of k d] by (auto simp: by_id_def distinct_delete)

lemma by_id_update:
  assumes "by_id decode d" and "t \<noteq> ''''" and "k \<noteq> 0" and "decode t = Some s" and "sub_ClientID s = k"
  shows "by_id decode (AList.update k t d)"
proof -
  have "(c, u) = (k, t) \<or> (c, u) \<in> set d" if "(c, u) \<in> set (AList.update k t d)" for c u
    using that by (induction d) (auto split: if_splits)
  then show ?thesis using assms unfolding by_id_def by (fastforce simp: distinct_update)
qed

lemma kept_texts_put:
  assumes "json_keeps decode json" and "sub_ClientID s \<noteq> 0" and "kept_texts decode json d"
  shows "kept_texts decode json (put_subscriber json s d)"
proof -
  have r: "json_roundtrip decode json" using assms(1) unfolding json_keeps_def json_roundtrip_def by blast
  have d: "by_id decode d" "distinct (map fst d)" "all_decode decode json d"
    using assms(3) by (auto simp: kept_texts_def by_id_def)
  have "by_id decode (put_subscriber json s d)"
  proof (cases "sub_Action s = DELETE_status \<or> json s = None")
    case True
    then show ?thesis using d(1) by_id_delete by (auto simp: put_subscriber_def)
  next
    case False
    then obtain t s' where t: "json s = Some t" "t \<noteq> ''''" "decode t = Some s'" "sub_ClientID s' = sub_ClientID s"
      using assms(1) unfolding json_keeps_def by blast
    then show ?thesis using False by_id_update [OF d(1) t(2) assms(2) t(3,4)] by (simp add: put_subscriber_def)
  qed
  then show ?thesis using put_subscriber_wf [OF r d(2,3), of s] by (simp add: kept_texts_def)
qed

lemma persist_distinct:
  "persist_entries decode json writes d files = (e, files') \<Longrightarrow> distinct (map fst files) \<Longrightarrow> distinct (map fst files')"
  by (induction d arbitrary: files) (auto simp: distinct_update split: option.splits if_splits)

lemma InitConfigMap_distinct:
  "InitConfigMap decode json writes retry files k = (e, files', k') \<Longrightarrow> distinct (map fst files) \<Longrightarrow> distinct (map fst files')"
  by (auto simp: InitConfigMap_def dest: persist_distinct split: option.splits prod.splits)

lemma kept_texts_kube:
  assumes "kube_all (kept_texts decode json) k"
  shows "wf_kube decode json k" and "held k c = Some t \<Longrightarrow> t \<noteq> '''' \<and> c \<noteq> 0 \<and> (\<exists>s. decode t = Some s \<and> sub_ClientID s = c)"
proof -
  show "wf_kube decode json k"
    using assms by (auto simp: kube_all_def kept_texts_def wf_kube_def by_id_def split: option.splits)
  show "held k c = Some t \<Longrightarrow> t \<noteq> '''' \<and> c \<noteq> 0 \<and> (\<exists>s. decode t = Some s \<and> sub_ClientID s = c)"
    using assms by (fastforce simp: kube_all_def kept_texts_def by_id_def held_def dest: map_of_SomeD split: option.splits)
qed

text \<open>C22: a restart restores the subscribers. As long as every subscriber that was saved has an id, what the
  ConfigMap holds stays well formed, whether updates fail or not; and when the next process gets the
  ConfigMap within its attempts, the store it loads holds for every client the subscriber last saved for
  it, and nobody who was removed.\<close>
theorem restart_restores:
  assumes "json_keeps decode json" and "kube_all (kept_texts decode json) k"
    and "\<forall>s\<in>set subs. sub_ClientID s \<noteq> 0" and "UpdateConfigMap json subs k = (err, k1)"
    and "InitConfigMap decode json (\<lambda>_. True) retry [] k1 = (False, files, k2)"
  shows "kube_all (kept_texts decode json) k1 \<and>
    (\<forall>c. map_of (ReloadStore decode files []) c =
      Option.bind ((if err then held k else fold (put_map json) subs (held k)) c) decode)"
proof -
  have "kept_texts decode json []" by (simp add: kept_texts_def by_id_def all_decode_def)
  then have "kube_all (kept_texts decode json) (snd (UpdateConfigMap json subs k))"
    using kept_texts_put [OF assms(1)] assms(3) by (intro kube_all_update [OF assms(2)]) auto
  then have q: "kube_all (kept_texts decode json) k1" using assms(4) by simp
  have h: "held k1 = (if err then held k else fold (put_map json) subs (held k))"
    using UpdateConfigMap_held [of json subs k] assms(4) by simp
  have f: "map_of files = held k1" using InitConfigMap_files [OF kept_texts_kube(1) [OF q] assms(5)] by simp
  have dist: "distinct (map fst files)" using InitConfigMap_distinct [OF assms(5)] by simp
  have "t \<noteq> '''' \<and> c \<noteq> 0 \<and> (\<exists>s. decode t = Some s \<and> sub_ClientID s = c)" if "(c, t) \<in> set files" for c t
  proof -
    have "held k1 c = Some t" using map_of_is_SomeI [OF dist that] unfolding f .
    then show ?thesis by (rule kept_texts_kube(2) [OF q])
  qed
  then have "by_id decode files" using dist unfolding by_id_def by blast
  then show ?thesis using q h f ReloadStore_by_id [of decode files "[]"] by simp
qed

text \<open>A server with nothing, and the subscriber 7 saved on it.\<close>

definition id_json :: "subscriber \<Rightarrow> string option" where
  "id_json s = (if sub_ClientID s = 0 then None else demo_json s)"

theorem restart_restores_witness:
  "\<exists>files k2. InitConfigMap demo_decode id_json (\<lambda>_. True) 5 [] (snd (UpdateConfigMap id_json [demo_client 7] demo_kube)) =
      (False, files, k2) \<and> map_option sub_ClientID (map_of (ReloadStore demo_decode files []) 7) = Some 7"
proof -
  let ?k1 = "snd (UpdateConfigMap id_json [demo_client 7] demo_kube)"
  have u: "UpdateConfigMap id_json [demo_client 7] demo_kube = (False, ?k1)"
    by (simp add: UpdateConfigMap_def kube_defs demo_kube_defs put_subscriber_def id_json_def)
  have i: "\<exists>files k2. InitConfigMap demo_decode id_json (\<lambda>_. True) 5 [] ?k1 = (False, files, k2)"
    by (simp add: InitConfigMap_def UpdateConfigMap_def kube_defs demo_kube_defs put_subscriber_def id_json_def numeral_eq_Suc)
  obtain files k2 where i: "InitConfigMap demo_decode id_json (\<lambda>_. True) 5 [] ?k1 = (False, files, k2)" using i by blast
  have j: "json_keeps demo_decode id_json"
    by (auto simp: json_keeps_def id_json_def demo_decode_def demo_json_def demo_client_def)
  have k: "kube_all (kept_texts demo_decode id_json) demo_kube" by (simp add: kube_all_def demo_kube_def)
  have c: "\<forall>s\<in>set [demo_client 7]. sub_ClientID s \<noteq> 0" by (simp add: demo_client_def)
  have h: "Option.bind (fold (put_map id_json) [demo_client 7] (held demo_kube) 7) demo_decode = Some (demo_client 7)"
    by (simp add: put_map_def held_def demo_kube_defs id_json_def)
  have "map_of (ReloadStore demo_decode files []) 7 = Some (demo_client 7)"
    using restart_restores [OF j k c u i] h by simp
  then show ?thesis using i by (auto simp: demo_client_def)
qed

section \<open>From the start to the channel\<close>

text \<open>\<open>StartPubSubService\<close>: the server is healthy or not; a nil transport host is dereferenced. The flag is the error.\<close>

definition StartPubSubService ::
  "(string \<Rightarrow> subscriber option) \<Rightarrow> bool \<Rightarrow> transport_host option \<Rightarrow> (nat, string) gomap \<Rightarrow> hub \<Rightarrow> (bool, hub) res" where
  "StartPubSubService decode healthy host files h =
    (case host of
      None \<Rightarrow> Panic h
    | Some _ \<Rightarrow> Ok (\<not> healthy) (h\<lparr>h_clients := ReloadStore decode files (h_clients h)\<rparr>))"

record main_env =
  me_Parse :: "string \<Rightarrow> (string \<times> string) option"
  me_host :: string                 \<comment> \<open>the flag \<open>transport-host\<close>\<close>
  me_version :: string              \<comment> \<open>the flag \<open>api-version\<close>\<close>
  me_NODE_IP :: string
  me_NODE_NAME :: string
  me_NAME_SPACE :: string
  me_PTP_PLUGIN :: "string option"
  me_MOCK_PLUGIN :: "string option"
  me_client :: "kube option"
  me_decode :: "string \<Rightarrow> subscriber option"
  me_json :: "subscriber \<Rightarrow> string option"
  me_writes :: "nat \<Rightarrow> bool"
  me_files :: "(nat, string) gomap"
  me_publishers :: "(string, string \<times> string option) gomap"
  me_subscriptions :: "(string, string \<times> string option) gomap"
  me_healthy :: bool
  me_ptp :: "string list"
  me_mock :: "string list"
  me_open :: "string \<Rightarrow> plug_file"

datatype fatal = OldAPI | ServerFailed | PluginFailed load_error

datatype main_end = MainPanics | MainFatal fatal | MainRuns hub

definition transport_of :: "main_env \<Rightarrow> transport_host" where
  "transport_of env = ParseTransportHost (me_Parse env)
     (new_transport_host (SanitizeTransportHost (me_host env) (me_NODE_IP env) (me_NODE_NAME env)))"

definition start_hub :: "main_env \<Rightarrow> bool \<Rightarrow> kube option \<Rightarrow> hub" where
  "start_hub env uses_cm client =
    \<lparr>h_publishers = me_publishers env, h_subscriptions = me_subscriptions env,
     h_clients = ReloadStore (me_decode env) (me_files env) [], h_kube = client, h_uses_cm = uses_cm,
     cneEventAckCount = [], cneEventReceivedCount = [], cneStatusCheckReceivedCount = [], h_active = 0,
     h_posts = [], h_removals = 0\<rparr>"

text \<open>The plug-ins that are switched on; the first that fails ends the process.\<close>

definition load_plugins :: "main_env \<Rightarrow> hub \<Rightarrow> main_end" where
  "load_plugins env h =
    (let ptp = (if GetBoolEnv (me_PTP_PLUGIN env) then LoadPTPPlugin (me_ptp env) (me_open env) else Loaded);
         mock = (if GetBoolEnv (me_MOCK_PLUGIN env) then LoadMockPlugin (me_mock env) (me_open env) else Loaded)
     in case ptp of
          LoadPanics \<Rightarrow> MainPanics
        | LoadFailed e \<Rightarrow> MainFatal (PluginFailed e)
        | Loaded \<Rightarrow>
            (case mock of
              LoadPanics \<Rightarrow> MainPanics
            | LoadFailed e \<Rightarrow> MainFatal (PluginFailed e)
            | Loaded \<Rightarrow> MainRuns h))"

definition main_start :: "main_env \<Rightarrow> main_end" where
  "main_start env =
    (let host = transport_of env in
     case init_storage (me_decode env) (me_json env) (me_writes env) (me_client env) (me_NAME_SPACE env)
            (me_NODE_NAME env) (th_Type host = HTTP_transport) (me_files env) of
       None \<Rightarrow> MainPanics
     | Some (uses_cm, files, client) \<Rightarrow>
         if isV1Api (me_version env) then MainFatal OldAPI
         else case StartPubSubService (me_decode env) (me_healthy env) (Some host) files (start_hub env uses_cm client) of
           Panic _ \<Rightarrow> MainPanics
         | Ok err h \<Rightarrow> if err then MainFatal ServerFailed else load_plugins env h)"

section \<open>What the start guarantees to the loop\<close>

definition storage_ok :: "hub \<Rightarrow> bool" where
  "storage_ok h \<longleftrightarrow> (h_uses_cm h \<longrightarrow> h_kube h \<noteq> None)"

lemma load_plugins_hub: "load_plugins env h = MainRuns h' \<Longrightarrow> h' = h"
  by (auto simp: load_plugins_def Let_def split: load_result.splits)

lemma main_start_storage: "main_start env = MainRuns h \<Longrightarrow> storage_ok h"
  by (auto simp: main_start_def Let_def init_storage_def StartPubSubService_def start_hub_def storage_ok_def
      dest!: load_plugins_hub split: option.splits if_splits prod.splits)

text \<open>The loop changes neither the choice of the storage nor whether there is a client.\<close>

definition same_storage :: "hub \<Rightarrow> hub \<Rightarrow> bool" where
  "same_storage h h' \<longleftrightarrow> h_uses_cm h' = h_uses_cm h \<and> (h_kube h' = None \<longleftrightarrow> h_kube h = None)"

lemma same_storage_refl [simp]: "same_storage h h"
  by (simp add: same_storage_def)

lemma same_storage_trans: "same_storage h h' \<Longrightarrow> same_storage h' h'' \<Longrightarrow> same_storage h h''"
  by (simp add: same_storage_def)

lemma same_storage_simps [simp]:
  "same_storage h (h'\<lparr>h_clients := cs\<rparr>) = same_storage h h'" "same_storage h (h'\<lparr>h_posts := ps\<rparr>) = same_storage h h'"
  "same_storage h (h'\<lparr>h_active := n\<rparr>) = same_storage h h'" "same_storage h (h'\<lparr>h_removals := k\<rparr>) = same_storage h h'"
  "same_storage h (UpdateEventReceivedCount a b h') = same_storage h h'"
  "same_storage h (UpdateEventAckCount a b h') = same_storage h h'"
  "same_storage h (UpdateStatusAckCount a b h') = same_storage h h'"
  by (simp_all add: same_storage_def UpdateEventReceivedCount_def UpdateEventAckCount_def UpdateStatusAckCount_def)

lemma update_config_map_storage: "same_storage h (res_state (update_config_map env s h))"
  by (simp add: update_config_map_def same_storage_def split: option.split)

lemma bind_storage:
  assumes "same_storage h (res_state r)" and "\<And>x h1. r = Ok x h1 \<Longrightarrow> same_storage h1 (res_state (f x h1))"
  shows "same_storage h (res_state (res_bind r f))"
  using assms same_storage_trans by (cases r) auto

lemma fold_storage:
  assumes "\<And>x h. same_storage h (res_state (f x h))"
  shows "same_storage h (res_state (res_fold f xs h))"
proof (induction xs arbitrary: h)
  case Nil
  then show ?case by simp
next
  case (Cons x xs)
  then show ?case using assms by (auto intro: bind_storage)
qed

lemma note_unreachable_storage: "same_storage h (res_state (note_unreachable env d c h))"
  using update_config_map_storage [of _ env "delete_request (dc_ClientID d)"]
  by (auto simp: note_unreachable_def Let_def cleanupConfigMap_def split: prod.split
      intro!: bind_storage same_storage_trans [OF _ update_config_map_storage])

lemma post_cloud_event_storage: "post_cloud_event env uri e h = (r, h1) \<Longrightarrow> same_storage h h1"
  by (auto simp: post_cloud_event_def attempt_def split: if_splits)

lemma post_event_storage: "post_event env uri e h = (r, h1) \<Longrightarrow> same_storage h h1"
  by (auto simp: post_event_def attempt_def split: if_splits)

lemma deliver_one_storage: "same_storage h (res_state (deliver_one env d e x h))"
proof -
  obtain c u where x: "x = (c, u)" by (rule prod.exhaust)
  show ?thesis
  proof (cases u)
    case None
    then show ?thesis by (simp add: deliver_one_def x)
  next
    case (Some uri)
    obtain status er h1 where p: "post_cloud_event env uri e h = ((status, er), h1)" by (metis prod.exhaust)
    have s: "same_storage h (UpdateEventReceivedCount (dc_Address d) False h1)"
      using post_cloud_event_storage [OF p] by simp
    show ?thesis using same_storage_trans [OF s note_unreachable_storage] s
      by (cases er) (simp_all add: deliver_one_def x Some p Let_def)
  qed
qed

lemma deliver_all_storage: "same_storage h (res_state (deliver_all env d e h))"
  by (simp add: deliver_all_def Let_def fold_storage deliver_one_storage)

lemma new_event_storage: "same_storage h (res_state (new_event env d e h))"
  by (auto simp: new_event_def deliver_all_storage post_event_storage split: option.split prod.split)

lemma post_process_storage: "same_storage h (post_process env a st h)"
  by (auto simp: post_process_def attempt_def Let_def split: option.split prod.split)

lemma out_item_storage: "same_storage h (res_state (out_item env d h))"
  by (cases "dc_Type d") (auto simp: out_item_def new_event_storage post_process_storage update_config_map_storage
      cleanupConfigMap_def split: option.split)

lemma ProcessOutChannel_storage: "same_storage h (res_state (ProcessOutChannel env items h))"
  by (simp add: ProcessOutChannel_def fold_storage out_item_storage)

text \<open>C23: the requests of subscribers cannot stop the process: whatever was dispatched since the start, an element
  of the channel that is not an event, so a subscription, its withdrawal, a publisher or a status check,
  is handled without a panic. The ConfigMap is asked only when the start made its client.\<close>
theorem subscriber_items_safe:
  assumes "main_start env = MainRuns h" and "ProcessOutChannel denv items h = Ok () h'" and "dc_Type d \<noteq> EVENT_kind"
  shows "\<exists>h''. out_item denv d h' = Ok () h''"
proof -
  have "storage_ok h'"
    using main_start_storage [OF assms(1)] ProcessOutChannel_storage [of h denv items] assms(2)
    by (auto simp: storage_ok_def same_storage_def)
  then show ?thesis using assms(3)
    by (cases "dc_Type d") (auto simp: out_item_def storage_ok_def update_config_map_def cleanupConfigMap_def split: option.splits)
qed

text \<open>A start in a cluster with the PTP plug-in, and a subscriber that withdraws after another did.\<close>

definition demo_env :: main_env where
  "demo_env = \<lparr>me_Parse = (\<lambda>_. Some (''http'', ''h:9043'')), me_host = ''http://h:9043'', me_version = ''2.0'',
     me_NODE_IP = '''', me_NODE_NAME = ''n'', me_NAME_SPACE = ''ns'', me_PTP_PLUGIN = Some ''true'',
     me_MOCK_PLUGIN = None, me_client = Some demo_kube, me_decode = demo_decode, me_json = demo_json,
     me_writes = (\<lambda>_. True), me_files = [], me_publishers = [], me_subscriptions = [], me_healthy = True,
     me_ptp = [''ptp.so''], me_mock = [], me_open = (\<lambda>_. Opened (StartFn False))\<rparr>"

definition withdrawal :: "nat \<Rightarrow> channel_item" where
  "withdrawal c = \<lparr>dc_Type = SUBSCRIBER_kind, dc_Status = DELETE_status, dc_Data = None, dc_Address = '''',
     dc_ClientID = c, ProcessEventFn = None\<rparr>"

lemma demo_version: "\<not> isV1Api ''2.0''"
  by code_simp

lemma demo_transport: "th_Type (transport_of demo_env) = HTTP_transport"
  by (simp add: transport_of_def ParseTransportHost_def demo_env_def Let_def split: option.split prod.split)

lemma demo_fields:
  "me_decode demo_env = demo_decode" "me_json demo_env = demo_json" "me_writes demo_env = (\<lambda>_. True)"
  "me_client demo_env = Some demo_kube" "me_NAME_SPACE demo_env = ''ns''" "me_NODE_NAME demo_env = ''n''"
  "me_files demo_env = []" "me_version demo_env = ''2.0''" "me_healthy demo_env"
  by (simp_all add: demo_env_def)

lemma demo_plugins: "load_plugins demo_env h = MainRuns h"
  by (simp add: load_plugins_def LoadPTPPlugin_def GetBoolEnv_def demo_env_def)

lemma demo_start: "\<exists>h. main_start demo_env = MainRuns h \<and> h_uses_cm h"
proof -
  obtain files k where "InitConfigMap demo_decode demo_json (\<lambda>_. True) 5 [] demo_kube = (False, files, k)"
    by (simp add: InitConfigMap_def kube_defs demo_kube_defs numeral_eq_Suc)
  then show ?thesis
    by (simp add: main_start_def init_storage_def demo_fields demo_transport demo_version StartPubSubService_def
        demo_plugins start_hub_def)
qed

theorem subscriber_items_safe_witness:
  "\<exists>h h' h''. main_start demo_env = MainRuns h \<and> h_uses_cm h \<and>
    ProcessOutChannel drop_env [withdrawal 2] h = Ok () h' \<and> out_item drop_env (withdrawal 3) h' = Ok () h''"
proof -
  obtain h where h: "main_start demo_env = MainRuns h" "h_uses_cm h" using demo_start by blast
  have "h_kube h \<noteq> None" using main_start_storage [OF h(1)] h(2) by (simp add: storage_ok_def)
  then obtain h' where p: "ProcessOutChannel drop_env [withdrawal 2] h = Ok () h'"
    using h(2) by (auto simp: ProcessOutChannel_def withdrawal_def out_item_def cleanupConfigMap_def update_config_map_def)
  have "dc_Type (withdrawal 3) \<noteq> EVENT_kind" by (simp add: withdrawal_def)
  from subscriber_items_safe [OF h(1) p this] show ?thesis using h p by blast
qed

end
