(* ===== verification/Consumer.thy ===== *)
theory Consumer
  imports Startup
begin

text \<open>
  \<open>examples/consumer/main.go\<close>: a program that subscribes to the events of a proxy and keeps itself subscribed. The
  network is a function of a request and of the state of the peers; JSON is a parameter. The goroutines of the program
  run alone here, one call at a time.
\<close>

section \<open>Requests\<close>

datatype http_method = GET_method | POST_method | DELETE_method

record request =
  rq_method :: http_method
  rq_host :: string
  rq_path :: string
  rq_body :: string

type_synonym 'p net = "request \<Rightarrow> 'p \<Rightarrow> http_outcome \<times> 'p"

record consumer_env =
  localAPIAddr :: string
  apiPath :: string
  ce_encode :: "pub_sub \<Rightarrow> string option"
  ce_decode :: "string \<Rightarrow> pub_sub option"
  ce_decode_list :: "string \<Rightarrow> pub_sub list option"
  ce_event_ok :: "string \<Rightarrow> bool"               \<comment> \<open>the text is an event\<close>

text \<open>The text of a URL with the scheme http.\<close>

definition url_text :: "string \<Rightarrow> string \<Rightarrow> string" where
  "url_text host path =
    ''http://'' @ host @ (if path \<noteq> [] \<and> hd path \<noteq> CHR ''/'' \<and> host \<noteq> [] then ''/'' else []) @ path"

definition api_request :: "consumer_env \<Rightarrow> http_method \<Rightarrow> string \<Rightarrow> string \<Rightarrow> string \<Rightarrow> request" where
  "api_request env m host rest body = \<lparr>rq_method = m, rq_host = host, rq_path = apiPath env @ rest, rq_body = body\<rparr>"

section \<open>State\<close>

record consumer =
  apiAddr :: string
  subscribed :: "(string, bool) gomap"          \<comment> \<open>by publisher\<close>
  subs :: "pub_sub list"

section \<open>Calls of the API\<close>

text \<open>The answers of at most \<open>n\<close> requests, up to the first with status 200.\<close>

fun health_answers :: "'p net \<Rightarrow> request \<Rightarrow> nat \<Rightarrow> 'p \<Rightarrow> int option list \<times> 'p" where
  "health_answers net r 0 p = ([], p)"
| "health_answers net r (Suc n) p =
    (let (out, p) = net r p;
         status = (case out of Answered code _ \<Rightarrow> Some code | BodyFailed code \<Rightarrow> Some code | _ \<Rightarrow> None)
     in if status = Some 200 then ([status], p)
        else (let (rest, p) = health_answers net r n p in (status # rest, p)))"

definition publisherHealthCheck :: "consumer_env \<Rightarrow> 'p net \<Rightarrow> string \<Rightarrow> 'p \<Rightarrow> bool \<times> 'p" where
  "publisherHealthCheck env net addr p =
    (let (answers, p) = health_answers net (api_request env GET_method addr ''health'' []) 6 p
     in (fst (APIHealthCheck answers), p))"

definition deleteAllSubscriptions :: "consumer_env \<Rightarrow> 'p net \<Rightarrow> consumer \<Rightarrow> 'p \<Rightarrow> consumer \<times> 'p" where
  "deleteAllSubscriptions env net c p =
    (let (out, p) = net (api_request env DELETE_method (apiAddr c) ''subscriptions'' []) p
     in (c\<lparr>subscribed := map (\<lambda>(a, _). (a, False)) (subscribed c)\<rparr>, p))"

text \<open>Whether there is a subscription at all.\<close>

definition checkSubscriptions :: "consumer_env \<Rightarrow> 'p net \<Rightarrow> string \<Rightarrow> 'p \<Rightarrow> bool \<times> 'p" where
  "checkSubscriptions env net addr p =
    (let (out, p) = net (api_request env GET_method addr ''subscriptions'' []) p; (status, subB, err) = RestGet out
     in (status = 200 \<and> (case Option.bind subB (ce_decode_list env) of None \<Rightarrow> False | Some l \<Rightarrow> l \<noteq> []), p))"

text \<open>The status, and the subscription or an error.\<close>

definition createSubscription :: "consumer_env \<Rightarrow> 'p net \<Rightarrow> string \<Rightarrow> string \<Rightarrow> 'p \<Rightarrow> (int \<times> pub_sub option) \<times> 'p" where
  "createSubscription env net addr resourceAddress p =
    (let sub = \<lparr>psub_ID = [], psub_Resource = resourceAddress,
           psub_EndPoint = Some (url_text (localAPIAddr env) ''event''), psub_URILocation = None\<rparr>
     in case ce_encode env sub of
          None \<Rightarrow> ((0, None), p)
        | Some subB \<Rightarrow>
            (let (out, p) = net (api_request env POST_method addr ''subscriptions'' subB) p; (status, subB) = PostWithReturn out
             in if status = 201 then ((status, Option.bind subB (ce_decode env)), p) else ((status, None), p)))"

section \<open>Keeping subscribed\<close>

text \<open>
  The subscriptions one after another, until one is there already. The result: whether one was, whether all were
  created, and the subscriptions with what the server filled in.
\<close>

fun subscribe_all ::
  "consumer_env \<Rightarrow> 'p net \<Rightarrow> string \<Rightarrow> pub_sub list \<Rightarrow> 'p \<Rightarrow> (bool \<times> bool \<times> pub_sub list) \<times> 'p" where
  "subscribe_all env net addr [] p = ((False, True, []), p)"
| "subscribe_all env net addr (s # ss) p =
    (let ((status, su), p) = createSubscription env net addr (psub_Resource s) p in
     if status = 409 then ((True, False, s # ss), p)
     else
       (let ((conflict, allSubscribed, ss), p) = subscribe_all env net addr ss p;
            s = (case su of None \<Rightarrow> s | Some su \<Rightarrow> s\<lparr>psub_URILocation := psub_URILocation su, psub_ID := psub_ID su\<rparr>)
        in ((conflict, allSubscribed \<and> su \<noteq> None, s # ss), p)))"

datatype visit_end = Retry | Next

text \<open>One publisher: its health is asked at its own address, everything else at \<open>apiAddr\<close>.\<close>

definition visit_publisher :: "consumer_env \<Rightarrow> 'p net \<Rightarrow> string \<Rightarrow> consumer \<Rightarrow> 'p \<Rightarrow> visit_end \<times> consumer \<times> 'p" where
  "visit_publisher env net a c p =
    (let subOK = mget_or False (subscribed c) a; (healthOK, p) = publisherHealthCheck env net a p in
     if subOK then
       (if \<not> healthOK then (let (c, p) = deleteAllSubscriptions env net c p in (Retry, c, p))
        else
          (let (found, p) = checkSubscriptions env net (apiAddr c) p in
           if \<not> found then (Retry, c\<lparr>subscribed := AList.update a False (subscribed c)\<rparr>, p) else (Next, c, p)))
     else if \<not> healthOK then (Next, c, p)
     else
       (let ((conflict, allSubscribed, ss), p) = subscribe_all env net (apiAddr c) (subs c) p; c = c\<lparr>subs := ss\<rparr> in
        if conflict then (let (c, p) = deleteAllSubscriptions env net c p in (Retry, c, p))
        else (Next, if allSubscribed then c\<lparr>subscribed := AList.update a True (subscribed c)\<rparr> else c, p)))"

fun visit_publishers :: "consumer_env \<Rightarrow> 'p net \<Rightarrow> string list \<Rightarrow> consumer \<Rightarrow> 'p \<Rightarrow> visit_end \<times> consumer \<times> 'p" where
  "visit_publishers env net [] c p = (Next, c, p)"
| "visit_publishers env net (a # as) c p =
    (case visit_publisher env net a c p of
      (Retry, c, p) \<Rightarrow> (Retry, c, p)
    | (Next, c, p) \<Rightarrow> visit_publishers env net as c p)"

text \<open>\<open>order n\<close> is the order of the n-th visit of the map. There is no bound on the retries.\<close>

partial_function (option) subscribeToEvents ::
  "consumer_env \<Rightarrow> 'p net \<Rightarrow> (nat \<Rightarrow> string list) \<Rightarrow> nat \<Rightarrow> consumer \<Rightarrow> 'p \<Rightarrow> (consumer \<times> 'p) option" where
  "subscribeToEvents env net order n c p =
    (case visit_publishers env net (order n) c p of
      (Retry, c, p) \<Rightarrow> subscribeToEvents env net order (Suc n) c p
    | (Next, c, p) \<Rightarrow> Some (c, p))"

section \<open>Pulling\<close>

text \<open>The first character of the resource is cut off: an empty one panics. The flag is the error.\<close>

definition getCurrentState :: "consumer_env \<Rightarrow> 'p net \<Rightarrow> string \<Rightarrow> string \<Rightarrow> 'p \<Rightarrow> (bool, 'p) res" where
  "getCurrentState env net addr resource p =
    (if resource = [] then Panic p
     else
       (let (out, p) = net (api_request env GET_method addr (tl resource @ ''/CurrentState'') []) p
        in Ok (fst (RestGet out) \<noteq> 200) p))"

text \<open>Nothing is pulled while a publisher is not subscribed.\<close>

definition pullEvents :: "consumer_env \<Rightarrow> 'p net \<Rightarrow> consumer \<Rightarrow> 'p \<Rightarrow> (unit, 'p) res" where
  "pullEvents env net c p =
    (if list_ex (\<lambda>(a, subOK). \<not> subOK) (subscribed c) then Ok () p
     else res_fold (\<lambda>s p. res_bind (getCurrentState env net (apiAddr c) (psub_Resource s) p) (\<lambda>_ p. Ok () p)) (subs c) p)"

section \<open>The local API\<close>

text \<open>The status of the answer. A body that is not an event is refused.\<close>

definition processEvent :: "consumer_env \<Rightarrow> string \<Rightarrow> bool" where
  "processEvent env data = (\<not> ce_event_ok env data)"

definition getEvent :: "consumer_env \<Rightarrow> string \<Rightarrow> int" where
  "getEvent env body = (if body \<noteq> [] \<and> processEvent env body then 400 else 204)"

definition ackEvent :: "string \<Rightarrow> int" where
  "ackEvent body = (if body \<noteq> [] then 200 else 204)"

definition extractPort :: "string \<Rightarrow> string" where
  "extractPort hostPort = (case SplitHostPort hostPort of None \<Rightarrow> [] | Some (_, port) \<Rightarrow> CHR '':'' # port)"

section \<open>Start\<close>

datatype consumer_type = PTP_consumer | HW_consumer | MOCK_consumer

text \<open>An unknown type is that of the mock.\<close>

definition consumer_type_of :: "string \<Rightarrow> consumer_type" where
  "consumer_type_of t = (if t = ''PTP'' then PTP_consumer else if t = ''HW'' then HW_consumer else MOCK_consumer)"

definition initSubscribers :: "consumer_type \<Rightarrow> (string, string) gomap" where
  "initSubscribers t =
    (case t of
      PTP_consumer \<Rightarrow>
        [(event_type_name OsClockSyncStateChange, ''/sync/sync-status/os-clock-sync-state''),
         (event_type_name PtpClockClassChange, ''/sync/ptp-status/clock-class''),
         (event_type_name PtpStateChange, ''/sync/ptp-status/lock-state''),
         (event_type_name GnssStateChange, ''/sync/gnss-status/gnss-sync-status''),
         (event_type_name SyncStateChange, ''/sync/sync-status/sync-state'')]
    | HW_consumer \<Rightarrow>
        [(''event.redfish.alert'', ''/redfish/v1/Systems''),
         (''event.redfish.resource-added'', ''/redfish/v1/Systems''),
         (''event.redfish.resource-updated'', ''/redfish/v1/Systems''),
         (''event.redfish.resource-removed'', ''/redfish/v1/Systems''),
         (''event.redfish.status-change'', ''/redfish/v1/Systems'')]
    | MOCK_consumer \<Rightarrow> [(''mock'', ''/mock'')])"

fun getFirstHTTPPublishers :: "string \<Rightarrow> string \<Rightarrow> string list \<Rightarrow> string" where
  "getFirstHTTPPublishers nodeIP nodeName [] = []"
| "getFirstHTTPPublishers nodeIP nodeName (s # addr) =
    (if s = [] then getFirstHTTPPublishers nodeIP nodeName addr else SanitizeTransportHost s nodeIP nodeName)"

fun updateHTTPPublishers :: "string \<Rightarrow> string \<Rightarrow> string list \<Rightarrow> (string, bool) gomap \<Rightarrow> (string, bool) gomap" where
  "updateHTTPPublishers nodeIP nodeName [] m = m"
| "updateHTTPPublishers nodeIP nodeName (s # addr) m =
    updateHTTPPublishers nodeIP nodeName addr
      (if s = [] then m else AList.update (SanitizeTransportHost s nodeIP nodeName) False m)"

text \<open>The name of a resource on a node.\<close>

definition resource_name :: "string \<Rightarrow> string \<Rightarrow> string" where
  "resource_name nodeName resource = ''/cluster/node/'' @ nodeName @ resource"

text \<open>The flag of the publishers is one address; \<open>resources\<close> are the values of the map in the order of the visit.\<close>

definition consumer_start :: "(string \<Rightarrow> string) \<Rightarrow> string \<Rightarrow> string \<Rightarrow> string \<Rightarrow> string list \<Rightarrow> consumer" where
  "consumer_start getUUID httpEventPublisher nodeIP nodeName resources =
    (let nodeName = (if nodeName = [] then ''mock'' else nodeName);
         addr = getFirstHTTPPublishers nodeIP nodeName [httpEventPublisher]
     in \<lparr>apiAddr = (if addr = [] then ''localhost:8089'' else addr),
         subscribed = updateHTTPPublishers nodeIP nodeName [httpEventPublisher] [],
         subs = map (\<lambda>r. \<lparr>psub_ID = getUUID (resource_name nodeName r), psub_Resource = resource_name nodeName r,
           psub_EndPoint = None, psub_URILocation = None\<rparr>) resources\<rparr>)"

section \<open>Running\<close>

text \<open>The two tickers of \<open>main\<close>, in the order in which they fire; events are pulled when that is enabled.\<close>

datatype tick = HealthTick | PullTick

text \<open>\<open>order k\<close> gives the orders of the visits in the k-th call; \<open>None\<close> is a call that does not come back.\<close>

fun consumer_ticks ::
  "consumer_env \<Rightarrow> 'p net \<Rightarrow> (nat \<Rightarrow> nat \<Rightarrow> string list) \<Rightarrow> bool \<Rightarrow> nat \<Rightarrow> tick list \<Rightarrow> consumer \<Rightarrow> 'p \<Rightarrow>
    (consumer, 'p) res option" where
  "consumer_ticks env net order enableEventPull k [] c p = Some (Ok c p)"
| "consumer_ticks env net order enableEventPull k (HealthTick # ts) c p =
    (case subscribeToEvents env net (order k) 0 c p of
      None \<Rightarrow> None
    | Some (c, p) \<Rightarrow> consumer_ticks env net order enableEventPull (k + 1) ts c p)"
| "consumer_ticks env net order enableEventPull k (PullTick # ts) c p =
    (if enableEventPull then
       (case pullEvents env net c p of
         Panic p \<Rightarrow> Some (Panic p)
       | Ok _ p \<Rightarrow> consumer_ticks env net order enableEventPull k ts c p)
     else consumer_ticks env net order enableEventPull k ts c p)"

text \<open>The first subscription, and then the tickers; nothing after them is reached.\<close>

definition consumer_run ::
  "consumer_env \<Rightarrow> 'p net \<Rightarrow> (nat \<Rightarrow> nat \<Rightarrow> string list) \<Rightarrow> bool \<Rightarrow> tick list \<Rightarrow> consumer \<Rightarrow> 'p \<Rightarrow>
    (consumer, 'p) res option" where
  "consumer_run env net order enableEventPull ts c p =
    consumer_ticks env net order enableEventPull 0 (HealthTick # ts) c p"

end
