(* ===== verification/ConsumerLoop.thy ===== *)
theory ConsumerLoop
  imports Consumer
begin

text \<open>
  When \<open>subscribeToEvents\<close> of the consumer returns. What it needs of the proxy is the locale
  \<open>subscription_peer\<close>; its loop ends when the resources differ, and never ends when two are the same.
\<close>

section \<open>What the consumer needs of the proxy\<close>

locale subscription_peer =
  fixes env :: consumer_env
    and net :: "'p net"
    and host :: string
    and good :: "'p \<Rightarrow> bool"
    and taken :: "'p \<Rightarrow> string set"     \<comment> \<open>the resources the endpoint of the consumer is subscribed to\<close>
    and asked :: "string \<Rightarrow> bool"        \<comment> \<open>the resources the proxy has a state of\<close>
  assumes health: "good p \<Longrightarrow> publisherHealthCheck env net host p = (ok, p') \<Longrightarrow> ok \<and> good p' \<and> taken p' = taken p"
    and delete: "good p \<Longrightarrow> apiAddr c = host \<Longrightarrow> deleteAllSubscriptions env net c p = (c', p') \<Longrightarrow> good p' \<and> taken p' = {}"
    and check: "good p \<Longrightarrow> checkSubscriptions env net host p = (found, p') \<Longrightarrow>
      good p' \<and> taken p' = taken p \<and> (taken p \<noteq> {} \<longrightarrow> found)"
    and create_new: "good p \<Longrightarrow> asked r \<Longrightarrow> r \<notin> taken p \<Longrightarrow> createSubscription env net host r p = ((status, su), p') \<Longrightarrow>
      status = 201 \<and> su \<noteq> None \<and> good p' \<and> taken p' = insert r (taken p)"
    and create_taken: "good p \<Longrightarrow> asked r \<Longrightarrow> r \<in> taken p \<Longrightarrow> createSubscription env net host r p = ((status, su), p') \<Longrightarrow>
      status = 409 \<and> good p' \<and> taken p' = taken p"
    and pull: "good p \<Longrightarrow> r \<noteq> [] \<Longrightarrow> \<exists>err p'. getCurrentState env net host r p = Ok err p' \<and> good p' \<and> taken p' = taken p"
begin

text \<open>All are created when none is taken and no two are the same; otherwise there is a conflict.\<close>

lemma subscribe_all_spec:
  assumes "good p" and "\<forall>s \<in> set ss. asked (psub_Resource s)"
    and "subscribe_all env net host ss p = ((conflict, allSubscribed, ss'), p')"
  shows "good p' \<and> map psub_Resource ss' = map psub_Resource ss \<and>
    (conflict \<longleftrightarrow> \<not> (distinct (map psub_Resource ss) \<and> psub_Resource ` set ss \<inter> taken p = {})) \<and>
    (\<not> conflict \<longrightarrow> allSubscribed \<and> taken p' = psub_Resource ` set ss \<union> taken p)"
  using assms
proof (induction ss arbitrary: p conflict allSubscribed ss' p')
  case Nil
  then show ?case by simp
next
  case (Cons s ss)
  obtain status su p1 where c: "createSubscription env net host (psub_Resource s) p = ((status, su), p1)"
    by (metis prod.exhaust)
  show ?case
  proof (cases "psub_Resource s \<in> taken p")
    case True
    then have "status = 409" "good p1" using create_taken [OF Cons.prems(1) _ _ c] Cons.prems(2) by auto
    then show ?thesis using Cons.prems(3) c True by auto
  next
    case False
    then have n: "status = 201" "su \<noteq> None" "good p1" "taken p1 = insert (psub_Resource s) (taken p)"
      using create_new [OF Cons.prems(1) _ _ c] Cons.prems(2) by auto
    obtain conflict1 all1 ss1 p2 where r: "subscribe_all env net host ss p1 = ((conflict1, all1, ss1), p2)"
      by (metis prod.exhaust)
    have e: "conflict = conflict1" "allSubscribed = all1" "p' = p2"
        "map psub_Resource ss' = psub_Resource s # map psub_Resource ss1"
      using Cons.prems(3) c r n(1,2) by (auto split: option.splits)
    show ?thesis using Cons.IH [OF n(3) _ r] Cons.prems(2) n(4) False unfolding e by auto
  qed
qed

text \<open>The consumer of one publisher, with the resources \<open>rs\<close>.\<close>

definition of_host :: "string list \<Rightarrow> bool \<Rightarrow> consumer \<Rightarrow> bool" where
  "of_host rs b c \<longleftrightarrow> apiAddr c = host \<and> subscribed c = [(host, b)] \<and> map psub_Resource (subs c) = rs"

text \<open>A visit while not subscribed.\<close>

lemma visit_unsubscribed:
  assumes "good p" and "of_host rs False c" and "\<forall>r \<in> set rs. asked r"
  shows "\<exists>e c' p'. visit_publishers env net [host] c p = (e, c', p') \<and> good p' \<and>
    (if distinct rs \<and> set rs \<inter> taken p = {} then e = Next \<and> of_host rs True c' \<and> taken p' = set rs \<union> taken p
     else e = Retry \<and> of_host rs False c' \<and> taken p' = {})"
proof -
  have c: "apiAddr c = host" "subscribed c = [(host, False)]" "map psub_Resource (subs c) = rs"
    using assms(2) by (simp_all add: of_host_def)
  then have rs: "set rs = psub_Resource ` set (subs c)" by auto
  obtain healthy p1 where h: "publisherHealthCheck env net host p = (healthy, p1)" by (rule prod.exhaust)
  have p1: "healthy" "good p1" "taken p1 = taken p" using health [OF assms(1) h] by simp_all
  obtain conflict allSubscribed ss p2 where a: "subscribe_all env net host (subs c) p1 = ((conflict, allSubscribed, ss), p2)"
    by (metis prod.exhaust)
  have "\<forall>s \<in> set (subs c). asked (psub_Resource s)" using assms(3) rs by auto
  note s = subscribe_all_spec [OF p1(2) this a]
  show ?thesis
  proof (cases conflict)
    case True
    obtain c3 p3 where d: "deleteAllSubscriptions env net (c\<lparr>subs := ss\<rparr>) p2 = (c3, p3)" by (rule prod.exhaust)
    have "good p3" "taken p3 = {}" using delete [OF _ _ d] s c(1) by simp_all
    moreover have "of_host rs False c3" using d s c by (auto simp: deleteAllSubscriptions_def of_host_def split: prod.splits)
    moreover have "\<not> (distinct rs \<and> set rs \<inter> taken p = {})" using s True p1(3) c(3) rs by simp
    moreover have "visit_publishers env net [host] c p = (Retry, c3, p3)"
      using True h p1(1) a d c by (simp add: visit_publisher_def mget_or_def)
    ultimately show ?thesis by (intro exI [of _ Retry] exI [of _ c3] exI [of _ p3]) simp
  next
    case False
    then have "allSubscribed" "taken p2 = set rs \<union> taken p" "distinct rs \<and> set rs \<inter> taken p = {}" "good p2"
      using s p1(3) c(3) rs by simp_all
    moreover have "visit_publishers env net [host] c p =
        (Next, c\<lparr>subs := ss, subscribed := [(host, True)]\<rparr>, p2)"
      using False \<open>allSubscribed\<close> h p1(1) a c by (simp add: visit_publisher_def mget_or_def)
    moreover have "of_host rs True (c\<lparr>subs := ss, subscribed := [(host, True)]\<rparr>)" using s c by (simp add: of_host_def)
    ultimately show ?thesis
      by (intro exI [of _ Next] exI [of _ "c\<lparr>subs := ss, subscribed := [(host, True)]\<rparr>"] exI [of _ p2]) simp
  qed
qed

text \<open>With different resources, one conflict at most is in the way.\<close>

lemma subscribe_unsubscribed:
  assumes "good p" and "of_host rs False c" and "\<forall>r \<in> set rs. asked r" and "distinct rs" and "\<And>n. order n = [host]"
  shows "\<exists>c' p'. subscribeToEvents env net order n c p = Some (c', p') \<and> good p' \<and> of_host rs True c' \<and> set rs \<subseteq> taken p'"
proof -
  obtain e1 c1 p1 where v: "visit_publishers env net [host] c p = (e1, c1, p1)" "good p1"
      "if distinct rs \<and> set rs \<inter> taken p = {} then e1 = Next \<and> of_host rs True c1 \<and> taken p1 = set rs \<union> taken p
       else e1 = Retry \<and> of_host rs False c1 \<and> taken p1 = {}"
    using visit_unsubscribed [OF assms(1-3)] by blast
  show ?thesis
  proof (cases "set rs \<inter> taken p = {}")
    case True
    then show ?thesis using v assms(4,5) by (subst subscribeToEvents.simps) simp
  next
    case False
    then have c1: "e1 = Retry" "of_host rs False c1" "taken p1 = {}" using v(3) by simp_all
    obtain e2 c2 p2 where w: "visit_publishers env net [host] c1 p1 = (e2, c2, p2)" "good p2" "e2 = Next" "of_host rs True c2"
        "taken p2 = set rs"
      using visit_unsubscribed [OF v(2) c1(2) assms(3)] assms(4) c1(3) by auto
    have "subscribeToEvents env net order n c p = subscribeToEvents env net order (Suc n) c1 p1"
      using v(1) c1(1) assms(5) by (subst subscribeToEvents.simps) simp
    also have "\<dots> = Some (c2, p2)" using w(1,3) assms(5) by (subst subscribeToEvents.simps) simp
    finally show ?thesis using w(2,4,5) by simp
  qed
qed

lemma subscribe_returns:
  assumes "good p" and "of_host rs b c" and "\<forall>r \<in> set rs. asked r" and "distinct rs" and "\<And>n. order n = [host]"
  shows "\<exists>c' p'. subscribeToEvents env net order n c p = Some (c', p') \<and> good p' \<and> of_host rs True c' \<and>
    (set rs \<subseteq> taken p' \<or> b \<and> taken p' = taken p)"
proof (cases b)
  case False
  then show ?thesis using subscribe_unsubscribed [where p = p and rs = rs and c = c and order = order and n = n] assms by simp
next
  case True
  have c: "apiAddr c = host" "subscribed c = [(host, True)]" using assms(2) True by (simp_all add: of_host_def)
  obtain healthy p1 where h: "publisherHealthCheck env net host p = (healthy, p1)" by (rule prod.exhaust)
  have p1: "healthy" "good p1" "taken p1 = taken p" using health [OF assms(1) h] by simp_all
  obtain found p2 where f: "checkSubscriptions env net host p1 = (found, p2)" by (rule prod.exhaust)
  have p2: "good p2" "taken p2 = taken p" using check [OF p1(2) f] p1(3) by simp_all
  show ?thesis
  proof (cases found)
    case True
    then have "subscribeToEvents env net order n c p = Some (c, p2)"
      using h p1(1) f c assms(5) by (subst subscribeToEvents.simps) (simp add: visit_publisher_def mget_or_def)
    then show ?thesis using p2 assms(2) \<open>b\<close> by simp
  next
    case False
    let ?c = "c\<lparr>subscribed := [(host, False)]\<rparr>"
    have "subscribeToEvents env net order n c p = subscribeToEvents env net order (Suc n) ?c p2"
      using False h p1(1) f c assms(5) by (subst subscribeToEvents.simps) (simp add: visit_publisher_def mget_or_def)
    moreover have "of_host rs False ?c" using assms(2) by (simp add: of_host_def)
    ultimately show ?thesis using subscribe_unsubscribed [OF p2(1) _ assms(3,4), where c = ?c and n = "Suc n" and order = order] assms(5) by auto
  qed
qed

text \<open>With two resources that are the same, there is a conflict in every round.\<close>

lemma subscribe_never_returns:
  assumes "good p" and "of_host rs False c" and "\<forall>r \<in> set rs. asked r" and "\<not> distinct rs" and "\<And>n. order n = [host]"
  shows "subscribeToEvents env net order n c p = None"
proof -
  have "env' = env \<and> net' = net \<and> order' = order \<longrightarrow> \<not> (good p \<and> of_host rs False c)"
    if "subscribeToEvents env' net' order' n c p = Some y" for env' net' order' n c p y
    using that
  proof (rule subscribeToEvents.raw_induct [where P = "\<lambda>env' net' order' n c p y.
      env' = env \<and> net' = net \<and> order' = order \<longrightarrow> \<not> (good p \<and> of_host rs False c)", rotated], goal_cases)
    case (1 rec env' net' order' n c p y)
    show ?case
    proof (intro impI notI, elim conjE)
      assume e: "env' = env" "net' = net" "order' = order" and g: "good p" "of_host rs False c"
      obtain c' p' where v: "visit_publishers env net [host] c p = (Retry, c', p')" "good p'" "of_host rs False c'"
        using visit_unsubscribed [OF g assms(3)] assms(4) by auto
      then have "rec env net order (Suc n) c' p' = Some y" using 1(2) assms(5) by (simp add: e)
      from 1(1) [OF this] v(2,3) show False by simp
    qed
  qed
  then show ?thesis using assms(1,2) by (cases "subscribeToEvents env net order n c p") auto
qed

text \<open>Pulling changes nothing.\<close>

lemma pull_good:
  assumes "good p" and "apiAddr c = host" and "[] \<notin> psub_Resource ` set (subs c)"
  shows "\<exists>p'. pullEvents env net c p = Ok () p' \<and> good p' \<and> taken p' = taken p"
proof (cases "list_ex (\<lambda>(a, subOK). \<not> subOK) (subscribed c)")
  case True
  then show ?thesis using assms(1) by (simp add: pullEvents_def)
next
  case False
  have "\<exists>p'. res_fold (\<lambda>s p. res_bind (getCurrentState env net host (psub_Resource s) p) (\<lambda>_ p. Ok () p)) ss p = Ok () p' \<and>
      good p' \<and> taken p' = taken p" if "good p" and "[] \<notin> psub_Resource ` set ss" for ss p
    using that
  proof (induction ss arbitrary: p)
    case Nil
    then show ?case by simp
  next
    case (Cons s ss)
    have "psub_Resource s \<noteq> []" using Cons.prems(2) by auto
    then obtain err p1 where "getCurrentState env net host (psub_Resource s) p = Ok err p1" "good p1" "taken p1 = taken p"
      using pull [OF Cons.prems(1)] by blast
    then show ?case using Cons.IH [of p1] Cons.prems(2) by simp
  qed
  from this [OF assms(1,3)] show ?thesis using False assms(2) by (auto simp: pullEvents_def)
qed

text \<open>The tickers never stop the program, and it stays subscribed.\<close>

lemma ticks_subscribed:
  assumes "good p" and "of_host rs True c" and "set rs \<subseteq> taken p"
    and "\<forall>r \<in> set rs. asked r" and "distinct rs" and "[] \<notin> set rs" and "\<And>k n. order k n = [host]"
  shows "\<exists>c' p'. consumer_ticks env net order enableEventPull k ts c p = Some (Ok c' p') \<and> good p' \<and> of_host rs True c' \<and>
    set rs \<subseteq> taken p'"
  using assms(1-3)
proof (induction ts arbitrary: k c p)
  case Nil
  then show ?case by simp
next
  case (Cons t ts)
  show ?case
  proof (cases t)
    case HealthTick
    obtain c1 p1 where "subscribeToEvents env net (order k) 0 c p = Some (c1, p1)" "good p1" "of_host rs True c1"
        "set rs \<subseteq> taken p1"
      using subscribe_returns [OF Cons.prems(1,2) assms(4,5), where order = "order k" and n = 0] assms(7) Cons.prems(3) by auto
    then show ?thesis using Cons.IH [of p1 c1 "k + 1"] by (simp add: HealthTick)
  next
    case PullTick
    have c: "apiAddr c = host" "map psub_Resource (subs c) = rs" using Cons.prems(2) by (simp_all add: of_host_def)
    then have "[] \<notin> psub_Resource ` set (subs c)" using assms(6) by auto
    from pull_good [OF Cons.prems(1) c(1) this] obtain p1 where
      "pullEvents env net c p = Ok () p1" "good p1" "taken p1 = taken p" by blast
    then show ?thesis using Cons.IH [of p c k] Cons.IH [of p1 c k] Cons.prems by (auto simp: PullTick)
  qed
qed

lemma run_subscribed:
  assumes "good p" and "of_host rs False c"
    and "\<forall>r \<in> set rs. asked r" and "distinct rs" and "[] \<notin> set rs" and "\<And>k n. order k n = [host]"
  shows "\<exists>c' p'. consumer_run env net order enableEventPull ts c p = Some (Ok c' p') \<and> good p' \<and> of_host rs True c' \<and>
    set rs \<subseteq> taken p'"
proof -
  obtain c1 p1 where "subscribeToEvents env net (order 0) 0 c p = Some (c1, p1)" "good p1" "of_host rs True c1"
      "set rs \<subseteq> taken p1"
    using subscribe_returns [OF assms(1-4), where order = "order 0" and n = 0] assms(6) by auto
  then show ?thesis
    using ticks_subscribed [of p1 rs c1 order enableEventPull 1 ts] assms(3-6) by (simp add: consumer_run_def)
qed

end

end
