(* ===== verification/SubscriberAPI.thy ===== *)
theory SubscriberAPI
  imports Subscribers
begin

text \<open>
  The rest of the vendored subscriber store (\<open>sdk-go/v1/subscriber\<close>): creating and deleting subscriptions,
  with the file every client has beside the store, and the lookups of the REST server. JSON is a parameter
  (\<open>json\<close>, \<open>decode\<close>); what the file system does in one operation is a \<open>file_io\<close>.
\<close>

section \<open>State\<close>

record sub_api =
  SubscriberStore :: sub_store
  api_files :: "(nat, string) gomap"     \<comment> \<open>the content of \<open><clientID>.json\<close>\<close>
  transportEnabled :: bool

datatype file_io = OpenFails | ReadFails | WriteFails string | IoOk

definition new_subscriber :: "nat \<Rightarrow> subscriber" where
  "new_subscriber c = \<lparr>sub_ClientID = c, sub_Store = [], sub_EndPointURI = None, sub_Status = 0,
     sub_Action = NEW_status, failedCount = 0\<rparr>"

text \<open>An address is the text of a parsed URI. The flag is the error.\<close>

definition GetEndPointURI :: "subscriber \<Rightarrow> string" where
  "GetEndPointURI s = (case sub_EndPointURI s of None \<Rightarrow> [] | Some u \<Rightarrow> u)"

definition SetEndPointURI :: "string \<Rightarrow> subscriber \<Rightarrow> bool \<times> subscriber" where
  "SetEndPointURI uri s =
    (let u = trim_space uri in
     if u = [] then (True, s\<lparr>sub_EndPointURI := None\<rparr>) else (False, s\<lparr>sub_EndPointURI := Some u\<rparr>))"

section \<open>The files\<close>

text \<open>Opening a file for reading and writing creates it when it is missing.\<close>

definition opened :: "nat \<Rightarrow> (nat, string) gomap \<Rightarrow> (nat, string) gomap" where
  "opened c files = AList.update c (mget_or [] files c) files"

text \<open>\<open>os.WriteFile\<close> cuts the file first; a write that fails leaves some text.\<close>

definition write_text :: "file_io \<Rightarrow> nat \<Rightarrow> string \<Rightarrow> (nat, string) gomap \<Rightarrow> bool \<times> (nat, string) gomap" where
  "write_text io c t files =
    (case io of WriteFails left \<Rightarrow> (True, AList.update c left files) | _ \<Rightarrow> (False, AList.update c t files))"

text \<open>The subscriptions are added to those of the file.\<close>

definition writeToFile ::
  "(string \<Rightarrow> subscriber option) \<Rightarrow> (subscriber \<Rightarrow> string option) \<Rightarrow> file_io \<Rightarrow> subscriber \<Rightarrow> nat \<Rightarrow>
    (nat, string) gomap \<Rightarrow> bool \<times> (nat, string) gomap" where
  "writeToFile decode json io s c files =
    (if io = OpenFails then (True, files)
     else if io = ReadFails then (True, opened c files)
     else
       (let b = mget_or [] files c; files = opened c files in
        case (if b \<noteq> [] then decode b else Some (new_subscriber (sub_ClientID s))) of
          None \<Rightarrow> (True, files)
        | Some p \<Rightarrow>
            (let p = (snd (SetEndPointURI (GetEndPointURI s) p))\<lparr>sub_Status := 1\<rparr>;
                 p = p\<lparr>sub_Store := fold (\<lambda>(subID, sub). AList.update subID sub) (sub_Store s) (sub_Store p)\<rparr>
             in case json p of None \<Rightarrow> (True, files) | Some t \<Rightarrow> write_text io c t files)))"

text \<open>A file without text gives a subscriber without a store, which is dereferenced.\<close>

definition deleteFromFile ::
  "(string \<Rightarrow> subscriber option) \<Rightarrow> (subscriber \<Rightarrow> string option) \<Rightarrow> file_io \<Rightarrow> pub_sub \<Rightarrow> nat \<Rightarrow>
    (nat, string) gomap \<Rightarrow> (bool, (nat, string) gomap) res" where
  "deleteFromFile decode json io sub c files =
    (if io = OpenFails then Ok True files
     else if io = ReadFails then Ok True (opened c files)
     else
       (let b = mget_or [] files c; files = opened c files in
        if b = [] then Panic files
        else case decode b of
          None \<Rightarrow> Ok True files
        | Some p \<Rightarrow>
            (case json (p\<lparr>sub_Store := AList.delete (psub_ID sub) (sub_Store p)\<rparr>) of
              None \<Rightarrow> Ok True files
            | Some t \<Rightarrow> (let (err, files) = write_text io c t files in Ok err files))))"

section \<open>Operations\<close>

definition HasClient :: "nat \<Rightarrow> sub_api \<Rightarrow> subscriber option" where
  "HasClient c a = map_of (SubscriberStore a) c"

text \<open>A subscription to a resource the client has already is skipped; one without an id gets a fresh key.\<close>

definition add_subscription :: "string \<Rightarrow> string \<times> pub_sub \<Rightarrow> (string, pub_sub) gomap \<Rightarrow> (string, pub_sub) gomap" where
  "add_subscription fresh kv st =
    (let (key, v) = kv in
     if list_ex (\<lambda>(k, s). psub_Resource s = psub_Resource v) st then st
     else AList.update (if key = [] then fresh else key) v st)"

text \<open>The store is changed before the file is written: on an error the subscription is in the store.\<close>

definition ApiCreateSubscription ::
  "(string \<Rightarrow> subscriber option) \<Rightarrow> (subscriber \<Rightarrow> string option) \<Rightarrow> string \<Rightarrow> file_io \<Rightarrow> nat \<Rightarrow> subscriber \<Rightarrow>
    sub_api \<Rightarrow> subscriber option \<times> sub_api" where
  "ApiCreateSubscription decode json fresh io c sub a =
    (let s = (case HasClient c a of Some s \<Rightarrow> s | None \<Rightarrow> new_subscriber c);
         s = snd (SetEndPointURI (GetEndPointURI sub) (s\<lparr>failedCount := 0\<rparr>));
         s = s\<lparr>sub_Status := 1, sub_Action := NEW_status\<rparr>;
         s = s\<lparr>sub_Store := fold (add_subscription fresh) (sub_Store sub) (sub_Store s)\<rparr>;
         a = a\<lparr>SubscriberStore := AList.update c s (SubscriberStore a)\<rparr>;
         (err, files) = writeToFile decode json io s c (api_files a)
     in (if err then None else Some s, a\<lparr>api_files := files\<rparr>))"

text \<open>The flag is the error of the file; the store loses the subscription in any case.\<close>

definition DeleteSubscription ::
  "(string \<Rightarrow> subscriber option) \<Rightarrow> (subscriber \<Rightarrow> string option) \<Rightarrow> file_io \<Rightarrow> nat \<Rightarrow> string \<Rightarrow> sub_api \<Rightarrow>
    (bool, sub_api) res" where
  "DeleteSubscription decode json io c subID a =
    (case HasClient c a of
      None \<Rightarrow> Ok False a
    | Some s \<Rightarrow>
        (case map_of (sub_Store s) subID of
          None \<Rightarrow> Ok False a
        | Some sub \<Rightarrow>
            (case deleteFromFile decode json io sub c (api_files a) of
              Panic files \<Rightarrow> Panic (a\<lparr>api_files := files\<rparr>)
            | Ok err files \<Rightarrow> Ok err (a\<lparr>api_files := files\<rparr>
                \<lparr>SubscriberStore := AList.update c (s\<lparr>sub_Store := AList.delete subID (sub_Store s)\<rparr>) (SubscriberStore a)\<rparr>))))"

text \<open>Removing a missing file fails; \<open>removes\<close> says whether one that is there can be removed.\<close>

definition ApiDeleteClient :: "(nat \<Rightarrow> bool) \<Rightarrow> nat \<Rightarrow> sub_api \<Rightarrow> bool \<times> sub_api" where
  "ApiDeleteClient removes c a =
    (if HasClient c a = None then (False, a)
     else (let there = (removes c \<and> map_of (api_files a) c \<noteq> None);
               (err, st) = DeleteClient there c (SubscriberStore a)
           in (err, a\<lparr>SubscriberStore := st, api_files := if there then AList.delete c (api_files a) else api_files a\<rparr>)))"

text \<open>The clients in the order of the visit, until a file cannot be removed: the number, and the error.\<close>

fun delete_clients :: "(nat \<Rightarrow> bool) \<Rightarrow> (nat \<times> subscriber) list \<Rightarrow> nat \<Rightarrow> sub_api \<Rightarrow> (nat \<times> bool) \<times> sub_api" where
  "delete_clients removes [] n a = ((n, False), a)"
| "delete_clients removes ((c, s) # cs) n a =
    (case ApiDeleteClient removes c a of
      (True, a) \<Rightarrow> ((n, True), a)
    | (False, a) \<Rightarrow> delete_clients removes cs (n + length (sub_Store s)) a)"

definition DeleteAllSubscriptions :: "(nat \<Rightarrow> bool) \<Rightarrow> sub_api \<Rightarrow> (nat \<times> bool) \<times> sub_api" where
  "DeleteAllSubscriptions removes a = delete_clients removes (SubscriberStore a) 0 a"

text \<open>The flag is the error.\<close>

definition UpdateStatus :: "nat \<Rightarrow> int \<Rightarrow> sub_api \<Rightarrow> bool \<times> sub_api" where
  "UpdateStatus c status a =
    (case HasClient c a of
      None \<Rightarrow> (True, a)
    | Some s \<Rightarrow> (False, a\<lparr>SubscriberStore := AList.update c (s\<lparr>sub_Status := status\<rparr>) (SubscriberStore a)\<rparr>))"

definition DisableTransport :: "sub_api \<Rightarrow> sub_api" where
  "DisableTransport a = a\<lparr>transportEnabled := False\<rparr>"

definition EnableTransport :: "sub_api \<Rightarrow> sub_api" where
  "EnableTransport a = a\<lparr>transportEnabled := True\<rparr>"

section \<open>Lookups\<close>

definition GetSubFromSubscriptionsStore :: "nat \<Rightarrow> string \<Rightarrow> sub_api \<Rightarrow> pub_sub option" where
  "GetSubFromSubscriptionsStore c address a =
    (case HasClient c a of
      None \<Rightarrow> None
    | Some s \<Rightarrow> map_option snd (find (\<lambda>(k, sub). psub_Resource sub = address) (sub_Store s)))"

definition GetSubscriptions :: "sub_api \<Rightarrow> pub_sub list" where
  "GetSubscriptions a = concat (map (\<lambda>(c, s). map snd (sub_Store s)) (SubscriberStore a))"

text \<open>An unknown id of a known client gives the empty subscription.\<close>

definition GetSubscription :: "nat \<Rightarrow> string \<Rightarrow> sub_api \<Rightarrow> pub_sub option" where
  "GetSubscription c subID a =
    (case HasClient c a of
      None \<Rightarrow> None
    | Some s \<Rightarrow> Some (mget_or \<lparr>psub_ID = [], psub_Resource = [], psub_EndPoint = None, psub_URILocation = None\<rparr>
        (sub_Store s) subID))"

definition GetClientIDBySubID :: "string \<Rightarrow> sub_api \<Rightarrow> nat list" where
  "GetClientIDBySubID subID a =
    concat (map (\<lambda>(c, s). map (\<lambda>_. sub_ClientID s) (filter (\<lambda>(k, sub). psub_ID sub = subID) (sub_Store s)))
      (SubscriberStore a))"

definition GetSubscriberURLByResource :: "string \<Rightarrow> sub_api \<Rightarrow> string list" where
  "GetSubscriberURLByResource resource a =
    concat (map (\<lambda>(c, s). map (\<lambda>_. GetEndPointURI s) (filter (\<lambda>(k, sub). psub_Resource sub = resource) (sub_Store s)))
      (SubscriberStore a))"

section \<open>The files mirror the store\<close>

lemma trim_with_idem: "trim_with P (trim_with P s) = trim_with P s"
proof -
  let ?a = "dropWhile P s" and ?b = "dropWhile P (rev (dropWhile P s))"
  have "dropWhile P (rev ?b) = rev ?b"
  proof (cases "?b = []")
    case False
    have "\<exists>u. rev ?a = u @ ?b" by (metis takeWhile_dropWhile_id)
    then obtain u where "?a = rev ?b @ rev u" by (metis rev_append rev_rev_ident)
    moreover have "rev ?b \<noteq> []" using False by simp
    ultimately have "hd (rev ?b) = hd ?a" and "?a \<noteq> []" by (metis hd_append2, metis append_is_Nil_conv)
    then have "\<not> P (hd (rev ?b))" using hd_dropWhile [of P s] by simp
    then show ?thesis using False by (cases "rev ?b") auto
  next
    case True
    then show ?thesis by (metis dropWhile.simps(1) rev.simps(1))
  qed
  moreover have "dropWhile P ?b = ?b" by (simp add: dropWhile_idem)
  ultimately show ?thesis by (simp add: trim_with_def)
qed

lemma trim_space_idem [simp]: "trim_space (trim_space s) = trim_space s"
  by (simp add: trim_space_def trim_with_idem)

text \<open>What a subscriber of a Go map and of plain text is: JSON keeps it.\<close>

definition ascii :: "string \<Rightarrow> bool" where
  "ascii s \<longleftrightarrow> list_all (\<lambda>ch. (of_char ch :: nat) < 128) s"

definition ascii_sub :: "pub_sub \<Rightarrow> bool" where
  "ascii_sub v \<longleftrightarrow> ascii (psub_ID v) \<and> ascii (psub_Resource v) \<and> pred_option ascii (psub_EndPoint v) \<and>
     pred_option ascii (psub_URILocation v)"

definition encodable :: "subscriber \<Rightarrow> bool" where
  "encodable s \<longleftrightarrow> distinct (map fst (sub_Store s)) \<and> (\<forall>(k, v) \<in> set (sub_Store s). ascii k \<and> ascii_sub v) \<and>
     pred_option ascii (sub_EndPointURI s)"

text \<open>\<open>encoding/json\<close> on a subscriber: the text is not empty, and only the unexported counter is lost.\<close>

definition json_exact :: "(string \<Rightarrow> subscriber option) \<Rightarrow> (subscriber \<Rightarrow> string option) \<Rightarrow> bool" where
  "json_exact decode json \<longleftrightarrow>
     (\<forall>s. encodable s \<longrightarrow> (\<exists>t. json s = Some t \<and> t \<noteq> [] \<and> decode t = Some (s\<lparr>failedCount := 0\<rparr>)))"

text \<open>A subscriber whose subscriptions are filed under their ids, and whose address is trimmed.\<close>

definition clean :: "subscriber \<Rightarrow> bool" where
  "clean s \<longleftrightarrow> encodable s \<and> (\<forall>(k, v) \<in> set (sub_Store s). psub_ID v = k \<and> k \<noteq> []) \<and>
     (\<forall>u. sub_EndPointURI s = Some u \<longrightarrow> u \<noteq> [] \<and> trim_space u = u)"

text \<open>The text is that of the client, with the same address and the same subscriptions.\<close>

definition on_file :: "(string \<Rightarrow> subscriber option) \<Rightarrow> subscriber \<Rightarrow> string \<Rightarrow> bool" where
  "on_file decode s t \<longleftrightarrow> t \<noteq> [] \<and> (\<exists>p. decode t = Some p \<and> encodable p \<and> sub_ClientID p = sub_ClientID s \<and>
     sub_EndPointURI p = sub_EndPointURI s \<and> map_of (sub_Store p) = map_of (sub_Store s))"

definition mirror_at :: "(string \<Rightarrow> subscriber option) \<Rightarrow> nat \<Rightarrow> subscriber option \<Rightarrow> string option \<Rightarrow> bool" where
  "mirror_at decode c so fo =
    (case so of
      None \<Rightarrow> fo = None
    | Some s \<Rightarrow> c \<noteq> 0 \<and> sub_ClientID s = c \<and> clean s \<and> (\<exists>t. fo = Some t \<and> on_file decode s t))"

definition mirrors :: "(string \<Rightarrow> subscriber option) \<Rightarrow> sub_api \<Rightarrow> bool" where
  "mirrors decode a \<longleftrightarrow> distinct (map fst (SubscriberStore a)) \<and> distinct (map fst (api_files a)) \<and>
     (\<forall>c. mirror_at decode c (HasClient c a) (map_of (api_files a) c))"

definition trimmed :: "string \<Rightarrow> string option" where
  "trimmed uri = (if trim_space uri = [] then None else Some (trim_space uri))"

lemma SetEndPointURI_snd: "snd (SetEndPointURI uri s) = s\<lparr>sub_EndPointURI := trimmed uri\<rparr>"
  by (simp add: SetEndPointURI_def trimmed_def Let_def)

lemma trimmed_clean: "trimmed uri = Some u \<Longrightarrow> u \<noteq> [] \<and> trim_space u = u"
  by (auto simp: trimmed_def split: if_splits)

lemma trimmed_ascii: "ascii uri \<Longrightarrow> pred_option ascii (trimmed uri)"
  by (auto simp: trimmed_def ascii_def list_all_iff trim_space_def trim_with_def dest!: set_dropWhileD)

lemma SetEndPointURI_clean:
  "clean s \<Longrightarrow> snd (SetEndPointURI (GetEndPointURI s) p) = p\<lparr>sub_EndPointURI := sub_EndPointURI s\<rparr>"
  by (cases "sub_EndPointURI s") (auto simp: SetEndPointURI_def GetEndPointURI_def clean_def trim_space_def trim_with_def)

lemma map_of_update_all:
  assumes "distinct (map fst kvs)" and "map_of m \<subseteq>\<^sub>m map_of kvs"
  shows "map_of (fold (\<lambda>(k, v). AList.update k v) kvs m) = map_of kvs"
proof
  fix k
  have "map_of (rev kvs) = map_of kvs" using assms(1) map_of_inject_set [of "rev kvs" kvs] by (simp add: rev_map [symmetric])
  then show "map_of (fold (\<lambda>(k, v). AList.update k v) kvs m) k = map_of kvs k"
    using assms(2) by (auto simp: gomap.lookup_insert_all map_le_def dom_def split: option.split)
qed

lemma set_update_sub: "set (AList.update k v m) \<subseteq> insert (k, v) (set m)"
  by (induction m) auto

lemma set_update_all: "set (fold (\<lambda>(k, v). AList.update k v) kvs m) \<subseteq> set kvs \<union> set m"
proof (induction kvs arbitrary: m)
  case (Cons kv kvs)
  then show ?case using set_update_sub [of "fst kv" "snd kv" m] by (fastforce simp: split_def)
qed simp

lemma encodable_update_all:
  assumes "encodable p" and "encodable s"
  shows "encodable (p\<lparr>sub_Store := fold (\<lambda>(k, v). AList.update k v) (sub_Store s) (sub_Store p)\<rparr>)"
proof -
  have "distinct (map fst (fold (\<lambda>(k, v). AList.update k v) kvs (sub_Store p)))" for kvs :: "(string \<times> pub_sub) list"
  proof -
    have "distinct (map fst m) \<Longrightarrow> distinct (map fst (fold (\<lambda>(k, v). AList.update k v) kvs m))" for m :: "(string, pub_sub) gomap"
      by (induction kvs arbitrary: m) (auto simp: distinct_update)
    then show ?thesis using assms(1) by (simp add: encodable_def)
  qed
  then show ?thesis using assms set_update_all [of "sub_Store s" "sub_Store p"] unfolding encodable_def by auto
qed

lemma map_of_opened [simp]: "map_of (AList.update c t (opened c files)) = (map_of files)(c \<mapsto> t)"
  by (simp add: opened_def update_conv')

lemma distinct_opened: "distinct (map fst files) \<Longrightarrow> distinct (map fst (opened c files))"
  by (simp add: opened_def distinct_update)

lemma writeToFile_ok:
  assumes j: "json_exact decode json" and s: "clean s" "sub_ClientID s = c"
    and old: "case map_of files c of None \<Rightarrow> True | Some b \<Rightarrow> b = [] \<or>
      (\<exists>p. decode b = Some p \<and> encodable p \<and> sub_ClientID p = c \<and> map_of (sub_Store p) \<subseteq>\<^sub>m map_of (sub_Store s))"
  shows "\<exists>t files'. writeToFile decode json IoOk s c files = (False, files') \<and> on_file decode s t \<and>
    map_of files' = (map_of files)(c \<mapsto> t) \<and> (distinct (map fst files) \<longrightarrow> distinct (map fst files'))"
proof -
  let ?b = "mget_or [] files c"
  obtain p where p: "(if ?b \<noteq> [] then decode ?b else Some (new_subscriber c)) = Some p" "sub_ClientID p = c" "encodable p"
      "map_of (sub_Store p) \<subseteq>\<^sub>m map_of (sub_Store s)"
  proof (cases "?b = []")
    case True
    then show ?thesis using that [of "new_subscriber c"] by (simp add: new_subscriber_def encodable_def)
  next
    case False
    then show ?thesis using old that by (cases "map_of files c") (auto simp: mget_or_def)
  qed
  let ?p = "p\<lparr>sub_EndPointURI := sub_EndPointURI s, sub_Status := 1,
    sub_Store := fold (\<lambda>(subID, sub). AList.update subID sub) (sub_Store s) (sub_Store p)\<rparr>"
  have "encodable s" using s(1) by (simp add: clean_def)
  from encodable_update_all [OF p(3) this] this have e: "encodable ?p" by (simp add: encodable_def)
  obtain t where t: "json ?p = Some t" "t \<noteq> []" "decode t = Some (?p\<lparr>failedCount := 0\<rparr>)"
    using j e unfolding json_exact_def by blast
  have "map_of (fold (\<lambda>(subID, sub). AList.update subID sub) (sub_Store s) (sub_Store p)) = map_of (sub_Store s)"
    using s(1) p(4) by (intro map_of_update_all) (simp_all add: clean_def encodable_def)
  then have "on_file decode s t" using t(2,3) p(2) s(2) e by (simp add: on_file_def encodable_def)
  moreover have "writeToFile decode json IoOk s c files = (False, AList.update c t (opened c files))"
    using p(1) t(1) s by (cases "?b = []") (auto simp: writeToFile_def Let_def SetEndPointURI_clean write_text_def)
  ultimately show ?thesis using distinct_opened [of files c]
    by (auto simp: distinct_update)
qed

text \<open>Writing one client and its file keeps the mirror.\<close>

lemma mirrors_write:
  assumes "mirrors decode a" and "distinct (map fst files')" and "map_of files' = (map_of (api_files a))(c \<mapsto> t)"
    and "c \<noteq> 0" and "clean s" and "sub_ClientID s = c" and "on_file decode s t"
  shows "mirrors decode (a\<lparr>SubscriberStore := AList.update c s (SubscriberStore a), api_files := files'\<rparr>)"
proof -
  have "mirror_at decode c (Some s) (Some t)" using assms by (simp add: mirror_at_def)
  then show ?thesis using assms(1-3) by (simp add: mirrors_def HasClient_def distinct_update update_conv')
qed

text \<open>A change that neither the file nor a lookup shows.\<close>

lemma mirrors_touch:
  assumes "mirrors decode a" and "HasClient c a = Some s" and "sub_ClientID s' = sub_ClientID s"
    and "sub_EndPointURI s' = sub_EndPointURI s" and "sub_Store s' = sub_Store s"
  shows "mirrors decode (a\<lparr>SubscriberStore := AList.update c s' (SubscriberStore a)\<rparr>)"
proof -
  have "mirror_at decode c (Some s') (map_of (api_files a) c)"
    using assms(1,2) unfolding mirrors_def
    by (auto dest!: spec [of _ c] simp: mirror_at_def clean_def on_file_def encodable_def assms(3-5))
  then show ?thesis using assms(1) by (simp add: mirrors_def HasClient_def distinct_update update_conv')
qed

lemma mirrors_drop:
  assumes "mirrors decode a"
  shows "mirrors decode (a\<lparr>SubscriberStore := AList.delete c (SubscriberStore a), api_files := AList.delete c (api_files a)\<rparr>)"
  using assms by (simp add: mirrors_def mirror_at_def HasClient_def distinct_delete delete_conv')

text \<open>The subscriptions a client has after a request: those it had, and the new ones to other resources.\<close>

lemma add_subscription_wf:
  assumes "distinct (map fst st)" and "\<forall>(k, v) \<in> set st. psub_ID v = k \<and> k \<noteq> []" and "psub_ID (snd kv) = fst kv \<and> fst kv \<noteq> []"
    and "fst kv \<notin> fst ` set st"
  shows "distinct (map fst (add_subscription fresh kv st)) \<and>
    (\<forall>(k, v) \<in> set (add_subscription fresh kv st). psub_ID v = k \<and> k \<noteq> []) \<and>
    map_of st \<subseteq>\<^sub>m map_of (add_subscription fresh kv st) \<and>
    fst ` set (add_subscription fresh kv st) \<subseteq> insert (fst kv) (fst ` set st)"
proof (cases "list_ex (\<lambda>(k, s). psub_Resource s = psub_Resource (snd kv)) st")
  case True
  then show ?thesis using assms by (auto simp: add_subscription_def split_def)
next
  case False
  have "map_of st (fst kv) = None" using assms(4) by (simp add: map_of_eq_None_iff)
  then have "AList.update (fst kv) (snd kv) st = st @ [(fst kv, snd kv)]"
    using assms(4) by (induction st) auto
  then show ?thesis using False assms
    by (auto simp: add_subscription_def split_def map_le_def map_add_def split: option.splits)
qed

lemma add_subscriptions_wf:
  assumes "distinct (map fst st)" and "\<forall>(k, v) \<in> set st. psub_ID v = k \<and> k \<noteq> []" and "distinct (map fst kvs)"
    and "\<forall>(k, v) \<in> set kvs. psub_ID v = k \<and> k \<noteq> []" and "fst ` set kvs \<inter> fst ` set st = {}"
  shows "distinct (map fst (fold (add_subscription fresh) kvs st)) \<and>
    (\<forall>(k, v) \<in> set (fold (add_subscription fresh) kvs st). psub_ID v = k \<and> k \<noteq> []) \<and>
    map_of st \<subseteq>\<^sub>m map_of (fold (add_subscription fresh) kvs st)"
  using assms
proof (induction kvs arbitrary: st)
  case Nil
  then show ?case by simp
next
  case (Cons kv kvs)
  let ?st = "add_subscription fresh kv st"
  have k: "psub_ID (snd kv) = fst kv \<and> fst kv \<noteq> []" "fst kv \<notin> fst ` set st" using Cons.prems(4,5) by auto
  have s: "distinct (map fst ?st)" "\<forall>(k, v) \<in> set ?st. psub_ID v = k \<and> k \<noteq> []" "map_of st \<subseteq>\<^sub>m map_of ?st"
      "fst ` set ?st \<subseteq> insert (fst kv) (fst ` set st)"
    using add_subscription_wf [OF Cons.prems(1,2) k, of fresh] by blast+
  have d: "distinct (map fst kvs)" "\<forall>(k, v) \<in> set kvs. psub_ID v = k \<and> k \<noteq> []" using Cons.prems(3,4) by auto
  have f: "fst kv \<notin> fst ` set kvs" "fst ` set kvs \<inter> fst ` set st = {}" using Cons.prems(3,5) by auto
  have "fst ` set kvs \<inter> fst ` set ?st \<subseteq> fst ` set kvs \<inter> insert (fst kv) (fst ` set st)"
    using s(4) by (rule Int_mono [OF order_refl])
  also have "\<dots> = {}" using f by (simp only: Int_insert_right if_False)
  finally have "fst ` set kvs \<inter> fst ` set ?st = {}" by (simp only: subset_empty)
  note ih = Cons.IH [OF s(1,2) d this]
  have "map_of st \<subseteq>\<^sub>m map_of (fold (add_subscription fresh) kvs ?st)" using s(3) ih by (blast intro: map_le_trans)
  then show ?case using ih by simp
qed

lemma add_subscriptions_set:
  "\<forall>(k, v) \<in> set kvs. k \<noteq> [] \<Longrightarrow> set (fold (add_subscription fresh) kvs st) \<subseteq> set st \<union> set kvs"
proof (induction kvs arbitrary: st)
  case (Cons kv kvs)
  have "set (add_subscription fresh kv st) \<subseteq> insert kv (set st)"
    using set_update_sub [of "fst kv" "snd kv" st] Cons.prems by (auto simp: add_subscription_def split_def)
  then show ?case using Cons.IH [of "add_subscription fresh kv st"] Cons.prems by auto
qed simp

text \<open>A request to create subscriptions: ids that the client does not use yet.\<close>

definition new_subscriptions :: "nat \<Rightarrow> subscriber \<Rightarrow> sub_api \<Rightarrow> bool" where
  "new_subscriptions c sub a \<longleftrightarrow> c \<noteq> 0 \<and> encodable sub \<and>
     (\<forall>(k, v) \<in> set (sub_Store sub). psub_ID v = k \<and> k \<noteq> []) \<and>
     (\<forall>s. HasClient c a = Some s \<longrightarrow> fst ` set (sub_Store sub) \<inter> fst ` set (sub_Store s) = {})"

lemma create_mirrors:
  assumes j: "json_exact decode json" and m: "mirrors decode a" and n: "new_subscriptions c sub a"
    and r: "ApiCreateSubscription decode json fresh IoOk c sub a = (r, a')"
  shows "\<exists>s. r = Some s \<and> HasClient c a' = Some s \<and> sub_Action s = NEW_status \<and>
    sub_EndPointURI s = trimmed (GetEndPointURI sub) \<and>
    sub_Store s = fold (add_subscription fresh) (sub_Store sub) (case HasClient c a of None \<Rightarrow> [] | Some s \<Rightarrow> sub_Store s) \<and>
    (\<forall>d. d \<noteq> c \<longrightarrow> HasClient d a' = HasClient d a) \<and> mirrors decode a'"
proof -
  define s0 where "s0 = (case HasClient c a of Some s \<Rightarrow> s | None \<Rightarrow> new_subscriber c)"
  define st where "st = fold (add_subscription fresh) (sub_Store sub) (sub_Store s0)"
  define s where "s = s0\<lparr>failedCount := 0, sub_EndPointURI := trimmed (GetEndPointURI sub), sub_Status := 1,
    sub_Action := NEW_status, sub_Store := st\<rparr>"
  have at: "mirror_at decode c (HasClient c a) (map_of (api_files a) c)" using m by (simp add: mirrors_def)
  have s0: "clean s0" "sub_ClientID s0 = c" "sub_Store s0 = (case HasClient c a of None \<Rightarrow> [] | Some s \<Rightarrow> sub_Store s)"
    using at by (auto simp: s0_def mirror_at_def new_subscriber_def clean_def encodable_def split: option.splits)
  have "fst ` set (sub_Store sub) \<inter> fst ` set (sub_Store s0) = {}"
    using n by (auto simp: s0_def new_subscriptions_def new_subscriber_def split: option.split)
  then have st: "distinct (map fst st)" "\<forall>(k, v) \<in> set st. psub_ID v = k \<and> k \<noteq> []" "map_of (sub_Store s0) \<subseteq>\<^sub>m map_of st"
    using add_subscriptions_wf [of "sub_Store s0" "sub_Store sub" fresh] n s0(1)
    by (auto simp: st_def new_subscriptions_def clean_def encodable_def)
  have sub: "set st \<subseteq> set (sub_Store s0) \<union> set (sub_Store sub)"
    using add_subscriptions_set [of "sub_Store sub" fresh "sub_Store s0"] n by (auto simp: st_def new_subscriptions_def)
  have "encodable s0" "encodable sub" using n s0(1) by (simp_all add: new_subscriptions_def clean_def)
  then have "\<forall>(k, v) \<in> set (sub_Store s0) \<union> set (sub_Store sub). ascii k \<and> ascii_sub v"
    by (simp add: ball_Un encodable_def split_def)
  then have "\<forall>(k, v) \<in> set st. ascii k \<and> ascii_sub v" using sub by (meson subsetD)
  moreover have "pred_option ascii (trimmed (GetEndPointURI sub))"
    using n by (intro trimmed_ascii) (auto simp: new_subscriptions_def encodable_def GetEndPointURI_def ascii_def split: option.splits)
  ultimately have s: "clean s" "sub_ClientID s = c" using st s0(2) trimmed_clean by (simp_all add: s_def clean_def encodable_def)
  have "case map_of (api_files a) c of None \<Rightarrow> True | Some b \<Rightarrow> b = [] \<or>
      (\<exists>p. decode b = Some p \<and> encodable p \<and> sub_ClientID p = c \<and> map_of (sub_Store p) \<subseteq>\<^sub>m map_of (sub_Store s))"
    using at st(3) by (auto simp: s_def s0_def mirror_at_def on_file_def split: option.splits)
  then obtain t files' where w: "writeToFile decode json IoOk s c (api_files a) = (False, files')" "on_file decode s t"
      "map_of files' = (map_of (api_files a))(c \<mapsto> t)" "distinct (map fst (api_files a)) \<longrightarrow> distinct (map fst files')"
    using writeToFile_ok [OF j s] by blast
  let ?a = "a\<lparr>SubscriberStore := AList.update c s (SubscriberStore a), api_files := files'\<rparr>"
  have "ApiCreateSubscription decode json fresh IoOk c sub a = (Some s, ?a)"
    using w(1) by (simp add: ApiCreateSubscription_def SetEndPointURI_snd s0_def [symmetric] st_def [symmetric] s_def [symmetric])
  moreover have "mirrors decode ?a"
    using mirrors_write [OF m _ w(3) _ s w(2)] w(4) m n by (simp add: mirrors_def new_subscriptions_def)
  moreover have "HasClient d ?a = (if d = c then Some s else HasClient d a)" for d
    by (simp add: HasClient_def update_conv')
  ultimately show ?thesis using r s0(3) by (auto simp: s_def st_def)
qed

section \<open>What a restart finds\<close>

text \<open>The operations on the store while the file system works.\<close>

inductive api_step ::
  "(string \<Rightarrow> subscriber option) \<Rightarrow> (subscriber \<Rightarrow> string option) \<Rightarrow> sub_api \<Rightarrow> sub_api \<Rightarrow> bool"
  for decode :: "string \<Rightarrow> subscriber option" and json :: "subscriber \<Rightarrow> string option" where
  step_create: "new_subscriptions c sub a \<Longrightarrow>
    api_step decode json a (snd (ApiCreateSubscription decode json fresh IoOk c sub a))"
| step_delete: "DeleteSubscription decode json IoOk c subID a = Ok err a' \<Longrightarrow> api_step decode json a a'"
| step_delete_client: "api_step decode json a (snd (ApiDeleteClient (\<lambda>_. True) c a))"
| step_delete_all: "api_step decode json a (snd (DeleteAllSubscriptions (\<lambda>_. True) a))"
| step_fail: "api_step decode json a (a\<lparr>SubscriberStore := snd (IncFailCountToFail c (SubscriberStore a))\<rparr>)"
| step_answer: "api_step decode json a (a\<lparr>SubscriberStore := ResetFailCount c (SubscriberStore a)\<rparr>)"
| step_status: "api_step decode json a (snd (UpdateStatus c status a))"

inductive api_reach ::
  "(string \<Rightarrow> subscriber option) \<Rightarrow> (subscriber \<Rightarrow> string option) \<Rightarrow> sub_api \<Rightarrow> bool"
  for decode :: "string \<Rightarrow> subscriber option" and json :: "subscriber \<Rightarrow> string option" where
  reach_start: "api_reach decode json \<lparr>SubscriberStore = [], api_files = [], transportEnabled = t\<rparr>"
| reach_step: "api_reach decode json a \<Longrightarrow> api_step decode json a a' \<Longrightarrow> api_reach decode json a'"

lemma delete_subscription_mirrors:
  assumes j: "json_exact decode json" and m: "mirrors decode a"
  shows "\<exists>a'. DeleteSubscription decode json IoOk c subID a = Ok False a' \<and> mirrors decode a' \<and>
    (\<forall>d. HasClient d a' = (if d = c then map_option (sub_Store_update (AList.delete subID)) (HasClient c a) else HasClient d a))"
proof (cases "\<exists>s sub. HasClient c a = Some s \<and> map_of (sub_Store s) subID = Some sub")
  case False
  have "sub_Store_update (AList.delete subID) s = s" if "map_of (sub_Store s) subID = None" for s :: subscriber
    using that by (cases s) (simp add: delete_idem map_of_eq_None_iff)
  then show ?thesis using False m by (auto simp: DeleteSubscription_def split: option.split)
next
  case True
  then obtain s sub where s: "HasClient c a = Some s" and sub: "map_of (sub_Store s) subID = Some sub" by blast
  have "mirror_at decode c (HasClient c a) (map_of (api_files a) c)" using m by (simp add: mirrors_def)
  then obtain t p where t: "map_of (api_files a) c = Some t" "t \<noteq> []" "decode t = Some p" "encodable p"
      "sub_ClientID p = c" "sub_EndPointURI p = sub_EndPointURI s" "map_of (sub_Store p) = map_of (sub_Store s)"
    and cs: "c \<noteq> 0" "sub_ClientID s = c" "clean s"
    by (auto simp: mirror_at_def on_file_def s)
  have id: "psub_ID sub = subID" using map_of_SomeD [OF sub] cs(3) by (auto simp: clean_def)
  let ?p = "p\<lparr>sub_Store := AList.delete subID (sub_Store p)\<rparr>"
    and ?s = "s\<lparr>sub_Store := AList.delete subID (sub_Store s)\<rparr>"
  have sets: "set (AList.delete subID m) \<subseteq> set m" for m :: "(string, pub_sub) gomap"
    by (induction m) auto
  have e: "encodable ?p" using t(4) sets [of "sub_Store p"] by (auto simp: encodable_def distinct_delete)
  then obtain u where u: "json ?p = Some u" "u \<noteq> []" "decode u = Some (?p\<lparr>failedCount := 0\<rparr>)"
    using j unfolding json_exact_def by blast
  have e0: "encodable (?p\<lparr>failedCount := 0\<rparr>)" using e by (simp add: encodable_def)
  have fl: "on_file decode ?s u"
    using u(2,3) e0 t(5-7) cs(2) by (simp add: on_file_def delete_conv')
  have clean: "clean ?s" using cs(3) sets [of "sub_Store s"] by (auto simp: clean_def encodable_def distinct_delete)
  have f: "deleteFromFile decode json IoOk sub c (api_files a) = Ok False (AList.update c u (opened c (api_files a)))"
    using t(1-3) u(1) by (simp add: deleteFromFile_def mget_or_def id write_text_def)
  let ?f = "AList.update c u (opened c (api_files a))"
  have "mirrors decode (a\<lparr>SubscriberStore := AList.update c ?s (SubscriberStore a), api_files := ?f\<rparr>)"
    using m by (intro mirrors_write [OF m _ _ cs(1) clean _ fl]) (simp_all add: mirrors_def distinct_update distinct_opened cs(2))
  then have "mirrors decode (a\<lparr>api_files := ?f, SubscriberStore := AList.update c ?s (SubscriberStore a)\<rparr>)" by (cases a) simp
  moreover have "sub_Store_update (AList.delete subID) s = ?s" by (cases s) simp
  ultimately show ?thesis using s by (simp add: DeleteSubscription_def sub f) (simp add: HasClient_def update_conv')
qed

text \<open>Deleting a client, and all of them.\<close>

lemma ApiDeleteClient_ok:
  assumes m: "mirrors decode a"
  shows "ApiDeleteClient (\<lambda>_. True) c a =
    (False, a\<lparr>SubscriberStore := AList.delete c (SubscriberStore a), api_files := AList.delete c (api_files a)\<rparr>)"
proof -
  have at: "mirror_at decode c (HasClient c a) (map_of (api_files a) c)" using m by (simp add: mirrors_def)
  show ?thesis
  proof (cases "HasClient c a")
    case None
    then have "map_of (api_files a) c = None" using at by (simp add: mirror_at_def)
    then show ?thesis using None
      by (simp add: ApiDeleteClient_def HasClient_def delete_idem map_of_eq_None_iff)
  next
    case (Some s)
    then have "map_of (api_files a) c \<noteq> None" using at by (auto simp: mirror_at_def)
    then show ?thesis using Some by (simp add: ApiDeleteClient_def HasClient_def DeleteClient_def)
  qed
qed

lemma ApiDeleteClient_mirrors: "mirrors decode a \<Longrightarrow> mirrors decode (snd (ApiDeleteClient (\<lambda>_. True) c a))"
  by (simp add: ApiDeleteClient_ok mirrors_drop)

lemma delete_clients_ok:
  assumes "mirrors decode a"
  shows "\<exists>a'. delete_clients (\<lambda>_. True) cs n a =
      ((n + sum_list (map (\<lambda>(c, s). length (sub_Store s)) cs), False), a') \<and> mirrors decode a' \<and>
    (\<forall>c. HasClient c a' = (if c \<in> fst ` set cs then None else HasClient c a))"
  using assms
proof (induction cs arbitrary: n a)
  case Nil
  then show ?case by simp
next
  case (Cons cs0 cs)
  obtain c s where cs0: "cs0 = (c, s)" by (rule prod.exhaust)
  let ?a = "a\<lparr>SubscriberStore := AList.delete c (SubscriberStore a), api_files := AList.delete c (api_files a)\<rparr>"
  have "mirrors decode ?a" using Cons.prems by (rule mirrors_drop)
  from Cons.IH [OF this, of "n + length (sub_Store s)"] obtain a' where
    a': "delete_clients (\<lambda>_. True) cs (n + length (sub_Store s)) ?a =
        ((n + length (sub_Store s) + sum_list (map (\<lambda>(c, s). length (sub_Store s)) cs), False), a')"
      "mirrors decode a'" "\<forall>d. HasClient d a' = (if d \<in> fst ` set cs then None else HasClient d ?a)"
    by blast
  have "HasClient d ?a = (if d = c then None else HasClient d a)" for d by (simp add: HasClient_def delete_conv')
  then show ?case using a' by (simp add: cs0 ApiDeleteClient_ok [OF Cons.prems] add.assoc)
qed

text \<open>Nothing is left, and the number is that of the subscriptions.\<close>

lemma DeleteAllSubscriptions_ok:
  assumes "mirrors decode a"
  shows "\<exists>a'. DeleteAllSubscriptions (\<lambda>_. True) a = ((length (GetSubscriptions a), False), a') \<and>
    SubscriberStore a' = [] \<and> mirrors decode a'"
proof -
  obtain a' where a': "DeleteAllSubscriptions (\<lambda>_. True) a =
      ((sum_list (map (\<lambda>(c, s). length (sub_Store s)) (SubscriberStore a)), False), a')" "mirrors decode a'"
      "\<forall>c. HasClient c a' = (if c \<in> fst ` set (SubscriberStore a) then None else HasClient c a)"
    using delete_clients_ok [OF assms, of "SubscriberStore a" 0] by (auto simp: DeleteAllSubscriptions_def)
  have "HasClient c a' = None" for c
    using a'(3) by (auto simp: HasClient_def map_of_eq_None_iff)
  then have "map_of (SubscriberStore a') = Map.empty" by (simp add: HasClient_def fun_eq_iff)
  then have "SubscriberStore a' = []" by simp
  moreover have "sum_list (map (\<lambda>(c, s). length (sub_Store s)) (SubscriberStore a)) = length (GetSubscriptions a)"
    by (simp add: GetSubscriptions_def length_concat split_def comp_def)
  ultimately show ?thesis using a' by auto
qed

lemma api_step_mirrors:
  assumes j: "json_exact decode json" and "api_step decode json a a'" and "mirrors decode a"
  shows "mirrors decode a'"
  using assms(2,3)
proof cases
  case (step_create c sub fresh)
  then show ?thesis using create_mirrors [OF j assms(3), of c sub fresh]
    by (metis prod.collapse)
next
  case (step_delete c subID err)
  then show ?thesis using delete_subscription_mirrors [OF j assms(3), of c subID] by auto
next
  case (step_delete_client c)
  then show ?thesis using ApiDeleteClient_mirrors [OF assms(3)] by simp
next
  case step_delete_all
  then show ?thesis using DeleteAllSubscriptions_ok [OF assms(3)] by auto
next
  case (step_fail c)
  then show ?thesis using assms(3) mirrors_touch [OF assms(3), of c]
    by (auto simp: IncFailCountToFail_def IncFailCount_def HasClient_def Let_def split: option.splits)
next
  case (step_answer c)
  then show ?thesis using assms(3) mirrors_touch [OF assms(3), of c]
    by (auto simp: ResetFailCount_def HasClient_def split: option.splits)
next
  case (step_status c status)
  then show ?thesis using assms(3) mirrors_touch [OF assms(3), of c]
    by (auto simp: UpdateStatus_def HasClient_def split: option.splits)
qed

lemma api_reach_mirrors: "api_reach decode json a \<Longrightarrow> json_exact decode json \<Longrightarrow> mirrors decode a"
proof (induction rule: api_reach.induct)
  case (reach_start t)
  show ?case by (simp add: mirrors_def mirror_at_def HasClient_def)
next
  case (reach_step a a')
  then show ?case using api_step_mirrors by blast
qed

end
