(* ===== verification/TextCodec.thy ===== *)
theory TextCodec
  imports SubscriberAPI
begin

text \<open>
  A concrete encoding of subscribers as text, of the kind \<open>encoding/json\<close> is for the model: nothing but the
  unexported counter is lost. The witnesses use it.
\<close>

section \<open>Prefix parsers\<close>

type_synonym 'a parser = "string \<Rightarrow> ('a \<times> string) option"

text \<open>The parser takes back what the printer wrote, and leaves the rest.\<close>

definition takes_back :: "'a parser \<Rightarrow> ('a \<Rightarrow> string) \<Rightarrow> bool" where
  "takes_back p e \<longleftrightarrow> (\<forall>x rest. p (e x @ rest) = Some (x, rest))"

fun p_nat :: "nat parser" where
  "p_nat [] = None"
| "p_nat (ch # s) = (if ch = CHR ''1'' then map_option (\<lambda>(n, r). (Suc n, r)) (p_nat s) else Some (0, s))"

definition e_nat :: "nat \<Rightarrow> string" where
  "e_nat n = replicate n CHR ''1'' @ ''.''"

lemma nat_back: "takes_back p_nat e_nat"
proof -
  have "p_nat (replicate n CHR ''1'' @ ''.'' @ rest) = Some (n, rest)" for n rest by (induction n) simp_all
  then show ?thesis by (simp add: takes_back_def e_nat_def)
qed

definition p_text :: "string parser" where
  "p_text s = Option.bind (p_nat s) (\<lambda>(n, r). Some (take n r, drop n r))"

definition e_text :: "string \<Rightarrow> string" where
  "e_text t = e_nat (length t) @ t"

lemma text_back: "takes_back p_text e_text"
  using nat_back by (simp add: takes_back_def p_text_def e_text_def)

definition p_opt :: "'a parser \<Rightarrow> 'a option parser" where
  "p_opt p s = Option.bind (p_nat s) (\<lambda>(n, r). if n = 0 then Some (None, r) else map_option (apfst Some) (p r))"

definition e_opt :: "('a \<Rightarrow> string) \<Rightarrow> 'a option \<Rightarrow> string" where
  "e_opt e x = (case x of None \<Rightarrow> e_nat 0 | Some y \<Rightarrow> e_nat 1 @ e y)"

lemma opt_back: "takes_back p e \<Longrightarrow> takes_back (p_opt p) (e_opt e)"
  using nat_back by (auto simp: takes_back_def p_opt_def e_opt_def split: option.split)

primrec p_times :: "'a parser \<Rightarrow> nat \<Rightarrow> 'a list parser" where
  "p_times p 0 s = Some ([], s)"
| "p_times p (Suc n) s = Option.bind (p s) (\<lambda>(x, r). map_option (apfst (Cons x)) (p_times p n r))"

definition p_list :: "'a parser \<Rightarrow> 'a list parser" where
  "p_list p s = Option.bind (p_nat s) (\<lambda>(n, r). p_times p n r)"

definition e_list :: "('a \<Rightarrow> string) \<Rightarrow> 'a list \<Rightarrow> string" where
  "e_list e xs = e_nat (length xs) @ concat (map e xs)"

lemma list_back:
  assumes "takes_back p e"
  shows "takes_back (p_list p) (e_list e)"
proof -
  have "p_times p (length xs) (concat (map e xs) @ rest) = Some (xs, rest)" for xs rest
    using assms by (induction xs) (simp_all add: takes_back_def)
  then show ?thesis using nat_back by (simp add: takes_back_def p_list_def e_list_def)
qed

section \<open>Subscribers\<close>

definition p_sub :: "pub_sub parser" where
  "p_sub s = Option.bind (p_text s) (\<lambda>(i, s). Option.bind (p_text s) (\<lambda>(r, s).
     Option.bind (p_opt p_text s) (\<lambda>(e, s). Option.bind (p_opt p_text s) (\<lambda>(u, s).
     Some (\<lparr>psub_ID = i, psub_Resource = r, psub_EndPoint = e, psub_URILocation = u\<rparr>, s)))))"

definition e_sub :: "pub_sub \<Rightarrow> string" where
  "e_sub v = e_text (psub_ID v) @ e_text (psub_Resource v) @ e_opt e_text (psub_EndPoint v) @ e_opt e_text (psub_URILocation v)"

lemma sub_back: "takes_back p_sub e_sub"
  using text_back opt_back [OF text_back] by (simp add: takes_back_def p_sub_def e_sub_def)

definition p_entry :: "(string \<times> pub_sub) parser" where
  "p_entry s = Option.bind (p_text s) (\<lambda>(k, s). Option.bind (p_sub s) (\<lambda>(v, s). Some ((k, v), s)))"

definition e_entry :: "string \<times> pub_sub \<Rightarrow> string" where
  "e_entry kv = e_text (fst kv) @ e_sub (snd kv)"

lemma entry_back: "takes_back p_entry e_entry"
  using text_back sub_back by (simp add: takes_back_def p_entry_def e_entry_def)

definition p_action :: "data_status parser" where
  "p_action s = Option.bind (p_nat s) (\<lambda>(n, s).
     map_option (\<lambda>d. (d, s)) (List.find (\<lambda>_. True) (drop n [NEW_status, SUCCESS_status, FAILED_status, DELETE_status])))"

definition e_action :: "data_status \<Rightarrow> string" where
  "e_action d = e_nat (case d of NEW_status \<Rightarrow> 0 | SUCCESS_status \<Rightarrow> 1 | FAILED_status \<Rightarrow> 2 | DELETE_status \<Rightarrow> 3)"

lemma action_back: "takes_back p_action e_action"
  using nat_back by (auto simp: takes_back_def p_action_def e_action_def numeral_eq_Suc split: data_status.split)

definition p_int :: "int parser" where
  "p_int s = Option.bind (p_nat s) (\<lambda>(m, s). map_option (\<lambda>(n, s). (if m = 0 then int n else - int n, s)) (p_nat s))"

definition e_int :: "int \<Rightarrow> string" where
  "e_int i = e_nat (if i < 0 then 1 else 0) @ e_nat (nat \<bar>i\<bar>)"

lemma int_back: "takes_back p_int e_int"
  using nat_back by (auto simp: takes_back_def p_int_def e_int_def)

definition text_of_subscriber :: "subscriber \<Rightarrow> string option" where
  "text_of_subscriber s = Some (e_nat (sub_ClientID s) @ e_list e_entry (sub_Store s) @ e_opt e_text (sub_EndPointURI s) @
     e_int (sub_Status s) @ e_action (sub_Action s))"

definition subscriber_of_text :: "string \<Rightarrow> subscriber option" where
  "subscriber_of_text t = Option.bind (p_nat t) (\<lambda>(c, t). Option.bind (p_list p_entry t) (\<lambda>(st, t).
     Option.bind (p_opt p_text t) (\<lambda>(u, t). Option.bind (p_int t) (\<lambda>(i, t). Option.bind (p_action t) (\<lambda>(d, t).
     Some \<lparr>sub_ClientID = c, sub_Store = st, sub_EndPointURI = u, sub_Status = i, sub_Action = d, failedCount = 0\<rparr>)))))"

lemma subscriber_back:
  "\<exists>t. text_of_subscriber s = Some t \<and> t \<noteq> [] \<and> subscriber_of_text t = Some (s\<lparr>failedCount := 0\<rparr>)"
proof -
  have "p_action (e_action d) = Some (d, [])" for d
    using action_back by (metis append_Nil2 takes_back_def)
  then show ?thesis
    using nat_back list_back [OF entry_back] opt_back [OF text_back] int_back
    by (cases s) (simp add: takes_back_def text_of_subscriber_def subscriber_of_text_def e_nat_def)
qed

lemma text_codec_exact: "json_exact subscriber_of_text text_of_subscriber"
  using subscriber_back by (auto simp: json_exact_def)

end
