(* ===== verification/StoreRestart.thy ===== *)
theory StoreRestart
  imports Startup TextCodec
begin

text \<open>
  The subscriber store across a restart of the proxy: what \<open>ReloadStore\<close> makes of the files that the
  operations of \<open>SubscriberAPI\<close> left.
\<close>

lemma mirrors_by_id: "mirrors decode a \<Longrightarrow> by_id decode (api_files a)"
proof -
  assume m: "mirrors decode a"
  have "t \<noteq> [] \<and> c \<noteq> 0 \<and> (\<exists>p. decode t = Some p \<and> sub_ClientID p = c)" if "(c, t) \<in> set (api_files a)" for c t
  proof -
    have "map_of (api_files a) c = Some t" using m that by (simp add: mirrors_def map_of_eq_Some_iff)
    moreover have "mirror_at decode c (HasClient c a) (map_of (api_files a) c)" using m by (simp add: mirrors_def)
    ultimately show ?thesis by (auto simp: mirror_at_def on_file_def split: option.splits)
  qed
  then show "by_id decode (api_files a)" using m by (auto simp: by_id_def mirrors_def)
qed

text \<open>The clients of the store, with their addresses and subscriptions, and nobody else.\<close>

definition restored :: "sub_api \<Rightarrow> sub_store \<Rightarrow> bool" where
  "restored a st \<longleftrightarrow> (\<forall>c. case HasClient c a of
      None \<Rightarrow> map_of st c = None
    | Some so \<Rightarrow> \<exists>p. map_of st c = Some p \<and> sub_ClientID p = c \<and>
        sub_EndPointURI p = sub_EndPointURI so \<and> map_of (sub_Store p) = map_of (sub_Store so))"

lemma mirror_restored:
  assumes "\<And>c. mirror_at decode c (HasClient c a) (m c)" and "\<And>c. map_of st c = Option.bind (m c) decode"
  shows "restored a st"
  unfolding restored_def
proof
  fix c
  show "case HasClient c a of None \<Rightarrow> map_of st c = None
    | Some so \<Rightarrow> \<exists>p. map_of st c = Some p \<and> sub_ClientID p = c \<and>
        sub_EndPointURI p = sub_EndPointURI so \<and> map_of (sub_Store p) = map_of (sub_Store so)"
    using assms(1) [of c] assms(2) [of c] by (cases "HasClient c a") (auto simp: mirror_at_def on_file_def)
qed

text \<open>C35: 
  Whatever operations ran before a restart, every client comes back with its address and its subscriptions, and no
  client comes back that was deleted.
\<close>

theorem store_survives_restart:
  assumes "json_exact decode json" and "api_reach decode json a"
  shows "restored a (ReloadStore decode (api_files a) [])"
proof -
  have m: "mirrors decode a" using api_reach_mirrors assms by blast
  then have "mirror_at decode c (HasClient c a) (map_of (api_files a) c)" for c by (simp add: mirrors_def)
  then show ?thesis
    by (rule mirror_restored) (simp add: ReloadStore_by_id [OF mirrors_by_id [OF m]])
qed

text \<open>Two subscriptions of a client, one of which is deleted again.\<close>

definition two_subscriptions :: subscriber where
  "two_subscriptions = (new_subscriber 7)\<lparr>sub_EndPointURI := Some ''http://c:9043'',
     sub_Store := [(''s1'', \<lparr>psub_ID = ''s1'', psub_Resource = ''/a'', psub_EndPoint = None, psub_URILocation = None\<rparr>),
       (''s2'', \<lparr>psub_ID = ''s2'', psub_Resource = ''/b'', psub_EndPoint = None, psub_URILocation = None\<rparr>)]\<rparr>"

definition one_left :: sub_api where
  "one_left =
    (case DeleteSubscription subscriber_of_text text_of_subscriber IoOk 7 ''s1''
        (snd (ApiCreateSubscription subscriber_of_text text_of_subscriber [] IoOk 7 two_subscriptions
          \<lparr>SubscriberStore = [], api_files = [], transportEnabled = True\<rparr>)) of
      Ok _ a \<Rightarrow> a | Panic a \<Rightarrow> a)"

lemma one_left_reached:
  "api_reach subscriber_of_text text_of_subscriber one_left"
  "map_option sub_Store (HasClient 7 one_left) = Some (tl (sub_Store two_subscriptions))"
  "map_option sub_EndPointURI (HasClient 7 one_left) = Some (Some ''http://c:9043'')"
proof -
  let ?new = "\<lparr>SubscriberStore = [], api_files = [], transportEnabled = True\<rparr>"
  let ?a = "snd (ApiCreateSubscription subscriber_of_text text_of_subscriber [] IoOk 7 two_subscriptions ?new)"
  have n: "new_subscriptions 7 two_subscriptions ?new"
    by (simp add: new_subscriptions_def two_subscriptions_def new_subscriber_def encodable_def ascii_def ascii_sub_def HasClient_def)
  then have r: "api_reach subscriber_of_text text_of_subscriber ?a" by (blast intro: reach_step reach_start step_create)
  have m: "mirrors subscriber_of_text ?new" "mirrors subscriber_of_text ?a"
    by (rule api_reach_mirrors [OF _ text_codec_exact], rule r reach_start)+
  obtain s where s: "HasClient 7 ?a = Some s" "sub_EndPointURI s = trimmed (GetEndPointURI two_subscriptions)"
      "sub_Store s = fold (add_subscription []) (sub_Store two_subscriptions) []"
    using create_mirrors [OF text_codec_exact m(1) n prod.collapse [symmetric], of "[]"] by (auto simp: HasClient_def)
  obtain a' where a': "DeleteSubscription subscriber_of_text text_of_subscriber IoOk 7 ''s1'' ?a = Ok False a'"
      "HasClient 7 a' = map_option (sub_Store_update (AList.delete ''s1'')) (HasClient 7 ?a)"
    using delete_subscription_mirrors [OF text_codec_exact m(2), of 7 "''s1''"] by auto
  then have one: "one_left = a'" by (simp add: one_left_def)
  show "api_reach subscriber_of_text text_of_subscriber one_left"
    using r a'(1) unfolding one by (blast intro: reach_step step_delete)
  show "map_option sub_Store (HasClient 7 one_left) = Some (tl (sub_Store two_subscriptions))"
    using s a'(2) by (simp add: one two_subscriptions_def new_subscriber_def add_subscription_def)
  have "trimmed ''http://c:9043'' = Some ''http://c:9043''" by code_simp
  then show "map_option sub_EndPointURI (HasClient 7 one_left) = Some (Some ''http://c:9043'')"
    using s a'(2) by (simp add: one two_subscriptions_def new_subscriber_def GetEndPointURI_def)
qed

theorem store_survives_restart_witness:
  "map_option (map fst \<circ> sub_Store) (HasClient 7 one_left) = Some [''s2''] \<and>
   (\<exists>p. map_of (ReloadStore subscriber_of_text (api_files one_left) []) 7 = Some p \<and>
      sub_EndPointURI p = Some ''http://c:9043'' \<and> dom (map_of (sub_Store p)) = {''s2''})"
proof -
  obtain s where s: "HasClient 7 one_left = Some s" "sub_Store s = tl (sub_Store two_subscriptions)"
      "sub_EndPointURI s = Some ''http://c:9043''"
    using one_left_reached(2,3) by auto
  then show ?thesis using store_survives_restart [OF text_codec_exact one_left_reached(1)]
    by (auto simp: restored_def dest!: spec [of _ 7] simp: two_subscriptions_def new_subscriber_def)
qed

end
