(* ===== verification/RestServer.thy ===== *)
theory RestServer
  imports StoreRestart
begin

text \<open>
  The handlers of the vendored REST server (\<open>rest-api/v2/routes.go\<close>) for subscriptions, over the store of
  \<open>SubscriberAPI\<close>. The requests of a server are handled one after another; what goes to the dispatcher is
  queued. JSON, the identifiers and the answers of the endpoints are parameters.
\<close>

section \<open>State\<close>

datatype sub_count = ACTIVE_count | FAILCREATE_count | FAILDELETE_count

record rest_server =
  rs_api :: sub_api
  rs_out :: "channel_item list"                  \<comment> \<open>\<open>dataOut\<close>\<close>
  rs_posts :: "(string \<times> ce_event) list"         \<comment> \<open>initial notifications: endpoint and event\<close>
  rs_uuids :: nat                                \<comment> \<open>identifiers drawn\<close>
  rs_counts :: "(sub_count \<times> int) list"

record rest_env =
  re_pubsub :: "string \<Rightarrow> pub_sub option"         \<comment> \<open>the body of a request\<close>
  re_pubsub_json :: "pub_sub \<Rightarrow> string"
  re_list_json :: "pub_sub list \<Rightarrow> string"
  re_decode :: "string \<Rightarrow> subscriber option"
  re_json :: "subscriber \<Rightarrow> string option"
  re_event :: "subscriber \<Rightarrow> ce_event"            \<comment> \<open>the event whose data is the subscriber\<close>
  re_current :: "(string \<Rightarrow> bool \<times> ce_event option) option"   \<comment> \<open>\<open>statusReceiveOverrideFn\<close>: the error, and the data\<close>
  re_marshals :: "ce_event \<Rightarrow> bool"
  re_net :: "nat \<Rightarrow> http_outcome"                 \<comment> \<open>the answer to the n-th initial notification\<close>
  re_uuid :: "nat \<Rightarrow> string"
  re_clientID :: "string \<Rightarrow> nat"                  \<comment> \<open>\<open>getClientIDFromURI\<close>\<close>
  re_base :: string                              \<comment> \<open>the URL of the subscriptions, with the slash\<close>
  re_local_fails :: bool                         \<comment> \<open>an error of \<open>pubSubAPI.DeleteAllSubscriptions\<close>\<close>

type_synonym reply = "int \<times> string option"

definition UpdateSubscriptionCount :: "sub_count \<Rightarrow> int \<Rightarrow> rest_server \<Rightarrow> rest_server" where
  "UpdateSubscriptionCount k n s = s\<lparr>rs_counts := rs_counts s @ [(k, n)]\<rparr>"

definition new_uuid :: "rest_env \<Rightarrow> rest_server \<Rightarrow> string \<times> rest_server" where
  "new_uuid env s = (re_uuid env (rs_uuids s), s\<lparr>rs_uuids := rs_uuids s + 1\<rparr>)"

definition send_out :: "channel_item \<Rightarrow> rest_server \<Rightarrow> rest_server" where
  "send_out d s = s\<lparr>rs_out := rs_out s @ [d]\<rparr>"

definition subscriber_item :: "data_status \<Rightarrow> string \<Rightarrow> nat \<Rightarrow> ce_event \<Rightarrow> channel_item" where
  "subscriber_item status address c e = \<lparr>dc_Type = SUBSCRIBER_kind, dc_Status = status, dc_Data = Some e,
     dc_Address = address, dc_ClientID = c, ProcessEventFn = None\<rparr>"

section \<open>Creating a subscription\<close>

text \<open>The answer to a POST; a status 400 is an error. The first component is the status, the second the error.\<close>

definition notify :: "rest_env \<Rightarrow> string \<Rightarrow> ce_event \<Rightarrow> rest_server \<Rightarrow> (int \<times> bool) \<times> rest_server" where
  "notify env uri e s =
    (if \<not> re_marshals env e then ((0, True), s)
     else
       (let r = re_net env (length (rs_posts s)); status = PutStatus r
        in ((status, status = StatusBadRequest), s\<lparr>rs_posts := rs_posts s @ [(uri, e)]\<rparr>)))"

definition fail_create :: "int \<Rightarrow> rest_server \<Rightarrow> reply \<times> rest_server" where
  "fail_create status s = ((status, None), UpdateSubscriptionCount FAILCREATE_count 1 s)"

text \<open>The subscriber of the request, with its one subscription.\<close>

definition request_subscriber :: "rest_env \<Rightarrow> string \<Rightarrow> pub_sub \<Rightarrow> subscriber" where
  "request_subscriber env endPointURI sub =
    (let s = snd (SetEndPointURI endPointURI (new_subscriber (re_clientID env endPointURI)))
     in s\<lparr>sub_Store := [(psub_ID sub, sub)], sub_Action := NEW_status\<rparr>)"

text \<open>The end of the handler: the store, the answer, and the message to the dispatcher.\<close>

definition store_subscription :: "rest_env \<Rightarrow> file_io \<Rightarrow> string \<Rightarrow> pub_sub \<Rightarrow> rest_server \<Rightarrow> reply \<times> rest_server" where
  "store_subscription env io endPointURI sub s =
    (let subs = request_subscriber env endPointURI sub; addr = psub_Resource sub;
         (r, a) = ApiCreateSubscription (re_decode env) (re_json env) [] io (sub_ClientID subs) subs (rs_api s);
         s = s\<lparr>rs_api := a\<rparr>
     in case r of
          None \<Rightarrow>
            (let (reply, s) = fail_create 404 s
             in (reply, send_out (subscriber_item FAILED_status addr 0 (re_event env subs)) s))
        | Some obj \<Rightarrow>
            ((201, Some (re_pubsub_json env sub)),
             send_out (subscriber_item SUCCESS_status addr 0 (re_event env obj)) (UpdateSubscriptionCount ACTIVE_count 1 s)))"

text \<open>The current state of the resource must be known, and the endpoint must take it with status 204.\<close>

definition notify_and_store :: "rest_env \<Rightarrow> file_io \<Rightarrow> string \<Rightarrow> pub_sub \<Rightarrow> rest_server \<Rightarrow> reply \<times> rest_server" where
  "notify_and_store env io endPointURI sub s =
    (case re_current env of
      None \<Rightarrow> fail_create 404 s
    | Some current \<Rightarrow>
        (case current (psub_Resource sub) of
          (True, _) \<Rightarrow> fail_create 404 s
        | (False, None) \<Rightarrow> fail_create 404 s
        | (False, Some e) \<Rightarrow>
            (let (id, s) = new_uuid env s; ((status, err), s) = notify env endPointURI (e\<lparr>ev_ID := id\<rparr>) s
             in if err then fail_create 400 s
                else if status \<noteq> 204 then fail_create 400 s
                else store_subscription env io endPointURI sub s)))"

text \<open>\<open>None\<close> is a body that cannot be read. A URL with spaces around it is stored without them.\<close>

definition post_subscription :: "rest_env \<Rightarrow> file_io \<Rightarrow> string option \<Rightarrow> rest_server \<Rightarrow> reply \<times> rest_server" where
  "post_subscription env io body s =
    (case body of
      None \<Rightarrow> ((400, None), s)
    | Some b \<Rightarrow>
        (case re_pubsub env b of
          None \<Rightarrow> fail_create 400 s
        | Some sub \<Rightarrow>
            (let endPointURI = (case psub_EndPoint sub of None \<Rightarrow> [] | Some u \<Rightarrow> u) in
             if endPointURI = [] then fail_create 400 s
             else if list_ex (\<lambda>(id, address). address = Some endPointURI)
                 (GetClientIDAddressByResource (psub_Resource sub) (SubscriberStore (rs_api s)))
             then ((409, None), s)
             else
               (let (id, s) = new_uuid env s;
                    sub = sub\<lparr>psub_ID := id, psub_URILocation := trimmed (re_base env @ id)\<rparr>
                in notify_and_store env io endPointURI sub s))))"

section \<open>Listing and deleting\<close>

definition list_subscriptions :: "rest_env \<Rightarrow> rest_server \<Rightarrow> reply" where
  "list_subscriptions env s = (200, Some (re_list_json env (GetSubscriptions (rs_api s))))"

text \<open>The clients one after another until an error; the flag is the error.\<close>

fun delete_from :: "rest_env \<Rightarrow> (nat \<Rightarrow> file_io) \<Rightarrow> nat list \<Rightarrow> string \<Rightarrow> sub_api \<Rightarrow> (bool, sub_api) res" where
  "delete_from env io [] subID a = Ok False a"
| "delete_from env io (c # cs) subID a =
    (case DeleteSubscription (re_decode env) (re_json env) (io c) c subID a of
      Panic a \<Rightarrow> Panic a
    | Ok True a \<Rightarrow> Ok True a
    | Ok False a \<Rightarrow> delete_from env io cs subID a)"

definition client_items :: "rest_env \<Rightarrow> data_status \<Rightarrow> sub_api \<Rightarrow> channel_item list" where
  "client_items env status a =
    map (\<lambda>(c, s). subscriber_item status [] (sub_ClientID s) (re_event env s)) (SubscriberStore a)"

definition delete_subscription :: "rest_env \<Rightarrow> (nat \<Rightarrow> file_io) \<Rightarrow> string \<Rightarrow> rest_server \<Rightarrow> (reply, rest_server) res" where
  "delete_subscription env io subID s =
    (let clientIDs = GetClientIDBySubID subID (rs_api s) in
     if clientIDs = [] then Ok (404, None) s
     else
       (case delete_from env io clientIDs subID (rs_api s) of
         Panic a \<Rightarrow> Panic (s\<lparr>rs_api := a\<rparr>)
       | Ok True a \<Rightarrow> Ok (404, None) (UpdateSubscriptionCount FAILDELETE_count 1 (s\<lparr>rs_api := a\<rparr>))
       | Ok False a \<Rightarrow>
           Ok (204, None) (UpdateSubscriptionCount ACTIVE_count (-1)
             (fold send_out (client_items env SUCCESS_status a) (s\<lparr>rs_api := a\<rparr>)))))"

text \<open>
  The dispatcher is told before anything is deleted. The subscriptions of the proxy itself are forgotten last;
  these handlers do not fill that store, and only its error is seen here.
\<close>

definition delete_all_subscriptions :: "rest_env \<Rightarrow> (nat \<Rightarrow> bool) \<Rightarrow> rest_server \<Rightarrow> reply \<times> rest_server" where
  "delete_all_subscriptions env removes s =
    (let s = fold send_out (client_items env DELETE_status (rs_api s)) s;
         ((n, err), a) = DeleteAllSubscriptions removes (rs_api s);
         s = s\<lparr>rs_api := a\<rparr>;
         s = (if n > 0 then UpdateSubscriptionCount ACTIVE_count (- int n) s else s)
     in if err then ((400, None), s) else if re_local_fails env then ((400, None), s) else ((204, None), s))"

end
