(* ===== verification/RestInvariant.thy ===== *)
theory RestInvariant
  imports RestServer
begin

text \<open>
  What the requests of \<open>RestServer\<close> keep: the files and, once the dispatcher (\<open>Dispatch\<close>) has worked off the
  queue, the ConfigMap hold the clients of the store with their addresses and subscriptions.
\<close>

section \<open>The ConfigMap follows the store\<close>

text \<open>What an item makes of the entries of the ConfigMap.\<close>

definition cm_put :: "dispatch_env \<Rightarrow> channel_item \<Rightarrow> (nat \<Rightarrow> string option) \<Rightarrow> nat \<Rightarrow> string option" where
  "cm_put denv d m =
    (if dc_Status d = SUCCESS_status then
       (case Option.bind (dc_Data d) (de_subscriber denv) of None \<Rightarrow> m | Some s \<Rightarrow> put_map (de_json denv) s m)
     else if dc_Status d = DELETE_status then m(dc_ClientID d := None) else m)"

text \<open>What the model relies on: JSON, fresh identifiers that are no client's zero, and requests of plain text.\<close>

definition rest_env_ok :: "rest_env \<Rightarrow> bool" where
  "rest_env_ok env \<longleftrightarrow> json_exact (re_decode env) (re_json env) \<and> json_keeps (re_decode env) (re_json env) \<and>
     inj (re_uuid env) \<and> (\<forall>n. re_uuid env n \<noteq> [] \<and> ascii (re_uuid env n)) \<and> (\<forall>u. re_clientID env u \<noteq> 0) \<and>
     (\<forall>b p. re_pubsub env b = Some p \<longrightarrow> ascii_sub p) \<and> ascii (re_base env)"

text \<open>The dispatcher reads what the server writes.\<close>

definition dispatches :: "dispatch_env \<Rightarrow> rest_env \<Rightarrow> bool" where
  "dispatches denv env \<longleftrightarrow> de_json denv = re_json env \<and>
     (\<forall>s. encodable s \<longrightarrow> de_subscriber denv (re_event env s) = Some (s\<lparr>failedCount := 0\<rparr>))"

lemma put_json:
  assumes "rest_env_ok env" and "dispatches denv env" and "clean s" and "sub_Action s = NEW_status"
  shows "\<exists>t. on_file (re_decode env) s t \<and> (\<forall>m address c.
    cm_put denv (subscriber_item SUCCESS_status address c (re_event env s)) m = m(sub_ClientID s \<mapsto> t))"
proof -
  have e: "encodable s" "encodable (s\<lparr>failedCount := 0\<rparr>)" using assms(3) by (simp_all add: clean_def encodable_def)
  obtain t where t: "re_json env (s\<lparr>failedCount := 0\<rparr>) = Some t" "t \<noteq> []" "re_decode env t = Some (s\<lparr>failedCount := 0\<rparr>)"
    using assms(1) e(2) unfolding rest_env_ok_def json_exact_def by force
  have "on_file (re_decode env) s t" using t e by (simp add: on_file_def)
  moreover have "cm_put denv (subscriber_item SUCCESS_status address c (re_event env s)) m = m(sub_ClientID s \<mapsto> t)" for m address c
    using assms(2,4) e(1) t(1) by (simp add: cm_put_def subscriber_item_def dispatches_def put_map_def fun_eq_iff)
  ultimately show ?thesis by blast
qed

text \<open>Saving, or deleting, every client.\<close>

lemma save_clients:
  assumes "rest_env_ok env" and "dispatches denv env" and "distinct (map fst st)"
    and "\<forall>(c, s) \<in> set st. clean s \<and> sub_ClientID s = c \<and> sub_Action s = NEW_status"
  shows "case map_of st c of
      None \<Rightarrow> fold (cm_put denv) (map (\<lambda>(c, s). subscriber_item SUCCESS_status [] (sub_ClientID s) (re_event env s)) st) m c = m c
    | Some s \<Rightarrow> \<exists>t. on_file (re_decode env) s t \<and>
        fold (cm_put denv) (map (\<lambda>(c, s). subscriber_item SUCCESS_status [] (sub_ClientID s) (re_event env s)) st) m c = Some t"
  using assms(3,4)
proof (induction st arbitrary: m)
  case Nil
  then show ?case by simp
next
  case (Cons cs st)
  obtain d s where cs: "cs = (d, s)" by (rule prod.exhaust)
  have s: "clean s" "sub_ClientID s = d" "sub_Action s = NEW_status" using Cons.prems(2) by (auto simp: cs)
  obtain t where t: "on_file (re_decode env) s t"
      "\<And>m address c. cm_put denv (subscriber_item SUCCESS_status address c (re_event env s)) m = m(d \<mapsto> t)"
    using put_json [OF assms(1,2) s(1,3)] s(2) by auto
  have d: "map_of st d = None" using Cons.prems(1) by (simp add: cs map_of_eq_None_iff)
  have "distinct (map fst st)" "\<forall>(c, s) \<in> set st. clean s \<and> sub_ClientID s = c \<and> sub_Action s = NEW_status"
    using Cons.prems by (simp_all add: cs)
  note ih = Cons.IH [OF this, of "m(d \<mapsto> t)"]
  show ?case
  proof (cases "c = d")
    case True
    have "(m(d \<mapsto> t)) d = Some t" by simp
    then show ?thesis using ih t(1) d True by (auto simp add: cs s(2) t(2) fun_upd_same simp del: fun_upd_apply)
  next
    case False
    then have "(m(d \<mapsto> t)) c = m c" by simp
    then show ?thesis using ih False by (simp add: cs s(2) t(2) fun_upd_other del: fun_upd_apply split: option.splits)
  qed
qed

lemma forget_clients:
  "\<forall>(c, s) \<in> set st. sub_ClientID s = c \<Longrightarrow>
    fold (cm_put denv) (map (\<lambda>(c, s). subscriber_item DELETE_status [] (sub_ClientID s) (re_event env s)) st) m c =
      (if c \<in> fst ` set st then None else m c)"
  by (induction st arbitrary: m) (auto simp: cm_put_def subscriber_item_def)

text \<open>A subscriber as the handlers leave it: marked new, with identifiers that were drawn, and the address of its id.\<close>

definition drawn :: "rest_env \<Rightarrow> nat \<Rightarrow> subscriber \<Rightarrow> bool" where
  "drawn env n s \<longleftrightarrow> sub_Action s = NEW_status \<and> fst ` set (sub_Store s) \<subseteq> re_uuid env ` {..<n} \<and>
     (\<exists>u. sub_ClientID s = re_clientID env u \<and> sub_EndPointURI s = trimmed u)"

definition clients_drawn :: "rest_env \<Rightarrow> rest_server \<Rightarrow> bool" where
  "clients_drawn env s \<longleftrightarrow> (\<forall>c so. HasClient c (rs_api s) = Some so \<longrightarrow> drawn env (rs_uuids s) so)"

text \<open>The entries once the dispatcher has taken the queue.\<close>

definition cm_of :: "dispatch_env \<Rightarrow> rest_server \<Rightarrow> nat \<Rightarrow> string option" where
  "cm_of denv s = fold (cm_put denv) (rs_out s) Map.empty"

text \<open>Only items for the ConfigMap, with subscribers that have an id.\<close>

definition item_ok :: "dispatch_env \<Rightarrow> channel_item \<Rightarrow> bool" where
  "item_ok denv d \<longleftrightarrow> dc_Type d = SUBSCRIBER_kind \<and> (dc_Status d = DELETE_status \<longrightarrow> dc_ClientID d \<noteq> 0) \<and>
     (\<forall>s. Option.bind (dc_Data d) (de_subscriber denv) = Some s \<longrightarrow> sub_ClientID s \<noteq> 0)"

definition rest_inv :: "rest_env \<Rightarrow> dispatch_env \<Rightarrow> rest_server \<Rightarrow> bool" where
  "rest_inv env denv s \<longleftrightarrow> mirrors (re_decode env) (rs_api s) \<and> clients_drawn env s \<and> list_all (item_ok denv) (rs_out s) \<and>
     (\<forall>c. mirror_at (re_decode env) c (HasClient c (rs_api s)) (cm_of denv s c))"

lemma drawn_mono: "drawn env n s \<Longrightarrow> n \<le> m \<Longrightarrow> drawn env m s"
  unfolding drawn_def by (fastforce simp: subset_iff)

lemma rest_inv_client:
  "rest_inv env denv s \<Longrightarrow> HasClient c (rs_api s) = Some so \<Longrightarrow>
    c \<noteq> 0 \<and> sub_ClientID so = c \<and> clean so \<and> drawn env (rs_uuids s) so"
  unfolding rest_inv_def clients_drawn_def by (auto simp: mirror_at_def dest!: spec [of _ c])

text \<open>Nothing but counts, notifications and identifiers.\<close>

lemma rest_inv_quiet:
  assumes "rest_inv env denv s" and "rs_api s' = rs_api s" and "rs_out s' = rs_out s" and "rs_uuids s \<le> rs_uuids s'"
  shows "rest_inv env denv s'"
  using assms drawn_mono by (fastforce simp: rest_inv_def clients_drawn_def cm_of_def)

lemma trim_space_empty [simp]: "trim_space [] = []"
  by (simp add: trim_space_def trim_with_def)

definition resources_of :: "(string, pub_sub) gomap \<Rightarrow> string set" where
  "resources_of st = (\<lambda>kv. psub_Resource (snd kv)) ` set st"

lemma add_subscription_resources:
  assumes "k \<noteq> []" and "k \<notin> fst ` set st"
  shows "resources_of (add_subscription fresh (k, v) st) = insert (psub_Resource v) (resources_of st)"
proof (cases "list_ex (\<lambda>(k, s). psub_Resource s = psub_Resource v) st")
  case True
  then have "psub_Resource v \<in> resources_of st" by (force simp: resources_of_def list_ex_iff)
  then show ?thesis using True by (auto simp: add_subscription_def)
next
  case False
  have "AList.update k v st = st @ [(k, v)]" using assms(2) by (induction st) auto
  then show ?thesis using False assms(1) by (auto simp: add_subscription_def resources_of_def)
qed

text \<open>The client of a request once the store is written.\<close>

lemma stored_client:
  assumes env: "rest_env_ok env" and inv: "rest_inv env denv s"
    and sub: "ascii_sub sub" "psub_ID sub = re_uuid env n" "n < rs_uuids s"
      "\<forall>c so. HasClient c (rs_api s) = Some so \<longrightarrow> re_uuid env n \<notin> fst ` set (sub_Store so)"
    and u: "ascii u"
  shows "\<exists>so a. ApiCreateSubscription (re_decode env) (re_json env) [] IoOk (re_clientID env u) (request_subscriber env u sub) (rs_api s) =
      (Some so, a) \<and> mirrors (re_decode env) a \<and> HasClient (re_clientID env u) a = Some so \<and> clean so \<and>
    sub_ClientID so = re_clientID env u \<and> drawn env (rs_uuids s) so \<and> sub_EndPointURI so = trimmed u \<and>
    resources_of (sub_Store so) = insert (psub_Resource sub)
      (resources_of (case HasClient (re_clientID env u) (rs_api s) of None \<Rightarrow> [] | Some s \<Rightarrow> sub_Store s)) \<and>
    (\<forall>d. d \<noteq> re_clientID env u \<longrightarrow> HasClient d a = HasClient d (rs_api s))"
proof -
  let ?subs = "request_subscriber env u sub" and ?c = "re_clientID env u"
  have j: "json_exact (re_decode env) (re_json env)" and m: "mirrors (re_decode env) (rs_api s)"
    using env inv by (simp_all add: rest_env_ok_def rest_inv_def)
  have subs: "sub_ClientID ?subs = ?c" "sub_Store ?subs = [(psub_ID sub, sub)]" "sub_EndPointURI ?subs = trimmed u"
    by (simp_all add: request_subscriber_def SetEndPointURI_snd new_subscriber_def Let_def)
  have id: "re_uuid env n \<noteq> []" "ascii (re_uuid env n)" "?c \<noteq> 0" using env by (simp_all add: rest_env_ok_def)
  have new: "new_subscriptions ?c ?subs (rs_api s)"
    using sub id trimmed_ascii [OF u] by (simp add: new_subscriptions_def encodable_def subs)
  obtain r a where ra: "ApiCreateSubscription (re_decode env) (re_json env) [] IoOk ?c ?subs (rs_api s) = (r, a)"
    by (rule prod.exhaust)
  let ?old = "case HasClient ?c (rs_api s) of None \<Rightarrow> [] | Some s \<Rightarrow> sub_Store s"
  from create_mirrors [OF j m new ra] obtain so where so: "r = Some so" "HasClient ?c a = Some so" "sub_Action so = NEW_status"
      "sub_Store so = fold (add_subscription []) [(psub_ID sub, sub)] ?old"
      "\<forall>d. d \<noteq> ?c \<longrightarrow> HasClient d a = HasClient d (rs_api s)" "mirrors (re_decode env) a"
      "sub_EndPointURI so = trimmed (GetEndPointURI ?subs)"
    unfolding subs(2) by auto
  have cs: "clean so" "sub_ClientID so = ?c" using so(2,6) by (auto simp: mirrors_def mirror_at_def dest!: spec [of _ ?c])
  have old: "fst ` set ?old \<subseteq> re_uuid env ` {..<rs_uuids s}"
    using rest_inv_client [OF inv, of ?c] by (cases "HasClient ?c (rs_api s)") (simp_all add: drawn_def)
  have "set (sub_Store so) \<subseteq> set ?old \<union> set [(psub_ID sub, sub)]"
    unfolding so(4) by (rule add_subscriptions_set) (simp add: sub(2) id(1))
  then have "fst ` set (sub_Store so) \<subseteq> fst ` (set ?old \<union> set [(psub_ID sub, sub)])" by (rule image_mono)
  also have "\<dots> \<subseteq> re_uuid env ` {..<rs_uuids s}" using old sub(2,3) by (simp add: image_Un)
  finally have "fst ` set (sub_Store so) \<subseteq> re_uuid env ` {..<rs_uuids s}" .
  moreover have at: "sub_EndPointURI so = trimmed u"
    using so(7) subs(3) by (simp add: GetEndPointURI_def trimmed_def trim_space_empty)
  ultimately have "drawn env (rs_uuids s) so" using so(3) cs(2) by (auto simp: drawn_def)
  moreover have "psub_ID sub \<noteq> []" "psub_ID sub \<notin> fst ` set ?old"
    using sub(2,4) id(1) by (cases "HasClient ?c (rs_api s)"; simp)+
  then have "resources_of (sub_Store so) = insert (psub_Resource sub) (resources_of ?old)"
    using add_subscription_resources unfolding so(4) by simp
  ultimately show ?thesis using so cs at ra by blast
qed

text \<open>
  The store is written: the subscription has a new identifier, so that the ConfigMap gets the client as the
  store has it.
\<close>

lemma store_subscription_inv:
  assumes env: "rest_env_ok env" "dispatches denv env" and inv: "rest_inv env denv s"
    and sub: "ascii_sub sub" "psub_ID sub = re_uuid env n" "n < rs_uuids s"
      "\<forall>c so. HasClient c (rs_api s) = Some so \<longrightarrow> re_uuid env n \<notin> fst ` set (sub_Store so)"
    and u: "ascii u"
  shows "rest_inv env denv (snd (store_subscription env IoOk u sub s)) \<and>
    fst (store_subscription env IoOk u sub s) = (201, Some (re_pubsub_json env sub)) \<and>
    (\<exists>so. HasClient (re_clientID env u) (rs_api (snd (store_subscription env IoOk u sub s))) = Some so \<and>
      sub_EndPointURI so = trimmed u \<and> resources_of (sub_Store so) = insert (psub_Resource sub)
        (resources_of (case HasClient (re_clientID env u) (rs_api s) of None \<Rightarrow> [] | Some s \<Rightarrow> sub_Store s))) \<and>
    (\<forall>d. d \<noteq> re_clientID env u \<longrightarrow>
      HasClient d (rs_api (snd (store_subscription env IoOk u sub s))) = HasClient d (rs_api s))"
proof -
  let ?c = "re_clientID env u"
  obtain so a where so: "ApiCreateSubscription (re_decode env) (re_json env) [] IoOk ?c (request_subscriber env u sub) (rs_api s) = (Some so, a)"
      "mirrors (re_decode env) a" "HasClient ?c a = Some so" "clean so" "sub_ClientID so = ?c" "drawn env (rs_uuids s) so"
      "sub_EndPointURI so = trimmed u" "resources_of (sub_Store so) = insert (psub_Resource sub)
        (resources_of (case HasClient ?c (rs_api s) of None \<Rightarrow> [] | Some s \<Rightarrow> sub_Store s))"
      "\<forall>d. d \<noteq> ?c \<longrightarrow> HasClient d a = HasClient d (rs_api s)"
    using stored_client [OF env(1) inv sub u] by blast
  have "sub_Action so = NEW_status" using so(6) by (simp add: drawn_def)
  from put_json [OF env so(4) this] so(5) obtain t where t: "on_file (re_decode env) so t"
      "\<And>m address c. cm_put denv (subscriber_item SUCCESS_status address c (re_event env so)) m = m(?c \<mapsto> t)"
    by auto
  let ?d = "subscriber_item SUCCESS_status (psub_Resource sub) 0 (re_event env so)"
  let ?s = "send_out ?d (UpdateSubscriptionCount ACTIVE_count 1 (s\<lparr>rs_api := a\<rparr>))"
  have "sub_ClientID (request_subscriber env u sub) = ?c"
    by (simp add: request_subscriber_def SetEndPointURI_snd new_subscriber_def Let_def)
  then have e: "store_subscription env IoOk u sub s = ((201, Some (re_pubsub_json env sub)), ?s)"
    using so(1) by (simp add: store_subscription_def Let_def)
  have f: "rs_api ?s = a" "rs_out ?s = rs_out s @ [?d]" "rs_uuids ?s = rs_uuids s" "cm_of denv ?s = (cm_of denv s)(?c \<mapsto> t)"
    by (simp_all add: send_out_def UpdateSubscriptionCount_def cm_of_def t(2))
  have c0: "?c \<noteq> 0" using env(1) by (simp add: rest_env_ok_def)
  then have i: "item_ok denv ?d"
    using env(2) so(4,5) by (simp add: item_ok_def subscriber_item_def dispatches_def clean_def)
  have "drawn env (rs_uuids s) s'" if "HasClient c a = Some s'" for c s'
    using that so(3,6,9) rest_inv_client [OF inv, of c] by (cases "c = ?c") simp_all
  then have c: "clients_drawn env ?s" by (simp only: clients_drawn_def f) blast
  have "mirror_at (re_decode env) c (HasClient c a) (((cm_of denv s)(?c \<mapsto> t)) c)" for c
    using so(3-5,9) t(1) c0 inv by (cases "c = ?c") (simp_all add: mirror_at_def rest_inv_def)
  then have "rest_inv env denv ?s" using inv so(2) c i by (simp add: rest_inv_def f del: fun_upd_apply)
  then show ?thesis using so(3,7-9) f(1) by (simp add: e)
qed

lemma notify_and_store_inv:
  assumes env: "rest_env_ok env" "dispatches denv env" and inv: "rest_inv env denv s"
    and sub: "ascii_sub sub" "psub_ID sub = re_uuid env n" "n < rs_uuids s"
      "\<forall>c so. HasClient c (rs_api s) = Some so \<longrightarrow> re_uuid env n \<notin> fst ` set (sub_Store so)"
    and u: "ascii u"
  shows "rest_inv env denv (snd (notify_and_store env IoOk u sub s))"
proof -
  have q: "rest_inv env denv (snd (fail_create status s'))" if "rest_inv env denv s'" for status s'
    using rest_inv_quiet [OF that] by (simp add: fail_create_def UpdateSubscriptionCount_def)
  have n: "rest_inv env denv s' \<and> rs_api s' = rs_api s \<and> rs_uuids s < rs_uuids s'"
    if "notify env u e (s\<lparr>rs_uuids := rs_uuids s + 1\<rparr>) = (r, s')" for e r s'
    using that rest_inv_quiet [OF inv, of s'] by (auto simp: notify_def Let_def split: if_splits)
  have w: "rest_inv env denv (snd (store_subscription env IoOk u sub s'))"
    if "rest_inv env denv s' \<and> rs_api s' = rs_api s \<and> rs_uuids s < rs_uuids s'" for s'
    using store_subscription_inv [OF env _ sub(1,2) _ _ u, of s'] that sub(3,4) by auto
  show ?thesis
    using q [OF inv] q n w
    by (simp add: notify_and_store_def new_uuid_def split: option.split prod.split bool.split)
qed

lemma post_subscription_inv:
  assumes env: "rest_env_ok env" "dispatches denv env" and inv: "rest_inv env denv s"
  shows "rest_inv env denv (snd (post_subscription env IoOk body s))"
proof -
  have q: "rest_inv env denv (snd (fail_create status s))" for status
    using rest_inv_quiet [OF inv] by (simp add: fail_create_def UpdateSubscriptionCount_def)
  have w: "rest_inv env denv (snd (notify_and_store env IoOk u
      (sub\<lparr>psub_ID := re_uuid env (rs_uuids s), psub_URILocation := trimmed (re_base env @ re_uuid env (rs_uuids s))\<rparr>)
      (s\<lparr>rs_uuids := rs_uuids s + 1\<rparr>)))"
    if b: "re_pubsub env b = Some sub" "psub_EndPoint sub = Some u" for b sub u
  proof (rule notify_and_store_inv [OF env])
    show "rest_inv env denv (s\<lparr>rs_uuids := rs_uuids s + 1\<rparr>)" by (rule rest_inv_quiet [OF inv]) simp_all
    have a: "ascii_sub sub" "ascii (re_base env)" "ascii (re_uuid env (rs_uuids s))"
      using env(1) b(1) by (auto simp: rest_env_ok_def)
    then show "ascii u" using b(2) by (simp add: ascii_sub_def)
    have "ascii (re_base env @ re_uuid env (rs_uuids s))" using a(2,3) by (simp add: ascii_def)
    from trimmed_ascii [OF this] a show "ascii_sub (sub\<lparr>psub_ID := re_uuid env (rs_uuids s),
        psub_URILocation := trimmed (re_base env @ re_uuid env (rs_uuids s))\<rparr>)"
      by (simp add: ascii_sub_def)
    have "re_uuid env (rs_uuids s) \<notin> re_uuid env ` {..<rs_uuids s}"
      using env(1) by (auto simp: rest_env_ok_def dest: injD)
    then have "re_uuid env (rs_uuids s) \<notin> fst ` set (sub_Store so)" if "HasClient c (rs_api s) = Some so" for c so
      using rest_inv_client [OF inv that] unfolding drawn_def by blast
    then show "\<forall>c so. HasClient c (rs_api (s\<lparr>rs_uuids := rs_uuids s + 1\<rparr>)) = Some so \<longrightarrow>
        re_uuid env (rs_uuids s) \<notin> fst ` set (sub_Store so)" by simp
  qed simp_all
  show ?thesis
    using q w inv by (auto simp: post_subscription_def new_uuid_def Let_def split: option.split)
qed

lemma delete_from_ok:
  assumes j: "json_exact (re_decode env) (re_json env)" and "mirrors (re_decode env) a"
  shows "\<exists>a'. delete_from env (\<lambda>_. IoOk) cs subID a = Ok False a' \<and> mirrors (re_decode env) a' \<and>
    (\<forall>d. HasClient d a' =
      (if d \<in> set cs then map_option (sub_Store_update (AList.delete subID)) (HasClient d a) else HasClient d a))"
  using assms(2)
proof (induction cs arbitrary: a)
  case Nil
  then show ?case by simp
next
  case (Cons c cs)
  obtain b where b: "DeleteSubscription (re_decode env) (re_json env) IoOk c subID a = Ok False b" "mirrors (re_decode env) b"
      "\<forall>d. HasClient d b = (if d = c then map_option (sub_Store_update (AList.delete subID)) (HasClient c a) else HasClient d a)"
    using delete_subscription_mirrors [OF j Cons.prems, of c subID] by blast
  obtain a' where "delete_from env (\<lambda>_. IoOk) cs subID b = Ok False a'" "mirrors (re_decode env) a'"
      "\<forall>d. HasClient d a' =
        (if d \<in> set cs then map_option (sub_Store_update (AList.delete subID)) (HasClient d b) else HasClient d b)"
    using Cons.IH [OF b(2)] by blast
  moreover have "map_option (sub_Store_update (AList.delete subID)) (map_option (sub_Store_update (AList.delete subID)) x) =
      map_option (sub_Store_update (AList.delete subID)) x" for x :: "subscriber option"
    by (cases x) (simp_all add: delete_idem comp_def)
  ultimately show ?case using b(1,3) by auto
qed

lemma fold_send_out: "fold send_out ds s = s\<lparr>rs_out := rs_out s @ ds\<rparr>"
  by (induction ds arbitrary: s) (simp_all add: send_out_def)

lemma client_items_ok:
  assumes "dispatches denv env"
    and "\<forall>c so. HasClient c a = Some so \<longrightarrow> c \<noteq> 0 \<and> sub_ClientID so = c \<and> clean so" and "distinct (map fst (SubscriberStore a))"
  shows "list_all (item_ok denv) (client_items env status a)"
proof -
  have "item_ok denv (subscriber_item status [] (sub_ClientID s) (re_event env s))" if "(c, s) \<in> set (SubscriberStore a)" for c s
  proof -
    have "HasClient c a = Some s" using that assms(3) by (simp add: HasClient_def)
    then have "c \<noteq> 0" "sub_ClientID s = c" "clean s" using assms(2) by blast+
    then show ?thesis using assms(1) by (simp add: item_ok_def subscriber_item_def dispatches_def clean_def)
  qed
  then show ?thesis by (auto simp: client_items_def list_all_iff)
qed

text \<open>A subscription that is deleted is in nobody's store, and the clients stay as they were drawn.\<close>

lemma deleted_everywhere:
  assumes env: "rest_env_ok env" and inv: "rest_inv env denv s"
  shows "\<exists>a. delete_from env (\<lambda>_. IoOk) (GetClientIDBySubID subID (rs_api s)) subID (rs_api s) = Ok False a \<and>
    mirrors (re_decode env) a \<and> (\<forall>c. HasClient c a = None \<longleftrightarrow> HasClient c (rs_api s) = None) \<and>
    (GetClientIDBySubID subID (rs_api s) = [] \<longrightarrow> a = rs_api s) \<and>
    (\<forall>c so. HasClient c a = Some so \<longrightarrow> map_of (sub_Store so) subID = None \<and> drawn env (rs_uuids s) so)"
proof -
  let ?cs = "GetClientIDBySubID subID (rs_api s)"
  have j: "json_exact (re_decode env) (re_json env)" and m: "mirrors (re_decode env) (rs_api s)"
    using env inv by (simp_all add: rest_env_ok_def rest_inv_def)
  note cl = rest_inv_client [OF inv]
  have hit: "c \<in> set ?cs" if "HasClient c (rs_api s) = Some so" "map_of (sub_Store so) subID = Some x" for c so x
  proof -
    have so: "(c, so) \<in> set (SubscriberStore (rs_api s))" using that(1) by (simp add: HasClient_def map_of_SomeD)
    have x: "(subID, x) \<in> set (sub_Store so)" using that(2) by (rule map_of_SomeD)
    then have "psub_ID x = subID" "sub_ClientID so = c" using cl [OF that(1)] by (auto simp: clean_def)
    then show ?thesis using so x by (force simp: GetClientIDBySubID_def)
  qed
  obtain a where a: "delete_from env (\<lambda>_. IoOk) ?cs subID (rs_api s) = Ok False a" "mirrors (re_decode env) a"
      "\<forall>d. HasClient d a = (if d \<in> set ?cs then map_option (sub_Store_update (AList.delete subID)) (HasClient d (rs_api s))
        else HasClient d (rs_api s))"
    using delete_from_ok [OF j m] by blast
  have gone: "map_of (sub_Store so) subID = None" if "HasClient c a = Some so" for c so
    using that a(3) hit [of c] by (cases "map_of (sub_Store so) subID") (auto simp: delete_conv' split: if_splits)
  have "drawn env (rs_uuids s) (sub_Store_update (AList.delete subID) s0)" if "drawn env (rs_uuids s) s0" for s0
    using that dom_delete_subset [of subID "sub_Store s0"] by (cases s0) (auto simp: drawn_def)
  then have dr: "drawn env (rs_uuids s) so" if "HasClient c a = Some so" for c so
    using that a(3) cl [of c] by (auto split: if_splits)
  have "HasClient c a = None \<longleftrightarrow> HasClient c (rs_api s) = None" for c using a(3) by (auto split: if_splits)
  then show ?thesis using a(1,2) gone dr by (intro exI [of _ a]) auto
qed

lemma delete_subscription_inv:
  assumes env: "rest_env_ok env" "dispatches denv env" and inv: "rest_inv env denv s"
  shows "\<exists>reply s'. delete_subscription env (\<lambda>_. IoOk) subID s = Ok reply s' \<and> rest_inv env denv s' \<and>
    (\<forall>c so. HasClient c (rs_api s') = Some so \<longrightarrow> map_of (sub_Store so) subID = None)"
proof -
  let ?cs = "GetClientIDBySubID subID (rs_api s)"
  obtain a where a: "delete_from env (\<lambda>_. IoOk) ?cs subID (rs_api s) = Ok False a" "mirrors (re_decode env) a"
      "\<And>c. HasClient c a = None \<Longrightarrow> HasClient c (rs_api s) = None" "?cs = [] \<Longrightarrow> a = rs_api s"
      "\<And>c so. HasClient c a = Some so \<Longrightarrow> map_of (sub_Store so) subID = None \<and> drawn env (rs_uuids s) so"
    using deleted_everywhere [OF env(1) inv, of subID] by blast
  have at: "mirror_at (re_decode env) c (HasClient c a) (map_of (api_files a) c)" for c using a(2) by (simp add: mirrors_def)
  have cla: "c \<noteq> 0 \<and> sub_ClientID so = c \<and> clean so" if "HasClient c a = Some so" for c so
    using at [of c] that by (simp add: mirror_at_def)
  have dist: "distinct (map fst (SubscriberStore a))" using a(2) by (simp add: mirrors_def)
  let ?s = "UpdateSubscriptionCount ACTIVE_count (-1) (fold send_out (client_items env SUCCESS_status a) (s\<lparr>rs_api := a\<rparr>))"
  have f: "rs_api ?s = a" "rs_out ?s = rs_out s @ client_items env SUCCESS_status a" "rs_uuids ?s = rs_uuids s"
    by (simp_all add: UpdateSubscriptionCount_def fold_send_out)
  have cm: "cm_of denv ?s = fold (cm_put denv) (client_items env SUCCESS_status a) (cm_of denv s)"
    by (simp add: cm_of_def f)
  have "mirror_at (re_decode env) c (HasClient c a) (cm_of denv ?s c)" for c
  proof -
    have "\<forall>(c, s) \<in> set (SubscriberStore a). clean s \<and> sub_ClientID s = c \<and> sub_Action s = NEW_status"
      using dist cla a(5) by (auto simp: HasClient_def drawn_def)
    from save_clients [OF env dist this, where c = c and m = "cm_of denv s"]
    have "case HasClient c a of None \<Rightarrow> cm_of denv ?s c = cm_of denv s c
        | Some s \<Rightarrow> \<exists>t. on_file (re_decode env) s t \<and> cm_of denv ?s c = Some t"
      unfolding cm by (simp only: client_items_def HasClient_def)
    moreover have "cm_of denv s c = None" if "HasClient c a = None"
      using a(3) [OF that] inv unfolding rest_inv_def by (auto simp: mirror_at_def dest!: spec [of _ c])
    ultimately show ?thesis using cla [of c] by (auto simp: mirror_at_def split: option.splits)
  qed
  moreover have "clients_drawn env ?s" using a(5) by (simp only: clients_drawn_def f) blast
  ultimately have "rest_inv env denv ?s"
    using inv a(2) client_items_ok [OF env(2) _ dist, of SUCCESS_status] cla by (simp add: rest_inv_def f)
  moreover have "delete_subscription env (\<lambda>_. IoOk) subID s = (if ?cs = [] then Ok (404, None) s else Ok (204, None) ?s)"
    using a(1) by (simp add: delete_subscription_def Let_def)
  ultimately show ?thesis using inv a(4,5) by (cases "?cs = []") (auto simp: f)
qed

lemma delete_all_inv:
  assumes env: "rest_env_ok env" "dispatches denv env" and inv: "rest_inv env denv s"
  shows "rest_inv env denv (snd (delete_all_subscriptions env (\<lambda>_. True) s)) \<and>
    SubscriberStore (rs_api (snd (delete_all_subscriptions env (\<lambda>_. True) s))) = [] \<and>
    fst (delete_all_subscriptions env (\<lambda>_. True) s) = (if re_local_fails env then 400 else 204, None)"
proof -
  have m: "mirrors (re_decode env) (rs_api s)" using inv by (simp add: rest_inv_def)
  have dist: "distinct (map fst (SubscriberStore (rs_api s)))" using m by (simp add: mirrors_def)
  obtain a where a: "DeleteAllSubscriptions (\<lambda>_. True) (rs_api s) = ((length (GetSubscriptions (rs_api s)), False), a)"
      "SubscriberStore a = []" "mirrors (re_decode env) a"
    using DeleteAllSubscriptions_ok [OF m] by blast
  let ?s = "snd (delete_all_subscriptions env (\<lambda>_. True) s)"
  have f: "rs_api ?s = a" "rs_out ?s = rs_out s @ client_items env DELETE_status (rs_api s)"
    using a(1) by (simp_all add: delete_all_subscriptions_def fold_send_out UpdateSubscriptionCount_def Let_def)
  have cl: "\<forall>c so. HasClient c (rs_api s) = Some so \<longrightarrow> c \<noteq> 0 \<and> sub_ClientID so = c \<and> clean so"
    using rest_inv_client [OF inv] by blast
  have "\<forall>(c, s) \<in> set (SubscriberStore (rs_api s)). sub_ClientID s = c" using dist cl by (auto simp: HasClient_def)
  then have "cm_of denv ?s c = (if c \<in> fst ` set (SubscriberStore (rs_api s)) then None else cm_of denv s c)" for c
    using forget_clients [of "SubscriberStore (rs_api s)" denv env "cm_of denv s" c]
    unfolding cm_of_def f client_items_def fold_append comp_apply by simp
  moreover have "cm_of denv s c = None" if "c \<notin> fst ` set (SubscriberStore (rs_api s))" for c
  proof -
    have "HasClient c (rs_api s) = None" using that by (simp add: HasClient_def map_of_eq_None_iff)
    then show ?thesis using inv unfolding rest_inv_def by (auto simp: mirror_at_def dest!: spec [of _ c])
  qed
  ultimately have "cm_of denv ?s c = None" for c by simp
  then have "rest_inv env denv ?s"
    using inv a(2,3) client_items_ok [OF env(2) cl dist, of DELETE_status]
    by (simp add: rest_inv_def f clients_drawn_def HasClient_def mirror_at_def)
  moreover have "fst (delete_all_subscriptions env (\<lambda>_. True) s) = (if re_local_fails env then 400 else 204, None)"
    using a(1) by (simp add: delete_all_subscriptions_def fold_send_out Let_def)
  ultimately show ?thesis using a(2) f(1) by simp
qed

section \<open>Runs of the server\<close>

text \<open>What the plug-in says of a resource (\<open>current\<close>) may be different at every request.\<close>

inductive rest_step :: "rest_env \<Rightarrow> rest_server \<Rightarrow> rest_server \<Rightarrow> bool" for env :: rest_env where
  rest_post: "rest_step env s (snd (post_subscription (env\<lparr>re_current := current\<rparr>) IoOk body s))"
| rest_delete: "delete_subscription env (\<lambda>_. IoOk) subID s = Ok reply s' \<Longrightarrow> rest_step env s s'"
| rest_delete_all: "rest_step env s (snd (delete_all_subscriptions env (\<lambda>_. True) s))"

definition empty_server :: rest_server where
  "empty_server = \<lparr>rs_api = \<lparr>SubscriberStore = [], api_files = [], transportEnabled = True\<rparr>, rs_out = [],
     rs_posts = [], rs_uuids = 0, rs_counts = []\<rparr>"

inductive rest_reach :: "rest_env \<Rightarrow> rest_server \<Rightarrow> bool" for env :: rest_env where
  rest_start: "rest_reach env empty_server"
| rest_more: "rest_reach env s \<Longrightarrow> rest_step env s s' \<Longrightarrow> rest_reach env s'"

lemma at_current [simp]:
  "rest_env_ok (env\<lparr>re_current := current\<rparr>) = rest_env_ok env"
  "dispatches denv (env\<lparr>re_current := current\<rparr>) = dispatches denv env"
  "rest_inv (env\<lparr>re_current := current\<rparr>) denv s = rest_inv env denv s"
  by (simp_all add: rest_env_ok_def dispatches_def rest_inv_def clients_drawn_def drawn_def)

lemma empty_server_inv: "rest_inv env denv empty_server"
  by (simp add: rest_inv_def empty_server_def mirrors_def mirror_at_def HasClient_def clients_drawn_def cm_of_def)

lemma rest_reach_inv:
  assumes "rest_reach env s" and "rest_env_ok env" and "dispatches denv env"
  shows "rest_inv env denv s"
  using assms(1)
proof induction
  case rest_start
  show ?case by (rule empty_server_inv)
next
  case (rest_more s s')
  from rest_more.hyps(2) show ?case
  proof cases
    case (rest_post current body)
    have "rest_inv (env\<lparr>re_current := current\<rparr>) denv (snd (post_subscription (env\<lparr>re_current := current\<rparr>) IoOk body s))"
      using assms(2,3) rest_more.IH by (intro post_subscription_inv) simp_all
    then show ?thesis by (simp add: rest_post)
  next
    case (rest_delete subID reply)
    then show ?thesis using delete_subscription_inv [OF assms(2,3) rest_more.IH, of subID] by auto
  next
    case rest_delete_all
    then show ?thesis using delete_all_inv [OF assms(2,3) rest_more.IH] by simp
  qed
qed

text \<open>The dispatcher on the queue, with a ConfigMap and an API server that answers.\<close>

definition kube_up :: "kube \<Rightarrow> bool" where
  "kube_up k \<longleftrightarrow> kc_map k \<noteq> None \<and> kc_answers k = (\<lambda>_. True)"

lemma UpdateConfigMap_up:
  assumes "kube_up k"
  shows "kube_up (snd (UpdateConfigMap json [s] k)) \<and> held (snd (UpdateConfigMap json [s] k)) = put_map json s (held k)"
  using assms by (auto simp: kube_up_def UpdateConfigMap_def kube_defs held_def put_subscriber_map)

lemma update_config_map_up:
  assumes j: "json_keeps decode (de_json denv)" and c: "sub_ClientID s \<noteq> 0"
    and h: "h_uses_cm h" "h_kube h = Some k" "kube_up k" "kube_all (kept_texts decode (de_json denv)) k"
  shows "\<exists>h' k'. update_config_map denv s h = Ok () h' \<and> h_uses_cm h' \<and> h_kube h' = Some k' \<and> kube_up k' \<and>
    kube_all (kept_texts decode (de_json denv)) k' \<and> held k' = put_map (de_json denv) s (held k)"
proof -
  have "kube_all (kept_texts decode (de_json denv)) (snd (UpdateConfigMap (de_json denv) [s] k))"
  proof (rule kube_all_update [OF h(4)])
    show "kept_texts decode (de_json denv) []" by (simp add: kept_texts_def by_id_def all_decode_def)
    show "kept_texts decode (de_json denv) (put_subscriber (de_json denv) s' d)"
      if "s' \<in> set [s]" and "kept_texts decode (de_json denv) d" for s' d
      using kept_texts_put [OF j c that(2)] that(1) by simp
  qed
  moreover have "update_config_map denv s h = Ok () (h\<lparr>h_kube := Some (snd (UpdateConfigMap (de_json denv) [s] k))\<rparr>)"
    using h(2) by (simp add: update_config_map_def)
  ultimately show ?thesis using UpdateConfigMap_up [OF h(3), of "de_json denv" s] h(1)
    by (intro exI [of _ "h\<lparr>h_kube := Some (snd (UpdateConfigMap (de_json denv) [s] k))\<rparr>"]
      exI [of _ "snd (UpdateConfigMap (de_json denv) [s] k)"]) simp
qed

lemma cm_put_item:
  assumes j: "json_keeps decode (de_json denv)" and d: "item_ok denv d"
    and h: "h_uses_cm h" "h_kube h = Some k" "kube_up k" "kube_all (kept_texts decode (de_json denv)) k"
  shows "\<exists>h' k'. out_item denv d h = Ok () h' \<and> h_uses_cm h' \<and> h_kube h' = Some k' \<and> kube_up k' \<and>
    kube_all (kept_texts decode (de_json denv)) k' \<and> held k' = cm_put denv d (held k)"
proof -
  note upd = update_config_map_up [OF j _ h]
  have kind: "dc_Type d = SUBSCRIBER_kind" using d by (simp add: item_ok_def)
  consider (save) s where "dc_Status d = SUCCESS_status" "Option.bind (dc_Data d) (de_subscriber denv) = Some s"
    | (delete) "dc_Status d = DELETE_status"
    | (other) "dc_Status d \<noteq> DELETE_status" "dc_Status d = SUCCESS_status \<longrightarrow> Option.bind (dc_Data d) (de_subscriber denv) = None"
    by (cases "dc_Status d = DELETE_status"; cases "Option.bind (dc_Data d) (de_subscriber denv)") auto
  then show ?thesis
  proof cases
    case save
    then have "out_item denv d h = update_config_map denv s h"
      using kind h(1) by (cases "dc_Data d") (simp_all add: out_item_def)
    moreover have "sub_ClientID s \<noteq> 0" using d save by (simp add: item_ok_def)
    ultimately show ?thesis using upd [of s] save by (simp add: cm_put_def)
  next
    case delete
    then have "out_item denv d h = update_config_map denv (delete_request (dc_ClientID d)) h"
      using kind h(1) by (simp add: out_item_def cleanupConfigMap_def)
    moreover have "put_map (de_json denv) (delete_request (dc_ClientID d)) m = m(dc_ClientID d := None)" for m
      by (simp add: put_map_def delete_request_def fun_eq_iff)
    moreover have "sub_ClientID (delete_request (dc_ClientID d)) \<noteq> 0" using d delete by (simp add: item_ok_def delete_request_def)
    ultimately show ?thesis using upd [of "delete_request (dc_ClientID d)"] delete by (simp add: cm_put_def)
  next
    case other
    then have "out_item denv d h = Ok () h"
      using kind h(1) by (cases "dc_Data d") (auto simp: out_item_def split: option.splits)
    moreover have "cm_put denv d m = m" for m
    proof (cases "dc_Status d = SUCCESS_status")
      case True
      then have "Option.bind (dc_Data d) (de_subscriber denv) = None" using other(2) by blast
      then show ?thesis using True unfolding cm_put_def by (simp only: simp_thms if_True option.case)
    next
      case False
      then show ?thesis using other(1) by (simp add: cm_put_def)
    qed
    ultimately show ?thesis using h by simp
  qed
qed

lemma cm_put_items:
  assumes j: "json_keeps decode (de_json denv)" and "list_all (item_ok denv) ds"
    and "h_uses_cm h" "h_kube h = Some k" "kube_up k" "kube_all (kept_texts decode (de_json denv)) k"
  shows "\<exists>h' k'. ProcessOutChannel denv ds h = Ok () h' \<and> h_uses_cm h' \<and> h_kube h' = Some k' \<and> kube_up k' \<and>
    kube_all (kept_texts decode (de_json denv)) k' \<and> held k' = fold (cm_put denv) ds (held k)"
  using assms(2-)
proof (induction ds arbitrary: h k)
  case Nil
  then show ?case by (simp add: ProcessOutChannel_def)
next
  case (Cons d ds)
  obtain h1 k1 where d: "out_item denv d h = Ok () h1" "h_uses_cm h1" "h_kube h1 = Some k1" "kube_up k1"
      "kube_all (kept_texts decode (de_json denv)) k1" "held k1 = cm_put denv d (held k)"
    using cm_put_item [OF j _ Cons.prems(2-5), of d] Cons.prems(1) by auto
  then show ?case using Cons.IH [OF _ d(2-5)] Cons.prems(1) by (simp add: ProcessOutChannel_def)
qed

end
