(* ===== verification/RestProperties.thy ===== *)
theory RestProperties
  imports RestInvariant
begin

text \<open>
  What the server answers to a request for a subscription, and what a restart of the pod finds of it.
\<close>

section \<open>What the server accepts\<close>

text \<open>
  The request names an endpoint that has no subscription to the resource, the state of the resource is known, and
  the endpoint takes it with status 204.
\<close>

definition acceptable :: "rest_env \<Rightarrow> string \<Rightarrow> pub_sub \<Rightarrow> string \<Rightarrow> rest_server \<Rightarrow> bool" where
  "acceptable env b sub u s \<longleftrightarrow> re_pubsub env b = Some sub \<and> psub_EndPoint sub = Some u \<and> u \<noteq> [] \<and>
     (\<forall>(id, address) \<in> set (GetClientIDAddressByResource (psub_Resource sub) (SubscriberStore (rs_api s))). address \<noteq> Some u) \<and>
     (\<exists>current e. re_current env = Some current \<and> current (psub_Resource sub) = (False, Some e) \<and>
       re_marshals env (e\<lparr>ev_ID := re_uuid env (rs_uuids s + 1)\<rparr>) \<and> PutStatus (re_net env (length (rs_posts s))) = 204)"

text \<open>The subscription of the request, with its identifier.\<close>

definition drawn_subscription :: "rest_env \<Rightarrow> pub_sub \<Rightarrow> rest_server \<Rightarrow> pub_sub" where
  "drawn_subscription env sub s = (let id = re_uuid env (rs_uuids s) in
     sub\<lparr>psub_ID := id, psub_URILocation := trimmed (re_base env @ id)\<rparr>)"

lemma post_accepts:
  assumes "acceptable env b sub u s"
  shows "\<exists>posts. post_subscription env io (Some b) s =
    store_subscription env io u (drawn_subscription env sub s) (s\<lparr>rs_uuids := rs_uuids s + 2, rs_posts := posts\<rparr>)"
proof -
  obtain current e where c: "re_current env = Some current" "current (psub_Resource sub) = (False, Some e)"
      "re_marshals env (e\<lparr>ev_ID := re_uuid env (rs_uuids s + 1)\<rparr>)" "PutStatus (re_net env (length (rs_posts s))) = 204"
    using assms by (auto simp: acceptable_def)
  have n: "\<not> list_ex (\<lambda>(id, address). address = Some u)
      (GetClientIDAddressByResource (psub_Resource sub) (SubscriberStore (rs_api s)))"
    using assms by (auto simp: acceptable_def list_ex_iff)
  have "post_subscription env io (Some b) s = store_subscription env io u (drawn_subscription env sub s)
      (s\<lparr>rs_uuids := rs_uuids s + 2, rs_posts := rs_posts s @ [(u, e\<lparr>ev_ID := re_uuid env (rs_uuids s + 1)\<rparr>)]\<rparr>)"
    using assms c n
    by (simp add: post_subscription_def acceptable_def new_uuid_def notify_and_store_def notify_def drawn_subscription_def
        Let_def StatusBadRequest_def)
  then show ?thesis by blast
qed

lemma post_refuses:
  assumes "\<nexists>sub u. acceptable env b sub u s"
  shows "case post_subscription env io (Some b) s of (reply, s') \<Rightarrow>
    fst reply \<in> {400, 404, 409} \<and> rs_api s' = rs_api s \<and> rs_out s' = rs_out s"
proof (cases "re_pubsub env b")
  case None
  then show ?thesis by (simp add: post_subscription_def fail_create_def UpdateSubscriptionCount_def)
next
  case (Some sub)
  show ?thesis
  proof (cases "psub_EndPoint sub = None \<or> psub_EndPoint sub = Some [] \<or>
      list_ex (\<lambda>(id, address). address = psub_EndPoint sub)
        (GetClientIDAddressByResource (psub_Resource sub) (SubscriberStore (rs_api s)))")
    case True
    then show ?thesis using Some
      by (cases "psub_EndPoint sub") (auto simp: post_subscription_def fail_create_def UpdateSubscriptionCount_def)
  next
    case False
    then obtain u where u: "psub_EndPoint sub = Some u" "u \<noteq> []"
        "\<not> list_ex (\<lambda>(id, address). address = Some u)
          (GetClientIDAddressByResource (psub_Resource sub) (SubscriberStore (rs_api s)))" by auto
    have p: "post_subscription env io (Some b) s =
        notify_and_store env io u (drawn_subscription env sub s) (s\<lparr>rs_uuids := rs_uuids s + 1\<rparr>)"
      using Some u by (simp add: post_subscription_def new_uuid_def drawn_subscription_def Let_def)
    show ?thesis
    proof (cases "\<exists>current e. re_current env = Some current \<and> current (psub_Resource sub) = (False, Some e)")
      case False
      then show ?thesis unfolding p
        by (auto simp: notify_and_store_def drawn_subscription_def Let_def fail_create_def UpdateSubscriptionCount_def
            split: option.split prod.split bool.split)
    next
      case True
      then obtain current e where c: "re_current env = Some current" "current (psub_Resource sub) = (False, Some e)" by blast
      have "\<not> (re_marshals env (e\<lparr>ev_ID := re_uuid env (rs_uuids s + 1)\<rparr>) \<and> PutStatus (re_net env (length (rs_posts s))) = 204)"
        using assms Some u c by (auto simp: acceptable_def list_ex_iff)
      then show ?thesis unfolding p
        using c by (auto simp: notify_and_store_def notify_def new_uuid_def drawn_subscription_def Let_def fail_create_def
            UpdateSubscriptionCount_def)
    qed
  qed
qed

lemma has_address:
  assumes "HasClient c a = Some so" and "sub_ClientID so = c" and "r \<in> resources_of (sub_Store so)"
  shows "(c, sub_EndPointURI so) \<in> set (GetClientIDAddressByResource r (SubscriberStore a))"
proof -
  have "(c, so) \<in> set (SubscriberStore a)" using assms(1) by (simp add: HasClient_def map_of_SomeD)
  moreover have "list_ex (\<lambda>(k, v). psub_Resource v = r) (sub_Store so)" using assms(3) by (force simp: resources_of_def list_ex_iff)
  ultimately show ?thesis using assms(2) by (force simp: GetClientIDAddressByResource_def)
qed

lemma fresh_id:
  assumes "rest_env_ok env" and "rest_inv env denv s" and "HasClient c (rs_api s) = Some so"
  shows "re_uuid env (rs_uuids s) \<notin> fst ` set (sub_Store so)"
proof -
  have "re_uuid env (rs_uuids s) \<notin> re_uuid env ` {..<rs_uuids s}" using assms(1) by (auto simp: rest_env_ok_def dest: injD)
  then show ?thesis using rest_inv_client [OF assms(2,3)] unfolding drawn_def by blast
qed

lemma acceptable_ascii:
  assumes "rest_env_ok env" and "acceptable env b sub u s"
  shows "ascii u" and "ascii_sub (drawn_subscription env sub s)"
proof -
  have a: "ascii_sub sub" "ascii (re_base env)" "ascii (re_uuid env (rs_uuids s))" "psub_EndPoint sub = Some u"
    using assms by (auto simp: rest_env_ok_def acceptable_def)
  then show "ascii u" by (simp add: ascii_sub_def)
  have "ascii (re_base env @ re_uuid env (rs_uuids s))" using a(2,3) by (simp add: ascii_def)
  from trimmed_ascii [OF this] a show "ascii_sub (drawn_subscription env sub s)"
    by (simp add: ascii_sub_def drawn_subscription_def Let_def)
qed

lemma post_stored:
  assumes env: "rest_env_ok env" "dispatches denv env" and inv: "rest_inv env denv s" and acc: "acceptable env b sub u s"
  shows "\<exists>s' so. post_subscription env IoOk (Some b) s = ((201, Some (re_pubsub_json env (drawn_subscription env sub s))), s') \<and>
    rest_inv env denv s' \<and> HasClient (re_clientID env u) (rs_api s') = Some so \<and> sub_EndPointURI so = trimmed u \<and>
    resources_of (sub_Store so) = insert (psub_Resource sub)
      (resources_of (case HasClient (re_clientID env u) (rs_api s) of None \<Rightarrow> [] | Some s \<Rightarrow> sub_Store s)) \<and>
    (\<forall>d. d \<noteq> re_clientID env u \<longrightarrow> HasClient d (rs_api s') = HasClient d (rs_api s))"
proof -
  obtain posts where p: "post_subscription env IoOk (Some b) s =
      store_subscription env IoOk u (drawn_subscription env sub s) (s\<lparr>rs_uuids := rs_uuids s + 2, rs_posts := posts\<rparr>)"
    (is "_ = store_subscription _ _ _ ?d ?s") using post_accepts [OF acc] by blast
  have i: "rest_inv env denv ?s" by (rule rest_inv_quiet [OF inv]) simp_all
  have f: "\<forall>c so. HasClient c (rs_api ?s) = Some so \<longrightarrow> re_uuid env (rs_uuids s) \<notin> fst ` set (sub_Store so)"
    using fresh_id [OF env(1) inv] by simp
  have d: "psub_ID ?d = re_uuid env (rs_uuids s)" "psub_Resource ?d = psub_Resource sub"
    by (simp_all add: drawn_subscription_def Let_def)
  from store_subscription_inv [OF env i acceptable_ascii(2) [OF env(1) acc] d(1) _ f acceptable_ascii(1) [OF env(1) acc]]
  show ?thesis unfolding p d(2)
    by (cases "store_subscription env IoOk u ?d ?s") auto
qed


text \<open>The store is written whether the file can be or not.\<close>

lemma create_unwritable:
  assumes "\<And>s. HasClient c a = Some s \<Longrightarrow> sub_ClientID s = c"
  shows "\<exists>so. ApiCreateSubscription decode json fresh OpenFails c sub a =
      (None, a\<lparr>SubscriberStore := AList.update c so (SubscriberStore a)\<rparr>) \<and> sub_ClientID so = c \<and>
    sub_EndPointURI so = trimmed (GetEndPointURI sub) \<and> sub_Store so =
      fold (add_subscription fresh) (sub_Store sub) (case HasClient c a of None \<Rightarrow> [] | Some s \<Rightarrow> sub_Store s)"
  using assms
  by (auto simp: ApiCreateSubscription_def writeToFile_def SetEndPointURI_snd new_subscriber_def Let_def split: option.split)

text \<open>C37: 
  When the client's file cannot be opened, an acceptable request is refused with 404, and yet the events of the
  resource go to the endpoint from then on.
\<close>

theorem refused_but_subscribed:
  assumes "rest_env_ok env" and "dispatches denv env" and "rest_reach env s" and "acceptable env b sub u s"
  shows "case post_subscription env OpenFails (Some b) s of (reply, s') \<Rightarrow> reply = (404, None) \<and>
    (re_clientID env u, trimmed u) \<in> set (GetClientIDAddressByResource (psub_Resource sub) (SubscriberStore (rs_api s')))"
proof -
  have inv: "rest_inv env denv s" by (rule rest_reach_inv [OF assms(3,1,2)])
  obtain posts where p: "post_subscription env OpenFails (Some b) s =
      store_subscription env OpenFails u (drawn_subscription env sub s) (s\<lparr>rs_uuids := rs_uuids s + 2, rs_posts := posts\<rparr>)"
    (is "_ = store_subscription _ _ _ ?d ?s") using post_accepts [OF assms(4)] by blast
  let ?c = "re_clientID env u" and ?subs = "request_subscriber env u ?d"
  have subs: "sub_ClientID ?subs = ?c" "sub_Store ?subs = [(psub_ID ?d, ?d)]" "GetEndPointURI ?subs = GetEndPointURI (\<lparr>sub_ClientID = 0,
      sub_Store = [], sub_EndPointURI = trimmed u, sub_Status = 0, sub_Action = NEW_status, failedCount = 0\<rparr>)"
    by (simp_all add: request_subscriber_def SetEndPointURI_snd new_subscriber_def GetEndPointURI_def Let_def)
  have "trimmed (GetEndPointURI ?subs) = trimmed u" unfolding subs(3)
    by (simp add: GetEndPointURI_def trimmed_def)
  moreover have "psub_Resource ?d = psub_Resource sub" by (simp add: drawn_subscription_def Let_def)
  moreover obtain so where so: "ApiCreateSubscription (re_decode env) (re_json env) [] OpenFails ?c ?subs (rs_api s) =
      (None, (rs_api s)\<lparr>SubscriberStore := AList.update ?c so (SubscriberStore (rs_api s))\<rparr>)" "sub_ClientID so = ?c"
      "sub_EndPointURI so = trimmed (GetEndPointURI ?subs)"
      "sub_Store so = fold (add_subscription []) [(psub_ID ?d, ?d)] (case HasClient ?c (rs_api s) of None \<Rightarrow> [] | Some s \<Rightarrow> sub_Store s)"
    using create_unwritable [of ?c "rs_api s" "re_decode env" "re_json env" "[]" ?subs] rest_inv_client [OF inv]
    unfolding subs(2) by blast
  ultimately have e: "psub_Resource ?d = psub_Resource sub" "sub_EndPointURI so = trimmed u" by simp_all
  have "psub_ID ?d \<noteq> []" "psub_ID ?d \<notin> fst ` set (case HasClient ?c (rs_api s) of None \<Rightarrow> [] | Some s \<Rightarrow> sub_Store s)"
    using fresh_id [OF assms(1) inv, of ?c] assms(1)
    by (cases "HasClient ?c (rs_api s)"; simp add: drawn_subscription_def rest_env_ok_def Let_def)+
  from add_subscription_resources [OF this] have "psub_Resource sub \<in> resources_of (sub_Store so)"
    unfolding so(4) using e(1) by simp
  then show ?thesis
    using so(1,2) e(2) has_address [of ?c "(rs_api s)\<lparr>SubscriberStore := AList.update ?c so (SubscriberStore (rs_api s))\<rparr>" so "psub_Resource sub"]
    by (simp add: p store_subscription_def subs(1) fail_create_def UpdateSubscriptionCount_def send_out_def HasClient_def
        update_conv' Let_def)
qed

section \<open>An accepted subscription survives\<close>

lemma InitConfigMap_up:
  assumes "kube_up k" and "kube_all (kept_texts decode json) k"
  shows "\<exists>files k2. InitConfigMap decode json (\<lambda>_. True) retry [] k = (False, files, k2)"
proof -
  obtain d where d: "kc_map k = Some d" using assms(1) by (auto simp: kube_up_def)
  then have "all_decode decode json d" "distinct (map fst d)"
    using assms(2) by (simp_all add: kube_all_def kept_texts_def by_id_def)
  from persist_entries_files [OF this, of "[]"] show ?thesis
    using assms(1) d by (simp add: InitConfigMap_def kube_defs kube_up_def)
qed

text \<open>C33: 
  Whatever requests the server has had, once the dispatcher has worked off its queue the ConfigMap is enough: a new
  process on an empty disk comes up with every client, its address and its subscriptions, and with nobody else.
\<close>

theorem subscriptions_survive_restart:
  assumes "rest_env_ok env" and "dispatches denv env" and "rest_reach env s"
    and "h_uses_cm h" and "h_kube h = Some k" and "kc_map k = Some []" and "kc_answers k = (\<lambda>_. True)"
  shows "\<exists>h' k' files k2. ProcessOutChannel denv (rs_out s) h = Ok () h' \<and> h_kube h' = Some k' \<and>
    InitConfigMap (re_decode env) (re_json env) (\<lambda>_. True) retry [] k' = (False, files, k2) \<and>
    restored (rs_api s) (ReloadStore (re_decode env) files [])"
proof -
  have inv: "rest_inv env denv s" by (rule rest_reach_inv [OF assms(3,1,2)])
  have j: "json_keeps (re_decode env) (de_json denv)" "de_json denv = re_json env"
    using assms(1,2) by (simp_all add: rest_env_ok_def dispatches_def)
  have k: "kube_up k" "kube_all (kept_texts (re_decode env) (de_json denv)) k" "held k = Map.empty"
    using assms(6,7) by (simp_all add: kube_up_def kube_all_def kept_texts_def by_id_def all_decode_def held_def)
  have "list_all (item_ok denv) (rs_out s)" using inv by (simp add: rest_inv_def)
  from cm_put_items [OF j(1) this assms(4,5) k(1,2)] obtain h' k' where
    h': "ProcessOutChannel denv (rs_out s) h = Ok () h'" "h_kube h' = Some k'" "kube_up k'"
      "kube_all (kept_texts (re_decode env) (re_json env)) k'" "held k' = cm_of denv s"
    using k(3) j(2) by (auto simp: cm_of_def)
  obtain files k2 where i: "InitConfigMap (re_decode env) (re_json env) (\<lambda>_. True) retry [] k' = (False, files, k2)"
    using InitConfigMap_up [OF h'(3,4)] by blast
  have f: "map_of files = held k'" using InitConfigMap_files [OF kept_texts_kube(1) [OF h'(4)] i] by simp
  have dist: "distinct (map fst files)" using InitConfigMap_distinct [OF i] by simp
  have "t \<noteq> '''' \<and> c \<noteq> 0 \<and> (\<exists>s. re_decode env t = Some s \<and> sub_ClientID s = c)" if "(c, t) \<in> set files" for c t
  proof -
    have "held k' c = Some t" using map_of_is_SomeI [OF dist that] unfolding f .
    then show ?thesis by (rule kept_texts_kube(2) [OF h'(4)])
  qed
  then have "by_id (re_decode env) files" using dist unfolding by_id_def by blast
  then have r: "map_of (ReloadStore (re_decode env) files []) c = Option.bind (cm_of denv s c) (re_decode env)" for c
    using ReloadStore_by_id [of "re_decode env" files "[]"] f h'(5) by simp
  have "mirror_at (re_decode env) c (HasClient c (rs_api s)) (cm_of denv s c)" for c using inv by (simp add: rest_inv_def)
  then have "restored (rs_api s) (ReloadStore (re_decode env) files [])" using r by (rule mirror_restored)
  then show ?thesis using h'(1,2) i by blast
qed

text \<open>A server whose one client answers, with the concrete encoding.\<close>

definition demo_event :: "string \<Rightarrow> ce_event" where
  "demo_event t = \<lparr>ev_ID = t, ev_Type = '''', ev_Source = '''', ev_Data = []\<rparr>"

definition demo_rest :: rest_env where
  "demo_rest = \<lparr>re_pubsub = (\<lambda>b. if b = ''{}'' then Some \<lparr>psub_ID = [], psub_Resource = ''/a'',
       psub_EndPoint = Some ''http://c'', psub_URILocation = None\<rparr> else None),
     re_pubsub_json = (\<lambda>_. ''{}''), re_list_json = (\<lambda>_. ''[]''), re_decode = subscriber_of_text, re_json = text_of_subscriber,
     re_event = (\<lambda>s. demo_event (the (text_of_subscriber s))), re_current = Some (\<lambda>_. (False, Some (demo_event []))),
     re_marshals = (\<lambda>_. True), re_net = (\<lambda>_. Answered 204 []), re_uuid = e_nat, re_clientID = (\<lambda>_. 7), re_base = ''/'',
     re_local_fails = False\<rparr>"

definition demo_dispatch :: dispatch_env where
  "demo_dispatch = \<lparr>de_net = (\<lambda>_. Answered 204 []), de_marshals = (\<lambda>_. True), de_converts = (\<lambda>_. True),
     de_subscriber = (\<lambda>e. subscriber_of_text (ev_ID e)), de_json = text_of_subscriber, de_removes = (\<lambda>_. True)\<rparr>"

lemma demo_rest_simps [simp]:
  "re_clientID demo_rest u = 7" "re_decode demo_rest = subscriber_of_text" "re_json demo_rest = text_of_subscriber"
  by (simp_all add: demo_rest_def)

lemma e_nat_inj: "inj e_nat"
proof (rule injI)
  fix m n :: nat assume "e_nat m = e_nat n"
  moreover have "p_nat (e_nat k) = Some (k, [])" for k using nat_back unfolding takes_back_def by (metis append_Nil2)
  ultimately show "m = n" by (metis option.inject prod.inject)
qed

lemma text_codec_keeps: "json_keeps subscriber_of_text text_of_subscriber"
  unfolding json_keeps_def
proof (intro allI impI)
  fix s t assume "text_of_subscriber s = Some t"
  then show "t \<noteq> [] \<and> (\<exists>s'. subscriber_of_text t = Some s' \<and> text_of_subscriber s' = Some t \<and> sub_ClientID s' = sub_ClientID s)"
    using subscriber_back [of s] by (auto simp: text_of_subscriber_def)
qed

lemma demo_rest_ok: "rest_env_ok demo_rest"
  using text_codec_exact text_codec_keeps e_nat_inj
  by (auto simp: rest_env_ok_def demo_rest_def e_nat_def ascii_def ascii_sub_def list_all_iff split: if_splits)

lemma demo_dispatches: "dispatches demo_dispatch demo_rest"
proof -
  have "subscriber_of_text (the (text_of_subscriber s)) = Some (s\<lparr>failedCount := 0\<rparr>)" for s
    using subscriber_back [of s] by auto
  then show ?thesis by (simp add: dispatches_def demo_dispatch_def demo_rest_def demo_event_def)
qed

lemma demo_acceptable:
  "acceptable demo_rest ''{}'' \<lparr>psub_ID = [], psub_Resource = ''/a'', psub_EndPoint = Some ''http://c'', psub_URILocation = None\<rparr>
    ''http://c'' empty_server"
  by (simp add: acceptable_def demo_rest_def empty_server_def GetClientIDAddressByResource_def PutStatus_def)

lemma demo_trimmed: "trimmed ''http://c'' = Some ''http://c''"
  by code_simp


theorem refused_but_subscribed_witness:
  "fst (fst (post_subscription demo_rest OpenFails (Some ''{}'') empty_server)) = 404 \<and> (7, Some ''http://c'') \<in>
    set (GetClientIDAddressByResource ''/a'' (SubscriberStore (rs_api (snd (post_subscription demo_rest OpenFails (Some ''{}'') empty_server)))))"
  using refused_but_subscribed [OF demo_rest_ok demo_dispatches rest_start demo_acceptable] demo_trimmed
  by (auto split: prod.splits)

definition demo_hub :: hub where
  "demo_hub = \<lparr>h_publishers = [], h_subscriptions = [], h_clients = [], h_kube = Some (demo_kube\<lparr>kc_map := Some []\<rparr>), h_uses_cm = True,
     cneEventAckCount = [], cneEventReceivedCount = [], cneStatusCheckReceivedCount = [], h_active = 0,
     h_posts = [], h_removals = 0\<rparr>"

text \<open>The client that posts comes back.\<close>

theorem subscriptions_survive_restart_witness:
  "\<exists>h' k' files k2. ProcessOutChannel demo_dispatch (rs_out (snd (post_subscription demo_rest IoOk (Some ''{}'') empty_server)))
      demo_hub = Ok () h' \<and> h_kube h' = Some k' \<and>
    InitConfigMap subscriber_of_text text_of_subscriber (\<lambda>_. True) 5 [] k' = (False, files, k2) \<and>
    map_option sub_EndPointURI (map_of (ReloadStore subscriber_of_text files []) 7) = Some (Some ''http://c'')"
proof -
  let ?s = "snd (post_subscription demo_rest IoOk (Some ''{}'') empty_server)"
  have "rest_step demo_rest empty_server ?s"
    using rest_post [of demo_rest empty_server "re_current demo_rest" "Some ''{}''"] by simp
  then have r: "rest_reach demo_rest ?s" by (rule rest_more [OF rest_start])
  obtain posts where p: "post_subscription demo_rest IoOk (Some ''{}'') empty_server = store_subscription demo_rest IoOk ''http://c''
      (drawn_subscription demo_rest \<lparr>psub_ID = [], psub_Resource = ''/a'', psub_EndPoint = Some ''http://c'', psub_URILocation = None\<rparr> empty_server)
      (empty_server\<lparr>rs_uuids := rs_uuids empty_server + 2, rs_posts := posts\<rparr>)"
    (is "_ = store_subscription _ _ _ ?d ?e") using post_accepts [OF demo_acceptable] by blast
  have i: "rest_inv demo_rest demo_dispatch ?e" by (rule rest_inv_quiet [OF empty_server_inv]) simp_all
  have "rs_uuids empty_server < rs_uuids ?e" "psub_ID ?d = re_uuid demo_rest (rs_uuids empty_server)"
      "\<forall>c so. HasClient c (rs_api ?e) = Some so \<longrightarrow> re_uuid demo_rest (rs_uuids empty_server) \<notin> fst ` set (sub_Store so)"
    by (simp_all add: empty_server_def HasClient_def drawn_subscription_def Let_def)
  from store_subscription_inv [OF demo_rest_ok demo_dispatches i acceptable_ascii(2) [OF demo_rest_ok demo_acceptable] this(2,1,3)
      acceptable_ascii(1) [OF demo_rest_ok demo_acceptable]]
  obtain so where so: "HasClient 7 (rs_api ?s) = Some so" "sub_EndPointURI so = Some ''http://c''"
    by (auto simp: p demo_trimmed)
  have "h_uses_cm demo_hub" "h_kube demo_hub = Some (demo_kube\<lparr>kc_map := Some []\<rparr>)"
      "kc_map (demo_kube\<lparr>kc_map := Some []\<rparr>) = Some []" "kc_answers (demo_kube\<lparr>kc_map := Some []\<rparr>) = (\<lambda>_. True)"
    by (simp_all add: demo_hub_def demo_kube_def)
  from subscriptions_survive_restart [OF demo_rest_ok demo_dispatches r this, of 5]
  obtain h' k' files k2 where e: "ProcessOutChannel demo_dispatch (rs_out ?s) demo_hub = Ok () h'" "h_kube h' = Some k'"
      "InitConfigMap subscriber_of_text text_of_subscriber (\<lambda>_. True) 5 [] k' = (False, files, k2)"
      "restored (rs_api ?s) (ReloadStore subscriber_of_text files [])"
    by auto
  then have "map_option sub_EndPointURI (map_of (ReloadStore subscriber_of_text files []) 7) = Some (Some ''http://c'')"
    using so by (auto simp: restored_def dest!: spec [of _ 7])
  then show ?thesis using e(1-3) by blast
qed

end
