(* ===== verification/ConsumerServer.thy ===== *)
theory ConsumerServer
  imports ConsumerLoop RestProperties "HOL-Library.Multiset"
begin

text \<open>
  The consumer against the REST server: the server is a \<open>subscription_peer\<close>, so the consumer of one publisher gets
  all its subscriptions, and the one of two equal resources asks for ever.
\<close>

section \<open>The server on the network\<close>

text \<open>
  The routes for subscriptions and the health of \<open>rest-api/v2/server.go\<close>; \<open>other\<close> answers the rest. The state of the
  peer has the server's environment with it.
\<close>

type_synonym rest_peer = "rest_env \<times> rest_server"

definition answer_of :: "reply \<Rightarrow> http_outcome" where
  "answer_of r = Answered (fst r) (case snd r of None \<Rightarrow> [] | Some b \<Rightarrow> b)"

definition rest_net :: "string \<Rightarrow> string \<Rightarrow> (request \<Rightarrow> http_outcome) \<Rightarrow> rest_peer net" where
  "rest_net host base other r p =
    (case p of (env, s) \<Rightarrow>
      if rq_host r \<noteq> host then (ConnectionFailed DNSFailure, p)
      else if rq_path r = base @ ''health'' \<and> rq_method r = GET_method then (Answered 200 ''OK'', p)
      else if rq_path r = base @ ''subscriptions'' then
        (case rq_method r of
          GET_method \<Rightarrow> (answer_of (list_subscriptions env s), p)
        | POST_method \<Rightarrow> (let (reply, s) = post_subscription env IoOk (Some (rq_body r)) s in (answer_of reply, (env, s)))
        | DELETE_method \<Rightarrow> (let (reply, s) = delete_all_subscriptions env (\<lambda>_. True) s in (answer_of reply, (env, s))))
      else (other r, p))"

text \<open>The subscription that the consumer asks for.\<close>

definition endpoint_of :: "consumer_env \<Rightarrow> string" where
  "endpoint_of cenv = url_text (localAPIAddr cenv) ''event''"

definition wanted :: "consumer_env \<Rightarrow> string \<Rightarrow> pub_sub" where
  "wanted cenv r = \<lparr>psub_ID = [], psub_Resource = r, psub_EndPoint = Some (endpoint_of cenv), psub_URILocation = None\<rparr>"

text \<open>
  The two read what the other writes, the state of the resources is known, and the consumer answers the notifications.
\<close>

definition understands :: "consumer_env \<Rightarrow> rest_env \<Rightarrow> bool" where
  "understands cenv env \<longleftrightarrow>
     (\<forall>r. ascii r \<longrightarrow> (\<exists>b. ce_encode cenv (wanted cenv r) = Some b \<and> re_pubsub env b = Some (wanted cenv r))) \<and>
     (\<forall>v. ce_decode cenv (re_pubsub_json env v) \<noteq> None) \<and>
     (\<forall>l. \<exists>l'. ce_decode_list cenv (re_list_json env l) = Some l' \<and> (l' = [] \<longleftrightarrow> l = []))"

definition serves :: "consumer_env \<Rightarrow> (string \<Rightarrow> bool) \<Rightarrow> rest_env \<Rightarrow> bool" where
  "serves cenv asked env \<longleftrightarrow> understands cenv env \<and> inj (re_clientID env) \<and> trim_space (endpoint_of cenv) = endpoint_of cenv \<and>
     (\<exists>current. re_current env = Some current \<and> (\<forall>r. asked r \<longrightarrow> ascii r \<and> (\<exists>e. current r = (False, Some e)))) \<and>
     (\<forall>e. re_marshals env e) \<and> (\<forall>n. PutStatus (re_net env n) = 204)"

definition rest_good :: "consumer_env \<Rightarrow> (string \<Rightarrow> bool) \<Rightarrow> rest_peer \<Rightarrow> bool" where
  "rest_good cenv asked p \<longleftrightarrow> (case p of (env, s) \<Rightarrow>
     rest_env_ok env \<and> serves cenv asked env \<and> (\<exists>denv. dispatches denv env \<and> rest_inv env denv s))"

definition rest_taken :: "consumer_env \<Rightarrow> rest_peer \<Rightarrow> string set" where
  "rest_taken cenv p = (case p of (env, s) \<Rightarrow>
     {r. \<exists>c so. HasClient c (rs_api s) = Some so \<and> sub_EndPointURI so = Some (endpoint_of cenv) \<and> r \<in> resources_of (sub_Store so)})"

section \<open>The server is such a peer\<close>

lemma endpoint_of_nonempty: "endpoint_of cenv \<noteq> []"
  by (simp add: endpoint_of_def url_text_def)

lemma endpoint_trimmed: "serves cenv asked env \<Longrightarrow> trimmed (endpoint_of cenv) = Some (endpoint_of cenv)"
  using endpoint_of_nonempty by (simp add: serves_def trimmed_def)

lemma rest_request [simp]:
  "rq_method (api_request cenv m host rest body) = m" "rq_host (api_request cenv m host rest body) = host"
  "rq_path (api_request cenv m host rest body) = apiPath cenv @ rest" "rq_body (api_request cenv m host rest body) = body"
  by (simp_all add: api_request_def)

lemma rest_health:
  "publisherHealthCheck cenv (rest_net host (apiPath cenv) other) host p = (True, p)"
  by (cases p) (simp add: publisherHealthCheck_def rest_net_def APIHealthCheck_def numeral_eq_Suc Let_def)

text \<open>Who has the resource at the endpoint: exactly then the server sees a conflict.\<close>

lemma rest_conflict:
  assumes "rest_inv env denv s"
  shows "(\<exists>(id, address) \<in> set (GetClientIDAddressByResource r (SubscriberStore (rs_api s))). address = Some (endpoint_of cenv)) \<longleftrightarrow>
    r \<in> rest_taken cenv (env, s)"
proof -
  have "distinct (map fst (SubscriberStore (rs_api s)))" using assms by (simp add: rest_inv_def mirrors_def)
  then have "(c, so) \<in> set (SubscriberStore (rs_api s)) \<longleftrightarrow> HasClient c (rs_api s) = Some so" for c so
    by (simp add: HasClient_def)
  then show ?thesis
    by (force simp: GetClientIDAddressByResource_def rest_taken_def resources_of_def list_ex_iff)
qed

lemma rest_create:
  assumes g: "rest_good cenv asked (env, s)" and r: "asked r"
  shows "createSubscription cenv (rest_net host (apiPath cenv) other) host r (env, s) =
    (let b = the (ce_encode cenv (wanted cenv r)); (reply, s') = post_subscription env IoOk (Some b) s
     in ((fst reply, if fst reply = 201 then Option.bind (Some (case snd reply of None \<Rightarrow> [] | Some b \<Rightarrow> b)) (ce_decode cenv) else None), (env, s')))
    \<and> re_pubsub env (the (ce_encode cenv (wanted cenv r))) = Some (wanted cenv r)"
proof -
  have "ascii r" using g r by (auto simp: rest_good_def serves_def)
  then obtain b where "ce_encode cenv (wanted cenv r) = Some b" "re_pubsub env b = Some (wanted cenv r)"
    using g unfolding rest_good_def serves_def understands_def by auto
  then show ?thesis
    by (simp add: createSubscription_def wanted_def endpoint_of_def rest_net_def answer_of_def PostWithReturn_def Let_def
        split: prod.split)
qed

lemma rest_create_new:
  assumes g: "rest_good cenv asked (env, s)" and r: "asked r" "r \<notin> rest_taken cenv (env, s)"
    and c: "createSubscription cenv (rest_net host (apiPath cenv) other) host r (env, s) = ((status, su), p')"
  shows "status = 201 \<and> su \<noteq> None \<and> rest_good cenv asked p' \<and> rest_taken cenv p' = insert r (rest_taken cenv (env, s))"
proof -
  let ?b = "the (ce_encode cenv (wanted cenv r))" and ?u = "endpoint_of cenv"
  have env: "rest_env_ok env" "serves cenv asked env" using g by (simp_all add: rest_good_def)
  obtain denv where denv: "dispatches denv env" "rest_inv env denv s" using g by (auto simp: rest_good_def)
  note create = rest_create [OF g r(1), of host other]
  have free: "\<forall>(id, address) \<in> set (GetClientIDAddressByResource r (SubscriberStore (rs_api s))). address \<noteq> Some ?u"
    using rest_conflict [OF denv(2), of r cenv] r(2) by blast
  have "acceptable env ?b (wanted cenv r) ?u s"
    using create free env(2) r(1) endpoint_of_nonempty by (auto simp: acceptable_def serves_def wanted_def)
  from post_stored [OF env(1) denv this] obtain s' so where s':
      "post_subscription env IoOk (Some ?b) s = ((201, Some (re_pubsub_json env (drawn_subscription env (wanted cenv r) s))), s')"
      "rest_inv env denv s'" "HasClient (re_clientID env ?u) (rs_api s') = Some so" "sub_EndPointURI so = Some ?u"
      "resources_of (sub_Store so) = insert r (resources_of
        (case HasClient (re_clientID env ?u) (rs_api s) of None \<Rightarrow> [] | Some s \<Rightarrow> sub_Store s))"
      "\<forall>d. d \<noteq> re_clientID env ?u \<longrightarrow> HasClient d (rs_api s') = HasClient d (rs_api s)"
    by (auto simp: endpoint_trimmed [OF env(2)] wanted_def)
  have p': "status = 201" "su = ce_decode cenv (re_pubsub_json env (drawn_subscription env (wanted cenv r) s))" "p' = (env, s')"
    using c create s'(1) by simp_all
  have "sub_EndPointURI so0 = Some ?u" if h: "HasClient (re_clientID env ?u) (rs_api s) = Some so0" for so0
  proof -
    obtain u where "re_clientID env ?u = re_clientID env u" "sub_EndPointURI so0 = trimmed u"
      using rest_inv_client [OF denv(2) h] unfolding drawn_def by metis
    then show ?thesis using env(2) endpoint_trimmed [OF env(2)] by (metis injD serves_def)
  qed
  then have old: "(\<exists>so0. HasClient (re_clientID env ?u) (rs_api s) = Some so0 \<and> sub_EndPointURI so0 = Some ?u \<and>
      r' \<in> resources_of (sub_Store so0)) \<longleftrightarrow>
      r' \<in> resources_of (case HasClient (re_clientID env ?u) (rs_api s) of None \<Rightarrow> [] | Some s \<Rightarrow> sub_Store s)" for r'
    by (cases "HasClient (re_clientID env ?u) (rs_api s)") (simp_all add: resources_of_def)
  have split: "r' \<in> rest_taken cenv (env, s1) \<longleftrightarrow>
      (\<exists>so0. HasClient (re_clientID env ?u) (rs_api s1) = Some so0 \<and> sub_EndPointURI so0 = Some ?u \<and> r' \<in> resources_of (sub_Store so0)) \<or>
      (\<exists>d so0. d \<noteq> re_clientID env ?u \<and> HasClient d (rs_api s1) = Some so0 \<and> sub_EndPointURI so0 = Some ?u \<and>
        r' \<in> resources_of (sub_Store so0))" for s1 r'
    by (simp add: rest_taken_def) metis
  have "r' \<in> rest_taken cenv (env, s') \<longleftrightarrow> r' = r \<or> r' \<in> rest_taken cenv (env, s)" for r'
    unfolding split old using s'(3-6) by (simp cong: conj_cong)
  then have "rest_taken cenv (env, s') = insert r (rest_taken cenv (env, s))" by auto
  moreover have "rest_good cenv asked p'" using env denv(1) s'(2) by (auto simp: rest_good_def p'(3))
  moreover have "su \<noteq> None" using env(2) by (simp add: p'(2) serves_def understands_def)
  ultimately show ?thesis using p'(1,3) by simp
qed

lemma rest_create_taken:
  assumes g: "rest_good cenv asked (env, s)" and r: "asked r" "r \<in> rest_taken cenv (env, s)"
    and c: "createSubscription cenv (rest_net host (apiPath cenv) other) host r (env, s) = ((status, su), p')"
  shows "status = 409 \<and> p' = (env, s)"
proof -
  let ?b = "the (ce_encode cenv (wanted cenv r))"
  obtain denv where denv: "rest_inv env denv s" using g by (auto simp: rest_good_def)
  note create = rest_create [OF g r(1), of host other]
  have "list_ex (\<lambda>(id, address). address = Some (endpoint_of cenv)) (GetClientIDAddressByResource r (SubscriberStore (rs_api s)))"
    using rest_conflict [OF denv, of r cenv] r(2) unfolding list_ex_iff by blast
  then have "post_subscription env IoOk (Some ?b) s = ((409, None), s)"
    using create endpoint_of_nonempty by (simp add: post_subscription_def wanted_def)
  then show ?thesis using c create by simp
qed

lemma rest_delete:
  assumes g: "rest_good cenv asked p" and "apiAddr c = host"
    and d: "deleteAllSubscriptions cenv (rest_net host (apiPath cenv) other) c p = (c', p')"
  shows "rest_good cenv asked p' \<and> rest_taken cenv p' = {}"
proof -
  obtain env s where p: "p = (env, s)" by (rule prod.exhaust)
  have env: "rest_env_ok env" using g by (simp add: rest_good_def p)
  obtain denv where denv: "dispatches denv env" "rest_inv env denv s" using g by (auto simp: rest_good_def p)
  have "p' = (env, snd (delete_all_subscriptions env (\<lambda>_. True) s))"
    using d assms(2) by (auto simp: deleteAllSubscriptions_def rest_net_def p split: prod.splits)
  then show ?thesis
    using delete_all_inv [OF env denv] g denv(1) by (auto simp: rest_good_def rest_taken_def p HasClient_def)
qed

lemma rest_check:
  assumes g: "rest_good cenv asked p" and c: "checkSubscriptions cenv (rest_net host (apiPath cenv) other) host p = (found, p')"
  shows "p' = p \<and> (rest_taken cenv p \<noteq> {} \<longrightarrow> found)"
proof -
  obtain env s where p: "p = (env, s)" by (rule prod.exhaust)
  have "\<forall>l. \<exists>l'. ce_decode_list cenv (re_list_json env l) = Some l' \<and> (l' = [] \<longleftrightarrow> l = [])"
    using g by (simp add: rest_good_def p serves_def understands_def)
  then obtain l' where l': "ce_decode_list cenv (re_list_json env (GetSubscriptions (rs_api s))) = Some l'"
      "l' = [] \<longleftrightarrow> GetSubscriptions (rs_api s) = []" by blast
  have f: "found \<longleftrightarrow> l' \<noteq> []" "p' = p"
    using c l'(1) by (simp_all add: checkSubscriptions_def rest_net_def p list_subscriptions_def answer_of_def RestGet_def Let_def)
  have "GetSubscriptions (rs_api s) \<noteq> []" if t: "rest_taken cenv p \<noteq> {}"
  proof -
    obtain c so kv where "HasClient c (rs_api s) = Some so" "kv \<in> set (sub_Store so)"
      using t by (auto simp: rest_taken_def p resources_of_def)
    then have "(c, so) \<in> set (SubscriberStore (rs_api s))" "sub_Store so \<noteq> []" by (auto simp: HasClient_def map_of_SomeD)
    then show ?thesis by (force simp: GetSubscriptions_def)
  qed
  then show ?thesis using f l'(2) by blast
qed

text \<open>Asking for the state of a resource changes nothing.\<close>

lemma rest_pull:
  "snd (rest_net host (apiPath cenv) other (api_request cenv GET_method host (r @ ''/CurrentState'') []) p) = p"
proof -
  have "r @ ''/CurrentState'' \<noteq> ''subscriptions''"
    by (rule notI, drule arg_cong [where f = last]) simp
  then show ?thesis by (cases p) (simp add: rest_net_def)
qed

interpretation rest: subscription_peer cenv "rest_net host (apiPath cenv) other" host "rest_good cenv asked"
    "rest_taken cenv" asked
  for cenv host other asked
proof unfold_locales
  fix ok p p' assume "rest_good cenv asked p" "publisherHealthCheck cenv (rest_net host (apiPath cenv) other) host p = (ok, p')"
  then show "ok \<and> rest_good cenv asked p' \<and> rest_taken cenv p' = rest_taken cenv p" by (simp add: rest_health)
next
  fix p p' c c' assume "rest_good cenv asked p" "apiAddr c = host"
    "deleteAllSubscriptions cenv (rest_net host (apiPath cenv) other) c p = (c', p')"
  then show "rest_good cenv asked p' \<and> rest_taken cenv p' = {}" by (rule rest_delete)
next
  fix p found p' assume "rest_good cenv asked p" "checkSubscriptions cenv (rest_net host (apiPath cenv) other) host p = (found, p')"
  then show "rest_good cenv asked p' \<and> rest_taken cenv p' = rest_taken cenv p \<and> (rest_taken cenv p \<noteq> {} \<longrightarrow> found)"
    using rest_check by blast
next
  fix p r status su p' assume a: "rest_good cenv asked p" "asked r"
    "createSubscription cenv (rest_net host (apiPath cenv) other) host r p = ((status, su), p')"
  obtain env s where p: "p = (env, s)" by (rule prod.exhaust)
  show "r \<notin> rest_taken cenv p \<Longrightarrow> status = 201 \<and> su \<noteq> None \<and> rest_good cenv asked p' \<and>
      rest_taken cenv p' = insert r (rest_taken cenv p)"
    using rest_create_new a unfolding p by blast
  show "r \<in> rest_taken cenv p \<Longrightarrow> status = 409 \<and> rest_good cenv asked p' \<and> rest_taken cenv p' = rest_taken cenv p"
    using rest_create_taken a unfolding p by blast
next
  fix p and r :: string assume "rest_good cenv asked p" "r \<noteq> []"
  moreover have "getCurrentState cenv (rest_net host (apiPath cenv) other) host r p =
      Ok (fst (RestGet (fst (rest_net host (apiPath cenv) other
        (api_request cenv GET_method host (tl r @ ''/CurrentState'') []) p))) \<noteq> 200) p"
    using \<open>r \<noteq> []\<close> rest_pull [of host cenv other "tl r" p]
    by (simp add: getCurrentState_def split: prod.splits) (metis fst_conv snd_conv)
  ultimately show "\<exists>err p'. getCurrentState cenv (rest_net host (apiPath cenv) other) host r p = Ok err p' \<and>
      rest_good cenv asked p' \<and> rest_taken cenv p' = rest_taken cenv p"
    by blast
qed

section \<open>The consumer of one publisher\<close>

lemma start_of_host:
  assumes "publisher \<noteq> []" and "nodeName \<noteq> []" and "host = SanitizeTransportHost publisher nodeIP nodeName" and "host \<noteq> []"
  shows "rest.of_host host (map (resource_name nodeName) resources) False
    (consumer_start getUUID publisher nodeIP nodeName resources)"
  using assms by (simp add: rest.of_host_def consumer_start_def Let_def comp_def)

lemma resource_name_inj: "inj_on (resource_name nodeName) A"
  by (auto simp: inj_on_def resource_name_def)

lemma taken_address:
  assumes "rest_good cenv asked p" and "r \<in> rest_taken cenv p"
  shows "\<exists>c. (c, Some (endpoint_of cenv)) \<in> set (GetClientIDAddressByResource r (SubscriberStore (rs_api (snd p))))"
proof -
  obtain env s where p: "p = (env, s)" by (rule prod.exhaust)
  obtain denv where inv: "rest_inv env denv s" using assms(1) by (auto simp: rest_good_def p)
  from assms(2) rest_conflict [OF inv, of r cenv] show ?thesis by (auto simp: p)
qed

text \<open>The first round, and the calls of the tickers after it.\<close>

lemma ptp_consumer_round:
  assumes "rest_env_ok env" and "dispatches denv env" and "rest_reach env s" and "serves cenv asked env"
    and "publisher \<noteq> []" and "nodeName \<noteq> []" and "host = SanitizeTransportHost publisher nodeIP nodeName" and "host \<noteq> []"
    and "mset resources = mset (map snd (initSubscribers PTP_consumer))"
    and "\<forall>r \<in> set resources. asked (resource_name nodeName r)" and "\<forall>k n. order k n = [host]"
  shows "\<exists>c' p'. consumer_run cenv (rest_net host (apiPath cenv) other) order enableEventPull ts
      (consumer_start getUUID publisher nodeIP nodeName resources) (env, s) = Some (Ok c' p') \<and> rest_good cenv asked p' \<and>
    subscribed c' = [(host, True)] \<and> (\<forall>r \<in> set resources. \<exists>c. (c, Some (endpoint_of cenv)) \<in>
      set (GetClientIDAddressByResource (resource_name nodeName r) (SubscriberStore (rs_api (snd p')))))"
proof -
  have good: "rest_good cenv asked (env, s)"
    using assms(1,2,4) rest_reach_inv [OF assms(3,1,2)] by (auto simp: rest_good_def)
  have "distinct (map snd (initSubscribers PTP_consumer))" by (simp add: initSubscribers_def)
  then have "distinct resources" using assms(9) mset_eq_imp_distinct_iff by blast
  then have d: "distinct (map (resource_name nodeName) resources)" by (simp add: distinct_map resource_name_inj)
  have "[] \<notin> set (map (resource_name nodeName) resources)" by (auto simp: resource_name_def)
  from rest.run_subscribed [OF good start_of_host [OF assms(5-8), where getUUID = getUUID and resources = resources] _ d this,
      where order = order and other = other and ts = ts and enableEventPull = enableEventPull] assms(10,11)
  obtain c' p' where "consumer_run cenv (rest_net host (apiPath cenv) other) order enableEventPull ts
      (consumer_start getUUID publisher nodeIP nodeName resources) (env, s) = Some (Ok c' p')"
      "rest_good cenv asked p'" "rest.of_host host (map (resource_name nodeName) resources) True c'"
      "resource_name nodeName ` set resources \<subseteq> rest_taken cenv p'"
    by auto
  moreover have "\<exists>c. (c, Some (endpoint_of cenv)) \<in>
      set (GetClientIDAddressByResource (resource_name nodeName r) (SubscriberStore (rs_api (snd p'))))" if "r \<in> set resources" for r
    using calculation(2,4) that by (intro taken_address) auto
  ultimately show ?thesis unfolding rest.of_host_def by blast
qed

text \<open>C32: 
  The consumer of a cluster with one publisher comes back from its first round, whatever subscriptions the server
  has at the time, and then the server sends the events of all five PTP resources to it. However the tickers fire
  after that, each of their calls comes back, none panics, and it stays so.
\<close>

theorem ptp_consumer_subscribes:
  assumes "rest_env_ok env" and "dispatches denv env" and "rest_reach env s" and "serves cenv asked env"
    and "publisher \<noteq> []" and "nodeName \<noteq> []" and "host = SanitizeTransportHost publisher nodeIP nodeName" and "host \<noteq> []"
    and "mset resources = mset (map snd (initSubscribers PTP_consumer))"
    and "\<forall>r \<in> set resources. asked (resource_name nodeName r)" and "\<forall>k n. order k n = [host]"
  shows "\<exists>c' p'. consumer_run cenv (rest_net host (apiPath cenv) other) order enableEventPull ts
      (consumer_start getUUID publisher nodeIP nodeName resources) (env, s) = Some (Ok c' p') \<and> subscribed c' = [(host, True)] \<and>
    (\<forall>r \<in> set resources. \<exists>c. (c, Some (endpoint_of cenv)) \<in>
      set (GetClientIDAddressByResource (resource_name nodeName r) (SubscriberStore (rs_api (snd p')))))"
  using ptp_consumer_round [OF assms, where other = other and ts = ts and enableEventPull = enableEventPull and getUUID = getUUID] by blast

text \<open>C36: 
  All five resources of a consumer of the type HW are the same. The server refuses the second subscription as a
  duplicate, the consumer deletes everything and starts again, for ever.
\<close>

theorem hw_consumer_never_returns:
  assumes "rest_env_ok env" and "dispatches denv env" and "rest_reach env s" and "serves cenv asked env"
    and "publisher \<noteq> []" and "nodeName \<noteq> []" and "host = SanitizeTransportHost publisher nodeIP nodeName" and "host \<noteq> []"
    and "mset resources = mset (map snd (initSubscribers HW_consumer))"
    and "\<forall>r \<in> set resources. asked (resource_name nodeName r)" and "\<forall>n. order n = [host]"
  shows "subscribeToEvents cenv (rest_net host (apiPath cenv) other) order 0
    (consumer_start getUUID publisher nodeIP nodeName resources) (env, s) = None"
proof -
  have good: "rest_good cenv asked (env, s)"
    using assms(1,2,4) rest_reach_inv [OF assms(3,1,2)] by (auto simp: rest_good_def)
  have "\<not> distinct (map snd (initSubscribers HW_consumer))" by (simp add: initSubscribers_def)
  then have "\<not> distinct resources" using assms(9) mset_eq_imp_distinct_iff by blast
  then have "\<not> distinct (map (resource_name nodeName) resources)" by (simp add: distinct_map resource_name_inj)
  from rest.subscribe_never_returns [OF good start_of_host [OF assms(5-8), where getUUID = getUUID and resources = resources] _ this] assms(10,11) show ?thesis by auto
qed

text \<open>A consumer and a server that understand each other, with the concrete encoding.\<close>

fun text_code :: "string \<Rightarrow> nat" where
  "text_code [] = 0"
| "text_code (ch # t) = Suc (of_char ch) + 257 * text_code t"

lemma text_code_inj: "text_code t = text_code u \<Longrightarrow> t = u"
proof (induction t arbitrary: u)
  case Nil
  then show ?case by (cases u) auto
next
  case (Cons ch t)
  then obtain ch' u' where u: "u = ch' # u'" by (cases u) auto
  have b: "(of_char ch :: nat) < 256" "(of_char ch' :: nat) < 256" by (metis of_char_mod_256 mod_less_divisor zero_less_numeral)+
  have e: "Suc (of_char ch) + 257 * text_code t = Suc (of_char ch') + 257 * text_code u'" using Cons.prems by (simp add: u)
  then have "(Suc (of_char ch) + 257 * text_code t) mod 257 = (Suc (of_char ch') + 257 * text_code u') mod 257" by simp
  then have "(of_char ch :: nat) = of_char ch'" using b by simp
  then show ?case using Cons.IH [of u'] e by (simp add: u)
qed

definition demo_consumer :: consumer_env where
  "demo_consumer = \<lparr>localAPIAddr = ''c:1'', apiPath = ''/v2/'', ce_encode = (\<lambda>v. Some (e_sub v)),
     ce_decode = (\<lambda>b. map_option fst (p_sub b)), ce_decode_list = (\<lambda>b. map_option fst (p_list p_sub b)), ce_event_ok = (\<lambda>_. True)\<rparr>"

definition demo_proxy :: rest_env where
  "demo_proxy = demo_rest\<lparr>re_pubsub := (\<lambda>b. case p_sub b of None \<Rightarrow> None | Some (v, _) \<Rightarrow> if ascii_sub v then Some v else None),
     re_pubsub_json := e_sub, re_list_json := e_list e_sub, re_clientID := Suc \<circ> text_code\<rparr>"

lemma demo_proxy_ok: "rest_env_ok demo_proxy"
  using demo_rest_ok by (auto simp: rest_env_ok_def demo_proxy_def split: option.splits if_splits)

lemma demo_proxy_dispatches: "dispatches demo_dispatch demo_proxy"
  using demo_dispatches by (simp add: dispatches_def demo_proxy_def)

lemma demo_endpoint: "endpoint_of demo_consumer = ''http://c:1/event''"
  by (simp add: endpoint_of_def url_text_def demo_consumer_def)

lemma demo_serves: "serves demo_consumer ascii demo_proxy"
proof -
  have sub: "p_sub (e_sub v) = Some (v, [])" for v using sub_back unfolding takes_back_def by (metis append_Nil2)
  have list: "p_list p_sub (e_list e_sub l) = Some (l, [])" for l
    using list_back [OF sub_back] unfolding takes_back_def by (metis append_Nil2)
  have "ascii (endpoint_of demo_consumer)" unfolding demo_endpoint by (simp add: ascii_def)
  then have "understands demo_consumer demo_proxy"
    by (simp add: understands_def demo_proxy_def demo_consumer_def sub list wanted_def ascii_sub_def)
      (simp add: ascii_def)
  moreover have "inj (re_clientID demo_proxy)" using text_code_inj by (simp add: demo_proxy_def inj_def)
  moreover have "trim_space ''http://c:1/event'' = ''http://c:1/event''" by code_simp
  ultimately show ?thesis
    unfolding serves_def demo_endpoint by (simp add: demo_proxy_def demo_rest_def PutStatus_def)
qed

theorem ptp_consumer_subscribes_witness:
  "\<exists>c' p'. consumer_run demo_consumer (rest_net ''p:9043'' (apiPath demo_consumer) (\<lambda>_. RequestRefused)) (\<lambda>_ _. [''p:9043''])
      True [PullTick, HealthTick]
      (consumer_start id ''p:9043'' [] ''n'' (map snd (initSubscribers PTP_consumer))) (demo_proxy, empty_server) = Some (Ok c' p') \<and>
    (\<exists>c. (c, Some ''http://c:1/event'') \<in> set (GetClientIDAddressByResource ''/cluster/node/n/sync/ptp-status/lock-state''
      (SubscriberStore (rs_api (snd p')))))"
proof -
  have h: "''p:9043'' = SanitizeTransportHost ''p:9043'' [] ''n''" by code_simp
  have r: "\<forall>r \<in> set (map snd (initSubscribers PTP_consumer)). ascii (resource_name ''n'' r)"
    by (simp add: initSubscribers_def resource_name_def ascii_def)
  have m: "''/sync/ptp-status/lock-state'' \<in> set (map snd (initSubscribers PTP_consumer))" by (simp add: initSubscribers_def)
  have n: "resource_name ''n'' ''/sync/ptp-status/lock-state'' = ''/cluster/node/n/sync/ptp-status/lock-state''"
    by (simp add: resource_name_def)
  show ?thesis
    using ptp_consumer_subscribes [OF demo_proxy_ok demo_proxy_dispatches rest_start demo_serves _ _ h _ refl r,
        where order = "\<lambda>_ _. [''p:9043'']" and ts = "[PullTick, HealthTick]" and enableEventPull = True and getUUID = id and other = "\<lambda>_. RequestRefused"] m
    unfolding demo_endpoint n [symmetric] by fastforce
qed

theorem hw_consumer_never_returns_witness:
  "subscribeToEvents demo_consumer (rest_net ''p:9043'' (apiPath demo_consumer) (\<lambda>_. RequestRefused)) (\<lambda>_. [''p:9043'']) 0
    (consumer_start id ''p:9043'' [] ''n'' (map snd (initSubscribers HW_consumer))) (demo_proxy, empty_server) = None"
proof -
  have h: "''p:9043'' = SanitizeTransportHost ''p:9043'' [] ''n''" by code_simp
  have r: "\<forall>r \<in> set (map snd (initSubscribers HW_consumer)). ascii (resource_name ''n'' r)"
    by (simp add: initSubscribers_def resource_name_def ascii_def)
  show ?thesis
    by (rule hw_consumer_never_returns [OF demo_proxy_ok demo_proxy_dispatches rest_start demo_serves _ _ h _ refl r]) simp_all
qed

end
