(* ===== verification/ConsumerEvents.thy ===== *)
theory ConsumerEvents
  imports ConsumerServer EndToEnd "HOL-Library.Sublist"
begin

text \<open>
  All parts together: a consumer subscribes at the REST server, the plug-in takes log lines, and the dispatcher posts
  the events to the consumer. The server and the dispatcher share the store of subscribers.
\<close>

text \<open>The events of a queue at some addresses, in order.\<close>

definition events_at :: "string set \<Rightarrow> data_chan list \<Rightarrow> ce_event list" where
  "events_at A ds = map (\<lambda>d. the (dc_Data d)) (filter (\<lambda>d. dc_Address d \<in> A) ds)"

lemma posts_for_endpoint: "(c, Some u) \<in> set l \<Longrightarrow> (u, Some e) \<in> set (posts_for e l)"
  by (force simp: posts_for_def)

lemma posts_of_endpoint:
  assumes "\<And>a. a \<in> A \<Longrightarrow> \<exists>c. (c, Some u) \<in> set (GetClientIDAddressByResource a st)"
  shows "subseq (map (\<lambda>e. (u, Some e)) (events_at A ds)) (posts_of st ds)"
proof (induction ds)
  case Nil
  then show ?case by (simp add: events_at_def)
next
  case (Cons d ds)
  let ?p = "posts_for (the (dc_Data d)) (GetClientIDAddressByResource (dc_Address d) st)"
  have split: "posts_of st (d # ds) = ?p @ posts_of st ds" by (simp add: posts_of_def)
  show ?case
  proof (cases "dc_Address d \<in> A")
    case True
    then have "subseq [(u, Some (the (dc_Data d)))] ?p"
      using assms [OF True] posts_for_endpoint unfolding subseq_singleton_left by fast
    from list_emb_append_mono [OF this Cons.IH] show ?thesis unfolding split by (simp add: events_at_def True)
  next
    case False
    then show ?thesis using Cons.IH unfolding split by (simp add: events_at_def list_emb_append2)
  qed
qed

text \<open>C4: 
  From the log to a consumer: the PTP consumer of one publisher subscribes at the REST server, whatever the server
  held; whatever the plug-in then makes of its log lines, timers and callbacks, the dispatcher posts every event at one
  of the consumer's five resources to the consumer, in the order of publication.
\<close>

theorem consumer_gets_events:
  assumes "rest_env_ok env" and "dispatches denv env" and "rest_reach env s" and "serves cenv asked env"
    and "publisher \<noteq> []" and "node \<noteq> []" and "host = SanitizeTransportHost publisher nodeIP node" and "host \<noteq> []"
    and "mset resources = mset (map snd (initSubscribers PTP_consumer))"
    and "\<forall>r \<in> set resources. asked (resource_name node r)" and "\<forall>k n. order k n = [host]"
    and "all_answer denv" and "sys_run m m'" and "scConfig m = Some sc"
  shows "\<exists>c' p'. consumer_run cenv (rest_net host (apiPath cenv) other) order enableEventPull ts
      (consumer_start getUUID publisher nodeIP node resources) (env, s) = Some (Ok c' p') \<and>
    (\<forall>h. h_clients h = SubscriberStore (rs_api (snd p')) \<and> h_subscriptions h = [] \<longrightarrow>
      (\<exists>sc' ds h' posts. scConfig m' = Some sc' \<and> oc_queue (EventOutCh sc') = oc_queue (EventOutCh sc) @ ds \<and>
        ProcessOutChannel denv (map as_item ds) h = Ok () h' \<and> h_posts h' = h_posts h @ posts \<and>
        subseq (map (\<lambda>e. (endpoint_of cenv, Some e)) (events_at (resource_name node ` set resources) ds)) posts))"
proof -
  obtain c' p' where run: "consumer_run cenv (rest_net host (apiPath cenv) other) order enableEventPull ts
      (consumer_start getUUID publisher nodeIP node resources) (env, s) = Some (Ok c' p')"
    and at: "\<forall>r \<in> set resources. \<exists>c. (c, Some (endpoint_of cenv)) \<in>
      set (GetClientIDAddressByResource (resource_name node r) (SubscriberStore (rs_api (snd p'))))"
    using ptp_consumer_round [OF assms(1-11), where other = other and ts = ts and enableEventPull = enableEventPull
        and getUUID = getUUID] by blast
  obtain sc' ds where sc': "scConfig m' = Some sc'" "oc_queue (EventOutCh sc') = oc_queue (EventOutCh sc) @ ds"
      and ds: "\<forall>d\<in>set ds. dc_Type d = EVENT_kind \<and> dc_Status d = NEW_status \<and> dc_Data d \<noteq> None"
    using run_adds [OF assms(13)] assms(14) unfolding adds_def by auto
  have "\<exists>h'. ProcessOutChannel denv (map as_item ds) h = Ok () h' \<and> h_posts h' = h_posts h @ posts_of (h_clients h) ds"
    if "h_subscriptions h = []" for h
    using dispatch_reached [OF assms(12) that ds] by blast
  moreover have "subseq (map (\<lambda>e. (endpoint_of cenv, Some e)) (events_at (resource_name node ` set resources) ds))
      (posts_of (SubscriberStore (rs_api (snd p'))) ds)"
    by (rule posts_of_endpoint) (use at in auto)
  ultimately show ?thesis using run sc' by (metis (no_types, lifting))
qed

theorem consumer_gets_events_witness:
  "\<exists>c' p' ds h' e1 e2. consumer_run demo_consumer (rest_net ''p:9043'' (apiPath demo_consumer) (\<lambda>_. RequestRefused)) (\<lambda>_ _. [''p:9043''])
      True [HealthTick]
      (consumer_start id ''p:9043'' [] ''n1'' (map snd (initSubscribers PTP_consumer))) (demo_proxy, empty_server) = Some (Ok c' p') \<and>
    map dc_Address ds =
      [''/cluster/node/n1/sync/ptp-status/lock-state'', ''/cluster/node/n1/sync/sync-status/sync-state''] \<and>
    ProcessOutChannel demo_dispatch (map as_item ds) ((drop_hub None)\<lparr>h_clients := SubscriberStore (rs_api (snd p'))\<rparr>) = Ok () h' \<and>
    subseq [(''http://c:1/event'', Some e1), (''http://c:1/event'', Some e2)] (h_posts h')"
proof -
  let ?rs = "map snd (initSubscribers PTP_consumer)"
  have h: "''p:9043'' = SanitizeTransportHost ''p:9043'' [] ''n1''" by code_simp
  have r: "\<forall>r \<in> set ?rs. ascii (resource_name ''n1'' r)"
    by (simp add: initSubscribers_def resource_name_def ascii_def)
  have sc: "scConfig live_manager = Some (sc0\<lparr>sc_publishers := [(''id'', ''r'')]\<rparr>)" by (simp add: live_manager_def)
  have a: "all_answer demo_dispatch" by (simp add: all_answer_def demo_dispatch_def)
  from consumer_gets_events [OF demo_proxy_ok demo_proxy_dispatches rest_start demo_serves _ _ h _ refl r _ a
      step [OF stop master_line_step] sc, where order = "\<lambda>_ _. [''p:9043'']" and ts = "[HealthTick]" and enableEventPull = True
      and getUUID = id and other = "\<lambda>_. RequestRefused"]
  obtain c' p' where run: "consumer_run demo_consumer (rest_net ''p:9043'' (apiPath demo_consumer) (\<lambda>_. RequestRefused))
      (\<lambda>_ _. [''p:9043'']) True [HealthTick] (consumer_start id ''p:9043'' [] ''n1'' ?rs) (demo_proxy, empty_server) = Some (Ok c' p')"
    and all: "\<forall>h. h_clients h = SubscriberStore (rs_api (snd p')) \<and> h_subscriptions h = [] \<longrightarrow>
      (\<exists>sc' ds h' posts. scConfig (ExtractMetrics master_line live_manager) = Some sc' \<and>
        oc_queue (EventOutCh sc') = oc_queue (EventOutCh (sc0\<lparr>sc_publishers := [(''id'', ''r'')]\<rparr>)) @ ds \<and>
        ProcessOutChannel demo_dispatch (map as_item ds) h = Ok () h' \<and> h_posts h' = h_posts h @ posts \<and>
        subseq (map (\<lambda>e. (endpoint_of demo_consumer, Some e)) (events_at (resource_name ''n1'' ` set ?rs) ds)) posts)"
    by auto
  let ?h = "(drop_hub None)\<lparr>h_clients := SubscriberStore (rs_api (snd p'))\<rparr>"
  have hub: "h_clients ?h = SubscriberStore (rs_api (snd p')) \<and> h_subscriptions ?h = []" "h_posts ?h = []"
    by (simp_all add: drop_hub_def)
  from spec [OF all, of ?h] hub obtain sc' ds h' posts where
    q: "scConfig (ExtractMetrics master_line live_manager) = Some sc'"
      "oc_queue (EventOutCh sc') = oc_queue (EventOutCh (sc0\<lparr>sc_publishers := [(''id'', ''r'')]\<rparr>)) @ ds"
    and d: "ProcessOutChannel demo_dispatch (map as_item ds) ?h = Ok () h'"
    and p: "subseq (map (\<lambda>e. (''http://c:1/event'', Some e)) (events_at (resource_name ''n1'' ` set ?rs) ds)) (h_posts h')"
    unfolding demo_endpoint by auto
  have ds: "map dc_Address ds =
      [''/cluster/node/n1/sync/ptp-status/lock-state'', ''/cluster/node/n1/sync/sync-status/sync-state'']"
    using live_queue q by (simp add: sc0_def)
  then obtain d1 d2 where "ds = [d1, d2]" "dc_Address d1 = ''/cluster/node/n1/sync/ptp-status/lock-state''"
      "dc_Address d2 = ''/cluster/node/n1/sync/sync-status/sync-state''"
    by (auto simp: map_eq_Cons_conv)
  moreover have "''/cluster/node/n1/sync/ptp-status/lock-state'' \<in> resource_name ''n1'' ` set ?rs"
    "''/cluster/node/n1/sync/sync-status/sync-state'' \<in> resource_name ''n1'' ` set ?rs"
    by (simp_all add: initSubscribers_def resource_name_def)
  ultimately have "events_at (resource_name ''n1'' ` set ?rs) ds = [the (dc_Data d1), the (dc_Data d2)]"
    by (simp add: events_at_def del: list.inject)
  with p have "subseq [(''http://c:1/event'', Some (the (dc_Data d1))), (''http://c:1/event'', Some (the (dc_Data d2)))] (h_posts h')"
    by (simp del: list.inject)
  then show ?thesis using run ds d by (intro exI conjI)
qed

end
