(* ===== verification/StateRoute.thy ===== *)
theory StateRoute
  imports RestProperties StatusQuery
begin

text \<open>
  The route for the current state of the vendored REST server (\<open>getCurrentState\<close> of \<open>rest-api/v2/routes.go\<close>) over the
  plug-in (\<open>currentState\<close>): a new subscriber is told the state of the node at once, and asking gives the same.
\<close>

section \<open>The route\<close>

text \<open>
  \<open>subs\<close> and \<open>pubs\<close> are the subscriptions and publishers of the proxy itself, in the order of the visit;
  \<open>unmarshal\<close> reads the data of an event back, \<open>json\<close> writes the event; \<open>override\<close> is
  \<open>statusReceiveOverrideFn\<close>. The address is the path without its first slash.
\<close>

definition identify_asked :: "pub_sub list \<Rightarrow> pub_sub list \<Rightarrow> string \<Rightarrow> pub_sub option" where
  "identify_asked subs pubs resourceAddress =
    find (\<lambda>p. contains (psub_Resource p) resourceAddress) (if subs \<noteq> [] then subs else pubs)"

definition state_answer ::
  "(ce_event \<Rightarrow> event_data option) \<Rightarrow> (ce_event \<Rightarrow> string option) \<Rightarrow> bool \<Rightarrow> ce_event option \<Rightarrow> reply" where
  "state_answer unmarshal json err data =
    (if err then (404, None)
     else case data of
       None \<Rightarrow> (404, None)
     | Some e \<Rightarrow>
         (case unmarshal e of
           None \<Rightarrow> (404, None)
         | Some [] \<Rightarrow> (404, None)
         | Some (v # vs) \<Rightarrow>
             if dv_Resource v = [] \<or> has_suffix (dv_Resource v) ''event-not-found'' \<or> has_suffix (dv_Resource v) ''ptp-not-set''
             then (404, None)
             else (case json e of None \<Rightarrow> (400, None) | Some t \<Rightarrow> (200, Some t))))"

definition get_current_state ::
  "(ce_event \<Rightarrow> event_data option) \<Rightarrow> (ce_event \<Rightarrow> string option) \<Rightarrow> pub_sub list \<Rightarrow> pub_sub list \<Rightarrow>
    (string \<Rightarrow> 'm \<Rightarrow> (status_reply, 'm) res) option \<Rightarrow> string \<Rightarrow> rest_server \<Rightarrow> 'm \<Rightarrow> (reply, 'm) res" where
  "get_current_state unmarshal json subs pubs override resourceAddress s m =
    (if resourceAddress = [] then Ok (400, None) m
     else case identify_asked subs pubs resourceAddress of
       None \<Rightarrow> Ok (404, None) m
     | Some _ \<Rightarrow>
         (let resourceAddress = (if has_prefix resourceAddress ''/'' then resourceAddress else CHR ''/'' # resourceAddress) in
          if GetClientIDAddressByResource resourceAddress (SubscriberStore (rs_api s)) = [] then Ok (404, None) m
          else case override of
            None \<Rightarrow> Ok (404, None) m
          | Some f \<Rightarrow> res_bind (f resourceAddress m) (\<lambda>r m. Ok (state_answer unmarshal json (sr_error r) (sr_Data r)) m)))"

section \<open>The resource of the node's state\<close>

lemma split_aux_word: "d \<notin> set w \<Longrightarrow> split_aux d (w @ d # t) cur = (rev cur @ w) # split_aux d t []"
  by (induction w arbitrary: cur) auto

definition node_resource :: "string \<Rightarrow> string" where
  "node_resource n = ''/cluster/node/'' @ n @ ''/sync/sync-status/sync-state''"

lemma node_resource_join:
  assumes "plain_part n" and "n \<noteq> ''..''"
  shows "path_join [''/cluster/node'', n, ''/sync/sync-status/sync-state''] = node_resource n"
proof -
  have n: "n \<noteq> []" "n \<noteq> ''.''" "CHR ''/'' \<notin> set n" using assms(1) by (simp_all add: plain_part_def)
  show ?thesis using n assms(2) split_aux_word [OF n(3), of "''/sync/sync-status/sync-state''" "[]"]
    by (simp add: path_join_def path_clean_def str_split_def node_resource_def)
qed

lemma node_resource_found:
  "node_resource n \<noteq> []" "\<not> has_suffix (node_resource n) ''event-not-found''" "\<not> has_suffix (node_resource n) ''ptp-not-set''"
  by (simp_all add: node_resource_def has_suffix_def)

lemma has_prefix_word:
  "CHR ''/'' \<notin> set n \<Longrightarrow> CHR ''/'' \<notin> set w \<Longrightarrow>
    has_prefix (n @ CHR ''/'' # t) (w @ CHR ''/'' # p) \<longleftrightarrow> n = w \<and> has_prefix t p"
proof (induction n arbitrary: w)
  case Nil
  then show ?case by (cases w) auto
next
  case (Cons c n)
  then show ?case by (cases w) auto
qed

lemma contains_word: "CHR ''/'' \<notin> set n \<Longrightarrow> contains (n @ t) (CHR ''/'' # p) = contains t (CHR ''/'' # p)"
  by (induction n) (auto simp: contains_Cons)

lemma contains_node:
  assumes "CHR ''/'' \<notin> set n" and "has_prefix t ''/''"
  shows "contains (''/cluster/node/'' @ n @ t) (''/sync/'' @ p) \<longleftrightarrow>
    n = ''sync'' \<and> has_prefix (tl t) p \<or> contains t (''/sync/'' @ p)"
proof -
  obtain t' where t: "t = CHR ''/'' # t'" using assms(2) by (cases t) auto
  have "has_prefix (n @ t) (''sync/'' @ p) \<longleftrightarrow> n = ''sync'' \<and> has_prefix t' p"
    using has_prefix_word [OF assms(1), of "''sync''" t' p] by (simp add: t)
  then show ?thesis using contains_word [OF assms(1), of t "''sync/'' @ p"]
    by (simp add: contains_Cons) (simp add: t)
qed

lemma classify_node_resource:
  assumes "CHR ''/'' \<notin> set n"
  shows "classify_source (node_resource n) = Some (SyncStateChange, ''/sync/sync-status/sync-state'')"
proof -
  have c: "contains (node_resource n) (''/sync/'' @ p) \<longleftrightarrow>
      n = ''sync'' \<and> has_prefix ''sync/sync-status/sync-state'' p \<or> contains ''/sync/sync-status/sync-state'' (''/sync/'' @ p)" for p
    using contains_node [OF assms, of "''/sync/sync-status/sync-state''" p] by (simp add: node_resource_def)
  show ?thesis
    using c [of "''ptp-status/lock-state''"] c [of "''sync-status/os-clock-sync-state''"] c [of "''ptp-status/clock-class''"]
      c [of "''ptp-status/ptp-clock-class-change''"] c [of "''gnss-status/gnss-sync-status''"] c [of "''sync-status/sync-state''"]
    by (simp add: classify_source_def event_resource_def contains_Cons contains_Nil)
qed

section \<open>Told and asked\<close>

lemma store_subscription_posts: "rs_posts (snd (store_subscription env io u sub s)) = rs_posts s"
  by (auto simp: store_subscription_def fail_create_def send_out_def UpdateSubscriptionCount_def Let_def
      split: option.split prod.split)

lemma post_tells:
  assumes "acceptable env b sub u s" and "re_current env = Some current" and "current (psub_Resource sub) = (False, Some e)"
  shows "rs_posts (snd (post_subscription env io (Some b) s)) = rs_posts s @ [(u, e\<lparr>ev_ID := re_uuid env (rs_uuids s + 1)\<rparr>)]"
proof -
  have n: "\<not> list_ex (\<lambda>(id, address). address = Some u)
      (GetClientIDAddressByResource (psub_Resource sub) (SubscriberStore (rs_api s)))"
    using assms(1) by (auto simp: acceptable_def list_ex_iff)
  show ?thesis
    using assms n
    by (simp add: post_subscription_def acceptable_def new_uuid_def notify_and_store_def notify_def store_subscription_posts
        Let_def StatusBadRequest_def)
qed

text \<open>The event says that the node is in the state.\<close>

definition says_state :: "sync_state \<Rightarrow> string \<Rightarrow> ce_event \<Rightarrow> bool" where
  "says_state state r e \<longleftrightarrow> ev_Data e = [\<lparr>dv_Resource = r, dv_DataType = NOTIFICATION, dv_ValueType = ENUMERATION, dv_Value = VState state\<rparr>]"

lemma plugin_says:
  assumes "alike m" and "state \<in> set (node_states m)" and "can_answer SyncStateChange m"
    and "resourcePrefix m = ''/cluster/node''" and "plain_part (nodeName m)" and "nodeName m \<noteq> ''..''"
  shows "\<exists>e. currentState (node_resource (nodeName m)) m =
      Ok \<lparr>sr_Data = Some e, sr_ReturnAddress = Some (node_resource (nodeName m)), sr_error = False\<rparr> m \<and>
    says_state (GetNodeSyncState state m) (node_resource (nodeName m)) e"
proof -
  have "CHR ''/'' \<notin> set (nodeName m)" using assms(5) by (simp add: plain_part_def)
  from current_state_sync [OF assms(1-3) classify_node_resource [OF this]] show ?thesis
    by (simp add: says_state_def assms(4) node_resource_join [OF assms(5,6)])
qed

text \<open>Asking for the state of a node that has a publisher and a subscription to its resource.\<close>

lemma asked_answer:
  assumes "GetClientIDAddressByResource (node_resource n) (SubscriberStore (rs_api s)) \<noteq> []" and "node_resource n \<in> psub_Resource ` set pubs"
    and "f (node_resource n) m = Ok \<lparr>sr_Data = Some e, sr_ReturnAddress = ret, sr_error = False\<rparr> m"
    and "unmarshal e = Some (ev_Data e)" and "json e = Some t" and "says_state state (node_resource n) e"
  shows "get_current_state unmarshal json [] pubs (Some f) (tl (node_resource n)) s m = Ok (200, Some t) m"
proof -
  have r: "node_resource n = CHR ''/'' # tl (node_resource n)" "\<not> has_prefix (tl (node_resource n)) ''/''" "tl (node_resource n) \<noteq> []"
    by (simp_all add: node_resource_def)
  obtain p where p: "p \<in> set pubs" "psub_Resource p = node_resource n" using assms(2) by auto
  have "contains (psub_Resource p) (tl (node_resource n))" unfolding p(2) contains_iff using r(1) by (metis append_Cons append_Nil append_Nil2)
  then have "identify_asked [] pubs (tl (node_resource n)) \<noteq> None" using p(1) by (auto simp: identify_asked_def find_None_iff)
  moreover have "state_answer unmarshal json False (Some e) = (200, Some t)"
    using assms(4-6) node_resource_found by (simp add: state_answer_def says_state_def)
  ultimately show ?thesis using r assms(1,3) by (auto simp: get_current_state_def Let_def)
qed

text \<open>C38: 
  A client that subscribes to the state of the node is told the state that the plug-in reports to everybody, before
  the subscription counts; and when it asks from then on, it is answered with the state of that time.
\<close>

theorem told_and_asked:
  assumes "rest_env_ok env" and "dispatches denv env" and "rest_reach env s"
    and "acceptable (env\<lparr>re_current := Some current\<rparr>) b sub u s" and "psub_Resource sub = node_resource n"
    and "\<forall>reply m'. currentState (node_resource n) m = Ok reply m' \<longrightarrow> current (node_resource n) = (sr_error reply, sr_Data reply)"
    and "\<forall>(m, state) \<in> {(m, state), (m2, state2)}. alike m \<and> state \<in> set (node_states m) \<and> can_answer SyncStateChange m \<and>
      resourcePrefix m = ''/cluster/node'' \<and> nodeName m = n"
    and "plain_part n" and "n \<noteq> ''..''" and "node_resource n \<in> psub_Resource ` set pubs"
    and "\<forall>e. unmarshal e = Some (ev_Data e)" and "\<forall>e. json e \<noteq> None"
  shows "case post_subscription (env\<lparr>re_current := Some current\<rparr>) IoOk (Some b) s of (reply, s') \<Rightarrow> fst reply = 201 \<and>
    (\<exists>e. rs_posts s' = rs_posts s @ [(u, e)] \<and> says_state (GetNodeSyncState state m) (node_resource n) e) \<and>
    (\<exists>e t. get_current_state unmarshal json [] pubs (Some currentState) (tl (node_resource n)) s' m2 = Ok (200, Some t) m2 \<and>
      json e = Some t \<and> says_state (GetNodeSyncState state2 m2) (node_resource n) e)"
proof -
  let ?env = "env\<lparr>re_current := Some current\<rparr>"
  have inv: "rest_inv ?env denv s" using rest_reach_inv [OF assms(3,1,2)] by simp
  obtain s' so where so: "post_subscription ?env IoOk (Some b) s = ((201, Some (re_pubsub_json env (drawn_subscription ?env sub s))), s')"
      "rest_inv ?env denv s'" "HasClient (re_clientID env u) (rs_api s') = Some so" "node_resource n \<in> resources_of (sub_Store so)"
    using post_stored [OF _ _ inv assms(4)] assms(1,2,5) by auto
  have "sub_ClientID so = re_clientID env u" using rest_inv_client [OF so(2,3)] by simp
  from has_address [OF so(3) this so(4)]
  have addr: "GetClientIDAddressByResource (node_resource n) (SubscriberStore (rs_api s')) \<noteq> []" by auto
  obtain e where e: "currentState (node_resource n) m =
      Ok \<lparr>sr_Data = Some e, sr_ReturnAddress = Some (node_resource n), sr_error = False\<rparr> m"
      "says_state (GetNodeSyncState state m) (node_resource n) e"
    using plugin_says [of m state] assms(7-9) by auto
  obtain e2 where e2: "currentState (node_resource n) m2 =
      Ok \<lparr>sr_Data = Some e2, sr_ReturnAddress = Some (node_resource n), sr_error = False\<rparr> m2"
      "says_state (GetNodeSyncState state2 m2) (node_resource n) e2"
    using plugin_says [of m2 state2] assms(7-9) by auto
  have "current (psub_Resource sub) = (False, Some e)" using assms(5,6) e(1) by simp
  from post_tells [where current = current and e = e and io = IoOk, OF assms(4) _ this]
  have posts: "rs_posts s' = rs_posts s @ [(u, e\<lparr>ev_ID := re_uuid env (rs_uuids s + 1)\<rparr>)]" by (simp add: so(1))
  have "says_state (GetNodeSyncState state m) (node_resource n) (e\<lparr>ev_ID := re_uuid env (rs_uuids s + 1)\<rparr>)"
    using e(2) by (simp add: says_state_def)
  moreover obtain t where t: "json e2 = Some t" using assms(12) by blast
  moreover have "get_current_state unmarshal json [] pubs (Some currentState) (tl (node_resource n)) s' m2 = Ok (200, Some t) m2"
    using asked_answer [where f = currentState and json = json and unmarshal = unmarshal, OF addr assms(10) e2(1) _ t e2(2)] assms(11)
    by simp
  ultimately show ?thesis using posts so(1) t e2(2) by auto
qed

text \<open>The node is in HOLDOVER when the client comes, and LOCKED when it asks.\<close>

definition node_sub :: pub_sub where
  "node_sub = \<lparr>psub_ID = [], psub_Resource = node_resource ''n1'', psub_EndPoint = Some ''http://c'', psub_URILocation = None\<rparr>"

definition node_rest :: rest_env where
  "node_rest = demo_rest\<lparr>re_pubsub := (\<lambda>b. if b = ''{}'' then Some node_sub else None)\<rparr>"

definition locked_manager :: manager where
  "locked_manager = told_manager\<lparr>Stats := [(''ptp4l.0.config'', [(''master'', clk ''ptp4l'' LOCKED)])]\<rparr>"

definition told_current :: "string \<Rightarrow> bool \<times> ce_event option" where
  "told_current r = (case currentState r told_manager of Ok reply _ \<Rightarrow> (sr_error reply, sr_Data reply) | Panic _ \<Rightarrow> (True, None))"

lemma node_rest_ok: "rest_env_ok node_rest" "dispatches demo_dispatch node_rest"
  using demo_rest_ok demo_dispatches
  by (auto simp: rest_env_ok_def dispatches_def node_rest_def node_sub_def ascii_sub_def ascii_def node_resource_def)

lemma told_alike:
  "alike told_manager" "resourcePrefix told_manager = ''/cluster/node''" "nodeName told_manager = ''n1''"
  "alike locked_manager" "resourcePrefix locked_manager = ''/cluster/node''" "nodeName locked_manager = ''n1''"
  "can_answer SyncStateChange locked_manager"
  using told_can_answer [of SyncStateChange]
  by (simp_all add: alike_def locked_manager_def told_manager_def demo_manager_def NewPTPEventManager_def clk_def is_node_state_def
      GetMainClockName_def can_answer_def)

lemma locked_states: "node_states locked_manager = [LOCKED]" "GetNodeSyncState LOCKED locked_manager = LOCKED"
  by code_simp+

lemma plain_n1: "plain_part ''n1''" "''n1'' \<noteq> ''..''"
  by (simp_all add: plain_part_def)

lemma node_acceptable: "acceptable (node_rest\<lparr>re_current := Some told_current\<rparr>) ''{}'' node_sub ''http://c'' empty_server"
proof -
  have "LOCKED \<in> set (node_states told_manager)" by (simp add: told_states)
  then have "\<exists>e. told_current (node_resource ''n1'') = (False, Some e)"
    using plugin_says [of told_manager LOCKED] told_alike told_can_answer plain_n1 by (auto simp: told_current_def)
  then show ?thesis
    by (auto simp: acceptable_def node_rest_def demo_rest_def node_sub_def empty_server_def GetClientIDAddressByResource_def PutStatus_def)
qed

theorem told_and_asked_witness:
  "\<exists>s' e1 e2 t. snd (post_subscription (node_rest\<lparr>re_current := Some told_current\<rparr>) IoOk (Some ''{}'') empty_server) = s' \<and>
    rs_posts s' = [(''http://c'', e1)] \<and> says_state HOLDOVER (node_resource ''n1'') e1 \<and>
    get_current_state (\<lambda>e. Some (ev_Data e)) (\<lambda>e. Some (ev_ID e)) [] [node_sub] (Some currentState)
      (tl (node_resource ''n1'')) s' locked_manager = Ok (200, Some t) locked_manager \<and>
    says_state LOCKED (node_resource ''n1'') e2"
proof -
  have two: "\<forall>(m, state) \<in> {(told_manager, LOCKED), (locked_manager, LOCKED)}. alike m \<and> state \<in> set (node_states m) \<and>
      can_answer SyncStateChange m \<and> resourcePrefix m = ''/cluster/node'' \<and> nodeName m = ''n1''"
    using told_alike told_states locked_states told_can_answer by simp
  have "rs_posts empty_server = []" by (simp add: empty_server_def)
  then show ?thesis
    using told_and_asked [where pubs = "[node_sub]" and unmarshal = "\<lambda>e. Some (ev_Data e)" and json = "\<lambda>e. Some (ev_ID e)",
        OF node_rest_ok rest_start node_acceptable _ _ two plain_n1] told_states(2) locked_states(2)
    by (auto simp: node_sub_def told_current_def split: prod.splits)
qed

end
