(* ===== verification/Producer.thy ===== *)
theory Producer
  imports Consumer
begin

text \<open>
  \<open>examples/producer/main.go\<close>: a program that registers two publishers with a proxy and publishes an event for each,
  again and again. The network is that of \<open>Consumer\<close>.
\<close>

section \<open>Calls of the API\<close>

record producer_env =
  pr_localAPIAddr :: string
  pr_apiPath :: string
  pr_apiAddr :: string
  pr_encode :: "pub_sub \<Rightarrow> string option"
  pr_decode :: "string \<Rightarrow> pub_sub option"
  pr_event_json :: "ce_event \<Rightarrow> string option"

definition pr_request :: "producer_env \<Rightarrow> http_method \<Rightarrow> string \<Rightarrow> string \<Rightarrow> request" where
  "pr_request env m rest body = \<lparr>rq_method = m, rq_host = pr_apiAddr env, rq_path = pr_apiPath env @ rest, rq_body = body\<rparr>"

text \<open>The answer's body when the publisher is created.\<close>

definition pr_createPublisher :: "producer_env \<Rightarrow> 'p net \<Rightarrow> string \<Rightarrow> 'p \<Rightarrow> string option \<times> 'p" where
  "pr_createPublisher env net resourceAddress p =
    (case pr_encode env \<lparr>psub_ID = [], psub_Resource = resourceAddress,
        psub_EndPoint = Some (url_text (pr_localAPIAddr env) ''ack/event''), psub_URILocation = None\<rparr> of
      None \<Rightarrow> (None, p)
    | Some b \<Rightarrow>
        (let (out, p) = net (pr_request env POST_method ''publishers'' b) p; (status, b) = PostWithReturn out
         in (if status = 201 then b else None, p)))"

text \<open>An error is only logged.\<close>

definition pr_publishEvent :: "producer_env \<Rightarrow> 'p net \<Rightarrow> ce_event \<Rightarrow> 'p \<Rightarrow> 'p" where
  "pr_publishEvent env net e p =
    (case pr_event_json env e of
      None \<Rightarrow> p
    | Some b \<Rightarrow> snd (net (pr_request env POST_method ''create/event'' b) p))"

definition pr_ackEvent :: "string \<Rightarrow> int" where
  "pr_ackEvent body = (if body \<noteq> [] then 200 else 204)"

section \<open>The program\<close>

definition new_publisher :: "string \<Rightarrow> pub_sub" where
  "new_publisher r = \<lparr>psub_ID = [], psub_Resource = r, psub_EndPoint = None, psub_URILocation = None\<rparr>"

definition producer_pubs :: "pub_sub list" where
  "producer_pubs = [new_publisher ''/news-service/sports'', new_publisher ''/news-service/finance'']"

text \<open>The health is asked until it is good, without a bound.\<close>

partial_function (option) await_health :: "'p net \<Rightarrow> request \<Rightarrow> 'p \<Rightarrow> 'p option" where
  "await_health net r p =
    (case health_answers net r 6 p of (answers, p) \<Rightarrow> if fst (APIHealthCheck answers) then Some p else await_health net r p)"

text \<open>A publisher that cannot be created, or whose answer cannot be read, stays as it was.\<close>

fun create_publishers_of :: "producer_env \<Rightarrow> 'p net \<Rightarrow> pub_sub list \<Rightarrow> 'p \<Rightarrow> pub_sub list \<times> 'p" where
  "create_publishers_of env net [] p = ([], p)"
| "create_publishers_of env net (pub # pubs) p =
    (let (result, p) = pr_createPublisher env net (psub_Resource pub) p;
         pub = (case Option.bind result (pr_decode env) of None \<Rightarrow> pub | Some q \<Rightarrow> q);
         (pubs, p) = create_publishers_of env net pubs p
     in (pub # pubs, p))"

definition producer_start :: "producer_env \<Rightarrow> 'p net \<Rightarrow> 'p \<Rightarrow> (pub_sub list \<times> 'p) option" where
  "producer_start env net p =
    map_option (create_publishers_of env net producer_pubs) (await_health net (pr_request env GET_method ''health'' []) p)"

definition producer_event :: "pub_sub \<Rightarrow> ce_event" where
  "producer_event pub = \<lparr>ev_ID = psub_ID pub, ev_Type = event_type_name PtpStateChange, ev_Source = [],
     ev_Data = [\<lparr>dv_Resource = psub_Resource pub, dv_DataType = NOTIFICATION, dv_ValueType = ENUMERATION,
       dv_Value = VState ACQUIRING_SYNC\<rparr>]\<rparr>"

text \<open>One tick of five seconds.\<close>

definition producer_tick :: "producer_env \<Rightarrow> 'p net \<Rightarrow> pub_sub list \<Rightarrow> 'p \<Rightarrow> 'p" where
  "producer_tick env net pubs p = fold (\<lambda>pub. pr_publishEvent env net (producer_event pub)) pubs p"

section \<open>Waiting for the proxy\<close>

text \<open>The peer after \<open>n\<close> requests, and whether the n-th was answered with 200.\<close>

definition after_asks :: "'p net \<Rightarrow> request \<Rightarrow> nat \<Rightarrow> 'p \<Rightarrow> 'p" where
  "after_asks net r n = (snd \<circ> net r) ^^ n"

definition says_ok :: "'p net \<Rightarrow> request \<Rightarrow> nat \<Rightarrow> 'p \<Rightarrow> bool" where
  "says_ok net r n p \<longleftrightarrow> (\<exists>b. fst (net r (after_asks net r n p)) \<in> {Answered 200 b, BodyFailed 200})"

lemma after_asks_simps [simp]:
  "after_asks net r 0 p = p" "after_asks net r (Suc n) p = after_asks net r n (snd (net r p))"
  by (simp_all add: after_asks_def funpow_swap1)

lemma says_ok_Suc: "says_ok net r (Suc n) p = says_ok net r n (snd (net r p))"
  by (simp add: says_ok_def)

text \<open>Six requests, or as many as it takes to the first good answer.\<close>

lemma health_answers_spec:
  "(if \<exists>i < n. says_ok net r i p
    then Some 200 \<in> set (fst (health_answers net r n p)) \<and> (\<exists>i < n. says_ok net r i p \<and> (\<forall>j < i. \<not> says_ok net r j p) \<and>
      snd (health_answers net r n p) = after_asks net r (Suc i) p)
    else Some 200 \<notin> set (fst (health_answers net r n p)) \<and> snd (health_answers net r n p) = after_asks net r n p) \<and>
   length (fst (health_answers net r n p)) \<le> n"
proof (induction n arbitrary: p)
  case 0
  then show ?case by simp
next
  case (Suc n)
  obtain out p1 where o: "net r p = (out, p1)" by (rule prod.exhaust)
  let ?s = "case out of Answered code _ \<Rightarrow> Some code | BodyFailed code \<Rightarrow> Some code | _ \<Rightarrow> None"
  have z: "says_ok net r 0 p \<longleftrightarrow> ?s = Some 200"
    by (cases out) (auto simp: says_ok_def o)
  have ex: "(\<exists>i < Suc n. says_ok net r i p) \<longleftrightarrow> says_ok net r 0 p \<or> (\<exists>i < n. says_ok net r i p1)"
    by (auto simp: o says_ok_Suc less_Suc_eq_0_disj)
  show ?case
  proof (cases "?s = Some 200")
    case True
    then show ?thesis using z ex by (auto simp: o Let_def intro!: exI [of _ 0])
  next
    case False
    then have n0: "\<not> says_ok net r 0 p" using z by simp
    obtain rest p2 where r: "health_answers net r n p1 = (rest, p2)" by (rule prod.exhaust)
    have h: "health_answers net r (Suc n) p = (?s # rest, p2)" using False by (simp add: o r Let_def)
    show ?thesis
    proof (cases "\<exists>i < n. says_ok net r i p1")
      case True
      then obtain i where i: "i < n" "says_ok net r i p1" "\<forall>j < i. \<not> says_ok net r j p1" "p2 = after_asks net r (Suc i) p1"
          "Some 200 \<in> set rest" "length rest \<le> n"
        using Suc.IH [of p1] r by auto
      have "\<not> says_ok net r j p" if "j < Suc i" for j using that i(3) n0 by (cases j) (auto simp: says_ok_Suc o)
      then have "\<exists>i < Suc n. says_ok net r i p \<and> (\<forall>j < i. \<not> says_ok net r j p) \<and> p2 = after_asks net r (Suc i) p"
        using i(1,2,4) by (intro exI [of _ "Suc i"]) (simp add: says_ok_Suc o)
      then show ?thesis using h ex True i(5,6) by auto
    next
      case F: False
      then show ?thesis using h ex n0 False Suc.IH [of p1] r by (auto simp: o)
    qed
  qed
qed

lemma says_ok_shift: "says_ok net r i (after_asks net r n p) = says_ok net r (n + i) p"
  by (induction n arbitrary: p) (simp_all add: says_ok_Suc)

lemma after_asks_shift: "after_asks net r i (after_asks net r n p) = after_asks net r (n + i) p"
  by (induction n arbitrary: p) simp_all

lemma checked: "fst (APIHealthCheck (fst (health_answers net r 6 p))) \<longleftrightarrow> (\<exists>i < 6. says_ok net r i p)"
  using health_answers_spec [of 6 net r p] health_loop_ok [of 6 "fst (health_answers net r 6 p)" False]
  by (auto simp: APIHealthCheck_def split: if_splits)

text \<open>One round.\<close>

lemma await_step:
  "await_health net r p = (if \<exists>i < 6. says_ok net r i p then Some (snd (health_answers net r 6 p))
    else await_health net r (after_asks net r 6 p))"
proof -
  have "await_health net r p = (if fst (APIHealthCheck (fst (health_answers net r 6 p)))
      then Some (snd (health_answers net r 6 p)) else await_health net r (snd (health_answers net r 6 p)))"
    by (subst await_health.simps) (simp add: split_def)
  moreover have "snd (health_answers net r 6 p) = after_asks net r 6 p" if "\<not> (\<exists>i < 6. says_ok net r i p)"
    using health_answers_spec [of 6 net r p] unfolding if_not_P [OF that] by blast
  ultimately show ?thesis unfolding checked by (metis (full_types))
qed

lemma await_returns:
  "says_ok net r n p \<Longrightarrow> (\<forall>j < n. \<not> says_ok net r j p) \<Longrightarrow> await_health net r p = Some (after_asks net r (Suc n) p)"
proof (induction n arbitrary: p rule: less_induct)
  case (less n)
  show ?case
  proof (cases "n < 6")
    case True
    then have e: "\<exists>i < 6. says_ok net r i p" using less.prems(1) by blast
    then obtain i where i: "i < 6" "says_ok net r i p" "\<forall>j < i. \<not> says_ok net r j p"
        "snd (health_answers net r 6 p) = after_asks net r (Suc i) p"
      using health_answers_spec [of 6 net r p] by auto
    have "i = n" using i(2,3) less.prems by (metis nat_neq_iff)
    then show ?thesis using e i(4) by (subst await_step) simp
  next
    case False
    then have e: "\<not> (\<exists>i < 6. says_ok net r i p)" using less.prems(2) by auto
    have "await_health net r (after_asks net r 6 p) = Some (after_asks net r (Suc (n - 6)) (after_asks net r 6 p))"
      using less.prems False by (intro less.IH) (auto simp: says_ok_shift)
    moreover have "6 + Suc (n - 6) = Suc n" using False by simp
    ultimately have "await_health net r (after_asks net r 6 p) = Some (after_asks net r (Suc n) p)" by (simp only: after_asks_shift)
    then show ?thesis by (subst await_step) (simp only: if_not_P [OF e])
  qed
qed

lemma await_for_ever: "await_health net r p = Some p' \<Longrightarrow> \<exists>n. says_ok net r n p"
proof -
  assume a: "await_health net r p = Some p'"
  have "\<exists>n. says_ok net r n p"
    using a
  proof (rule await_health.raw_induct [where P = "\<lambda>net r p p'. \<exists>n. says_ok net r n p", rotated], goal_cases)
    case (1 rec net r p p')
    show ?case
    proof (cases "\<exists>i < 6. says_ok net r i p")
      case False
      then have "rec net r (snd (health_answers net r 6 p)) = Some p'"
        using 1(2) by (simp add: split_def checked split: if_splits)
      moreover have "snd (health_answers net r 6 p) = after_asks net r 6 p"
        using False health_answers_spec [of 6 net r p] by (simp split: if_splits)
      ultimately have "\<exists>n. says_ok net r n (after_asks net r 6 p)" using 1(1) by simp
      then show ?thesis by (auto simp: says_ok_shift)
    qed auto
  qed
  then show ?thesis .
qed

text \<open>C40: 
  The producer starts with the first good answer of the proxy, having sent nothing but the questions; without a good
  answer it asks for ever.
\<close>

theorem producer_waits:
  "if \<exists>n. says_ok net r n p
   then await_health net r p = Some (after_asks net r (Suc (LEAST n. says_ok net r n p)) p)
   else await_health net r p = None"
proof (cases "\<exists>n. says_ok net r n p")
  case True
  then have "says_ok net r (LEAST n. says_ok net r n p) p" by (rule LeastI_ex)
  then show ?thesis using True await_returns not_less_Least by (metis (mono_tags, lifting))
next
  case False
  then show ?thesis using await_for_ever by (metis option.exhaust)
qed

end
