(* ===== verification/PubRoutes.thy ===== *)
theory PubRoutes
  imports StateRoute Producer
begin

text \<open>
  The publishers of the proxy (vendored \<open>sdk-go/v1/pubsub/pubsub.go\<close>) and the routes of the REST server for them
  (\<open>rest-api/v2/routes.go\<close>), against which the example producer runs.
  A reply is its status and its body: of a message the text, without the object around it; of an error nothing.
\<close>

section \<open>The store\<close>

record pub_api =
  pubStore :: "(string, pub_sub) gomap"
  pubFile :: "string option"               \<comment> \<open>the content of \<open>pub.json\<close>\<close>

record pub_env =
  pe_list :: "string \<Rightarrow> pub_sub list option"
  pe_list_json :: "pub_sub list \<Rightarrow> string option"
  pe_check :: "nat \<Rightarrow> http_outcome"            \<comment> \<open>the answer of an endpoint to its n-th validation\<close>
  pe_base :: string                        \<comment> \<open>the URL of the publishers, with the slash\<close>
  pe_event :: "string \<Rightarrow> ce_event option"
  pe_converts :: "ce_event \<Rightarrow> bool"             \<comment> \<open>\<open>NewCloudEventV2\<close> succeeds\<close>

definition HasPublisher :: "string \<Rightarrow> pub_api \<Rightarrow> pub_sub option" where
  "HasPublisher address a = map_option snd (find (\<lambda>(k, p). psub_Resource p = address) (pubStore a))"

definition GetPublisher :: "string \<Rightarrow> pub_api \<Rightarrow> pub_sub option" where
  "GetPublisher publisherID a = map_of (pubStore a) publisherID"

text \<open>Reading the list in the file, after opening it: an error, or the list; the file is there afterwards.\<close>

definition read_pubs :: "pub_env \<Rightarrow> file_io \<Rightarrow> string option \<Rightarrow> pub_sub list option \<times> string option" where
  "read_pubs pe io f =
    (if io = OpenFails then (None, f)
     else
       (let b = (case f of None \<Rightarrow> [] | Some b \<Rightarrow> b)
        in (if io = ReadFails then None else if b = [] then Some [] else pe_list pe b, Some b)))"

definition write_pubs :: "pub_env \<Rightarrow> file_io \<Rightarrow> pub_sub list \<Rightarrow> string option \<Rightarrow> bool \<times> string option" where
  "write_pubs pe io l f =
    (case pe_list_json pe l of
      None \<Rightarrow> (True, f)
    | Some t \<Rightarrow> (case io of WriteFails left \<Rightarrow> (True, Some left) | _ \<Rightarrow> (False, Some t)))"

definition pub_writeToFile :: "pub_env \<Rightarrow> file_io \<Rightarrow> pub_sub \<Rightarrow> string option \<Rightarrow> bool \<times> string option" where
  "pub_writeToFile pe io sub f =
    (case read_pubs pe io f of
      (None, f) \<Rightarrow> (True, f)
    | (Some l, f) \<Rightarrow> write_pubs pe io (l @ [sub]) f)"

text \<open>The last one takes the place of the one that is deleted.\<close>

definition drop_publisher :: "string \<Rightarrow> pub_sub list \<Rightarrow> pub_sub list" where
  "drop_publisher i l =
    (let k = length (takeWhile (\<lambda>s. psub_ID s \<noteq> i) l) in if k < length l then butlast (l[k := last l]) else l)"

definition pub_deleteFromFile :: "pub_env \<Rightarrow> file_io \<Rightarrow> pub_sub \<Rightarrow> string option \<Rightarrow> bool \<times> string option" where
  "pub_deleteFromFile pe io sub f =
    (case read_pubs pe io f of
      (None, f) \<Rightarrow> (True, f)
    | (Some l, f) \<Rightarrow> write_pubs pe io (drop_publisher (psub_ID sub) l) f)"

text \<open>A publisher that is there already is filed under the new identifier too, with its old one inside.\<close>

definition ApiCreatePublisher :: "pub_env \<Rightarrow> file_io \<Rightarrow> string \<Rightarrow> pub_sub \<Rightarrow> pub_api \<Rightarrow> pub_sub option \<times> pub_api" where
  "ApiCreatePublisher pe io fresh pub a =
    (case HasPublisher (psub_Resource pub) a of
      Some pubExists \<Rightarrow> (Some pubExists, a\<lparr>pubStore := AList.update (psub_ID pub) pubExists (pubStore a)\<rparr>)
    | None \<Rightarrow>
        (let pub = (if psub_ID pub = [] then pub\<lparr>psub_ID := fresh\<rparr> else pub);
             (err, f) = pub_writeToFile pe io pub (pubFile a);
             a = a\<lparr>pubFile := f\<rparr>
         in if err then (None, a) else (Some pub, a\<lparr>pubStore := AList.update (psub_ID pub) pub (pubStore a)\<rparr>)))"

text \<open>The flag is the error; the store loses the publisher either way.\<close>

definition ApiDeletePublisher :: "pub_env \<Rightarrow> file_io \<Rightarrow> string \<Rightarrow> pub_api \<Rightarrow> bool \<times> pub_api" where
  "ApiDeletePublisher pe io publisherID a =
    (case map_of (pubStore a) publisherID of
      None \<Rightarrow> (False, a)
    | Some pub \<Rightarrow>
        (let (err, f) = pub_deleteFromFile pe io pub (pubFile a)
         in (err, a\<lparr>pubFile := f, pubStore := AList.delete publisherID (pubStore a)\<rparr>)))"

definition ApiDeleteAllPublishers :: "file_io \<Rightarrow> pub_api \<Rightarrow> bool \<times> pub_api" where
  "ApiDeleteAllPublishers io a =
    (case io of
      IoOk \<Rightarrow> (False, a\<lparr>pubFile := Some [], pubStore := []\<rparr>)
    | WriteFails left \<Rightarrow> (True, a\<lparr>pubFile := Some left\<rparr>)
    | _ \<Rightarrow> (True, a))"

text \<open>At the start the publishers of the file are taken in.\<close>

definition pub_ReloadStore :: "pub_env \<Rightarrow> file_io \<Rightarrow> pub_api \<Rightarrow> pub_api" where
  "pub_ReloadStore pe io a =
    (case read_pubs pe io (pubFile a) of
      (r, f) \<Rightarrow> a\<lparr>pubFile := f, pubStore :=
        fold (\<lambda>p. AList.update (psub_ID p) p) (case r of None \<Rightarrow> [] | Some l \<Rightarrow> l) (pubStore a)\<rparr>)"

section \<open>The routes\<close>

record pub_server =
  ps_rest :: rest_server
  ps_api :: pub_api
  ps_checks :: "string list"                   \<comment> \<open>validations sent\<close>
  ps_counts :: "(sub_count \<times> int) list"
  ps_published :: "(string \<times> bool) list"        \<comment> \<open>\<open>UpdateEventPublishedCount\<close>\<close>

definition UpdatePublisherCount :: "sub_count \<Rightarrow> int \<Rightarrow> pub_server \<Rightarrow> pub_server" where
  "UpdatePublisherCount k n s = s\<lparr>ps_counts := ps_counts s @ [(k, n)]\<rparr>"

definition UpdateEventPublishedCount :: "string \<Rightarrow> bool \<Rightarrow> pub_server \<Rightarrow> pub_server" where
  "UpdateEventPublishedCount address okay s = s\<lparr>ps_published := ps_published s @ [(address, okay)]\<rparr>"

definition draw_uuid :: "rest_env \<Rightarrow> pub_server \<Rightarrow> string \<times> pub_server" where
  "draw_uuid env s = (let (id, r) = new_uuid env (ps_rest s) in (id, s\<lparr>ps_rest := r\<rparr>))"

definition fail_publisher :: "pub_server \<Rightarrow> reply \<times> pub_server" where
  "fail_publisher s = ((400, None), UpdatePublisherCount FAILCREATE_count 1 s)"

definition no_event :: ce_event where
  "no_event = \<lparr>ev_ID = [], ev_Type = [], ev_Source = [], ev_Data = []\<rparr>"

definition sendOut :: "pub_sub \<Rightarrow> pub_server \<Rightarrow> pub_server" where
  "sendOut sub s = s\<lparr>ps_rest := send_out \<lparr>dc_Type = PUBLISHER_kind, dc_Status = NEW_status, dc_Data = Some no_event,
     dc_Address = psub_Resource sub, dc_ClientID = 0, ProcessEventFn = None\<rparr> (ps_rest s)\<rparr>"

text \<open>An endpoint must answer an empty POST with 204.\<close>

definition validate_endpoint :: "pub_env \<Rightarrow> string \<Rightarrow> pub_server \<Rightarrow> bool \<times> pub_server" where
  "validate_endpoint pe uri s =
    (if uri = [] then (True, s)
     else (case pe_check pe (length (ps_checks s)) of
         Answered code _ \<Rightarrow> code = 204 | BodyFailed code \<Rightarrow> code = 204 | _ \<Rightarrow> False,
       s\<lparr>ps_checks := ps_checks s @ [uri]\<rparr>))"

definition create_publisher :: "rest_env \<Rightarrow> pub_env \<Rightarrow> file_io \<Rightarrow> string option \<Rightarrow> pub_server \<Rightarrow> reply \<times> pub_server" where
  "create_publisher env pe io body s =
    (case body of
      None \<Rightarrow> ((400, None), s)
    | Some b \<Rightarrow>
        (case re_pubsub env b of
          None \<Rightarrow> fail_publisher s
        | Some pub \<Rightarrow>
            (let (valid, s) = validate_endpoint pe (case psub_EndPoint pub of None \<Rightarrow> [] | Some u \<Rightarrow> u) s in
             if \<not> valid then fail_publisher s
             else
               (let (id, s) = draw_uuid env s;
                    pub = pub\<lparr>psub_ID := id, psub_URILocation := trimmed (pe_base pe @ id)\<rparr>;
                    (r, a) = ApiCreatePublisher pe io [] pub (ps_api s);
                    s = s\<lparr>ps_api := a\<rparr>
                in case r of
                     None \<Rightarrow> fail_publisher s
                   | Some newPub \<Rightarrow>
                       ((201, Some (re_pubsub_json env newPub)), UpdatePublisherCount ACTIVE_count 1 (sendOut newPub s))))))"

definition get_publisher_by_id :: "rest_env \<Rightarrow> string \<Rightarrow> pub_server \<Rightarrow> reply" where
  "get_publisher_by_id env i s =
    (case GetPublisher i (ps_api s) of None \<Rightarrow> (400, None) | Some pub \<Rightarrow> (200, Some (re_pubsub_json env pub)))"

text \<open>The content of the file, which is created when it is missing.\<close>

definition get_publishers :: "file_io \<Rightarrow> pub_server \<Rightarrow> reply \<times> pub_server" where
  "get_publishers io s =
    (let b = (case pubFile (ps_api s) of None \<Rightarrow> [] | Some b \<Rightarrow> b) in
     if io = OpenFails then ((400, None), s)
     else (if io = ReadFails then (400, None) else (200, Some b), s\<lparr>ps_api := (ps_api s)\<lparr>pubFile := Some b\<rparr>\<rparr>))"

definition delete_publisher :: "pub_env \<Rightarrow> file_io \<Rightarrow> string \<Rightarrow> pub_server \<Rightarrow> reply \<times> pub_server" where
  "delete_publisher pe io i s =
    (let (err, a) = ApiDeletePublisher pe io i (ps_api s); s = s\<lparr>ps_api := a\<rparr> in
     if err then ((400, None), UpdatePublisherCount FAILDELETE_count 1 s)
     else ((200, Some ''OK''), UpdatePublisherCount ACTIVE_count (-1) s))"

definition delete_all_publishers :: "file_io \<Rightarrow> pub_server \<Rightarrow> reply \<times> pub_server" where
  "delete_all_publishers io s =
    (let size = length (pubStore (ps_api s)); (err, a) = ApiDeleteAllPublishers io (ps_api s); s = s\<lparr>ps_api := a\<rparr> in
     if err then ((400, None), s)
     else ((200, Some ''deleted all publishers''), if size > 0 then UpdatePublisherCount ACTIVE_count (- int size) s else s))"

text \<open>The identifier of the event is that of its publisher; the event sent has one of its own.\<close>

definition publish_event :: "rest_env \<Rightarrow> pub_env \<Rightarrow> string option \<Rightarrow> pub_server \<Rightarrow> reply \<times> pub_server" where
  "publish_event env pe body s =
    (case Option.bind body (pe_event pe) of
      None \<Rightarrow> ((400, None), s)
    | Some e \<Rightarrow>
        (case GetPublisher (ev_ID e) (ps_api s) of
          None \<Rightarrow> ((400, None), UpdateEventPublishedCount (ev_ID e) False s)
        | Some pub \<Rightarrow>
            (let (id, s) = draw_uuid env s in
             if \<not> pe_converts pe e then ((400, None), UpdateEventPublishedCount (psub_Resource pub) False s)
             else ((202, Some ''Event sent''), UpdateEventPublishedCount (psub_Resource pub) True
               (s\<lparr>ps_rest := send_out \<lparr>dc_Type = EVENT_kind, dc_Status = NEW_status, dc_Data = Some (e\<lparr>ev_ID := id\<rparr>),
                  dc_Address = psub_Resource pub, dc_ClientID = 0, ProcessEventFn = None\<rparr> (ps_rest s)\<rparr>)))))"

text \<open>A subscription by its identifier, at the first client that has it.\<close>

definition get_subscription_by_id :: "rest_env \<Rightarrow> string \<Rightarrow> rest_server \<Rightarrow> reply" where
  "get_subscription_by_id env i s =
    (case find (\<lambda>sub. sub \<noteq> None) (map (\<lambda>c. GetSubscription c i (rs_api s)) (GetClientIDBySubID i (rs_api s))) of
      Some (Some sub) \<Rightarrow> (200, Some (re_pubsub_json env sub))
    | _ \<Rightarrow> (404, None))"

end
