(* ===== verification/ProducerServer.thy ===== *)
theory ProducerServer
  imports PubRoutes
begin

text \<open>
  The example producer against the REST server: whatever publishers the server has, the producer comes up, and every
  tick hands the dispatcher one new event for each of its two resources.
\<close>

section \<open>The server on the network\<close>

definition pub_net :: "rest_env \<Rightarrow> pub_env \<Rightarrow> string \<Rightarrow> string \<Rightarrow> (request \<Rightarrow> http_outcome) \<Rightarrow> pub_server net" where
  "pub_net env pe host base other r s =
    (let answer = (\<lambda>rs :: reply \<times> pub_server.
       (Answered (fst (fst rs)) (case snd (fst rs) of None \<Rightarrow> [] | Some b \<Rightarrow> b), snd rs)) in
     if rq_host r \<noteq> host then (ConnectionFailed DNSFailure, s)
     else if rq_path r = base @ ''health'' \<and> rq_method r = GET_method then (Answered 200 ''OK'', s)
     else if rq_path r = base @ ''publishers'' \<and> rq_method r = POST_method
       then answer (create_publisher env pe IoOk (Some (rq_body r)) s)
     else if rq_path r = base @ ''create/event'' \<and> rq_method r = POST_method
       then answer (publish_event env pe (Some (rq_body r)) s)
     else (other r, s))"

section \<open>Publishers of the server\<close>

text \<open>
  Every publisher can be found by the identifier it carries; the identifiers were drawn, and the file can be read.
\<close>

definition publishers_ok :: "rest_env \<Rightarrow> pub_env \<Rightarrow> pub_server \<Rightarrow> bool" where
  "publishers_ok env pe s \<longleftrightarrow>
     (\<forall>(k, v) \<in> set (pubStore (ps_api s)). ascii_sub v \<and> (\<exists>w. GetPublisher (psub_ID v) (ps_api s) = Some w \<and> psub_Resource w = psub_Resource v)) \<and>
     fst ` set (pubStore (ps_api s)) \<subseteq> re_uuid env ` {..<rs_uuids (ps_rest s)} \<and> rest_env_ok env \<and>
     (\<forall>b. pubFile (ps_api s) = Some b \<and> b \<noteq> [] \<longrightarrow> pe_list pe b \<noteq> None) \<and>
     (\<forall>l. \<exists>t. pe_list_json pe l = Some t \<and> pe_list pe t \<noteq> None)"

lemma pub_writeToFile_ok:
  assumes "publishers_ok env pe s"
  shows "\<exists>f. pub_writeToFile pe IoOk pub (pubFile (ps_api s)) = (False, Some f) \<and> pe_list pe f \<noteq> None"
proof -
  let ?b = "case pubFile (ps_api s) of None \<Rightarrow> [] | Some b \<Rightarrow> b"
  have "\<exists>l. (if ?b = [] then Some [] else pe_list pe ?b) = Some l"
    using assms by (cases "pubFile (ps_api s)") (auto simp: publishers_ok_def)
  then obtain l where "read_pubs pe IoOk (pubFile (ps_api s)) = (Some l, Some ?b)" by (auto simp: read_pubs_def Let_def)
  moreover have "\<forall>l. \<exists>t. pe_list_json pe l = Some t \<and> pe_list pe t \<noteq> None" using assms by (simp add: publishers_ok_def)
  then obtain t where "pe_list_json pe (l @ [pub]) = Some t" "pe_list pe t \<noteq> None" by blast
  ultimately show ?thesis by (simp add: pub_writeToFile_def write_pubs_def)
qed

lemma fresh_publisher:
  assumes "publishers_ok env pe s"
  shows "GetPublisher (re_uuid env (rs_uuids (ps_rest s))) (ps_api s) = None"
proof -
  have "re_uuid env (rs_uuids (ps_rest s)) \<notin> re_uuid env ` {..<rs_uuids (ps_rest s)}"
    using assms by (auto simp: publishers_ok_def rest_env_ok_def dest: injD)
  then show ?thesis using assms unfolding publishers_ok_def GetPublisher_def map_of_eq_None_iff by blast
qed

text \<open>What a new entry of the store keeps.\<close>

lemma publishers_ok_put:
  assumes ok: "publishers_ok env pe s" and n: "n = rs_uuids (ps_rest s)"
    and s': "pubStore (ps_api s') = AList.update (re_uuid env n) v (pubStore (ps_api s))" "rs_uuids (ps_rest s') = n + 1"
      "\<And>b. pubFile (ps_api s') = Some b \<Longrightarrow> b \<noteq> [] \<Longrightarrow> pe_list pe b \<noteq> None"
    and v: "ascii_sub v \<and> (\<exists>w. GetPublisher (psub_ID v) (ps_api s') = Some w \<and> psub_Resource w = psub_Resource v)"
  shows "publishers_ok env pe s'"
proof -
  have get: "GetPublisher k (ps_api s') = (if k = re_uuid env n then Some v else GetPublisher k (ps_api s))" for k
    by (simp add: GetPublisher_def s'(1) update_conv')
  have old: "GetPublisher k (ps_api s') = Some w" if "GetPublisher k (ps_api s) = Some w" for k w
    using that fresh_publisher [OF ok] by (auto simp: get n)
  have entry: "(k, x) \<in> set (pubStore (ps_api s')) \<Longrightarrow> x = v \<or> (k, x) \<in> set (pubStore (ps_api s))" for k x
    using set_AList_update [of "re_uuid env n" v "pubStore (ps_api s)"] by (auto simp: s'(1))
  have "ascii_sub x \<and> (\<exists>w. GetPublisher (psub_ID x) (ps_api s') = Some w \<and> psub_Resource w = psub_Resource x)"
    if "(k, x) \<in> set (pubStore (ps_api s'))" for k x
    using entry [OF that] v old ok by (fastforce simp: publishers_ok_def)
  moreover have "fst ` set (pubStore (ps_api s')) \<subseteq> re_uuid env ` {..<rs_uuids (ps_rest s')}"
  proof -
    have "fst ` set (pubStore (ps_api s')) \<subseteq> insert (re_uuid env n) (fst ` set (pubStore (ps_api s)))"
      using entry set_AList_update [of "re_uuid env n" v "pubStore (ps_api s)"] by (force simp: s'(1))
    also have "\<dots> \<subseteq> insert (re_uuid env n) (re_uuid env ` {..<n})" using ok unfolding publishers_ok_def n by blast
    also have "\<dots> = re_uuid env ` {..<n + 1}" by (auto simp: lessThan_Suc)
    finally show ?thesis by (simp only: s'(2))
  qed
  ultimately show ?thesis using ok s'(3) by (auto simp: publishers_ok_def)
qed

section \<open>Creating\<close>

text \<open>
  Producer and server read what the other writes, the producer runs at the server's address, and answers the
  validation of its endpoint.
\<close>

definition ack_publisher :: "producer_env \<Rightarrow> string \<Rightarrow> pub_sub" where
  "ack_publisher penv r = \<lparr>psub_ID = [], psub_Resource = r, psub_EndPoint = Some (url_text (pr_localAPIAddr penv) ''ack/event''),
     psub_URILocation = None\<rparr>"

definition producer_understood :: "producer_env \<Rightarrow> rest_env \<Rightarrow> pub_env \<Rightarrow> bool" where
  "producer_understood penv env pe \<longleftrightarrow>
     (\<forall>r. ascii r \<longrightarrow> (\<exists>b. pr_encode penv (ack_publisher penv r) = Some b \<and> re_pubsub env b = Some (ack_publisher penv r))) \<and>
     (\<forall>v. ascii_sub v \<longrightarrow> pr_decode penv (re_pubsub_json env v) = Some v) \<and>
     (\<forall>v. ascii_sub v \<longrightarrow> pe_converts pe (producer_event v) \<and>
       (\<exists>b. pr_event_json penv (producer_event v) = Some b \<and> pe_event pe b = Some (producer_event v))) \<and>
     (\<forall>n. \<exists>b. pe_check pe n = Answered (pr_ackEvent []) b) \<and> ascii (pe_base pe)"

text \<open>The publisher that comes back is filed under its identifier, with the resource asked for.\<close>

definition filed_for :: "string \<Rightarrow> pub_api \<Rightarrow> pub_sub \<Rightarrow> bool" where
  "filed_for r a v \<longleftrightarrow> psub_Resource v = r \<and> ascii_sub v \<and> (\<exists>w. GetPublisher (psub_ID v) a = Some w \<and> psub_Resource w = r)"

lemma api_create_ok:
  assumes ok: "publishers_ok env pe s" and n: "n = rs_uuids (ps_rest s)" and pub: "psub_ID pub = re_uuid env n" "ascii_sub pub"
  shows "\<exists>v f. ApiCreatePublisher pe IoOk fresh pub (ps_api s) =
      (Some v, \<lparr>pubStore = AList.update (re_uuid env n) v (pubStore (ps_api s)), pubFile = f\<rparr>) \<and>
    (\<forall>b. f = Some b \<and> b \<noteq> [] \<longrightarrow> pe_list pe b \<noteq> None) \<and> psub_Resource v = psub_Resource pub \<and> ascii_sub v \<and>
    (psub_ID v = re_uuid env n \<or> filed_for (psub_Resource pub) (ps_api s) v)"
proof (cases "HasPublisher (psub_Resource pub) (ps_api s)")
  case None
  have "psub_ID pub \<noteq> []" using ok pub(1) by (simp add: publishers_ok_def rest_env_ok_def)
  moreover obtain f where "pub_writeToFile pe IoOk pub (pubFile (ps_api s)) = (False, Some f)" "pe_list pe f \<noteq> None"
    using pub_writeToFile_ok [OF ok] by blast
  ultimately show ?thesis using None pub by (intro exI [of _ pub] exI [of _ "Some f"]) (simp add: ApiCreatePublisher_def)
next
  case (Some v)
  then obtain k where k: "(k, v) \<in> set (pubStore (ps_api s))" "psub_Resource v = psub_Resource pub"
    unfolding HasPublisher_def by (auto simp: find_Some_iff) (metis nth_mem)
  then have "filed_for (psub_Resource pub) (ps_api s) v" using ok by (auto simp: publishers_ok_def filed_for_def)
  then show ?thesis
    using Some k(2) pub ok by (intro exI [of _ v] exI [of _ "pubFile (ps_api s)"])
      (simp add: ApiCreatePublisher_def publishers_ok_def filed_for_def)
qed

lemma create_publisher_ok:
  assumes ok: "publishers_ok env pe s" and b: "re_pubsub env b = Some pub" and base: "ascii (pe_base pe)"
    and c: "\<forall>n. \<exists>b. pe_check pe n = Answered 204 b"
  shows "\<exists>v s'. create_publisher env pe IoOk (Some b) s = ((201, Some (re_pubsub_json env v)), s') \<and> publishers_ok env pe s' \<and>
    filed_for (psub_Resource pub) (ps_api s') v \<and> (\<forall>r w. filed_for r (ps_api s) w \<longrightarrow> filed_for r (ps_api s') w)"
proof -
  let ?n = "rs_uuids (ps_rest s)" and ?u = "case psub_EndPoint pub of None \<Rightarrow> [] | Some u \<Rightarrow> u"
  let ?pub = "pub\<lparr>psub_ID := re_uuid env ?n, psub_URILocation := trimmed (pe_base pe @ re_uuid env ?n)\<rparr>"
  obtain x where "pe_check pe (length (ps_checks s)) = Answered 204 x" using c by blast
  then obtain s1 where s1: "validate_endpoint pe ?u s = (True, s1)" "ps_api s1 = ps_api s" "ps_rest s1 = ps_rest s"
    by (cases "?u = []") (simp_all add: validate_endpoint_def)
  have env: "ascii_sub pub" "ascii (re_uuid env ?n)" using ok b by (simp_all add: publishers_ok_def rest_env_ok_def)
  have "ascii (pe_base pe @ re_uuid env ?n)" using base env(2) by (simp add: ascii_def)
  then have asc: "ascii_sub ?pub" using env trimmed_ascii by (simp add: ascii_sub_def)
  obtain v f where a: "ApiCreatePublisher pe IoOk [] ?pub (ps_api s) =
        (Some v, \<lparr>pubStore = AList.update (re_uuid env ?n) v (pubStore (ps_api s)), pubFile = f\<rparr>)"
      "\<forall>b. f = Some b \<and> b \<noteq> [] \<longrightarrow> pe_list pe b \<noteq> None" "psub_Resource v = psub_Resource pub \<and> ascii_sub v"
      "psub_ID v = re_uuid env ?n \<or> filed_for (psub_Resource pub) (ps_api s) v"
    using api_create_ok [OF ok refl, of ?pub "[]"] asc by auto
  obtain s' where s': "create_publisher env pe IoOk (Some b) s = ((201, Some (re_pubsub_json env v)), s')"
      "ps_api s' = \<lparr>pubStore = AList.update (re_uuid env ?n) v (pubStore (ps_api s)), pubFile = f\<rparr>"
      "rs_uuids (ps_rest s') = ?n + 1"
    by (simp add: create_publisher_def b s1 draw_uuid_def new_uuid_def a(1) UpdatePublisherCount_def sendOut_def send_out_def)
  have get: "GetPublisher k (ps_api s') = (if k = re_uuid env ?n then Some v else GetPublisher k (ps_api s))" for k
    by (simp add: GetPublisher_def s'(2) update_conv')
  have keep: "filed_for r (ps_api s') w" if "filed_for r (ps_api s) w" for r w
    using that fresh_publisher [OF ok] by (auto simp: filed_for_def get)
  have v: "filed_for (psub_Resource pub) (ps_api s') v"
    using a(3,4) keep by (auto simp: filed_for_def get)
  have "publishers_ok env pe s'"
    by (rule publishers_ok_put [OF ok refl]) (use a(2,3) v in \<open>auto simp: s'(2,3) filed_for_def\<close>)
  then show ?thesis using s'(1) v keep by blast
qed

text \<open>The producer's own call, for a resource that it asks for.\<close>

lemma producer_creates:
  assumes ok: "publishers_ok env pe s" and u: "producer_understood penv env pe" and h: "pr_apiAddr penv = host" and r: "ascii r"
  shows "\<exists>v s'. pr_createPublisher penv (pub_net env pe host (pr_apiPath penv) other) r s = (Some (re_pubsub_json env v), s') \<and>
    publishers_ok env pe s' \<and> filed_for r (ps_api s') v \<and> (\<forall>r w. filed_for r (ps_api s) w \<longrightarrow> filed_for r (ps_api s') w)"
proof -
  obtain b where b: "pr_encode penv (ack_publisher penv r) = Some b" "re_pubsub env b = Some (ack_publisher penv r)"
    using u r unfolding producer_understood_def by blast
  have "\<forall>n. \<exists>b. pe_check pe n = Answered 204 b" using u by (simp add: producer_understood_def pr_ackEvent_def)
  from create_publisher_ok [OF ok b(2) _ this] u obtain v s' where
    "create_publisher env pe IoOk (Some b) s = ((201, Some (re_pubsub_json env v)), s')" "publishers_ok env pe s'"
    "filed_for r (ps_api s') v" "\<forall>r w. filed_for r (ps_api s) w \<longrightarrow> filed_for r (ps_api s') w"
    by (auto simp: producer_understood_def ack_publisher_def)
  then show ?thesis
    by (intro exI [of _ v] exI [of _ s'])
      (simp add: pr_createPublisher_def b(1) [unfolded ack_publisher_def] pub_net_def pr_request_def h PostWithReturn_def Let_def)
qed

lemma producer_creates_all:
  assumes u: "producer_understood penv env pe" "pr_apiAddr penv = host"
  shows "publishers_ok env pe s \<Longrightarrow> \<forall>pub \<in> set pubs. ascii (psub_Resource pub) \<Longrightarrow>
    \<exists>vs s'. create_publishers_of penv (pub_net env pe host (pr_apiPath penv) other) pubs s = (vs, s') \<and>
    publishers_ok env pe s' \<and> list_all2 (\<lambda>p v. filed_for (psub_Resource p) (ps_api s') v) pubs vs \<and>
    (\<forall>r w. filed_for r (ps_api s) w \<longrightarrow> filed_for r (ps_api s') w)"
proof (induction pubs arbitrary: s)
  case Nil
  then show ?case by simp
next
  case (Cons pub pubs)
  obtain v s1 where 1: "pr_createPublisher penv (pub_net env pe host (pr_apiPath penv) other) (psub_Resource pub) s =
      (Some (re_pubsub_json env v), s1)" "publishers_ok env pe s1" "filed_for (psub_Resource pub) (ps_api s1) v"
      "\<forall>r w. filed_for r (ps_api s) w \<longrightarrow> filed_for r (ps_api s1) w"
    using producer_creates [OF Cons.prems(1) u] Cons.prems(2) by fastforce
  obtain vs s' where 2: "create_publishers_of penv (pub_net env pe host (pr_apiPath penv) other) pubs s1 = (vs, s')"
      "publishers_ok env pe s'" "list_all2 (\<lambda>p v. filed_for (psub_Resource p) (ps_api s') v) pubs vs"
      "\<forall>r w. filed_for r (ps_api s1) w \<longrightarrow> filed_for r (ps_api s') w"
    using Cons.IH [OF 1(2)] Cons.prems(2) by auto
  have "pr_decode penv (re_pubsub_json env v) = Some v" using u(1) 1(3) by (simp add: producer_understood_def filed_for_def)
  then show ?case using 1 2 by (intro exI [of _ "v # vs"] exI [of _ s']) simp
qed

section \<open>Publishing\<close>

text \<open>What an item of the queue says: its kind, its address and the data of its event.\<close>

definition said :: "channel_item \<Rightarrow> data_kind \<times> data_status \<times> string \<times> data_value list option" where
  "said d = (dc_Type d, dc_Status d, dc_Address d, map_option ev_Data (dc_Data d))"

definition acquiring :: "string \<Rightarrow> data_kind \<times> data_status \<times> string \<times> data_value list option" where
  "acquiring r = (EVENT_kind, NEW_status, r, Some [\<lparr>dv_Resource = r, dv_DataType = NOTIFICATION,
     dv_ValueType = ENUMERATION, dv_Value = VState ACQUIRING_SYNC\<rparr>])"

lemma producer_publishes:
  assumes u: "producer_understood penv env pe" and h: "pr_apiAddr penv = host" and f: "filed_for r (ps_api s) v"
  shows "\<exists>s' d. pr_publishEvent penv (pub_net env pe host (pr_apiPath penv) other) (producer_event v) s = s' \<and>
    ps_api s' = ps_api s \<and> rs_out (ps_rest s') = rs_out (ps_rest s) @ [d] \<and> said d = acquiring r"
proof -
  obtain b where b: "pr_event_json penv (producer_event v) = Some b" "pe_event pe b = Some (producer_event v)" "pe_converts pe (producer_event v)"
    using u f unfolding producer_understood_def filed_for_def by blast
  obtain w where w: "GetPublisher (psub_ID v) (ps_api s) = Some w" "psub_Resource w = r" "psub_Resource v = r"
    using f by (auto simp: filed_for_def)
  have "GetPublisher (ev_ID (producer_event v)) (ps_api s) = Some w" using w(1) by (simp add: producer_event_def)
  then show ?thesis
    using b w(2,3) by (simp add: pr_publishEvent_def pub_net_def pr_request_def h publish_event_def draw_uuid_def
      new_uuid_def UpdateEventPublishedCount_def send_out_def Let_def) (simp add: said_def acquiring_def producer_event_def)
qed

lemma producer_publishes_all:
  assumes u: "producer_understood penv env pe" "pr_apiAddr penv = host"
  shows "list_all2 (\<lambda>r v. filed_for r (ps_api s) v) rs pubs \<Longrightarrow>
    \<exists>ds. ps_api (producer_tick penv (pub_net env pe host (pr_apiPath penv) other) pubs s) = ps_api s \<and>
      rs_out (ps_rest (producer_tick penv (pub_net env pe host (pr_apiPath penv) other) pubs s)) = rs_out (ps_rest s) @ ds \<and>
      map said ds = map acquiring rs"
  unfolding producer_tick_def
proof (induction pubs arbitrary: s rs)
  case Nil
  then show ?case by simp
next
  case (Cons v pubs)
  let ?net = "pub_net env pe host (pr_apiPath penv) other"
  obtain r rs' where rs: "rs = r # rs'" "filed_for r (ps_api s) v" "list_all2 (\<lambda>r v. filed_for r (ps_api s) v) rs' pubs"
    using Cons.prems by (auto simp: list_all2_Cons2)
  obtain d where d: "ps_api (pr_publishEvent penv ?net (producer_event v) s) = ps_api s"
      "rs_out (ps_rest (pr_publishEvent penv ?net (producer_event v) s)) = rs_out (ps_rest s) @ [d]" "said d = acquiring r"
    using producer_publishes [OF u rs(2)] by blast
  obtain ds where "ps_api (fold (\<lambda>pub. pr_publishEvent penv ?net (producer_event pub)) (v # pubs) s) = ps_api s"
      "rs_out (ps_rest (fold (\<lambda>pub. pr_publishEvent penv ?net (producer_event pub)) (v # pubs) s)) = rs_out (ps_rest s) @ [d] @ ds"
      "map said ds = map acquiring rs'"
    using Cons.IH [of "pr_publishEvent penv ?net (producer_event v) s" rs'] rs(3) d(1,2) by auto
  then show ?case using d(3) rs(1) by (intro exI [of _ "d # ds"]) simp
qed

lemma producer_ticks:
  assumes u: "producer_understood penv env pe" "pr_apiAddr penv = host"
    and f: "list_all2 (\<lambda>r v. filed_for r (ps_api s) v) rs pubs"
  shows "\<exists>ds. ps_api ((producer_tick penv (pub_net env pe host (pr_apiPath penv) other) pubs ^^ n) s) = ps_api s \<and>
      rs_out (ps_rest ((producer_tick penv (pub_net env pe host (pr_apiPath penv) other) pubs ^^ n) s)) = rs_out (ps_rest s) @ ds \<and>
      map said ds = concat (replicate n (map acquiring rs))"
proof (induction n)
  case (Suc n)
  let ?tick = "producer_tick penv (pub_net env pe host (pr_apiPath penv) other) pubs"
  obtain ds where ds: "ps_api ((?tick ^^ n) s) = ps_api s" "rs_out (ps_rest ((?tick ^^ n) s)) = rs_out (ps_rest s) @ ds"
      "map said ds = concat (replicate n (map acquiring rs))" using Suc by blast
  obtain es where es: "ps_api (?tick ((?tick ^^ n) s)) = ps_api s"
      "rs_out (ps_rest (?tick ((?tick ^^ n) s))) = rs_out (ps_rest s) @ ds @ es" "map said es = map acquiring rs"
    using producer_publishes_all [OF u, of "(?tick ^^ n) s" rs pubs other] f ds(1,2) by auto
  have "concat (replicate n (map acquiring rs)) @ map acquiring rs = concat (replicate (Suc n) (map acquiring rs))"
    by (simp flip: replicate_append_same)
  then show ?case using es ds(3) by (intro exI [of _ "ds @ es"]) simp
qed simp

section \<open>From the start on\<close>

lemma producer_start_at_once:
  assumes "pr_apiAddr penv = host"
  shows "producer_start penv (pub_net env pe host (pr_apiPath penv) other) s =
    Some (create_publishers_of penv (pub_net env pe host (pr_apiPath penv) other) producer_pubs s)"
proof -
  let ?net = "pub_net env pe host (pr_apiPath penv) other" and ?r = "pr_request penv GET_method ''health'' []"
  have ask: "?net ?r s = (Answered 200 ''OK'', s)" using assms by (simp add: pub_net_def pr_request_def)
  then have "says_ok ?net ?r 0 s" by (simp add: says_ok_def)
  then have "await_health ?net ?r s = Some s" using await_returns [of ?net ?r 0 s] ask by simp
  then show ?thesis by (simp add: producer_start_def)
qed


text \<open>A producer at a server without publishers, with the concrete encoding.\<close>

definition demo_producer :: producer_env where
  "demo_producer = \<lparr>pr_localAPIAddr = ''q:2'', pr_apiPath = ''/v2/'', pr_apiAddr = ''p:9043'', pr_encode = (\<lambda>v. Some (e_sub v)),
     pr_decode = (\<lambda>b. map_option fst (p_sub b)), pr_event_json = (\<lambda>e. Some (e_text (ev_ID e) @
       e_text (case ev_Data e of [] \<Rightarrow> [] | d # _ \<Rightarrow> dv_Resource d)))\<rparr>"

definition demo_pubs :: pub_env where
  "demo_pubs = \<lparr>pe_list = (\<lambda>b. map_option fst (p_list p_sub b)), pe_list_json = (\<lambda>l. Some (e_list e_sub l)),
     pe_check = (\<lambda>_. Answered 204 []), pe_base = ''u'', pe_event = (\<lambda>b. Option.bind (p_text b) (\<lambda>(i, b).
       map_option (\<lambda>(r, _). producer_event (new_publisher r\<lparr>psub_ID := i\<rparr>)) (p_text b))), pe_converts = (\<lambda>_. True)\<rparr>"

definition demo_router :: rest_env where
  "demo_router = demo_rest\<lparr>re_pubsub := (\<lambda>b. case p_sub b of None \<Rightarrow> None | Some (v, _) \<Rightarrow> if ascii_sub v then Some v else None),
     re_pubsub_json := e_sub\<rparr>"

definition empty_pubs :: pub_server where
  "empty_pubs = \<lparr>ps_rest = empty_server, ps_api = \<lparr>pubStore = [], pubFile = None\<rparr>, ps_checks = [], ps_counts = [], ps_published = []\<rparr>"

lemma demo_router_ok: "rest_env_ok demo_router"
  using demo_rest_ok by (auto simp: rest_env_ok_def demo_router_def split: option.splits if_splits)

lemma demo_pubs_ok: "publishers_ok demo_router demo_pubs empty_pubs"
proof -
  have "p_list p_sub (e_list e_sub l) = Some (l, [])" for l
    using list_back [OF sub_back] unfolding takes_back_def by (metis append_Nil2)
  then show ?thesis by (simp add: publishers_ok_def demo_router_ok empty_pubs_def demo_pubs_def)
qed

lemma demo_understood: "producer_understood demo_producer demo_router demo_pubs"
proof -
  have sub: "p_sub (e_sub v) = Some (v, [])" for v using sub_back unfolding takes_back_def by (metis append_Nil2)
  have texts: "p_text (e_text t) = Some (t, [])" "p_text (e_text t @ b) = Some (t, b)" for t b
    using text_back unfolding takes_back_def by (metis append_Nil2)+
  have "ascii (url_text ''q:2'' ''ack/event'')" "ascii ''u''" by (simp_all add: url_text_def ascii_def)
  then show ?thesis
    by (simp add: producer_understood_def demo_producer_def demo_router_def demo_pubs_def ack_publisher_def sub texts
        producer_event_def new_publisher_def pr_ackEvent_def ascii_sub_def) (simp add: ascii_def)
qed


end
