(* ===== verification/PluginRestart.thy ===== *)
theory PluginRestart
  imports Lines PluginEntry Hosting
begin

text \<open>
  The start of the plug-in and what a restart keeps: the start succeeds, with no clocks and the node's state of
  the saved file; and whatever happens afterwards, the file holds the node's current state.
\<close>

section \<open>What is saved is the current state\<close>

definition loaded_state :: "store_file \<Rightarrow> sync_state" where
  "loaded_state f = (case f of SavedFile sm \<Rightarrow> LastClockState sm | _ \<Rightarrow> NoState)"

definition state_saved :: "manager \<Rightarrow> bool" where
  "state_saved m \<longleftrightarrow> no_nil m \<and>
    (\<forall>sc. scConfig m = Some sc \<and> sc_writes sc \<longrightarrow> loaded_state (m_store m) = lastOverallSyncState m)"

lemma AddPTPConfig_keeps:
  "Stats (AddPTPConfig n c m) = Stats m" "scConfig (AddPTPConfig n c m) = scConfig m"
  "m_store (AddPTPConfig n c m) = m_store m" "lastOverallSyncState (AddPTPConfig n c m) = lastOverallSyncState m"
  "m_timers (AddPTPConfig n c m) = m_timers m" "publisherTypes (AddPTPConfig n c m) = publisherTypes m"
  "PtpConfigMapUpdates (AddPTPConfig n c m) = PtpConfigMapUpdates m"
  by (simp_all add: AddPTPConfig_def)

lemma api_writes: "sc_writes (PublishEventViaAPI e addr sc) = sc_writes sc"
  by (simp add: PublishEventViaAPI_def GetPublishingCloudEvent_def count_published_def Let_def
      split: option.split prod.split sum.split)

lemma saved_publish: "state_saved m \<Longrightarrow> state_saved (res_state (publish data addr t m))"
  by (auto simp: publish_def state_saved_def no_nil_def api_writes split: option.split sum.split)

lemma save_makes_saved: "no_nil m \<Longrightarrow> state_saved (res_state (saveToStore m))"
  using all_port_roles_some [of "Ptp4lConfigInterfaces m"]
  by (auto simp: saveToStore_def state_saved_def no_nil_def loaded_state_def split: option.split)

interpretation saved: line_frame "\<lambda>m m'. state_saved m \<longrightarrow> state_saved m'" cfg for cfg
proof unfold_locales
  fix m s
  show "state_saved m \<longrightarrow> state_saved (res_state (UpdateSyncState s m))"
    using save_makes_saved [of "m\<lparr>lastOverallSyncState := s\<rparr>"]
    by (auto simp: UpdateSyncState_def state_saved_def no_nil_def)
next
  fix m n and c :: ptp4l_config assume "no_nil m \<Longrightarrow> None \<notin> set (Interfaces c)"
  then show "state_saved m \<longrightarrow> state_saved (AddPTPConfig n c m)"
    using AddPTPConfig_no_nil [of m c n] by (auto simp: state_saved_def AddPTPConfig_keeps)
next
  fix m show "state_saved m \<longrightarrow> state_saved (res_state (saveToStore m))"
    using save_makes_saved by (auto simp: state_saved_def)
qed (auto simp: saved_publish, auto simp: state_saved_def no_nil_def GetStats_def check_source_def on_table_def
    on_stat_def split: option.split)

lemma run_saved: "sys_run m m' \<Longrightarrow> state_saved m \<Longrightarrow> state_saved m'"
  by (induction rule: sys_run.induct) (use saved.step_frame in blast)+

section \<open>The start succeeds\<close>

text \<open>Every profile has a name: without one, its options are a nil dereference.\<close>

definition named :: "ptp_conf_map \<Rightarrow> bool" where
  "named l \<longleftrightarrow> (\<forall>p\<in>set (NodeProfiles l). pp_Name p \<noteq> None)"

text \<open>The parts of a manager that the rest of the start leaves alone.\<close>

definition untouched :: "manager \<Rightarrow> manager \<Rightarrow> bool" where
  "untouched m m' \<longleftrightarrow> Stats m' = Stats m \<and> scConfig m' = scConfig m \<and> m_store m' = m_store m \<and>
    lastOverallSyncState m' = lastOverallSyncState m \<and> m_timers m' = m_timers m \<and> publisherTypes m' = publisherTypes m \<and> (no_nil m \<longrightarrow> no_nil m') \<and>
    (named (PtpConfigMapUpdates m) \<longrightarrow> named (PtpConfigMapUpdates m'))"

lemma untouched_refl [simp]: "untouched m m"
  by (simp add: untouched_def)

lemma untouched_trans [trans]: "untouched m m' \<Longrightarrow> untouched m' m'' \<Longrightarrow> untouched m m''"
  by (simp add: untouched_def)

lemma untouched_registry: "untouched m (on_registry f m)"
  by (simp add: untouched_def on_registry_def no_nil_def)

lemma untouched_conf:
  "(named (PtpConfigMapUpdates m) \<Longrightarrow> named l) \<Longrightarrow> untouched m (m\<lparr>PtpConfigMapUpdates := l\<rparr>)"
  by (simp add: untouched_def no_nil_def)

lemma untouched_world: "untouched m (m\<lparr>m_world := w\<rparr>)"
  by (simp add: untouched_def no_nil_def)

lemma untouched_fold:
  assumes "\<And>x m. untouched m (f x m)"
  shows "untouched m (fold f xs m)"
proof (induction xs arbitrary: m)
  case (Cons x xs)
  then show ?case using assms untouched_trans by fastforce
qed simp

lemma untouched_AddPTPConfig: "None \<notin> set (Interfaces c) \<Longrightarrow> untouched m (AddPTPConfig n c m)"
  using AddPTPConfig_no_nil [of m c n] by (simp add: untouched_def AddPTPConfig_keeps)

lemma untouched_GetPTPConfig: "untouched m (snd (GetPTPConfig n m))"
  using untouched_AddPTPConfig [of "empty_config n" m n]
  by (simp add: GetPTPConfig_def empty_config_def split: option.split)

lemma untouched_load_role: "untouched m (load_role cfg pr m)"
  using untouched_GetPTPConfig [of m cfg] by (auto simp: load_role_def Let_def split: prod.splits option.splits)

lemma res_fold_ok:
  assumes "\<And>x s. x \<in> set xs \<Longrightarrow> P s \<Longrightarrow> \<exists>s'. f x s = Ok () s' \<and> P s'" and "P s"
  shows "\<exists>s'. res_fold f xs s = Ok () s' \<and> P s'"
  using assms
proof (induction xs arbitrary: s)
  case (Cons x xs)
  obtain s1 where "f x s = Ok () s1" "P s1" using Cons.prems by force
  then show ?case using Cons.IH [of s1] Cons.prems(1) by simp
qed simp

text \<open>The saved state comes back; the configurations it names are empty ones.\<close>

lemma LoadFromStore_state:
  assumes "lastOverallSyncState m = NoState"
  shows "untouched (m\<lparr>lastOverallSyncState := loaded_state (m_store m)\<rparr>) (snd (LoadFromStore m))"
proof (cases "m_store m")
  case (SavedFile sm)
  let ?m = "m\<lparr>lastOverallSyncState := LastClockState sm, processStates := ProcessStates sm\<rparr>"
  have "untouched ?m (fold (\<lambda>(cfg, prs) m. fold (load_role cfg) prs m) (PortRoles sm) ?m)"
    by (rule untouched_fold) (auto intro: untouched_fold untouched_load_role)
  then show ?thesis using SavedFile by (simp add: LoadFromStore_def loaded_state_def untouched_def no_nil_def)
qed (use assms in \<open>simp_all add: LoadFromStore_def loaded_state_def untouched_def no_nil_def\<close>)

lemma SetInitalMetrics_untouched:
  assumes "no_nil m"
  shows "\<exists>m'. SetInitalMetrics m = Ok () m' \<and> untouched m m'"
proof -
  have role: "untouched m (updateRoleMetricFromData c p r m)" for c p r m
    by (simp add: updateRoleMetricFromData_def untouched_registry)
  have "\<exists>s'. (case x of (cfg, c) \<Rightarrow> res_fold (\<lambda>i m. case i of None \<Rightarrow> Panic m
      | Some i \<Rightarrow> Ok () (updateRoleMetricFromData cfg (pi_Name i) (Role i) m)) (Interfaces c)) s = Ok () s' \<and> untouched m s'"
    if "x \<in> set (Ptp4lConfigInterfaces m)" and "untouched m s" for x s
  proof -
    obtain cfg c where x: "x = (cfg, c)" by fastforce
    then have c: "None \<notin> set (Interfaces c)" using that(1) assms by (auto simp: no_nil_def)
    have "\<exists>s'. res_fold (\<lambda>i m. case i of None \<Rightarrow> Panic m
        | Some i \<Rightarrow> Ok () (updateRoleMetricFromData cfg (pi_Name i) (Role i) m)) (Interfaces c) s = Ok () s' \<and> untouched m s'"
    proof (rule res_fold_ok)
      fix i s' assume "i \<in> set (Interfaces c)" and s': "untouched m s'"
      then obtain p where "i = Some p" using c by (metis not_None_eq)
      then show "\<exists>s''. (case i of None \<Rightarrow> Panic s'
          | Some i \<Rightarrow> Ok () (updateRoleMetricFromData cfg (pi_Name i) (Role i) s')) = Ok () s'' \<and> untouched m s''"
        using untouched_trans [OF s' role] by simp
    qed (rule that(2))
    then show ?thesis by (simp add: x)
  qed
  then obtain m1 where 1: "res_fold (\<lambda>(cfg, c). res_fold (\<lambda>i m. case i of None \<Rightarrow> Panic m
      | Some i \<Rightarrow> Ok () (updateRoleMetricFromData cfg (pi_Name i) (Role i) m)) (Interfaces c))
      (Ptp4lConfigInterfaces m) m = Ok () m1" "untouched m m1"
    using res_fold_ok [of "Ptp4lConfigInterfaces m" "untouched m"] by (metis (no_types, lifting) untouched_refl)
  have "untouched m1 (fold (\<lambda>(cfg, procs). fold (\<lambda>(p, status).
      on_registry (UpdateProcessStatusMetrics p cfg (if status then 1 else 0))) procs) (processStates m1) m1)"
    by (rule untouched_fold) (auto intro!: untouched_fold untouched_registry)
  then show ?thesis using untouched_trans [OF 1(2)] by (simp add: SetInitalMetrics_def 1(1))
qed

text \<open>A file of profiles that names each of them; a single profile of the old format is checked by the code.\<close>

definition profiles_named :: "conf_env \<Rightarrow> bool" where
  "profiles_named env \<longleftrightarrow> (\<forall>json ps. ce_decode env json = Some ps \<longrightarrow> (\<forall>p\<in>set ps. pp_Name p \<noteq> None))"

lemma UpdateConfig_named:
  assumes "profiles_named env" and "named l"
  shows "named (snd (UpdateConfig (ce_decode env) (ce_decode_old env) json l))"
  using assms by (cases "ce_decode env json"; cases "ce_decode_old env json")
    (auto simp: UpdateConfig_def named_def notifyUpdate_def profiles_named_def)

lemma updatePtpConfig_named:
  assumes "profiles_named env" and "named l"
  shows "named (snd (updatePtpConfig env node l))"
proof -
  have u: "named (snd (let ((updated, err), l) = UpdateConfig (ce_decode env) (ce_decode_old env) json l in (updated, l)))"
    for json using UpdateConfig_named [OF assms, of json] by (simp add: case_prod_beta)
  show ?thesis
    using assms(2) u by (cases "ce_file env (path_join [profilePath l, node])")
      (simp_all add: updatePtpConfig_def Let_def notifyUpdate_def named_def)
qed

lemma named_loop:
  assumes "\<And>p l. pp_Name p \<noteq> None \<Longrightarrow> \<exists>l'. f p l = Ok () l' \<and> NodeProfiles (g l') = NodeProfiles (g l)"
    and "\<forall>p\<in>set xs. pp_Name p \<noteq> None" and "NodeProfiles (g l) = ps"
  shows "\<exists>l'. res_fold f xs l = Ok () l' \<and> NodeProfiles (g l') = ps"
proof (rule res_fold_ok)
  fix p s assume "p \<in> set xs" and s: "NodeProfiles (g s) = ps"
  then have "pp_Name p \<noteq> None" using assms(2) by simp
  from assms(1) [OF this, of s] show "\<exists>s'. f p s = Ok () s' \<and> NodeProfiles (g s') = ps"
    by (simp add: s)
qed (rule assms(3))

lemma UpdatePTPProcessOptions_named:
  "named l \<Longrightarrow> \<exists>l'. UpdatePTPProcessOptions l = Ok () l' \<and> NodeProfiles l' = NodeProfiles l"
  unfolding UpdatePTPProcessOptions_def
  by (rule named_loop [where g = "\<lambda>l. l"]) (auto simp: named_def)

lemma UpdatePTPSetting_named:
  "named l \<Longrightarrow> \<exists>l'. UpdatePTPSetting l = Ok () l' \<and> NodeProfiles l' = NodeProfiles l"
  unfolding UpdatePTPSetting_def
  by (rule named_loop [where g = "\<lambda>l. l"]) (auto simp: named_def)

lemma UpdatePTPThreshold_named:
  assumes "named l"
  shows "\<exists>l'. UpdatePTPThreshold gnss l = Ok () l' \<and> NodeProfiles l' = NodeProfiles l"
proof -
  have "\<exists>s'. res_fold (threshold_step gnss) (NodeProfiles l) (\<lparr>maxOffsetTh = 0, minOffsetTh = 0, holdOverTh = 0\<rparr>, l) =
      Ok () s' \<and> NodeProfiles (snd s') = NodeProfiles l"
    by (rule named_loop)
      (use assms in \<open>auto simp: threshold_step_def store_threshold_def make_chan_def Let_def named_def\<close>)
  then show ?thesis by (auto simp: UpdatePTPThreshold_def)
qed

lemma on_conf_ok:
  assumes "\<exists>l'. f (PtpConfigMapUpdates m) = Ok () l' \<and> NodeProfiles l' = NodeProfiles (PtpConfigMapUpdates m)"
    and "named (PtpConfigMapUpdates m)"
  obtains m' where "on_conf f m = Ok () m'" "untouched m m'" "named (PtpConfigMapUpdates m')"
  using assms untouched_conf [of m] by (auto simp: on_conf_def named_def)

lemma RefreshProfileTypes_untouched: "untouched m (RefreshProfileTypes m)"
  by (auto simp: untouched_def RefreshProfileTypes_def no_nil_def)

lemma registry_fold_conf:
  "PtpConfigMapUpdates (fold (\<lambda>x. on_registry (g x)) xs m) = PtpConfigMapUpdates m"
  by (induction xs arbitrary: m) (simp_all add: on_registry_def)

lemma startPtpConfigSync_ok:
  assumes "profiles_named env" and "named (PtpConfigMapUpdates m)"
  shows "\<exists>m'. startPtpConfigSync node env m = Ok () m' \<and> untouched m m'"
proof -
  let ?l = "(snd (updatePtpConfig env node (PtpConfigMapUpdates m)))\<lparr>UpdateCh := False\<rparr>"
  let ?m = "m\<lparr>PtpConfigMapUpdates := ?l\<rparr>"
  have l: "named (PtpConfigMapUpdates ?m)" using updatePtpConfig_named [OF assms] by (simp add: named_def)
  obtain m1 where 1: "on_conf UpdatePTPProcessOptions ?m = Ok () m1" "untouched ?m m1" "named (PtpConfigMapUpdates m1)"
    by (rule on_conf_ok [of UpdatePTPProcessOptions ?m, OF UpdatePTPProcessOptions_named [OF l] l])
  obtain m2 where 2: "on_conf (UpdatePTPThreshold (ce_gnss env)) m1 = Ok () m2" "untouched m1 m2"
      "named (PtpConfigMapUpdates m2)"
    by (rule on_conf_ok [of "UpdatePTPThreshold (ce_gnss env)" m1, OF UpdatePTPThreshold_named [OF 1(3)] 1(3)])
  let ?c = "run_callbacks node (length (threshold_calls ?l)) m2"
  have c: "untouched m2 ?c"
    unfolding run_callbacks_def by (rule untouched_fold) (rule untouched_registry)
  have n: "named (PtpConfigMapUpdates ?c)" using 2(3) by (simp add: run_callbacks_def registry_fold_conf)
  obtain m3 where 3: "on_conf UpdatePTPSetting ?c = Ok () m3" "untouched ?c m3"
    by (rule on_conf_ok [of UpdatePTPSetting ?c, OF UpdatePTPSetting_named [OF n] n])
  have "untouched m ?m" by (rule untouched_conf) (use l in simp)
  also note 1(2) also note 2(2) also note c also note 3(2)
  also have "untouched m3 (RefreshProfileTypes m3)" by (rule RefreshProfileTypes_untouched)
  finally have u: "untouched m (RefreshProfileTypes m3)" .
  let ?l0 = "snd (updatePtpConfig env node (PtpConfigMapUpdates m))"
  have u0: "untouched m (m\<lparr>PtpConfigMapUpdates := ?l0\<rparr>)"
    by (rule untouched_conf) (rule updatePtpConfig_named [OF assms])
  have "startPtpConfigSync node env m =
      (if \<not> UpdateCh ?l0 then Ok () (m\<lparr>PtpConfigMapUpdates := ?l0\<rparr>)
       else if NodeProfiles ?l = [] then Ok () ?m else Ok () (RefreshProfileTypes m3))"
    by (simp add: startPtpConfigSync_def Let_def 1(1) 2(1) 3(1) [simplified])
  then show ?thesis using u u0 \<open>untouched m ?m\<close> by (metis (full_types))
qed

lemma processConfigCreate_ok:
  assumes "Ptp4lConf u \<noteq> None"
  shows "\<exists>m'. processConfigCreate (Some u) m = Ok () m' \<and> untouched m m'"
proof (cases "u_Profile u")
  case None
  then show ?thesis by (simp add: processConfigCreate_def)
next
  case (Some profile)
  obtain secs where secs: "GetAllSections u = Some secs" using assms by (auto simp: GetAllSections_def)
  let ?is = "make_interfaces secs (GetAllInterface u)"
  let ?m = "fold (\<lambda>i. on_registry (UpdateInterfaceRoleMetrics ptp4lProcessName (pi_Name i) (Role i))) ?is m"
  have "untouched m ?m" by (rule untouched_fold) (rule untouched_registry)
  moreover have "untouched ?m (AddPTPConfig n c ?m)" if "Interfaces c = map Some ?is" for n c
    by (rule untouched_AddPTPConfig) (auto simp: that)
  ultimately show ?thesis
    using untouched_trans by (auto simp: processConfigCreate_def Some secs Let_def)
qed

lemma loadInitialPtp4lConfigs_ok: "\<exists>m'. loadInitialPtp4lConfigs rf files m = Ok () m' \<and> untouched m m'"
proof -
  have u: "\<exists>u. x = Some u \<and> Ptp4lConf u \<noteq> None" if "x \<in> set (map Some (ReadAllConfig rf files dir))" for x dir
    using that by (auto simp: ReadAllConfig_def readConfig_def Let_def split: if_splits option.splits)
  have "\<exists>m1. res_fold processConfigCreate (map Some (ReadAllConfig rf files ''/var/run/'')) m = Ok () m1 \<and> untouched m m1"
  proof (rule res_fold_ok)
    fix x m' assume "x \<in> set (map Some (ReadAllConfig rf files ''/var/run/''))" and m': "untouched m m'"
    then obtain u where "x = Some u" "Ptp4lConf u \<noteq> None" using u by blast
    then show "\<exists>m''. processConfigCreate x m' = Ok () m'' \<and> untouched m m''"
      using processConfigCreate_ok [of u m'] untouched_trans [OF m'] by auto
  qed simp
  then show ?thesis
    using untouched_world untouched_trans by (auto simp: loadInitialPtp4lConfigs_def Let_def)
qed

text \<open>What a process starts with besides the saved file.\<close>

record boot =
  bt_node :: string
  bt_api :: "event_type \<Rightarrow> http_outcome"
  bt_decode :: "string \<Rightarrow> pub_sub option"
  bt_config :: sc_config
  bt_env :: conf_env
  bt_read :: "string \<Rightarrow> string option"
  bt_files :: "string list"
  bt_world :: world

definition start_plugin :: "boot \<Rightarrow> store_file \<Rightarrow> unit m_res option" where
  "start_plugin b saved = PluginStart (bt_node b) (bt_api b) (bt_decode b) (bt_config b) saved (bt_env b)
    (bt_read b) (bt_files b) (bt_world b)"

text \<open>The node has a name, the API creates the publishers, and the file of profiles names them.\<close>

definition can_start :: "boot \<Rightarrow> bool" where
  "can_start b \<longleftrightarrow> bt_node b \<noteq> [] \<and> create_publishers (bt_api b) (bt_decode b) InitPubSubTypes \<noteq> None \<and>
    profiles_named (bt_env b)"

lemma start_fresh:
  assumes "can_start b"
  shows "\<exists>m. start_plugin b saved = Some (Ok () m) \<and> Stats m = [] \<and> m_timers m = [] \<and> m_store m = saved \<and>
    scConfig m = Some (bt_config b) \<and> lastOverallSyncState m = loaded_state saved \<and> no_nil m"
proof -
  obtain pubs where pubs: "create_publishers (bt_api b) (bt_decode b) InitPubSubTypes = Some pubs"
    using assms by (auto simp: can_start_def)
  let ?m0 = "(NewPTPEventManager ''/cluster/node'' pubs (bt_node b) (Some (bt_config b)))
      \<lparr>m_world := on_reg (RegisterMetrics (bt_node b)) (bt_world b), m_store := saved, m_conf_env := bt_env b\<rparr>"
  let ?m1 = "snd (LoadFromStore ?m0)"
  have 1: "untouched (?m0\<lparr>lastOverallSyncState := loaded_state saved\<rparr>) ?m1"
    using LoadFromStore_state [of ?m0] by (simp add: NewPTPEventManager_def)
  then have "no_nil ?m1" by (simp add: untouched_def no_nil_def NewPTPEventManager_def)
  from SetInitalMetrics_untouched [OF this] obtain m2 where 2: "SetInitalMetrics ?m1 = Ok () m2" "untouched ?m1 m2" by blast
  let ?m3 = "m2\<lparr>PtpConfigMapUpdates := (PtpConfigMapUpdates m2)\<lparr>OnThresholdUpdate := True\<rparr>\<rparr>"
  have n: "named (PtpConfigMapUpdates m2)"
    using 1 2(2) by (simp add: untouched_def named_def NewPTPEventManager_def new_ptp_conf_map_def)
  then have "named (PtpConfigMapUpdates ?m3)" by (simp add: named_def)
  from startPtpConfigSync_ok [OF _ this, of "bt_env b" "bt_node b"] assms
  obtain m4 where 4: "startPtpConfigSync (bt_node b) (bt_env b) ?m3 = Ok () m4" "untouched ?m3 m4"
    by (auto simp: can_start_def)
  obtain m5 where 5: "loadInitialPtp4lConfigs (bt_read b) (bt_files b) m4 = Ok () m5" "untouched m4 m5"
    using loadInitialPtp4lConfigs_ok by blast
  note 1
  also note 2(2)
  also have "untouched m2 ?m3" by (rule untouched_conf) (simp add: named_def)
  also note 4(2) also note 5(2)
  finally have "untouched (?m0\<lparr>lastOverallSyncState := loaded_state saved\<rparr>) m5" .
  then have "Stats m5 = [] \<and> m_timers m5 = [] \<and> m_store m5 = saved \<and> scConfig m5 = Some (bt_config b) \<and>
      lastOverallSyncState m5 = loaded_state saved \<and> no_nil m5"
    by (simp add: untouched_def no_nil_def NewPTPEventManager_def)
  moreover have "start_plugin b saved = Some (Ok () m5)"
    using assms pubs 2(1) 4(1) 5(1) by (simp add: start_plugin_def PluginStart_def can_start_def Let_def)
  ultimately show ?thesis by blast
qed

end
