(* ===== verification/Connections.thy ===== *)
theory Connections
  imports PluginRestart
begin

text \<open>
  The listener of the plug-in: connections are accepted in a loop, every connection is read by a goroutine of
  its own, and all of them feed the one manager. A restart request replaces the process.
\<close>

section \<open>The listener\<close>

text \<open>A connection: whether its goroutine has begun, and the lines that are still to be read from it.\<close>

record conn =
  cn_begun :: bool
  cn_lines :: "string list"

record listener =
  ls_man :: manager
  ls_conns :: "conn list"
  ls_once :: bool       \<comment> \<open>\<open>triggerLogsOnce\<close> is done\<close>
  ls_triggers :: nat    \<comment> \<open>calls of \<open>TriggerLogs\<close>\<close>

definition listening :: "manager \<Rightarrow> listener" where
  "listening m = \<lparr>ls_man = m, ls_conns = [], ls_once = False, ls_triggers = 0\<rparr>"

lemma listening_man [simp]: "ls_man (listening m) = m"
  by (simp add: listening_def)

text \<open>One turn of the loop of \<open>listenToSocket\<close>; a failure to accept is only logged.\<close>

definition accept_conn :: "string list option \<Rightarrow> listener \<Rightarrow> listener" where
  "accept_conn fd L =
    (case fd of
      None \<Rightarrow> L
    | Some ls \<Rightarrow> L\<lparr>ls_conns := ls_conns L @ [\<lparr>cn_begun = False, cn_lines = ls\<rparr>]\<rparr>)"

text \<open>The start of the goroutine of connection \<open>i\<close>.\<close>

definition begin_conn :: "nat \<Rightarrow> listener \<Rightarrow> listener" where
  "begin_conn i L =
    (let L = (if ls_once L then L else L\<lparr>ls_once := True, ls_triggers := ls_triggers L + 1\<rparr>)
     in L\<lparr>ls_conns := (ls_conns L)[i := (ls_conns L ! i)\<lparr>cn_begun := True\<rparr>]\<rparr>)"

text \<open>One turn of the loop of \<open>processMessages\<close>: the end of the connection, a restart request, or a line taken.\<close>

datatype read_result = EndOfInput | RestartAsked | LineTaken string

definition read_line :: "nat \<Rightarrow> listener \<Rightarrow> read_result \<times> listener" where
  "read_line i L =
    (case cn_lines (ls_conns L ! i) of
      [] \<Rightarrow> (EndOfInput, L)
    | msg # rest \<Rightarrow>
        (let L = L\<lparr>ls_conns := (ls_conns L)[i := (ls_conns L ! i)\<lparr>cn_lines := rest\<rparr>]\<rparr>
         in if msg = ''CMD RESTART'' then (RestartAsked, L)
            else if msg = ''CMD LIVE_START'' then (LineTaken msg, L)
            else (LineTaken msg, L\<lparr>ls_man := ExtractMetrics msg (ls_man L)\<rparr>)))"

text \<open>Read by itself, a connection makes the run that \<open>processMessages\<close> is.\<close>

lemma read_line_first:
  "cn_lines (ls_conns L ! i) = msgs \<Longrightarrow> i < length (ls_conns L) \<Longrightarrow>
    processMessages msgs (ls_man L) =
      (case read_line i L of
        (EndOfInput, L') \<Rightarrow> (ConnClosed, ls_man L')
      | (RestartAsked, L') \<Rightarrow> (ConnRestart, ls_man L')
      | (LineTaken _, L') \<Rightarrow> processMessages (cn_lines (ls_conns L' ! i)) (ls_man L'))"
  by (cases msgs) (simp_all add: read_line_def Let_def)

section \<open>The steps of the process\<close>

datatype listen_event = Accepted "string list" | AcceptFailed | Began nat | Took nat string | Background

inductive listen_step :: "listener \<Rightarrow> listen_event \<Rightarrow> listener \<Rightarrow> bool" where
  accept: "listen_step L (Accepted ls) (accept_conn (Some ls) L)"
| accept_error: "listen_step L AcceptFailed (accept_conn None L)"
| begins: "i < length (ls_conns L) \<Longrightarrow> \<not> cn_begun (ls_conns L ! i) \<Longrightarrow> listen_step L (Began i) (begin_conn i L)"
| reads: "i < length (ls_conns L) \<Longrightarrow> cn_begun (ls_conns L ! i) \<Longrightarrow> read_line i L = (LineTaken msg, L') \<Longrightarrow>
    listen_step L (Took i msg) L'"
| timer: "handleHoldOverState t (ls_man L) m' \<Longrightarrow> listen_step L Background (L\<lparr>ls_man := m'\<rparr>)"
| settle: "listen_step L Background (L\<lparr>ls_man := on_settle profile cfg g (ls_man L)\<rparr>)"

inductive listen_run :: "listener \<Rightarrow> listen_event list \<Rightarrow> listener \<Rightarrow> bool" where
  idle: "listen_run L [] L"
| more: "listen_run L tr L' \<Longrightarrow> listen_step L' e L'' \<Longrightarrow> listen_run L (tr @ [e]) L''"

section \<open>What is seen of a run\<close>

definition accepted :: "listen_event list \<Rightarrow> string list list" where
  "accepted tr = concat (map (\<lambda>e. case e of Accepted ls \<Rightarrow> [ls] | _ \<Rightarrow> []) tr)"

definition taken :: "nat \<Rightarrow> listen_event list \<Rightarrow> string list" where
  "taken i tr = concat (map (\<lambda>e. case e of Took j msg \<Rightarrow> if j = i then [msg] else [] | _ \<Rightarrow> []) tr)"

text \<open>The lines that reach the manager, in the order in which they do.\<close>

definition handed :: "listen_event list \<Rightarrow> string list" where
  "handed tr = concat (map (\<lambda>e. case e of Took i msg \<Rightarrow> if msg = ''CMD LIVE_START'' then [] else [msg] | _ \<Rightarrow> []) tr)"

definition began :: "listen_event list \<Rightarrow> bool" where
  "began tr = list_ex (\<lambda>e. case e of Began _ \<Rightarrow> True | _ \<Rightarrow> False) tr"

lemma trace_append:
  "accepted (tr @ [e]) = accepted tr @ (case e of Accepted ls \<Rightarrow> [ls] | _ \<Rightarrow> [])"
  "taken i (tr @ [e]) = taken i tr @ (case e of Took j msg \<Rightarrow> if j = i then [msg] else [] | _ \<Rightarrow> [])"
  "handed (tr @ [e]) = handed tr @ (case e of Took i msg \<Rightarrow> if msg = ''CMD LIVE_START'' then [] else [msg] | _ \<Rightarrow> [])"
  "began (tr @ [e]) \<longleftrightarrow> began tr \<or> (case e of Began _ \<Rightarrow> True | _ \<Rightarrow> False)"
  by (simp_all add: accepted_def taken_def handed_def began_def)

lemma trace_Nil [simp]: "accepted [] = []" "taken i [] = []" "handed [] = []" "\<not> began []"
  by (simp_all add: accepted_def taken_def handed_def began_def)

text \<open>The manager alone, with the lines it is handed: one connection's worth, and timers and callbacks between.\<close>

inductive line_run :: "string list \<Rightarrow> manager \<Rightarrow> manager \<Rightarrow> bool" where
  none: "line_run [] m m"
| a_line: "line_run ls m m' \<Longrightarrow> line_run (ls @ [msg]) m (ExtractMetrics msg m')"
| a_timer: "line_run ls m m' \<Longrightarrow> handleHoldOverState t m' m'' \<Longrightarrow> line_run ls m m''"
| a_settle: "line_run ls m m' \<Longrightarrow> line_run ls m (on_settle profile cfg g m')"

lemma line_run_sys: "line_run ls m m' \<Longrightarrow> sys_run m m'"
  by (induction rule: line_run.induct) (blast intro: sys_run.intros sys_step.intros)+

section \<open>However the connections interleave\<close>

definition follows :: "manager \<Rightarrow> listen_event list \<Rightarrow> listener \<Rightarrow> bool" where
  "follows m tr L \<longleftrightarrow> line_run (handed tr) m (ls_man L) \<and> ''CMD RESTART'' \<notin> set (handed tr) \<and>
    length (ls_conns L) = length (accepted tr) \<and>
    (\<forall>i < length (accepted tr). taken i tr @ cn_lines (ls_conns L ! i) = accepted tr ! i) \<and>
    (\<forall>i \<ge> length (accepted tr). taken i tr = []) \<and>
    ls_triggers L = (if began tr then 1 else 0) \<and> (ls_once L \<longleftrightarrow> began tr)"

lemma read_line_took:
  assumes "read_line i L = (LineTaken msg, L')"
  shows "\<exists>rest. cn_lines (ls_conns L ! i) = msg # rest \<and> msg \<noteq> ''CMD RESTART'' \<and>
    L' = L\<lparr>ls_conns := (ls_conns L)[i := (ls_conns L ! i)\<lparr>cn_lines := rest\<rparr>],
      ls_man := (if msg = ''CMD LIVE_START'' then ls_man L else ExtractMetrics msg (ls_man L))\<rparr>"
  using assms by (auto simp: read_line_def Let_def split: list.splits if_splits)

lemma follows_step:
  assumes f: "follows m tr L" and s: "listen_step L e L'"
  shows "follows m (tr @ [e]) L'"
  using s
proof (cases rule: listen_step.cases)
  case accept
  then show ?thesis using f by (auto simp: follows_def trace_append accept_conn_def nth_append less_Suc_eq)
next
  case accept_error
  then show ?thesis using f by (simp add: follows_def trace_append accept_conn_def)
next
  case begins
  then show ?thesis using f by (auto simp: follows_def trace_append begin_conn_def Let_def nth_list_update)
next
  case (reads i msg)
  obtain rest where "cn_lines (ls_conns L ! i) = msg # rest" "msg \<noteq> ''CMD RESTART''"
    "L' = L\<lparr>ls_conns := (ls_conns L)[i := (ls_conns L ! i)\<lparr>cn_lines := rest\<rparr>],
      ls_man := (if msg = ''CMD LIVE_START'' then ls_man L else ExtractMetrics msg (ls_man L))\<rparr>"
    using read_line_took [OF reads(4)] by blast
  moreover have "taken i tr @ cn_lines (ls_conns L ! i) = accepted tr ! i" using f reads(2) by (simp add: follows_def)
  ultimately show ?thesis
    using f reads(1-3) by (cases "msg = ''CMD LIVE_START''") (simp_all add: follows_def trace_append nth_list_update a_line)
next
  case timer
  then show ?thesis using f by (auto simp: follows_def trace_append intro: a_timer)
next
  case settle
  then show ?thesis using f by (auto simp: follows_def trace_append intro: a_settle)
qed

lemma follows_run: "listen_run L tr L' \<Longrightarrow> follows m [] L \<Longrightarrow> follows m tr L'"
  by (induction rule: listen_run.induct) (use follows_step in blast)+

lemma follows_start: "follows m [] (listening m)"
  by (simp add: follows_def listening_def none)


section \<open>A restart\<close>

text \<open>
  \<open>restartProcess\<close>: the socket's file is removed, as far as that is possible; then the process image is replaced,
  or the process ends when its executable is not found or cannot be run.
\<close>

datatype restart_end = FatalExit | ProcessReplaced

definition restartProcess :: "bool \<Rightarrow> bool \<Rightarrow> bool \<Rightarrow> path_state \<Rightarrow> restart_end \<times> path_state" where
  "restartProcess removes executable execs p =
    (let p = (if removes then Free else p) in
     if \<not> executable then (FatalExit, p) else if \<not> execs then (FatalExit, p) else (ProcessReplaced, p))"

text \<open>The descriptors of the old image are closed: nobody answers on its socket any more.\<close>

definition after_exec :: "path_state \<Rightarrow> path_state" where
  "after_exec p = (case p of Socket _ \<Rightarrow> Socket False | _ \<Rightarrow> p)"

lemma restart_listens:
  "fst (Listen True True (after_exec (snd (restartProcess removes executable execs (Socket True)))))"
  by (simp add: restartProcess_def after_exec_def Let_def Listen_spec)

text \<open>The plug-in over any number of restarts, each of which may come with other profiles, files and answers.\<close>

inductive lives :: "store_file \<Rightarrow> listener \<Rightarrow> bool" for saved :: store_file where
  first: "start_plugin b saved = Some (Ok () m) \<Longrightarrow> can_start b \<Longrightarrow> lives saved (listening m)"
| works: "lives saved L \<Longrightarrow> listen_step L e L' \<Longrightarrow> lives saved L'"
| restarts: "lives saved L \<Longrightarrow> i < length (ls_conns L) \<Longrightarrow> cn_begun (ls_conns L ! i) \<Longrightarrow>
    read_line i L = (RestartAsked, L') \<Longrightarrow> start_plugin b (m_store (ls_man L')) = Some (Ok () m) \<Longrightarrow> can_start b \<Longrightarrow>
    lives saved (listening m)"

lemma start_saved: "start_plugin b saved = Some (Ok () m) \<Longrightarrow> can_start b \<Longrightarrow> state_saved m"
  using start_fresh [of b saved] by (auto simp: state_saved_def)

lemma step_man:
  assumes "listen_step L e L'"
  shows "ls_man L' = ls_man L \<or> (\<exists>cfg. sys_step cfg (ls_man L) (ls_man L'))"
  using assms
proof (cases rule: listen_step.cases)
  case reads
  then show ?thesis using sys_step.line by (fastforce dest!: read_line_took)
next
  case timer
  then show ?thesis by (auto intro: sys_step.timer)
next
  case settle
  then show ?thesis by (auto intro: sys_step.settle)
qed (simp_all add: accept_conn_def begin_conn_def Let_def)

lemma step_saved: "listen_step L e L' \<Longrightarrow> state_saved (ls_man L) \<Longrightarrow> state_saved (ls_man L')"
  using step_man saved.step_frame by fastforce

lemma lives_saved: "lives saved L \<Longrightarrow> state_saved (ls_man L)"
  by (induction rule: lives.induct) (use start_saved step_saved in auto)

lemma lives_run: "listen_run L tr L' \<Longrightarrow> lives saved L \<Longrightarrow> lives saved L'"
  by (induction rule: listen_run.induct) (auto intro: works)

text \<open>C11: a restart keeps the state of the node. At any moment of any life of the plug-in, whatever lines, timers,
  callbacks and restarts came before, a new process that can start does start, and takes over the state of the node
  that the old one last reported, when the old one could write its file. It has no clock and no holdover timer of the
  old one, and nothing in the file can make its next save fail. It gets the socket again, removed before or not.\<close>
theorem restart_keeps_node_state:
  assumes "lives saved L" and "scConfig (ls_man L) = Some sc" and "sc_writes sc" and "can_start b"
  shows "\<exists>m. start_plugin b (m_store (ls_man L)) = Some (Ok () m) \<and>
    lastOverallSyncState m = lastOverallSyncState (ls_man L) \<and> Stats m = [] \<and> m_timers m = [] \<and> no_nil m \<and>
    fst (Listen True True (after_exec (snd (restartProcess removes True True (Socket True)))))"
proof -
  have "loaded_state (m_store (ls_man L)) = lastOverallSyncState (ls_man L)"
    using lives_saved [OF assms(1)] assms(2,3) by (auto simp: state_saved_def)
  then show ?thesis using start_fresh [OF assms(4), of "m_store (ls_man L)"] restart_listens by auto
qed

text \<open>A node with a boundary clock, whose configuration file is there when the plug-in starts.\<close>

definition demo_boot :: boot where
  "demo_boot = \<lparr>bt_node = ''n1'', bt_api = (\<lambda>_. Answered 201 ''id''),
     bt_decode = (\<lambda>b. Some \<lparr>psub_ID = b, psub_Resource = ''r'', psub_EndPoint = None, psub_URILocation = None\<rparr>),
     bt_config = sc0\<lparr>sc_publishers := [(''id'', ''r'')]\<rparr>, bt_env = conf_env0,
     bt_read = (\<lambda>p. if p = ''/var/run/ptp4l.0.config'' then Some ''#profile: bc
[ens5f0]
[global]
'' else None), bt_files = [''ptp4l.0.config''], bt_world = init_world\<rparr>"

lemma demo_can_start: "can_start demo_boot"
  by (simp add: can_start_def demo_boot_def InitPubSubTypes_def CreatePublisher_def PostWithReturn_def
      profiles_named_def conf_env0_def)

lemma demo_locks:
  "map_option (\<lambda>r. let m = ExtractMetrics master_line (res_state r)
      in (lastOverallSyncState m, map_option sc_writes (scConfig m))) (start_plugin demo_boot NoFile)
    = Some (LOCKED, Some True)"
  by code_simp

text \<open>A connection sends a line and then asks for a restart.\<close>

lemma demo_life:
  "\<exists>L sc. lives NoFile L \<and> fst (read_line 0 L) = RestartAsked \<and> scConfig (ls_man L) = Some sc \<and> sc_writes sc \<and>
    lastOverallSyncState (ls_man L) = LOCKED"
proof -
  obtain m where m: "start_plugin demo_boot NoFile = Some (Ok () m)"
    using start_fresh [OF demo_can_start] by blast
  let ?m = "ExtractMetrics master_line m"
  let ?L = "\<lparr>ls_man = m, ls_conns = [\<lparr>cn_begun = True, cn_lines = [master_line, ''CMD RESTART'']\<rparr>], ls_once = True, ls_triggers = 1\<rparr>"
  let ?L' = "\<lparr>ls_man = ?m, ls_conns = [\<lparr>cn_begun = True, cn_lines = [''CMD RESTART'']\<rparr>], ls_once = True, ls_triggers = 1\<rparr>"
  have "lives NoFile (listening m)" by (rule first [OF m(1) demo_can_start])
  from works [OF this accept, of "[master_line, ''CMD RESTART'']"]
  have "lives NoFile (accept_conn (Some [master_line, ''CMD RESTART'']) (listening m))" .
  from works [OF this begins, of 0] have "lives NoFile ?L"
    by (simp add: accept_conn_def begin_conn_def listening_def)
  from works [OF this reads, of 0 master_line ?L'] have "lives NoFile ?L'"
    by (simp add: read_line_def master_line_def)
  moreover obtain sc where "lastOverallSyncState ?m = LOCKED" "scConfig ?m = Some sc" "sc_writes sc"
    using demo_locks by (auto simp: m(1) Let_def)
  ultimately show ?thesis by (intro exI [of _ ?L'] exI [of _ sc]) (simp add: read_line_def)
qed

theorem restart_keeps_node_state_witness:
  "\<exists>L m. lives NoFile L \<and> fst (read_line 0 L) = RestartAsked \<and>
    start_plugin demo_boot (m_store (ls_man L)) = Some (Ok () m) \<and> lastOverallSyncState m = LOCKED \<and> Stats m = []"
proof -
  obtain L sc where L: "lives NoFile L" "fst (read_line 0 L) = RestartAsked" "scConfig (ls_man L) = Some sc" "sc_writes sc"
      "lastOverallSyncState (ls_man L) = LOCKED"
    using demo_life by blast
  then show ?thesis using restart_keeps_node_state [OF L(1,3,4) demo_can_start] by force
qed


text \<open>
  What a restart hides: the process took LOCKED over from the file. A client that asks now is told FREERUN, since no
  clock is there yet. The first line makes the node LOCKED, which is no change of the remembered state, so no event
  about the node is queued, and the client is not told.
\<close>

definition locked_file :: store_file where
  "locked_file = SavedFile \<lparr>sm_Timestamp = 0, LastClockState = LOCKED, PortRoles = [], ProcessStates = []\<rparr>"

definition node_answer :: "manager \<Rightarrow> ev_value list" where
  "node_answer m = (case currentState ''/cluster/node/n1/sync/sync-status/sync-state'' m of
      Ok reply _ \<Rightarrow> (case sr_Data reply of None \<Rightarrow> [] | Some e \<Rightarrow> map dv_Value (ev_Data e))
    | Panic _ \<Rightarrow> [])"

definition queued_addresses :: "manager \<Rightarrow> string list" where
  "queued_addresses m = (case scConfig m of None \<Rightarrow> [] | Some sc \<Rightarrow> map dc_Address (oc_queue (EventOutCh sc)))"

lemma told_freerun:
  "map_option (\<lambda>r. node_answer (res_state r)) (start_plugin demo_boot locked_file) = Some [VState FREERUN]"
  by code_simp

lemma line_unreported:
  "map_option (\<lambda>r. let m = ExtractMetrics master_line (res_state r) in (lastOverallSyncState m, queued_addresses m))
      (start_plugin demo_boot locked_file) = Some (LOCKED, [''/cluster/node/n1/sync/ptp-status/lock-state''])"
  by code_simp

theorem restart_hides_recovery:
  "\<exists>m. start_plugin demo_boot locked_file = Some (Ok () m) \<and> node_answer m = [VState FREERUN] \<and>
    lastOverallSyncState (ExtractMetrics master_line m) = LOCKED \<and>
    ''/cluster/node/n1/sync/sync-status/sync-state'' \<notin> set (queued_addresses (ExtractMetrics master_line m))"
proof -
  obtain m where "start_plugin demo_boot locked_file = Some (Ok () m)" using start_fresh [OF demo_can_start] by blast
  then show ?thesis using told_freerun line_unreported by (auto simp: Let_def)
qed

end
