(* ===== verification/MockFiles.thy ===== *)
theory MockFiles
  imports Prelude
begin

text \<open>
  \<open>plugins/ptp_operator/filesystem\<close>: the file system behind an interface, and its scripted double
  (\<open>mock.go\<close>). What a call of the operating system returns is a parameter; an answer is a value and an error.
\<close>

section \<open>The double\<close>

datatype fs_error = GivenError string | UnexpectedCall string | UnexpectedPath string string

type_synonym 'a fs_answer = "'a option \<times> fs_error option"

record 'a fs_call =
  ExpectedPath :: string
  Returned :: "'a fs_answer"

record ('i, 'd) mock_fs =
  statCalls :: "'i fs_call list"
  readDirCalls :: "'d list fs_call list"
  readFileCalls :: "string fs_call list"
  currentStat :: nat
  currentReadDir :: nat
  currentReadFile :: nat
  allowedStat :: "(string, 'i fs_call) gomap"
  allowedReadDir :: "(string, 'd list fs_call) gomap"
  allowedReadFile :: "(string, string fs_call) gomap"

definition empty_mock :: "('i, 'd) mock_fs" where
  "empty_mock = \<lparr>statCalls = [], readDirCalls = [], readFileCalls = [], currentStat = 0, currentReadDir = 0,
     currentReadFile = 0, allowedStat = [], allowedReadDir = [], allowedReadFile = []\<rparr>"

definition ExpectStat :: "string \<Rightarrow> 'i fs_answer \<Rightarrow> ('i, 'd) mock_fs \<Rightarrow> ('i, 'd) mock_fs" where
  "ExpectStat path r m = m\<lparr>statCalls := statCalls m @ [\<lparr>ExpectedPath = path, Returned = r\<rparr>]\<rparr>"

definition AllowStat :: "string \<Rightarrow> 'i fs_answer \<Rightarrow> ('i, 'd) mock_fs \<Rightarrow> ('i, 'd) mock_fs" where
  "AllowStat path r m = m\<lparr>allowedStat := AList.update path \<lparr>ExpectedPath = path, Returned = r\<rparr> (allowedStat m)\<rparr>"

definition ExpectReadDir :: "string \<Rightarrow> 'd list fs_answer \<Rightarrow> ('i, 'd) mock_fs \<Rightarrow> ('i, 'd) mock_fs" where
  "ExpectReadDir path r m = m\<lparr>readDirCalls := readDirCalls m @ [\<lparr>ExpectedPath = path, Returned = r\<rparr>]\<rparr>"

definition AllowReadDir :: "string \<Rightarrow> 'd list fs_answer \<Rightarrow> ('i, 'd) mock_fs \<Rightarrow> ('i, 'd) mock_fs" where
  "AllowReadDir path r m = m\<lparr>allowedReadDir := AList.update path \<lparr>ExpectedPath = path, Returned = r\<rparr> (allowedReadDir m)\<rparr>"

definition ExpectReadFile :: "string \<Rightarrow> string fs_answer \<Rightarrow> ('i, 'd) mock_fs \<Rightarrow> ('i, 'd) mock_fs" where
  "ExpectReadFile path r m = m\<lparr>readFileCalls := readFileCalls m @ [\<lparr>ExpectedPath = path, Returned = r\<rparr>]\<rparr>"

definition AllowReadFile :: "string \<Rightarrow> string fs_answer \<Rightarrow> ('i, 'd) mock_fs \<Rightarrow> ('i, 'd) mock_fs" where
  "AllowReadFile path r m = m\<lparr>allowedReadFile := AList.update path \<lparr>ExpectedPath = path, Returned = r\<rparr> (allowedReadFile m)\<rparr>"

text \<open>
  The next call of the script: a path that is allowed does not take one, an empty path fits every call, and a call
  with a wrong path is taken all the same.
\<close>

definition scripted :: "(string, 'a fs_call) gomap \<Rightarrow> 'a fs_call list \<Rightarrow> nat \<Rightarrow> string \<Rightarrow> 'a fs_answer \<times> nat" where
  "scripted allowed calls current name =
    (case map_of allowed name of
      Some call \<Rightarrow> (Returned call, current)
    | None \<Rightarrow>
        if current \<ge> length calls then ((None, Some (UnexpectedCall name)), current)
        else
          (let call = calls ! current; current = current + 1 in
           if ExpectedPath call \<noteq> [] \<and> ExpectedPath call \<noteq> name
           then ((None, Some (UnexpectedPath name (ExpectedPath call))), current)
           else (Returned call, current)))"

definition MockStat :: "string \<Rightarrow> ('i, 'd) mock_fs \<Rightarrow> 'i fs_answer \<times> ('i, 'd) mock_fs" where
  "MockStat name m =
    (let (r, n) = scripted (allowedStat m) (statCalls m) (currentStat m) name in (r, m\<lparr>currentStat := n\<rparr>))"

definition MockReadDir :: "string \<Rightarrow> ('i, 'd) mock_fs \<Rightarrow> 'd list fs_answer \<times> ('i, 'd) mock_fs" where
  "MockReadDir dirname m =
    (let (r, n) = scripted (allowedReadDir m) (readDirCalls m) (currentReadDir m) dirname in (r, m\<lparr>currentReadDir := n\<rparr>))"

definition MockReadFile :: "string \<Rightarrow> ('i, 'd) mock_fs \<Rightarrow> string fs_answer \<times> ('i, 'd) mock_fs" where
  "MockReadFile filename m =
    (let (r, n) = scripted (allowedReadFile m) (readFileCalls m) (currentReadFile m) filename in (r, m\<lparr>currentReadFile := n\<rparr>))"

definition VerifyAllCalls :: "('i, 'd) mock_fs \<Rightarrow> bool" where
  "VerifyAllCalls m \<longleftrightarrow> length (statCalls m) = currentStat m \<and> length (readDirCalls m) = currentReadDir m \<and>
     length (readFileCalls m) = currentReadFile m"

section \<open>The interface\<close>

datatype ('i, 'd) fs_impl = RealFileSystem | Mocked "('i, 'd) mock_fs"

text \<open>The new implementation, and the one the cleanup puts back.\<close>

definition SetupMockFS :: "('i, 'd) fs_impl \<Rightarrow> ('i, 'd) fs_impl \<times> ('i, 'd) fs_impl" where
  "SetupMockFS original = (Mocked empty_mock, original)"

definition FsStat :: "(string \<Rightarrow> 'i fs_answer) \<Rightarrow> string \<Rightarrow> ('i, 'd) fs_impl \<Rightarrow> 'i fs_answer \<times> ('i, 'd) fs_impl" where
  "FsStat os name g = (case g of RealFileSystem \<Rightarrow> (os name, g) | Mocked m \<Rightarrow> apsnd Mocked (MockStat name m))"

definition FsReadDir :: "(string \<Rightarrow> 'd list fs_answer) \<Rightarrow> string \<Rightarrow> ('i, 'd) fs_impl \<Rightarrow> 'd list fs_answer \<times> ('i, 'd) fs_impl" where
  "FsReadDir os dirname g = (case g of RealFileSystem \<Rightarrow> (os dirname, g) | Mocked m \<Rightarrow> apsnd Mocked (MockReadDir dirname m))"

definition FsReadFile :: "(string \<Rightarrow> string fs_answer) \<Rightarrow> string \<Rightarrow> ('i, 'd) fs_impl \<Rightarrow> string fs_answer \<times> ('i, 'd) fs_impl" where
  "FsReadFile os filename g = (case g of RealFileSystem \<Rightarrow> (os filename, g) | Mocked m \<Rightarrow> apsnd Mocked (MockReadFile filename m))"

text \<open>The counting double of \<open>metrics/filesystem.go\<close>; a write to it never fails.\<close>

definition CountWriteFile :: "nat \<Rightarrow> bool \<times> nat" where
  "CountWriteFile n = (False, n + 1)"

definition CountClear :: "nat \<Rightarrow> nat" where
  "CountClear n = 0"

section \<open>What a script tests\<close>

text \<open>The answers of a list of calls.\<close>

fun scripted_all :: "(string, 'a fs_call) gomap \<Rightarrow> 'a fs_call list \<Rightarrow> nat \<Rightarrow> string list \<Rightarrow> 'a fs_answer list \<times> nat" where
  "scripted_all allowed calls n [] = ([], n)"
| "scripted_all allowed calls n (p # ps) =
    (let (r, n) = scripted allowed calls n p; (rs, n) = scripted_all allowed calls n ps in (r # rs, n))"

text \<open>The calls that take one of the script.\<close>

definition charged :: "(string, 'a fs_call) gomap \<Rightarrow> string list \<Rightarrow> nat" where
  "charged allowed ps = length (filter (\<lambda>p. map_of allowed p = None) ps)"

lemma scripted_count:
  "snd (scripted allowed calls n p) = (if map_of allowed p = None \<and> n < length calls then Suc n else n)"
  by (simp add: scripted_def Let_def split: option.split)

lemma scripted_all_count:
  "n \<le> length calls \<Longrightarrow> snd (scripted_all allowed calls n ps) = min (length calls) (n + charged allowed ps)"
proof (induction ps arbitrary: n)
  case Nil
  then show ?case by (simp add: charged_def)
next
  case (Cons p ps)
  have "snd (scripted_all allowed calls n (p # ps)) = snd (scripted_all allowed calls (snd (scripted allowed calls n p)) ps)"
    by (simp add: split_def Let_def)
  also have "\<dots> = min (length calls) (snd (scripted allowed calls n p) + charged allowed ps)"
    using Cons.prems by (intro Cons.IH) (simp add: scripted_count)
  also have "\<dots> = min (length calls) (n + charged allowed (p # ps))"
    using Cons.prems by (auto simp: scripted_count charged_def)
  finally show ?case .
qed

lemma scripted_all_replays:
  assumes "\<forall>p \<in> set ps. map_of allowed p = None"
    and "list_all2 (\<lambda>c p. ExpectedPath c = [] \<or> ExpectedPath c = p) (drop n calls) ps"
  shows "scripted_all allowed calls n ps = (map Returned (drop n calls), n + length ps)"
  using assms
proof (induction ps arbitrary: n)
  case Nil
  then show ?case by simp
next
  case (Cons p ps)
  then have n: "n < length calls" by (cases "n < length calls") auto
  then have d: "drop n calls = calls ! n # drop (Suc n) calls" by (simp add: Cons_nth_drop_Suc)
  have s: "scripted allowed calls n p = (Returned (calls ! n), Suc n)"
    using Cons.prems n by (auto simp: scripted_def d)
  show ?case using Cons.IH [of "Suc n"] Cons.prems by (simp add: s d)
qed

text \<open>
  The test of the files at the end of a run: every file of the script was asked for, that is, at least as many calls
  with paths that are not allowed were made. Calls beyond the script are not noticed.
\<close>

theorem verify_counts:
  assumes "currentReadFile m = 0" and "length (statCalls m) = currentStat m" and "length (readDirCalls m) = currentReadDir m"
  shows "VerifyAllCalls (fold (\<lambda>p m. snd (MockReadFile p m)) ps m) \<longleftrightarrow>
    length (readFileCalls m) \<le> charged (allowedReadFile m) ps"
proof -
  have f: "fold (\<lambda>p m. snd (MockReadFile p m)) ps m =
      m\<lparr>currentReadFile := snd (scripted_all (allowedReadFile m) (readFileCalls m) (currentReadFile m) ps)\<rparr>" for m :: "('a, 'b) mock_fs"
    by (induction ps arbitrary: m) (simp_all add: MockReadFile_def split_def Let_def)
  show ?thesis using assms scripted_all_count [of 0 "readFileCalls m" "allowedReadFile m" ps]
    by (auto simp: f VerifyAllCalls_def)
qed

theorem verify_counts_witness:
  "\<not> VerifyAllCalls (fold (\<lambda>p m. snd (MockReadFile p m)) []
    (ExpectReadFile ''/etc/ptp4l.0.config'' (Some ''x'', None) (empty_mock :: (nat, nat) mock_fs)))"
  using verify_counts [of "ExpectReadFile ''/etc/ptp4l.0.config'' (Some ''x'', None) (empty_mock :: (nat, nat) mock_fs)" "[]"]
  by (simp add: ExpectReadFile_def empty_mock_def charged_def)

end
