(* ===== verification/Printing.thy ===== *)
theory Printing
  imports Startup Manager
begin

text \<open>
  The printers: of a clock (\<open>stats/stats.go\<close>) and of all clocks (\<open>metrics/manager.go\<close>), of the states a clock
  depends on (\<open>event/event.go\<close>), of a transport host (\<open>pkg/common/common.go\<close>). A nil interface that is printed panics: \<open>None\<close>.
\<close>

section \<open>Lines of text\<close>

definition line_of :: "string \<Rightarrow> string \<Rightarrow> string" where
  "line_of label v = label @ v @ [CHR 0x0A]"

text \<open>The texts one after another, unless one of them panics.\<close>

fun all_texts :: "string option list \<Rightarrow> string option" where
  "all_texts [] = Some []"
| "all_texts (t # ts) = Option.bind t (\<lambda>t. map_option ((@) t) (all_texts ts))"

lemma all_texts_None: "all_texts ts = None \<longleftrightarrow> None \<in> set ts"
  by (induction ts) (auto simp: bind_eq_None_conv split: option.splits)

lemma all_texts_Some: "all_texts (map Some ts) = Some (concat ts)"
  by (induction ts) simp_all

section \<open>Clocks and the states they depend on\<close>

definition clock_source_name :: "clock_source \<Rightarrow> string" where
  "clock_source_name c = (case c of GNSS \<Rightarrow> ''gnss'' | DPLL \<Rightarrow> ''dpll'' | GM \<Rightarrow> ''GM'' | TBC \<Rightarrow> ''T-BC'')"

definition Stats_entry :: "clock_state \<Rightarrow> string option" where
  "Stats_entry pd = map_option (\<lambda>i. line_of ''  interface: '' i @ line_of ''  state: '' (sync_state_name (cs_State pd))) (cs_IFace pd)"

definition Stats_String :: "stats \<Rightarrow> string option" where
  "Stats_String s =
    (let dashes = line_of ''--------------------------------'' [];
         head = line_of ''  configName: '' (configName s) @ line_of ''  processName: '' (processName s) @
           line_of ''  aliasName: '' (aliasName s) @ line_of ''  offsetSource: '' (offsetSource s) @ dashes
     in case ptpDependentEventState s of
          None \<Rightarrow> Some head
        | Some e \<Rightarrow>
            map_option ((@) head) (all_texts (map (\<lambda>(pp, p).
              map_option ((@) (line_of ''Depends on process: '' pp @ dashes)) (all_texts (map Stats_entry p))) (DependsOn e))))"

definition PrintDependsOn :: "event_state \<Rightarrow> string" where
  "PrintDependsOn p =
    concat (map (\<lambda>(process, d). line_of ''Depending Process (key): '' process @
      concat (map (\<lambda>dd. (case cs_IFace dd of None \<Rightarrow> [] | Some i \<Rightarrow> line_of ''IFace '' i) @
        line_of ''ClockSource '' (clock_source_name (cs_ClockSource dd)) @ line_of ''Process '' (cs_Process dd)) d) @
      line_of [] []) (DependsOn p))"

definition PrintClockState :: "clock_state \<Rightarrow> string" where
  "PrintClockState c = line_of ''ClockState Process: '' (cs_Process c) @
    (case cs_IFace c of None \<Rightarrow> [] | Some i \<Rightarrow> line_of ''Iface: '' i) @
    concat (map (\<lambda>(k, v). line_of ''Name: '' k) (cs_Value c))"

text \<open>One entry without an interface is enough; the other printers look first.\<close>

lemma Stats_String_panics:
  "Stats_String s = None \<longleftrightarrow>
    (\<exists>e. ptpDependentEventState s = Some e \<and> (\<exists>(pp, p) \<in> set (DependsOn e). \<exists>d \<in> set p. cs_IFace d = None))"
proof (cases "ptpDependentEventState s")
  case None
  then show ?thesis by (simp add: Stats_String_def Let_def)
next
  case (Some e)
  have p: "all_texts (map Stats_entry p) = None \<longleftrightarrow> (\<exists>d \<in> set p. cs_IFace d = None)" for p
    by (simp add: all_texts_None Stats_entry_def image_iff eq_commute [of None])
  then have "(None \<in> (\<lambda>(pp, p). map_option (f pp) (all_texts (map Stats_entry p))) ` A) \<longleftrightarrow>
      (\<exists>(pp, p) \<in> A. \<exists>d \<in> set p. cs_IFace d = None)" for f :: "string \<Rightarrow> string \<Rightarrow> string" and A
    by (force simp: image_iff eq_commute [of None])
  then show ?thesis by (simp add: Some Stats_String_def Let_def all_texts_None)
qed

text \<open>The entries the log lines file have an interface (\<open>event_wf\<close>), so such a clock is printed.\<close>

lemma Stats_String_filed:
  assumes "\<And>e. ptpDependentEventState s = Some e \<Longrightarrow> event_wf e \<and> distinct (map fst (DependsOn e))"
  shows "Stats_String s \<noteq> None"
proof -
  have n: "cs_IFace d \<noteq> None" if e: "ptpDependentEventState s = Some e" and d: "(pp, p) \<in> set (DependsOn e)" "d \<in> set p" for e pp p d
  proof -
    have "map_of (DependsOn e) pp = Some p" using assms [OF e] d(1) by simp
    then show ?thesis using assms [OF e] d(2) unfolding event_wf_def by blast
  qed
  show ?thesis by (auto simp: Stats_String_panics dest: n)
qed

section \<open>The table of clocks\<close>

text \<open>\<open>string(rune(i))\<close>: the character of this number in UTF-8, not its digits.\<close>

definition rune_text :: "nat \<Rightarrow> string" where
  "rune_text n =
    (let tail = (\<lambda>k. char_of (128 + n div 64 ^ k mod 64)) in
     if n < 128 then [char_of n]
     else if n < 2048 then [char_of (192 + n div 64), tail 0]
     else if 55296 \<le> n \<and> n < 57344 \<or> 1114112 \<le> n then [CHR 0xEF, CHR 0xBF, CHR 0xBD]
     else if n < 65536 then [char_of (224 + n div 4096), tail 1, tail 0]
     else [char_of (240 + n div 262144), tail 2, tail 1, tail 0])"

definition config_text :: "nat \<Rightarrow> string \<Rightarrow> PTPStats \<Rightarrow> string option" where
  "config_text index cfgname s = map_option ((@) (rune_text index @ line_of '') cfgName: '' cfgname))
     (all_texts (map (\<lambda>(iface, ss). map_option (\<lambda>t. line_of ''interface: '' iface @ line_of ''-------------------------------'' [] @
       line_of ''stats: '' t) (Stats_String ss)) s))"

definition PrintStats :: "manager \<Rightarrow> string option" where
  "PrintStats m = all_texts (map (\<lambda>(index, cfgname, s). config_text index cfgname s) (enumerate 0 (Stats m)))"

text \<open>One clock that cannot be printed is enough, whatever the order of the visit.\<close>

lemma PrintStats_panics:
  "PrintStats m = None \<longleftrightarrow> (\<exists>(cfgname, s) \<in> set (Stats m). \<exists>(iface, ss) \<in> set s. Stats_String ss = None)"
proof -
  have c: "config_text index cfgname s = None \<longleftrightarrow> (\<exists>(iface, ss) \<in> set s. Stats_String ss = None)" for index cfgname s
    by (force simp: config_text_def all_texts_None image_iff eq_commute [of None])
  have "PrintStats m = None \<longleftrightarrow> (\<exists>(index, cfgname, s) \<in> set (enumerate 0 (Stats m)). \<exists>(iface, ss) \<in> set s. Stats_String ss = None)"
    by (force simp: PrintStats_def all_texts_None image_iff eq_commute [of None] c)
  also have "\<dots> \<longleftrightarrow> (\<exists>x \<in> snd ` set (enumerate 0 (Stats m)). \<exists>(iface, ss) \<in> set (snd x). Stats_String ss = None)"
    by force
  also have "snd ` set (enumerate 0 (Stats m)) = set (Stats m)"
    using map_snd_enumerate [of 0 "Stats m"] by (metis list.set_map)
  finally show ?thesis by (simp add: split_def)
qed

text \<open>The names of the numbers that the clock-state metric reports.\<close>

definition SyncState_String :: "int \<Rightarrow> string" where
  "SyncState_String n = (if n = 0 then ''FREERUN'' else if n = 1 then ''LOCKED'' else if n = 2 then ''HOLDOVER'' else itoa n)"

lemma SyncState_String_reported:
  "s \<in> {FREERUN, HOLDOVER, LOCKED} \<Longrightarrow> SyncState_String (clock_state_id s) = sync_state_name s"
  by (auto simp: SyncState_String_def clock_state_id_def sync_state_name_def)

section \<open>The transport host\<close>

definition TransportHost_String :: "(transport_host \<Rightarrow> string) \<Rightarrow> transport_host \<Rightarrow> string" where
  "TransportHost_String err t = line_of ''Host: '' (th_Host t) @ line_of ''URL: '' (th_URL t) @ line_of ''Port: '' (itoa (th_Port t)) @
    line_of ''Scheme: '' (th_Scheme t) @ line_of ''Type: '' (itoa (case th_Type t of HTTP_transport \<Rightarrow> 0 | UNKNOWN_transport \<Rightarrow> 1)) @
    (if th_Err t then line_of ''Error: '' (err t) else line_of ''Error:  '' [])"

definition TransportType_ToString :: "transport_type \<Rightarrow> string" where
  "TransportType_ToString t = (case t of HTTP_transport \<Rightarrow> ''HTTP'' | UNKNOWN_transport \<Rightarrow> ''UNKNOWN'')"

section \<open>The record of events of the tests\<close>

definition GetMockEvent :: "manager \<Rightarrow> event_type list" where
  "GetMockEvent m = mockEvent m"

definition ResetMockEvent :: "manager \<Rightarrow> manager" where
  "ResetMockEvent m = m\<lparr>mockEvent := []\<rparr>"

end
