(* ===== verification/Version.thy ===== *)
theory Version
  imports Prelude
begin

text \<open>
  \<open>pkg/version/version.go\<close>: the version that the build stamps into the program, and \<open>InitLogger\<close> of
  \<open>pkg/common/common.go\<close>. The parser of semantic versions and the one of log levels are parameters.
\<close>

record build_info =
  bi_Version :: string
  GitSHA :: string
  GitTreeState :: string
  ReleaseStatus :: string

text \<open>The first character is cut off without a look at it: \<open>None\<close> is the panic.\<close>

definition GetVersion :: "(string \<Rightarrow> 'v) \<Rightarrow> build_info \<Rightarrow> 'v option" where
  "GetVersion parse b = (if bi_Version b = [] then None else Some (parse (tl (bi_Version b))))"

definition GetGitSHA :: "build_info \<Rightarrow> string" where
  "GetGitSHA b = GitSHA b"

definition GetFullVersion :: "build_info \<Rightarrow> string" where
  "GetFullVersion b =
    (if bi_Version b = [] then ''UNKNOWN''
     else if ReleaseStatus b = ''released'' then bi_Version b
     else if GitSHA b = [] then bi_Version b @ ''-unknown''
     else if GitTreeState b = ''dirty'' then bi_Version b @ ''-'' @ GitSHA b @ ''.dirty''
     else bi_Version b @ ''-'' @ GitSHA b)"

definition GetFullVersionWithRuntimeInfo :: "string \<Rightarrow> string \<Rightarrow> build_info \<Rightarrow> string" where
  "GetFullVersionWithRuntimeInfo goos goarch b = GetFullVersion b @ '' '' @ goos @ ''/'' @ goarch"

text \<open>The level of the logger from the variable \<open>LOG_LEVEL\<close>; a text that is no level gives that of \<open>debug\<close>.\<close>

definition InitLogger :: "(string \<Rightarrow> 'l option) \<Rightarrow> 'l \<Rightarrow> string option \<Rightarrow> 'l" where
  "InitLogger ParseLevel DebugLevel env =
    (case ParseLevel (case env of None \<Rightarrow> ''debug'' | Some lvl \<Rightarrow> lvl) of None \<Rightarrow> DebugLevel | Some ll \<Rightarrow> ll)"

text \<open>The full version begins with the version, unless there is none; and exactly then \<open>GetVersion\<close> panics.\<close>

lemma full_version_prefix: "bi_Version b \<noteq> [] \<Longrightarrow> take (length (bi_Version b)) (GetFullVersion b) = bi_Version b"
  by (simp add: GetFullVersion_def)

lemma version_panics_iff: "GetVersion parse b = None \<longleftrightarrow> bi_Version b = []"
  by (simp add: GetVersion_def)

end
