(* ===== verification/Spec2Isabelle.thy ===== *)
theory Spec2Isabelle
  imports EndToEnd StatusLines ProfileWatch MockPlugin ConsumerEvents ProducerServer Connections MockFiles Printing Version
begin

text \<open>
  cloud-event-proxy: the sidecar of the PTP operator that turns the log lines of linuxptp into metrics
  and cloud events, and delivers the events to subscribers. Paths below are relative to \<open>src/\<close>; files
  named without a directory are under \<open>plugins/ptp_operator/\<close>.

  \<^bold>\<open>The program.\<close> \<open>cmd/main.go\<close> chooses the storage, starts the REST server and loads the PTP plug-in
  (\<open>pkg/plugins/handler.go\<close>). The plug-in (\<open>ptp_operator_plugin.go\<close>) creates its publishers, restores the
  saved state, reads the node's profiles (\<open>config/config.go\<close>) and the configuration files of the daemon
  (\<open>ptp4lconf/ptp4lConfig.go\<close>), and then takes log lines from a socket (\<open>socket/socket.go\<close>). Every line goes to
  \<open>ExtractMetrics\<close> (\<open>metrics/metrics.go\<close>), which hands it to the parser of its process (\<open>metrics/logparser.go\<close>,
  \<open>metrics/ptp4lParse.go\<close>, \<open>metrics/os_clock_discipline.go\<close>). The parsers update the statistics of a clock
  (\<open>stats/stats.go\<close>, \<open>event/event.go\<close>), the Prometheus metrics (\<open>metrics/registry.go\<close>), and decide the clock's
  state; a change of state is published (\<open>metrics/manager.go\<close>, \<open>pkg/common/common.go\<close>) as an element of a
  channel. The dispatcher (\<open>ProcessOutChannel\<close> in \<open>cmd/main.go\<close>) posts it to every subscriber
  (\<open>pkg/restclient/client.go\<close>), and keeps the list of subscribers in a ConfigMap
  (\<open>pkg/storage/kubernetes/client.go\<close>). A client subscribes at the vendored REST server, which keeps the
  subscribers in a store and in files; the consumer of \<open>examples/\<close> is such a client.

  \<^bold>\<open>Conventions.\<close> An operation that can panic returns \<open>Ok x s\<close> or \<open>Panic s\<close>, with the state reached; a
  deferred \<open>recover\<close> is \<open>recovered\<close>. A Go map is an association list whose order is the order in which
  \<open>for range\<close> visits it, so a statement for all lists holds for every order of visit. A pointer that may
  be nil is an option. \<open>int64\<close> arithmetic wraps (\<open>wrap64\<close>), generations and SyncE levels are words. Every
  log handler runs under the manager's lock, so a line is one step; what runs on other goroutines
  (holdover timers, settle callbacks, gate waiters) takes steps of its own, in any order.

  \<^bold>\<open>The theories\<close>, in the order of their imports:
  \<^item> \<open>Prelude\<close> results, maps, the locale of key-value stores and the locale of a worst-of operation;
    \<open>GoStd\<close>, \<open>GoConv\<close> the parts of package \<open>strings\<close>, \<open>strconv\<close>, \<open>path\<close> that are used.
  \<^item> \<open>PtpTypes\<close> (\<open>types/types.go\<close>, \<open>OverallState\<close>); \<open>OsClock\<close> (\<open>stats/os_clock_discipline.go\<close>) with its timer and
    late callbacks as a step relation: reports only after a burst, the documented diagram, silence ends.
  \<^item> \<open>AliasGate\<close> (\<open>gate/gate.go\<close>, \<open>alias/alias.go\<close>); \<open>Registry\<close> (\<open>metrics/registry.go\<close>, \<open>metrics/sanity.go\<close>);
    \<open>World\<close> what the handlers share beside the manager; \<open>EventState\<close> (\<open>event/event.go\<close>): filing and aggregation
    of dependent states; \<open>StatsModel\<close> (\<open>stats/stats.go\<close>): the sample window, SyncE, clock tables.
  \<^item> \<open>PtpConf\<close> (\<open>ptp4lconf/ptp4lConfig.go\<close>) parsers; \<open>PtpConfig\<close> (\<open>config/config.go\<close>) thresholds, their close
    channels, process options, profiles.
  \<^item> \<open>CommonAPI\<close> (\<open>pkg/common/common.go\<close>) events, the outgoing channel, health checks; \<open>Manager\<close>
    (\<open>metrics/manager.go\<close>): the record \<open>manager\<close> is \<open>PTPEventManager\<close>; \<open>NodeState\<close>, \<open>Publishing\<close> what the node's
    state is, that publishing keeps it coherent, and the state machine of one clock (\<open>GenPTPEvent\<close>).
  \<^item> \<open>LogExtract\<close>, \<open>LogParsers\<close> (\<open>metrics/logparser.go\<close>, \<open>metrics/logData.go\<close>); \<open>OsClockHandler\<close>
    (\<open>metrics/os_clock_discipline.go\<close>); \<open>Ptp4lParse\<close> (\<open>metrics/ptp4lParse.go\<close>); \<open>Extract\<close> (\<open>metrics/metrics.go\<close>).
  \<^item> \<open>LineFrame\<close> the locale \<open>line_frame\<close>: what any line does, over the primitive steps of the handlers;
    \<open>Lines\<close> the relation \<open>sys_step\<close> (a line, a timer, a settle callback) and \<open>sys_run\<close>, with interpretations of
    the locale for locality, clock states, the OS clock machine and the queue; \<open>Holdover\<close>, \<open>Offsets\<close>,
    \<open>PortEvents\<close>, \<open>StatusLines\<close> what single lines and timers do to the clocks; \<open>ProfileWatch\<close>
    (\<open>WatchConfigMapUpdate\<close>) the watcher that waits for the node's profiles.
  \<^item> \<open>RestClient\<close> (\<open>pkg/restclient/client.go\<close> and the REST calls of \<open>pkg/common/common.go\<close>); \<open>Subscribers\<close> (the
    vendored subscriber store, as far as the dispatcher calls it, with the locale \<open>failure_counter\<close>);
    \<open>ConfigMapStore\<close> (\<open>pkg/storage/kubernetes/client.go\<close>) with the abstract update of a map; \<open>Dispatch\<close> (\<open>cmd/main.go\<close>,
    \<open>pkg/localmetrics/localmetrics.go\<close>); \<open>Delivery\<close> what the dispatcher promises.
  \<^item> \<open>PluginEntry\<close> (\<open>ptp_operator_plugin.go\<close>) and \<open>StatusQuery\<close>: the start, a connection as a run, the answer to a
    status query against the state that events report; \<open>Hosting\<close> (\<open>pkg/plugins/handler.go\<close>, \<open>socket/socket.go\<close>);
    \<open>PluginRestart\<close> that the start succeeds, and the locale \<open>line_frame\<close> interpreted by "the file holds the state of
    the node"; \<open>Connections\<close> the accept loop and the goroutines of the connections as a step relation with its
    traces, refined by the run of a single connection, and the lives of the plug-in over its restarts;
    \<open>MockPlugin\<close> (\<open>plugins/mock/mock_plugin.go\<close>); \<open>EndToEnd\<close> the plug-in and the dispatcher together;
    \<open>Startup\<close> (\<open>main\<close>, \<open>ParseTransportHost\<close>, \<open>StartPubSubService\<close>, the restoring of subscribers): what a
    restart keeps, and what the start guarantees to the dispatcher.
  \<^item> \<open>SubscriberAPI\<close> (vendored \<open>sdk-go/v1/subscriber/subscriber.go\<close>): every operation on the store and on its files,
    and that the files mirror the store (\<open>mirrors\<close>, \<open>api_reach\<close>); \<open>TextCodec\<close> a concrete encoding, for the
    witnesses; \<open>StoreRestart\<close> what a restart makes of the files.
  \<^item> \<open>RestServer\<close> (vendored \<open>rest-api/v2/routes.go\<close>): the handlers for subscriptions; \<open>RestInvariant\<close> the runs of the
    server (\<open>rest_reach\<close>) and what holds between its store, its files and what it told the dispatcher;
    \<open>RestProperties\<close> what it answers, and what a pod with an empty disk finds of it; \<open>StateRoute\<close> the route for the
    current state, over the plug-in's answer: a new subscriber is told the state that asking gives.
  \<^item> \<open>Consumer\<close> (\<open>examples/consumer/main.go\<close>); \<open>ConsumerLoop\<close> the locale \<open>subscription_peer\<close> and when the loop of the
    consumer comes back; \<open>ConsumerServer\<close> interprets it with the REST server; \<open>Producer\<close>
    (\<open>examples/producer/main.go\<close>); \<open>PubRoutes\<close> (vendored \<open>sdk-go/v1/pubsub/pubsub.go\<close> and the routes for publishers and
    events); \<open>ProducerServer\<close> the producer at that server: its events arrive in the dispatcher's queue.
  \<^item> \<open>ConsumerEvents\<close> consumer, REST server, plug-in and dispatcher together: what the log lines make is posted to the
    consumer.
  \<^item> \<open>MockFiles\<close> (\<open>filesystem/filesystem.go\<close>, \<open>filesystem/mock.go\<close>, \<open>metrics/filesystem.go\<close>); \<open>Printing\<close> the
    printers of clocks and hosts, and when they panic; \<open>Version\<close> (\<open>pkg/version/version.go\<close>).

  \<^bold>\<open>Bounds.\<close> The loops of the consumer and of the producer have no bound in the code: they are partial functions
  whose value is \<open>None\<close> when they do not come back, and when they do is a theorem. The health checks make six requests, \<open>InitConfigMap\<close> \<open>retry + 1\<close> attempts of at most two requests,
  a subscriber is dropped at the tenth unreachable post in a row; these loops are structural recursions
  on the number of tries left, so there is no fuel that could run out. The silent runs of the OS clock
  machine are bounded by \<open>work\<close>. The mean of a sample window divides by a count that is zero only after
  \<open>2 ^ 64\<close> samples.

  \<^bold>\<open>Parameters.\<close> What JSON encodes and decodes to, which files can be read, written and removed, what a
  request to the network or to the cluster gives (\<open>http_outcome\<close>, \<open>kc_answers\<close>), what \<open>url.Parse\<close> finds in a
  text, whether a full channel gets a place before the timeout (\<open>oc_accepts\<close>), the dynamic linker, and the clock. The queue of the model keeps
  what was handed over; taking an element out is the dispatcher's step.

  \<^bold>\<open>Not modelled.\<close> Log output; the request that triggers a
  replay of the logs (\<open>TriggerLogs\<close>), whose answer is only logged; the routes of the vendored REST server that ping a subscription, log an
  event or answer a dummy, and the proxy's own list of subscriptions, which no route fills; \<open>metricServer\<close> and the signal handler of \<open>main\<close>; the making of the Kubernetes client;
  \<open>NewPtp4lConfigWatcher\<close> beyond its reaction to one event (nothing calls it); \<open>StDev\<close>, which nothing reads;
  the listeners and the flags of the examples; the cluster tests. Strings are lists of characters where Go's
  are bytes, and a line of a connection is taken to fit the scanner's buffer (64 KB).
\<close>

end
